(* ===== verification/Iouxx_Prelude.thy ===== *)
theory Iouxx_Prelude
  imports Main "HOL-Library.Word" "HOL-Library.Sublist"
begin

text \<open>
  Shared vocabulary of the development: the machine integer types of the C++ sources, the
  simplification collections of the components, the byte-level representation of integers
  (\<open>std::bit_cast\<close>, \<open>std::byteswap\<close>, \<open>std::endian\<close>), \<open>std::array\<close> updates, and generic
  lemmas on lists and words that several components use.
\<close>

unbundle bit_operations_syntax

named_theorems text_simps \<open>rewrite rules for splitting, scanning and printing text\<close>
named_theorems byte_simps \<open>rewrite rules for byte representations of words\<close>
named_theorems op_simps \<open>unfolding rules of operation objects (builders and completions)\<close>

type_synonym u8 = "8 word"
type_synonym u16 = "16 word"
type_synonym u32 = "32 word"
type_synonym u64 = "64 word"

section \<open>Byte order\<close>

text \<open>
  \<open>std::endian::native\<close>: the byte order of the platform. Everything that depends on it takes it
  as an argument, so each theorem covers both orders.
\<close>

datatype endian = Little | Big

definition byteswap16 :: "u16 \<Rightarrow> u16" where
  "byteswap16 w = drop_bit 8 w OR push_bit 8 w"

definition byteswap32 :: "u32 \<Rightarrow> u32" where
  "byteswap32 w = (drop_bit 24 w) OR (drop_bit 8 w AND 0xff00)
     OR (push_bit 8 w AND 0xff0000) OR (push_bit 24 w)"

text \<open>
  \<open>std::bit_cast\<close> between an array of bytes and an unsigned integer: the object representation
  of the integer, least significant byte first on a little-endian platform.
\<close>

definition le_u32 :: "u8 \<Rightarrow> u8 \<Rightarrow> u8 \<Rightarrow> u8 \<Rightarrow> u32" where
  "le_u32 a b c d = ucast a OR push_bit 8 (ucast b) OR push_bit 16 (ucast c) OR push_bit 24 (ucast d)"

definition le_u16 :: "u8 \<Rightarrow> u8 \<Rightarrow> u16" where
  "le_u16 a b = ucast a OR push_bit 8 (ucast b)"

fun u32_of_bytes :: "endian \<Rightarrow> u8 \<times> u8 \<times> u8 \<times> u8 \<Rightarrow> u32" where
  "u32_of_bytes Little (a, b, c, d) = le_u32 a b c d"
| "u32_of_bytes Big (a, b, c, d) = le_u32 d c b a"

fun bytes_of_u32 :: "endian \<Rightarrow> u32 \<Rightarrow> u8 \<times> u8 \<times> u8 \<times> u8" where
  "bytes_of_u32 Little w = (ucast w, ucast (drop_bit 8 w), ucast (drop_bit 16 w), ucast (drop_bit 24 w))"
| "bytes_of_u32 Big w = (ucast (drop_bit 24 w), ucast (drop_bit 16 w), ucast (drop_bit 8 w), ucast w)"

fun u16_of_bytes :: "endian \<Rightarrow> u8 \<times> u8 \<Rightarrow> u16" where
  "u16_of_bytes Little (a, b) = le_u16 a b"
| "u16_of_bytes Big (a, b) = le_u16 b a"

fun bytes_of_u16 :: "endian \<Rightarrow> u16 \<Rightarrow> u8 \<times> u8" where
  "bytes_of_u16 Little w = (ucast w, ucast (drop_bit 8 w))"
| "bytes_of_u16 Big w = (ucast (drop_bit 8 w), ucast w)"

text \<open>\<open>bit_cast<std::array<std::uint16_t, 2>>(std::uint32_t)\<close> and its inverse.\<close>

definition u16s_of_u32 :: "endian \<Rightarrow> u32 \<Rightarrow> u16 \<times> u16" where
  "u16s_of_u32 en w = (case bytes_of_u32 en w of (a, b, c, d) \<Rightarrow>
     (u16_of_bytes en (a, b), u16_of_bytes en (c, d)))"

definition u32_of_u16s :: "endian \<Rightarrow> u16 \<times> u16 \<Rightarrow> u32" where
  "u32_of_u16s en p = (case p of (x, y) \<Rightarrow>
     (case bytes_of_u16 en x of (a, b) \<Rightarrow>
       (case bytes_of_u16 en y of (c, d) \<Rightarrow> u32_of_bytes en (a, b, c, d))))"

subsection \<open>Laws of the byte representations\<close>

lemma u8_bit_high: "8 \<le> n \<Longrightarrow> \<not> bit (w :: u8) n"
  using bit_imp_le_length [of w n] by auto

lemma u8_bit_plus: "\<not> bit (w :: u8) (8 + n)" "\<not> bit (w :: u8) (16 + n)" "\<not> bit (w :: u8) (24 + n)"
  using u8_bit_high [of "8 + n" w] u8_bit_high [of "16 + n" w] u8_bit_high [of "24 + n" w] by auto

lemma byteswap16_invol [byte_simps, simp]: "byteswap16 (byteswap16 w) = w"
proof (rule bit_word_eqI)
  fix n :: nat assume "n < LENGTH(16)"
  then show "bit (byteswap16 (byteswap16 w)) n = bit w n"
    by (cases "n < 8") (auto simp: byteswap16_def bit_simps)
qed

lemma byteswap16_inj [simp]: "byteswap16 a = byteswap16 b \<longleftrightarrow> a = b"
  by (metis byteswap16_invol)

lemma byteswap16_bytes: "byteswap16 (le_u16 a b) = le_u16 b a"
  by (rule bit_word_eqI) (auto simp: byteswap16_def le_u16_def bit_simps dest: bit_imp_le_length)

lemma ucast_le_u16 [byte_simps, simp]:
  "ucast (le_u16 a b) = a" "ucast (drop_bit 8 (le_u16 a b)) = b"
  by (auto simp: le_u16_def bit_simps u8_bit_plus intro!: bit_word_eqI)

lemma ucast_le_u32 [byte_simps, simp]:
  "ucast (le_u32 a b c d) = a" "ucast (drop_bit 8 (le_u32 a b c d)) = b"
  "ucast (drop_bit 16 (le_u32 a b c d)) = c" "ucast (drop_bit 24 (le_u32 a b c d)) = d"
  by (auto simp: le_u32_def bit_simps u8_bit_plus intro!: bit_word_eqI)

lemma le_u16_ucast [byte_simps, simp]: "le_u16 (ucast w) (ucast (drop_bit 8 w)) = w"
  by (rule bit_word_eqI) (auto simp: le_u16_def bit_simps)

lemma le_u32_ucast [byte_simps, simp]:
  "le_u32 (ucast w) (ucast (drop_bit 8 w)) (ucast (drop_bit 16 w)) (ucast (drop_bit 24 w)) = w"
proof (rule bit_word_eqI)
  fix n :: nat assume n: "n < LENGTH(32)"
  consider "n < 8" | "8 \<le> n" "n < 16" | "16 \<le> n" "n < 24" | "24 \<le> n" by linarith
  then show "bit (le_u32 (ucast w) (ucast (drop_bit 8 w)) (ucast (drop_bit 16 w))
    (ucast (drop_bit 24 w))) n = bit w n"
    using n by cases (auto simp: le_u32_def bit_simps)
qed

lemma bytes_u32_roundtrip [byte_simps, simp]: "bytes_of_u32 en (u32_of_bytes en p) = p"
  by (cases en; cases p) simp_all

lemma u32_bytes_roundtrip [byte_simps, simp]: "u32_of_bytes en (bytes_of_u32 en w) = w"
  by (cases en) simp_all

lemma bytes_u16_roundtrip [byte_simps, simp]: "bytes_of_u16 en (u16_of_bytes en p) = p"
  by (cases en; cases p) simp_all

lemma u16_bytes_roundtrip [byte_simps, simp]: "u16_of_bytes en (bytes_of_u16 en w) = w"
  by (cases en) simp_all

lemma u16s_u32_roundtrip [byte_simps, simp]: "u16s_of_u32 en (u32_of_u16s en p) = p"
  by (auto simp: u16s_of_u32_def u32_of_u16s_def split: prod.splits)
    (metis u16_bytes_roundtrip)+

lemma u32_u16s_roundtrip [byte_simps, simp]: "u32_of_u16s en (u16s_of_u32 en w) = w"
proof -
  obtain a b c d where w: "bytes_of_u32 en w = (a, b, c, d)" by (cases "bytes_of_u32 en w") auto
  then have "u32_of_bytes en (a, b, c, d) = w" by (metis u32_bytes_roundtrip)
  with w show ?thesis by (simp add: u16s_of_u32_def u32_of_u16s_def)
qed

section \<open>Lists and words\<close>

lemma unat_of_nat_u8 [simp]: "n < 256 \<Longrightarrow> unat (of_nat n :: u8) = n"
  by (simp add: unat_of_nat take_bit_nat_eq_self)

lemma unat_of_nat_u16 [simp]: "n < 65536 \<Longrightarrow> unat (of_nat n :: u16) = n"
  by (simp add: unat_of_nat take_bit_nat_eq_self)

lemma unat_u8_bound [simp]: "unat (w :: u8) < 256"
  using unsigned_less [of w, where ?'a = nat] by simp

lemma unat_u16_bound [simp]: "unat (w :: u16) < 65536"
  using unsigned_less [of w, where ?'a = nat] by simp

lemma length8_cases:
  assumes "length xs = 8"
  obtains a b c d e f g h where "xs = [a, b, c, d, e, f, g, h]"
  using assms by (auto simp: length_Suc_conv eval_nat_numeral)

lemma last_map_ne: "xs \<noteq> [] \<Longrightarrow> last (map f xs) = f (last xs)"
  by (rule last_map)

end
