(* ===== verification/Std_Model.thy ===== *)
theory Std_Model
  imports Iouxx_Prelude
begin

text \<open>
  The parts of the C++ standard library the sources rely on: \<open>std::errc\<close> and
  \<open>std::error_code\<close>, \<open>std::views::split\<close>, \<open>std::from_chars\<close> and the integer
  presentations of \<open>std::format\<close>. The laws that relate scanning and printing of integers are
  proved once for every radix in the locale \<open>radix\<close> and interpreted for decimal and
  hexadecimal.
\<close>

section \<open>Error codes\<close>

datatype errc =
    Invalid_argument | Result_out_of_range | Resource_unavailable_try_again
  | Not_enough_memory | File_exists | Operation_canceled | Function_not_supported

text \<open>\<open>std::errc\<close> enumerators have the values of the Linux \<open>errno\<close> macros.\<close>

fun errc_value :: "errc \<Rightarrow> int" where
  "errc_value Invalid_argument = 22"
| "errc_value Result_out_of_range = 34"
| "errc_value Resource_unavailable_try_again = 11"
| "errc_value Not_enough_memory = 12"
| "errc_value File_exists = 17"
| "errc_value Operation_canceled = 125"
| "errc_value Function_not_supported = 38"

datatype error_category = System_category | Generic_category

record error_code =
  ec_value :: int
  ec_category :: error_category

definition no_error :: error_code where
  "no_error = \<lparr>ec_value = 0, ec_category = System_category\<rparr>"

text \<open>\<open>explicit operator bool\<close> of \<open>std::error_code\<close>.\<close>

definition is_error :: "error_code \<Rightarrow> bool" where
  "is_error e \<longleftrightarrow> ec_value e \<noteq> 0"

definition make_error_code :: "errc \<Rightarrow> error_code" where
  "make_error_code e = \<lparr>ec_value = errc_value e, ec_category = Generic_category\<rparr>"

text \<open>
  Comparison of an \<open>error_code\<close> with an \<open>errc\<close> goes through \<open>error_condition\<close>: on Linux the
  system category maps its values to the generic category unchanged, so only the value counts.
\<close>

definition equals_errc :: "error_code \<Rightarrow> errc \<Rightarrow> bool" where
  "equals_errc e c \<longleftrightarrow> ec_value e = errc_value c"

lemma no_error_not_error [simp]: "\<not> is_error no_error"
  by (simp add: is_error_def no_error_def)

lemma make_error_code_is_error [simp]: "is_error (make_error_code e)"
  by (cases e) (simp_all add: is_error_def make_error_code_def)

lemma make_error_code_inject [simp]: "make_error_code a = make_error_code b \<longleftrightarrow> a = b"
  by (cases a; cases b) (simp_all add: make_error_code_def)

section \<open>std::views::split\<close>

definition push_front :: "'a \<Rightarrow> 'a list list \<Rightarrow> 'a list list" where
  "push_front x pss = (case pss of [] \<Rightarrow> [[x]] | p # ps \<Rightarrow> (x # p) # ps)"

lemma push_front_Cons [simp]: "push_front x (p # ps) = (x # p) # ps"
  by (simp add: push_front_def)

function split_pieces :: "'a list \<Rightarrow> 'a list \<Rightarrow> 'a list list" where
  "split_pieces pat s =
     (if pat \<noteq> [] \<and> prefix pat s then [] # split_pieces pat (drop (length pat) s)
      else (case s of [] \<Rightarrow> [[]] | x # xs \<Rightarrow> push_front x (split_pieces pat xs)))"
  by pat_completeness auto
termination
  by (relation "measure (\<lambda>(pat, s). length s)") (auto simp: prefix_def)

declare split_pieces.simps [simp del]

text \<open>An empty base range has no pieces at all; otherwise a trailing separator gives a last empty piece.\<close>

definition split_view :: "'a list \<Rightarrow> 'a list \<Rightarrow> 'a list list" where
  "split_view pat s = (if s = [] then [] else split_pieces pat s)"

lemma split_pieces_char [text_simps]:
  "split_pieces [c] [] = [[]]"
  "split_pieces [c] (x # xs) =
     (if x = c then [] # split_pieces [c] xs else push_front x (split_pieces [c] xs))"
  by (subst split_pieces.simps, simp)+

lemma split_pieces_pair [text_simps]:
  "split_pieces [c, d] [] = [[]]"
  "split_pieces [c, d] [x] = [[x]]"
  "split_pieces [c, d] (x # y # xs) =
     (if x = c \<and> y = d then [] # split_pieces [c, d] xs
      else push_front x (split_pieces [c, d] (y # xs)))"
  by (subst split_pieces.simps, simp add: split_pieces.simps [of "[c, d]" "[]"])+

lemma split_pieces_nonempty: "split_pieces pat s \<noteq> []"
  by (subst split_pieces.simps) (auto simp: push_front_def split: list.splits)

text \<open>Joining the pieces with the separator gives the string back: nothing is lost or invented.\<close>

fun join_with :: "'a list \<Rightarrow> 'a list list \<Rightarrow> 'a list" where
  "join_with sep [] = []"
| "join_with sep [p] = p"
| "join_with sep (p # q # ps) = p @ sep @ join_with sep (q # ps)"

lemma join_with_Cons: "ps \<noteq> [] \<Longrightarrow> join_with sep (p # ps) = p @ sep @ join_with sep ps"
  by (cases ps) auto

lemma join_push_front: "ps \<noteq> [] \<Longrightarrow> join_with sep (push_front x ps) = x # join_with sep ps"
  by (cases ps; cases "tl ps") (auto simp: push_front_def)

lemma join_split: "join_with pat (split_pieces pat s) = s"
proof (induction pat s rule: split_pieces.induct)
  case (1 pat s)
  show ?case
  proof (cases "pat \<noteq> [] \<and> prefix pat s")
    case True
    then obtain t where s: "s = pat @ t" by (auto simp: prefix_def)
    with True "1.IH"(1) have "join_with pat (split_pieces pat t) = t" by simp
    with True s show ?thesis
      by (subst split_pieces.simps) (simp add: join_with_Cons split_pieces_nonempty)
  next
    case False
    then show ?thesis using "1.IH"(2)
      by (subst split_pieces.simps) (auto simp: join_push_front split_pieces_nonempty split: list.splits)
  qed
qed

text \<open>Splitting on a single character.\<close>

lemma split_char_free [text_simps]: "c \<notin> set s \<Longrightarrow> split_pieces [c] s = [s]"
  by (induction s) (auto simp: text_simps)

lemma split_char_append [text_simps]:
  "c \<notin> set s \<Longrightarrow> split_pieces [c] (s @ c # t) = s # split_pieces [c] t"
  by (induction s) (auto simp: text_simps)

lemma split_char_pieces_free: "p \<in> set (split_pieces [c] s) \<Longrightarrow> c \<notin> set p"
proof (induction s arbitrary: p)
  case Nil
  then show ?case by (simp add: text_simps)
next
  case (Cons x xs)
  then show ?case
    using split_pieces_nonempty [of "[c]" xs]
    by (cases "split_pieces [c] xs") (auto simp: text_simps split: if_splits)
qed

lemma split_char_join:
  "\<forall>p \<in> set ps. c \<notin> set p \<Longrightarrow> ps \<noteq> [] \<Longrightarrow> split_pieces [c] (join_with [c] ps) = ps"
proof (induction ps)
  case (Cons p ps)
  then show ?case by (cases ps) (simp_all add: text_simps)
qed simp

text \<open>
  Splitting on a doubled character: \<open>no_pair c s\<close> says that \<open>c\<close> never occurs twice in a row.
\<close>

fun no_pair :: "'a \<Rightarrow> 'a list \<Rightarrow> bool" where
  "no_pair c (x # y # s) \<longleftrightarrow> \<not> (x = c \<and> y = c) \<and> no_pair c (y # s)"
| "no_pair c [x] \<longleftrightarrow> True"
| "no_pair c [] \<longleftrightarrow> True"

lemma split_pair_free [text_simps]: "no_pair c s \<Longrightarrow> split_pieces [c, c] s = [s]"
  by (induction c s rule: no_pair.induct) (auto simp: text_simps)

lemma split_pair_append [text_simps]:
  "no_pair c s \<Longrightarrow> s = [] \<or> last s \<noteq> c \<Longrightarrow>
   split_pieces [c, c] (s @ c # c # t) = s # split_pieces [c, c] t"
proof (induction c s rule: no_pair.induct)
  case (2 c v)
  then show ?case
    by (cases t) (simp_all add: text_simps)
qed (auto simp: text_simps)

text \<open>Splitting on a pair of different characters.\<close>

lemma split_two_free [text_simps]: "c \<notin> set s \<Longrightarrow> split_pieces [c, d] s = [s]"
proof (induction s)
  case (Cons x s)
  then show ?case by (cases s) (auto simp: text_simps)
qed (simp add: text_simps)

lemma split_two_append [text_simps]:
  "c \<notin> set s \<Longrightarrow> split_pieces [c, d] (s @ c # d # t) = s # split_pieces [c, d] t"
proof (induction s)
  case (Cons x s)
  then show ?case by (cases s) (auto simp: text_simps)
qed (simp add: text_simps)

text \<open>\<open>std::string_view::contains\<close> for a string.\<close>

fun contains_str :: "'a list \<Rightarrow> 'a list \<Rightarrow> bool" where
  "contains_str pat [] \<longleftrightarrow> pat = []"
| "contains_str pat (x # s) \<longleftrightarrow> prefix pat (x # s) \<or> contains_str pat s"

lemma contains_str_prefix: "prefix pat s \<Longrightarrow> contains_str pat s"
  by (cases s) auto

lemma contains_str_append: "contains_str pat (s @ pat @ t)"
  by (induction s) (simp_all add: contains_str_prefix)

lemma contains_str_set: "contains_str pat s \<Longrightarrow> set pat \<subseteq> set s"
  by (induction pat s rule: contains_str.induct) (use set_mono_prefix in fastforce)+

lemma no_pair_free: "c \<notin> set s \<Longrightarrow> no_pair c s"
  by (induction c s rule: no_pair.induct) auto

lemma no_pair_append:
  "no_pair c s \<Longrightarrow> no_pair c t \<Longrightarrow> s = [] \<or> last s \<noteq> c \<Longrightarrow> no_pair c (s @ t)"
proof (induction c s rule: no_pair.induct)
  case (2 c v)
  then show ?case by (cases t) auto
qed auto

lemma no_pair_sep:
  "no_pair c s \<Longrightarrow> no_pair c t \<Longrightarrow> s = [] \<or> last s \<noteq> c \<Longrightarrow> t = [] \<or> hd t \<noteq> c \<Longrightarrow>
   no_pair c (s @ c # t)"
  by (rule no_pair_append) (cases t; auto)+

section \<open>Digits\<close>

text \<open>The value of an alphanumeric digit, as \<open>std::from_chars\<close> reads it (letters of either case).\<close>

definition digit_val :: "char \<Rightarrow> nat option" where
  "digit_val c = (let n = of_char c :: nat in
     if 48 \<le> n \<and> n \<le> 57 then Some (n - 48)
     else if 97 \<le> n \<and> n \<le> 122 then Some (n - 87)
     else if 65 \<le> n \<and> n \<le> 90 then Some (n - 55)
     else None)"

definition is_digit :: "nat \<Rightarrow> char \<Rightarrow> bool" where
  "is_digit base c = (case digit_val c of None \<Rightarrow> False | Some d \<Rightarrow> d < base)"

definition digit_char :: "bool \<Rightarrow> nat \<Rightarrow> char" where
  "digit_char upper d = char_of (if d < 10 then 48 + d else if upper then 55 + d else 87 + d)"

definition digits_value :: "nat \<Rightarrow> string \<Rightarrow> nat" where
  "digits_value base ds = foldl (\<lambda>a c. a * base + the (digit_val c)) 0 ds"

text \<open>Outcome of \<open>std::from_chars\<close>: the value with the number of characters consumed, or an error.\<close>

datatype from_chars_result = Parsed nat nat | Conv_error errc

text \<open>\<open>std::from_chars(first, last, value, base)\<close> for an unsigned integer of \<open>w\<close> bits: no sign, no prefix.\<close>

definition from_chars_unsigned :: "nat \<Rightarrow> nat \<Rightarrow> string \<Rightarrow> from_chars_result" where
  "from_chars_unsigned w base s =
     (let ds = takeWhile (is_digit base) s in
      if ds = [] then Conv_error Invalid_argument
      else if digits_value base ds < 2 ^ w then Parsed (digits_value base ds) (length ds)
      else Conv_error Result_out_of_range)"

text \<open>Integer presentations of \<open>std::format\<close>: no leading zeros, and the zero-padded width of \<open>{:04x}\<close>.\<close>

fun nat_digits :: "bool \<Rightarrow> nat \<Rightarrow> nat \<Rightarrow> string" where
  "nat_digits upper base n =
     (if base < 2 \<or> n < base then [digit_char upper n]
      else nat_digits upper base (n div base) @ [digit_char upper (n mod base)])"

declare nat_digits.simps [simp del]

definition pad_zero :: "nat \<Rightarrow> string \<Rightarrow> string" where
  "pad_zero k s = replicate (k - length s) CHR ''0'' @ s"

lemma digit_val_char: "d < 36 \<Longrightarrow> digit_val (digit_char u d) = Some d"
  by (auto simp: digit_val_def digit_char_def Let_def of_char_of)

lemma char_of_48 [simp]: "char_of (48 :: nat) = CHR ''0''"
proof -
  have "of_char CHR ''0'' = (48 :: nat)" by simp
  then show ?thesis by (metis char_of_char)
qed

lemma digit_val_zero [simp]: "digit_val CHR ''0'' = Some 0"
  by (simp add: digit_val_def)

lemma digits_value_Nil [simp]: "digits_value b [] = 0"
  by (simp add: digits_value_def)

lemma digits_value_snoc [simp]: "digits_value b (ds @ [c]) = digits_value b ds * b + the (digit_val c)"
  by (simp add: digits_value_def)

lemma digits_value_zeros: "digits_value b (replicate k CHR ''0'' @ ds) = digits_value b ds"
proof (induction ds rule: rev_induct)
  case Nil
  have "foldl (\<lambda>a c. a * b + the (digit_val c)) 0 (replicate k CHR ''0'') = 0"
    by (induction k) simp_all
  then show ?case by (simp add: digits_value_def)
next
  case (snoc c ds)
  then show ?case using digits_value_snoc [of b "replicate k CHR ''0'' @ ds" c] by simp
qed

lemma nat_digits_nonempty [simp]: "nat_digits u b n \<noteq> []"
  by (subst nat_digits.simps) simp

text \<open>
  Scanning and printing in one radix. The locale fixes the radix; its lemmas say that printing is
  a right inverse of scanning, how long a printed number is, and that canonical digit strings are
  exactly the printed ones.
\<close>

locale radix =
  fixes base :: nat
  assumes base_ge: "2 \<le> base" and base_le: "base \<le> 36"
begin

lemma digit_char_is_digit: "d < base \<Longrightarrow> is_digit base (digit_char u d)"
  using base_le by (simp add: is_digit_def digit_val_char)

lemma digits_all_digit: "\<forall>c \<in> set (nat_digits u base n). is_digit base c"
proof (induction n rule: less_induct)
  case (less n)
  show ?case
  proof (cases "n < base")
    case True
    then show ?thesis by (subst nat_digits.simps) (simp add: digit_char_is_digit)
  next
    case False
    then have "n div base < n" using base_ge by simp
    from less.IH [OF this] False base_ge show ?thesis
      by (subst nat_digits.simps) (auto simp: digit_char_is_digit)
  qed
qed

lemma digits_value_nat_digits [simp]: "digits_value base (nat_digits u base n) = n"
proof (induction n rule: less_induct)
  case (less n)
  show ?case
  proof (cases "n < base")
    case True
    then show ?thesis using base_le
      by (subst nat_digits.simps) (simp add: digits_value_def digit_val_char)
  next
    case False
    then have "n div base < n" using base_ge by simp
    moreover have "n mod base < 36"
      using mod_less_divisor [of base n] base_ge base_le by linarith
    ultimately show ?thesis using less.IH [of "n div base"] False base_ge
      by (subst nat_digits.simps) (simp add: digit_val_char)
  qed
qed

lemma length_nat_digits: "n < base ^ k \<Longrightarrow> 0 < k \<Longrightarrow> length (nat_digits u base n) \<le> k"
proof (induction k arbitrary: n)
  case (Suc k)
  show ?case
  proof (cases "n < base")
    case True
    then show ?thesis by (subst nat_digits.simps) simp
  next
    case False
    with Suc.prems have "0 < k" by (cases k) auto
    moreover have "n div base < base ^ k"
      using Suc.prems base_ge by (simp add: less_mult_imp_div_less mult.commute)
    ultimately have "length (nat_digits u base (n div base)) \<le> k" by (rule Suc.IH [rotated])
    with False base_ge show ?thesis by (subst nat_digits.simps) simp
  qed
qed simp

lemma digits_value_bound: "\<forall>c \<in> set ds. is_digit base c \<Longrightarrow> digits_value base ds < base ^ length ds"
proof (induction ds rule: rev_induct)
  case (snoc c ds)
  then have "digits_value base ds + 1 \<le> base ^ length ds" by simp
  then have "(digits_value base ds + 1) * base \<le> base ^ length ds * base" by (rule mult_le_mono1)
  moreover have "the (digit_val c) < base"
    using snoc.prems by (auto simp: is_digit_def split: option.splits)
  ultimately show ?case by (simp add: algebra_simps)
qed simp

lemma scan_digits:
  assumes "\<forall>c \<in> set ds. is_digit base c" "ds \<noteq> []" "digits_value base ds < 2 ^ w"
  shows "from_chars_unsigned w base ds = Parsed (digits_value base ds) (length ds)"
proof -
  have all: "takeWhile (is_digit base) ds = ds" using assms(1) by (simp add: takeWhile_eq_all_conv)
  show ?thesis using assms(2,3) unfolding from_chars_unsigned_def all Let_def by simp
qed

lemma scan_print [text_simps]:
  "n < 2 ^ w \<Longrightarrow> from_chars_unsigned w base (nat_digits u base n) = Parsed n (length (nat_digits u base n))"
  using scan_digits [of "nat_digits u base n" w] digits_all_digit [of u n] by simp

lemma scan_whole:
  assumes "from_chars_unsigned w base s = Parsed v (length s)"
  shows "(\<forall>c \<in> set s. is_digit base c) \<and> s \<noteq> [] \<and> v = digits_value base s \<and> v < 2 ^ w"
proof -
  let ?ds = "takeWhile (is_digit base) s"
  from assms have h: "?ds \<noteq> []" "v = digits_value base ?ds" "length s = length ?ds"
    "digits_value base ?ds < 2 ^ w"
    by (auto simp: from_chars_unsigned_def Let_def split: if_splits)
  then have "?ds = s" by (metis takeWhile_dropWhile_id append_eq_append_conv append_Nil2)
  with h show ?thesis by (metis set_takeWhileD)
qed

text \<open>Padding with zeros changes neither the digits nor the value.\<close>

lemma zero_is_digit: "is_digit base CHR ''0''"
  using base_ge by (simp add: is_digit_def)

lemma pad_all_digit: "\<forall>c \<in> set ds. is_digit base c \<Longrightarrow> \<forall>c \<in> set (pad_zero k ds). is_digit base c"
  by (auto simp: pad_zero_def zero_is_digit)

lemma scan_pad [text_simps]:
  assumes "n < 2 ^ w"
  shows "from_chars_unsigned w base (pad_zero k (nat_digits u base n)) =
    Parsed n (length (pad_zero k (nat_digits u base n)))"
  using scan_digits [of "pad_zero k (nat_digits u base n)" w]
    pad_all_digit [OF digits_all_digit [of u n]] assms
  by (simp add: pad_zero_def digits_value_zeros)

end

interpretation dec: radix 10
  by unfold_locales simp_all

interpretation hex: radix 16
  by unfold_locales simp_all

section \<open>Canonical decimal numbers\<close>

text \<open>A decimal numeral without a redundant leading zero.\<close>

definition canonical_dec :: "string \<Rightarrow> bool" where
  "canonical_dec s \<longleftrightarrow> s \<noteq> [] \<and> (\<forall>c \<in> set s. is_digit 10 c) \<and> (1 < length s \<longrightarrow> hd s \<noteq> CHR ''0'')"

lemma dec_digit_cases:
  assumes "is_digit 10 c"
  shows "digit_char u (the (digit_val c)) = c" "the (digit_val c) < 10"
    "c \<noteq> CHR ''0'' \<Longrightarrow> the (digit_val c) \<noteq> 0"
proof -
  have c: "c = char_of (of_char c :: nat)" by simp
  from assms have n: "48 \<le> (of_char c :: nat)" "(of_char c :: nat) \<le> 57"
    by (auto simp: is_digit_def digit_val_def Let_def split: if_splits option.splits)
  then show "digit_char u (the (digit_val c)) = c" "the (digit_val c) < 10"
    by (auto simp: digit_val_def digit_char_def Let_def)
  show "the (digit_val c) \<noteq> 0" if "c \<noteq> CHR ''0''"
  proof
    assume "the (digit_val c) = 0"
    with n have "(of_char c :: nat) = 48" by (simp add: digit_val_def Let_def)
    with c have "c = char_of (48 :: nat)" by simp
    with that show False by simp
  qed
qed

lemma dec_value_pos:
  "\<forall>c \<in> set ds. is_digit 10 c \<Longrightarrow> ds \<noteq> [] \<Longrightarrow> hd ds \<noteq> CHR ''0'' \<Longrightarrow> 0 < digits_value 10 ds"
proof (induction ds rule: rev_induct)
  case (snoc c ds)
  show ?case
  proof (cases "ds = []")
    case True
    with snoc.prems dec_digit_cases(3) [of c] show ?thesis by (simp add: digits_value_def)
  next
    case False
    with snoc show ?thesis by simp
  qed
qed simp

lemma print_canonical: "canonical_dec s \<Longrightarrow> nat_digits u 10 (digits_value 10 s) = s"
proof (induction s rule: rev_induct)
  case Nil
  then show ?case by (simp add: canonical_dec_def)
next
  case (snoc c ds)
  let ?d = "the (digit_val c)"
  from snoc.prems have c: "is_digit 10 c" by (simp add: canonical_dec_def)
  note d = dec_digit_cases [OF c]
  show ?case
  proof (cases "ds = []")
    case True
    with d show ?thesis by (subst nat_digits.simps) (simp add: digits_value_def)
  next
    case False
    with snoc.prems have "canonical_dec ds" "0 < digits_value 10 ds"
      by (auto simp: canonical_dec_def intro!: dec_value_pos)
    with snoc.IH d show ?thesis by (subst nat_digits.simps) simp
  qed
qed

lemma nat_digits_hd_zero: "hd (nat_digits u 10 n) = CHR ''0'' \<Longrightarrow> n = 0"
proof (induction n rule: less_induct)
  case (less n)
  show ?case
  proof (cases "n < 10")
    case True
    with less.prems have "digit_char u n = CHR ''0''" by (subst (asm) nat_digits.simps) simp
    with True digit_val_char [of n u] show ?thesis by simp
  next
    case False
    with less.prems have "hd (nat_digits u 10 (n div 10)) = CHR ''0''"
      by (subst (asm) nat_digits.simps) simp
    with False less.IH [of "n div 10"] show ?thesis by simp
  qed
qed

lemma nat_digits_zero [simp]: "nat_digits u 10 0 = ''0''"
  by (subst nat_digits.simps) (simp add: digit_char_def)

lemma canonical_print [simp]: "canonical_dec (nat_digits u 10 n)"
  using nat_digits_hd_zero [of u n] dec.digits_all_digit [of u n] by (auto simp: canonical_dec_def)

end
