(* ===== verification/Utility.thy ===== *)
theory Utility
  imports Std_Model "HOL-Library.Signed_Division"
begin

text \<open>
  \<open>include/iouxx/util/utility.hpp\<close> and \<open>include/iouxx/clock.hpp\<close>: conversions between
  \<open>std::chrono\<close> durations and kernel time structures, construction of error codes and
  \<open>std::expected\<close> values, buffers and \<open>iovec\<close>s, and the concepts that decide how a completion
  is delivered to a callback.
\<close>

section \<open>Time\<close>

text \<open>
  \<open>std::chrono::nanoseconds\<close> counts in a signed 64-bit integer; \<open>in_i64\<close> is its range.
  \<open>duration_cast\<close>, \<open>/\<close> and \<open>%\<close> truncate towards zero (\<open>sdiv\<close>, \<open>smod\<close>).
\<close>

definition in_i64 :: "int \<Rightarrow> bool" where
  "in_i64 n \<longleftrightarrow> - (2 ^ 63) \<le> n \<and> n < 2 ^ 63"

record kernel_timespec =
  tv_sec :: int
  tv_nsec :: int

definition to_kernel_timespec :: "int \<Rightarrow> kernel_timespec" where
  "to_kernel_timespec stdtime =
     (let sec = stdtime sdiv 1000000000;
          nsec = stdtime - sec * 1000000000
      in \<lparr>tv_sec = sec, tv_nsec = nsec\<rparr>)"

definition from_kernel_timespec :: "kernel_timespec \<Rightarrow> int" where
  "from_kernel_timespec ts = tv_sec ts * 1000000000 + tv_nsec ts"

text \<open>\<open>boottime_clock::now\<close>, with the result of \<open>clock_gettime(CLOCK_BOOTTIME)\<close> as argument.\<close>

definition boottime_now :: "kernel_timespec \<Rightarrow> int" where
  "boottime_now ts = tv_sec ts * 1000000000 + tv_nsec ts"

definition to_timespec :: "int \<Rightarrow> kernel_timespec" where
  "to_timespec total_ns =
     \<lparr>tv_sec = total_ns sdiv 1000000000, tv_nsec = total_ns smod 1000000000\<rparr>"

definition from_timespec_duration :: "kernel_timespec \<Rightarrow> int" where
  "from_timespec_duration ts = tv_sec ts * 1000000000 + tv_nsec ts"

section \<open>Error codes and expected values\<close>

text \<open>\<open>std::expected<T, std::error_code>\<close>: \<open>Inl\<close> is \<open>std::unexpected\<close>, \<open>Inr\<close> the value.\<close>

type_synonym 'a expected = "error_code + 'a"

definition make_system_error_code :: "int \<Rightarrow> error_code" where
  "make_system_error_code ev =
     (if ev \<noteq> 0 then \<lparr>ec_value = ev, ec_category = System_category\<rparr> else no_error)"

definition void_success :: "unit expected" where
  "void_success = Inr ()"

definition fail_ev :: "int \<Rightarrow> 'a expected" where
  "fail_ev ev = Inl (make_system_error_code ev)"

definition fail_errc :: "errc \<Rightarrow> 'a expected" where
  "fail_errc ec = Inl (make_error_code ec)"

definition fail_invalid_argument :: "'a expected" where
  "fail_invalid_argument = fail_errc Invalid_argument"

section \<open>Buffers\<close>

text \<open>A \<open>std::span\<close> over bytes is an address and a length; so is an \<open>iovec\<close>.\<close>

record byte_span =
  sp_data :: u64
  sp_size :: u64

record iovec =
  iov_base :: u64
  iov_len :: u64

definition to_iovec :: "byte_span \<Rightarrow> iovec" where
  "to_iovec buffer = \<lparr>iov_base = sp_data buffer, iov_len = sp_size buffer\<rparr>"

definition from_iovec :: "iovec \<Rightarrow> byte_span" where
  "from_iovec iov = \<lparr>sp_data = iov_base iov, sp_size = iov_len iov\<rparr>"

section \<open>Callback concepts\<close>

text \<open>
  A callback type is described by the argument lists it can be invoked with, and those it can be
  invoked with without throwing. \<open>None\<close> as a result type is \<open>void\<close>.
\<close>

datatype 'r cb_arg = Arg_error_code | Arg_direct 'r | Arg_expected "'r option" | Arg_unexpected

record 'r callback_type =
  invocable :: "'r cb_arg \<Rightarrow> bool"
  nothrow_invocable_decl :: "'r cb_arg \<Rightarrow> bool"

definition nothrow_invocable :: "'r callback_type \<Rightarrow> 'r cb_arg \<Rightarrow> bool" where
  "nothrow_invocable cb a \<longleftrightarrow> invocable cb a \<and> nothrow_invocable_decl cb a"

definition errorcode_callback :: "'r callback_type \<Rightarrow> bool" where
  "errorcode_callback cb \<longleftrightarrow> invocable cb Arg_error_code"

definition eligible_errorcode_callback :: "'r callback_type \<Rightarrow> 'r option \<Rightarrow> bool" where
  "eligible_errorcode_callback cb r \<longleftrightarrow> r = None \<and> errorcode_callback cb"

definition direct_result_callback :: "'r callback_type \<Rightarrow> 'r option \<Rightarrow> bool" where
  "direct_result_callback cb r \<longleftrightarrow> (case r of None \<Rightarrow> True | Some t \<Rightarrow> invocable cb (Arg_direct t))"

definition expected_callback :: "'r callback_type \<Rightarrow> 'r option \<Rightarrow> bool" where
  "expected_callback cb r \<longleftrightarrow> invocable cb (Arg_expected r) \<and> direct_result_callback cb r"

definition unexpected_callback :: "'r callback_type \<Rightarrow> bool" where
  "unexpected_callback cb \<longleftrightarrow> invocable cb Arg_unexpected"

definition stdexpected_callback :: "'r callback_type \<Rightarrow> 'r option \<Rightarrow> bool" where
  "stdexpected_callback cb r \<longleftrightarrow> expected_callback cb r \<and> unexpected_callback cb"

definition eligible_callback :: "'r callback_type \<Rightarrow> 'r option \<Rightarrow> bool" where
  "eligible_callback cb r \<longleftrightarrow> stdexpected_callback cb r \<or> eligible_errorcode_callback cb r"

definition eligible_alternative_callback :: "'r callback_type \<Rightarrow> 'r option list \<Rightarrow> bool" where
  "eligible_alternative_callback cb rs \<longleftrightarrow> (\<exists>r \<in> set rs. eligible_callback cb r)"

definition eligible_nothrow_errorcode_callback :: "'r callback_type \<Rightarrow> 'r option \<Rightarrow> bool" where
  "eligible_nothrow_errorcode_callback cb r \<longleftrightarrow>
     eligible_errorcode_callback cb r \<and> nothrow_invocable cb Arg_error_code"

definition nothrow_direct_invoke :: "'r callback_type \<Rightarrow> 'r option \<Rightarrow> bool" where
  "nothrow_direct_invoke cb r \<longleftrightarrow>
     (case r of None \<Rightarrow> True | Some t \<Rightarrow> nothrow_invocable cb (Arg_direct t))"

definition nothrow_expected_callback :: "'r callback_type \<Rightarrow> 'r option \<Rightarrow> bool" where
  "nothrow_expected_callback cb r \<longleftrightarrow> expected_callback cb r
     \<and> nothrow_invocable cb (Arg_expected r) \<and> nothrow_direct_invoke cb r"

definition nothrow_unexpected_callback :: "'r callback_type \<Rightarrow> bool" where
  "nothrow_unexpected_callback cb \<longleftrightarrow> unexpected_callback cb \<and> nothrow_invocable cb Arg_unexpected"

definition nothrow_stdexpected_callback :: "'r callback_type \<Rightarrow> 'r option \<Rightarrow> bool" where
  "nothrow_stdexpected_callback cb r \<longleftrightarrow> stdexpected_callback cb r
     \<and> nothrow_expected_callback cb r \<and> nothrow_unexpected_callback cb"

definition eligible_nothrow_callback :: "'r callback_type \<Rightarrow> 'r option \<Rightarrow> bool" where
  "eligible_nothrow_callback cb r \<longleftrightarrow> eligible_callback cb r
     \<and> (nothrow_stdexpected_callback cb r \<or> eligible_nothrow_errorcode_callback cb r)"

text \<open>\<open>chosen_result\<close>: the first eligible result type and whether delivering it may throw.\<close>

fun chosen_result :: "'r callback_type \<Rightarrow> 'r option list \<Rightarrow> ('r option \<times> bool) option" where
  "chosen_result cb [] = None"
| "chosen_result cb (r # rs) =
     (if eligible_callback cb r then Some (r, eligible_nothrow_callback cb r)
      else chosen_result cb rs)"

section \<open>Laws\<close>

lemma nanos_div_mod: "x sdiv 1000000000 * 1000000000 + x smod 1000000000 = (x :: int)"
  by (rule sdiv_mult_smod_eq)

lemma kernel_timespec_roundtrip [simp]: "from_kernel_timespec (to_kernel_timespec d) = d"
  by (simp add: from_kernel_timespec_def to_kernel_timespec_def Let_def)

lemma timespec_roundtrip [simp]: "from_timespec_duration (to_timespec d) = d"
  using nanos_div_mod [of d] by (simp add: from_timespec_duration_def to_timespec_def)

lemma to_kernel_timespec_eq: "to_kernel_timespec d = to_timespec d"
  using nanos_div_mod [of d] by (simp add: to_kernel_timespec_def to_timespec_def Let_def)

lemma smod_nanos_bound: "\<bar>(x :: int) smod 1000000000\<bar> < 1000000000"
  using smod_int_range [of 1000000000 x] by auto

lemma make_system_error_code_value [simp]: "ec_value (make_system_error_code ev) = ev"
  by (simp add: make_system_error_code_def no_error_def)

lemma make_system_error_code_is_error [simp]: "is_error (make_system_error_code ev) \<longleftrightarrow> ev \<noteq> 0"
  by (simp add: is_error_def)

lemma system_category_code [simp]: "ec_category (make_system_error_code ev) = System_category"
  by (simp add: make_system_error_code_def no_error_def)

lemma fail_simps [simp]:
  "fail_ev ev \<noteq> Inr x" "fail_errc c \<noteq> Inr x" "(fail_invalid_argument :: 'a expected) \<noteq> Inr x"
  "Inr x \<noteq> fail_ev ev" "Inr x \<noteq> fail_errc c" "Inr x \<noteq> (fail_invalid_argument :: 'a expected)"
  by (simp_all add: fail_ev_def fail_errc_def fail_invalid_argument_def)

lemma iovec_roundtrip [simp]: "from_iovec (to_iovec b) = b" "to_iovec (from_iovec v) = v"
  by (simp_all add: from_iovec_def to_iovec_def)

lemma chosen_result_Some_iff:
  "(\<exists>r nt. chosen_result cb rs = Some (r, nt)) \<longleftrightarrow> eligible_alternative_callback cb rs"
  by (induction rs) (auto simp: eligible_alternative_callback_def)

end
