(* ===== verification/Sockaddr.thy ===== *)
theory Sockaddr
  imports Iouxx_Prelude
begin

text \<open>
  The socket address structures of the system headers, which the endpoint classes of
  \<open>include/iouxx/iouops/network/\<close> convert to and from, and the values of socket options.
\<close>

section \<open>Socket addresses of the system\<close>

definition AF_UNIX :: u16 where "AF_UNIX = 1"
definition AF_INET :: u16 where "AF_INET = 2"
definition AF_INET6 :: u16 where "AF_INET6 = 10"

record sockaddr_in =
  sin_family :: u16
  sin_port :: u16
  sin_addr :: u32
  sin_zero :: "u8 list"

record sockaddr_in6 =
  sin6_family :: u16
  sin6_port :: u16
  sin6_flowinfo :: u32
  sin6_addr :: "u16 list"
  sin6_scope_id :: u32

record sockaddr_un =
  sun_family :: u16
  sun_path :: string

text \<open>\<open>sizeof\<close> of the three structures and of \<open>sockaddr_un::sun_path\<close> on Linux.\<close>

definition sizeof_sockaddr_in :: nat where "sizeof_sockaddr_in = 16"
definition sizeof_sockaddr_in6 :: nat where "sizeof_sockaddr_in6 = 28"
definition sizeof_sockaddr_un :: nat where "sizeof_sockaddr_un = 110"
definition sizeof_sun_path :: nat where "sizeof_sun_path = 108"

text \<open>The generic \<open>sockaddr\<close> has the size of \<open>sockaddr_in\<close>.\<close>

definition sizeof_sockaddr :: nat where "sizeof_sockaddr = 16"

text \<open>What a \<open>sockaddr\<close> pointer passed to the kernel refers to.\<close>

datatype sys_sockaddr =
    Sa_in sockaddr_in
  | Sa_in6 sockaddr_in6
  | Sa_un sockaddr_un
  | Sa_unspec

text \<open>
  The memory an option value pointer refers to: an \<open>int\<close>, \<open>struct linger\<close>, \<open>struct timeval\<close>,
  characters, \<open>struct ip_mreqn\<close> or \<open>struct ipv6_mreq\<close>.
\<close>

datatype optval =
    Val_int int
  | Val_linger int int
  | Val_timeval int int
  | Val_chars string
  | Val_mreqn u32 u32 int
  | Val_mreq6 "u16 list" u32

end
