(* ===== verification/Liburing.thy ===== *)
theory Liburing
  imports Utility Sockaddr
begin

text \<open>
  The interface to liburing and the kernel. liburing is not part of the repository, so its calls
  have no definitions here: the functions that only fill a submission queue entry
  (\<open>io_uring_prep_*\<close>, the stores into \<open>sqe\<close> fields) are recorded as data, one constructor per call
  with the arguments the sources pass, and the functions with a result or an effect are fields
  of the record \<open>liburing\<close>, a parameter of every definition that calls them, acting on an
  uninterpreted world. Named constants have the values of the Linux UAPI headers.
\<close>

section \<open>Constants of the kernel interface\<close>

abbreviation "IORING_CQE_F_MORE \<equiv> (2 :: u32)"
abbreviation "IORING_CQE_F_NOTIF \<equiv> (8 :: u32)"
abbreviation "IOSQE_FIXED_FILE \<equiv> (1 :: u8)"
abbreviation "IORING_RECVSEND_FIXED_BUF \<equiv> (4 :: u16)"
abbreviation "IORING_NOP_INJECT_RESULT \<equiv> (1 :: u32)"
abbreviation "IORING_TIMEOUT_ABS \<equiv> (1 :: u32)"
abbreviation "IORING_TIMEOUT_BOOTTIME \<equiv> (4 :: u32)"
abbreviation "IORING_TIMEOUT_REALTIME \<equiv> (8 :: u32)"
abbreviation "IORING_TIMEOUT_MULTISHOT \<equiv> (64 :: u32)"
abbreviation "IORING_ASYNC_CANCEL_ALL \<equiv> (1 :: u32)"
abbreviation "IORING_ASYNC_CANCEL_ANY \<equiv> (4 :: u32)"
abbreviation "IORING_ASYNC_CANCEL_FD_FIXED \<equiv> (8 :: u32)"
abbreviation "IORING_ASYNC_CANCEL_USERDATA \<equiv> (16 :: u32)"
abbreviation "IORING_SETUP_SQPOLL \<equiv> (2 :: u32)"
abbreviation "IORING_SETUP_SQ_AFF \<equiv> (4 :: u32)"
abbreviation "IORING_SETUP_CQSIZE \<equiv> (8 :: u32)"
abbreviation "IORING_SETUP_ATTACH_WQ \<equiv> (32 :: u32)"
abbreviation "IOU_PBUF_RING_INC \<equiv> (2 :: u32)"
abbreviation "IORING_FILE_INDEX_ALLOC \<equiv> (-1 :: int)"
abbreviation "IORING_FIXED_FD_NO_CLOEXEC \<equiv> (1 :: u32)"
abbreviation "IORING_POLL_ADD_MULTI \<equiv> (1 :: u32)"
abbreviation "IORING_POLL_UPDATE_EVENTS \<equiv> (2 :: u32)"
abbreviation "IORING_SETUP_R_DISABLED \<equiv> (64 :: u32)"
abbreviation "ETIME \<equiv> (62 :: int)"
abbreviation "FUTEX_BITSET_MATCH_ANY \<equiv> (0xffffffff :: u32)"
abbreviation "FUTEX2_SIZE_U32 \<equiv> (2 :: u32)"
abbreviation "FUTEX2_PRIVATE \<equiv> (128 :: u32)"
abbreviation "O_NONBLOCK \<equiv> (0x800 :: u64)"
abbreviation "O_CLOEXEC \<equiv> (0x80000 :: u64)"
abbreviation "O_DIRECTORY \<equiv> (0x10000 :: u64)"
abbreviation "AT_FDCWD \<equiv> (-100 :: int)"
abbreviation "SOCK_NONBLOCK \<equiv> (0x800 :: u32)"
abbreviation "SOCK_CLOEXEC \<equiv> (0x80000 :: u32)"
abbreviation "SOMAXCONN \<equiv> (4096 :: nat)"
abbreviation "INT_MAX \<equiv> (2147483647 :: int)"

text \<open>Operation codes (\<open>enum io_uring_op\<close>).\<close>

abbreviation "IORING_OP_NOP \<equiv> (0 :: u8)"
abbreviation "IORING_OP_READV \<equiv> (1 :: u8)"
abbreviation "IORING_OP_WRITEV \<equiv> (2 :: u8)"
abbreviation "IORING_OP_READ_FIXED \<equiv> (4 :: u8)"
abbreviation "IORING_OP_WRITE_FIXED \<equiv> (5 :: u8)"
abbreviation "IORING_OP_POLL_ADD \<equiv> (6 :: u8)"
abbreviation "IORING_OP_POLL_REMOVE \<equiv> (7 :: u8)"
abbreviation "IORING_OP_SENDMSG \<equiv> (9 :: u8)"
abbreviation "IORING_OP_TIMEOUT \<equiv> (11 :: u8)"
abbreviation "IORING_OP_TIMEOUT_REMOVE \<equiv> (12 :: u8)"
abbreviation "IORING_OP_ACCEPT \<equiv> (13 :: u8)"
abbreviation "IORING_OP_ASYNC_CANCEL \<equiv> (14 :: u8)"
abbreviation "IORING_OP_CONNECT \<equiv> (16 :: u8)"
abbreviation "IORING_OP_CLOSE \<equiv> (19 :: u8)"
abbreviation "IORING_OP_FILES_UPDATE \<equiv> (20 :: u8)"
abbreviation "IORING_OP_READ \<equiv> (22 :: u8)"
abbreviation "IORING_OP_WRITE \<equiv> (23 :: u8)"
abbreviation "IORING_OP_SEND \<equiv> (26 :: u8)"
abbreviation "IORING_OP_RECV \<equiv> (27 :: u8)"
abbreviation "IORING_OP_OPENAT2 \<equiv> (28 :: u8)"
abbreviation "IORING_OP_SHUTDOWN \<equiv> (34 :: u8)"
abbreviation "IORING_OP_RENAMEAT \<equiv> (35 :: u8)"
abbreviation "IORING_OP_UNLINKAT \<equiv> (36 :: u8)"
abbreviation "IORING_OP_MKDIRAT \<equiv> (37 :: u8)"
abbreviation "IORING_OP_SYMLINKAT \<equiv> (38 :: u8)"
abbreviation "IORING_OP_LINKAT \<equiv> (39 :: u8)"
abbreviation "IORING_OP_SOCKET \<equiv> (45 :: u8)"
abbreviation "IORING_OP_URING_CMD \<equiv> (46 :: u8)"
abbreviation "IORING_OP_SEND_ZC \<equiv> (47 :: u8)"
abbreviation "IORING_OP_SENDMSG_ZC \<equiv> (48 :: u8)"
abbreviation "IORING_OP_FUTEX_WAIT \<equiv> (51 :: u8)"
abbreviation "IORING_OP_FUTEX_WAKE \<equiv> (52 :: u8)"
abbreviation "IORING_OP_FUTEX_WAITV \<equiv> (53 :: u8)"
abbreviation "IORING_OP_FIXED_FD_INSTALL \<equiv> (54 :: u8)"
abbreviation "IORING_OP_BIND \<equiv> (56 :: u8)"
abbreviation "IORING_OP_LISTEN \<equiv> (57 :: u8)"
abbreviation "IORING_OP_READV_FIXED \<equiv> (60 :: u8)"
abbreviation "IORING_OP_WRITEV_FIXED \<equiv> (61 :: u8)"

section \<open>Submission queue entries\<close>

text \<open>A path or string argument is passed by address; the text it points to is what is recorded.\<close>

record open_how =
  how_flags :: u64
  how_mode :: u64
  how_resolve :: u64

record futex_waitv =
  fwv_uaddr :: u64
  fwv_val :: u64
  fwv_flags :: u32

record msghdr =
  msg_name :: "sys_sockaddr option"
  msg_iov :: "iovec list"
  msg_control :: "u8 list"
  msg_flags :: u32

datatype sock_cmd = Cmd_setsockopt | Cmd_getsockopt

text \<open>
  The calls of \<open>io_uring_prep_*\<close>. Pointer arguments are recorded as what they point to; an
  accept call has the value of \<open>*addrlen\<close> when it passes an address buffer. C \<open>int\<close> arguments are \<open>int\<close>, unsigned ones words of the width
  liburing declares, so conversions from \<open>std::size_t\<close> are visible at the call.
\<close>

datatype prep_call =
    Prep_nop
  | Prep_timeout kernel_timespec u32 u32
  | Prep_timeout_remove u64 u32
  | Prep_cancel u64 u32
  | Prep_cancel_fd int u32
  | Prep_futex_wait u64 u64 u64 u32 u32
  | Prep_futex_wake u64 u64 u64 u32 u32
  | Prep_futex_waitv "futex_waitv list" u32 u32
  | Prep_openat2 int string open_how
  | Prep_openat2_direct int string open_how int
  | Prep_close int
  | Prep_close_direct int
  | Prep_files_update "int list" u32 int
  | Prep_fixed_fd_install int u32
  | Prep_read int u64 u32 u64
  | Prep_read_fixed int u64 u32 u64 int
  | Prep_readv2 int "iovec list" u32 u64 u32
  | Prep_readv_fixed int "iovec list" u32 u64 u32 int
  | Prep_write int u64 u32 u64
  | Prep_write_fixed int u64 u32 u64 int
  | Prep_writev2 int "iovec list" u32 u64 u32
  | Prep_writev_fixed int "iovec list" u32 u64 u32 int
  | Prep_unlinkat int string u32
  | Prep_renameat int string int string u32
  | Prep_mkdirat int string u32
  | Prep_symlinkat string int string
  | Prep_linkat int string int string u32
  | Prep_poll_add int u32
  | Prep_poll_multishot int u32
  | Prep_poll_remove u64
  | Prep_poll_update u64 u64 u32 u32
  | Prep_socket u32 u32 int u32
  | Prep_socket_direct u32 u32 int int u32
  | Prep_bind int sys_sockaddr nat
  | Prep_listen int int
  | Prep_connect int sys_sockaddr nat
  | Prep_accept int "nat option" u32
  | Prep_accept_direct int "nat option" u32 int
  | Prep_multishot_accept int u32
  | Prep_multishot_accept_direct int u32
  | Prep_shutdown int u32
  | Prep_send int u64 u64 u32
  | Prep_send_zc int u64 u64 u32 u32
  | Prep_sendmsg int msghdr u32
  | Prep_sendmsg_zc int msghdr u32
  | Prep_recv int u64 u64 u32
  | Prep_recv_multishot int u64 u64 u32
  | Prep_cmd_sock sock_cmd int int int optval u32
  | Prep_cmd_getsockname int nat bool

text \<open>What the sources do to an entry: a \<open>prep\<close> call, or a store into one of its fields.\<close>

datatype sqe_write =
    Prep prep_call
  | Or_flags u8
  | Set_ioprio u16
  | Or_ioprio u16
  | Set_buf_index u16
  | Or_nop_flags u32
  | Set_len u32
  | Set_data u64

type_synonym sqe_writes = "sqe_write list"

text \<open>
  An entry is well formed when it is initialised by exactly one \<open>prep\<close> call before any other
  store: \<open>prep\<close> overwrites the entry, so a store before it would be lost.
\<close>

fun is_prep :: "sqe_write \<Rightarrow> bool" where
  "is_prep (Prep _) = True"
| "is_prep _ = False"

fun is_set_data :: "sqe_write \<Rightarrow> bool" where
  "is_set_data (Set_data _) = True"
| "is_set_data _ = False"

fun sqe_wf :: "sqe_writes \<Rightarrow> bool" where
  "sqe_wf [] = False"
| "sqe_wf (w # ws) = (is_prep w \<and> list_all (\<lambda>x. \<not> is_prep x \<and> \<not> is_set_data x) ws)"

text \<open>The \<open>IOSQE_FIXED_FILE\<close> bit of an entry.\<close>

definition sqe_fixed_file :: "sqe_writes \<Rightarrow> bool" where
  "sqe_fixed_file ws \<longleftrightarrow> Or_flags IOSQE_FIXED_FILE \<in> set ws"

section \<open>Calls with results and effects\<close>

record io_uring =
  ring_fd :: int
  enter_ring_fd :: int
  setup_flags :: u32
  features :: u32

record io_uring_params =
  p_flags :: u32
  p_wq_fd :: u32
  p_cq_entries :: u32
  p_sq_thread_cpu :: u32
  p_sq_thread_idle :: u32

record sync_cancel_reg =
  sc_timeout :: kernel_timespec
  sc_flags :: u32

record cqe =
  cqe_user_data :: u64
  cqe_res :: int
  cqe_flags :: u32

text \<open>\<open>io_uring_probe\<close>: the operation codes the kernel supports.\<close>

type_synonym probe = "u8 \<Rightarrow> bool"

text \<open>The registration calls that only return a status.\<close>

datatype register_call =
    Reg_enable_rings
  | Reg_buffers_sparse u32
  | Reg_buffers_update_tag u32 "iovec list" "u64 list option"
  | Reg_buffers_tags "iovec list" "u64 list"
  | Reg_buffers "iovec list"
  | Reg_files_sparse u32
  | Reg_file_alloc_range u32 u32
  | Reg_files_update u32 "int list"
  | Reg_files "int list"
  | Reg_iowq_aff "u32 set"
  | Unreg_iowq_aff

record 'w liburing =
  lib_queue_init_params :: "u32 \<Rightarrow> io_uring_params \<Rightarrow> 'w \<Rightarrow> int \<times> io_uring \<times> 'w"
  lib_get_probe_ring :: "io_uring \<Rightarrow> 'w \<Rightarrow> probe option \<times> 'w"
  lib_free_probe :: "probe \<Rightarrow> 'w \<Rightarrow> 'w"
  lib_register_sync_cancel :: "io_uring \<Rightarrow> sync_cancel_reg \<Rightarrow> 'w \<Rightarrow> int \<times> 'w"
  lib_queue_exit :: "io_uring \<Rightarrow> 'w \<Rightarrow> 'w"
  lib_get_sqe :: "io_uring \<Rightarrow> 'w \<Rightarrow> nat option \<times> 'w"
  lib_write_sqe :: "nat \<Rightarrow> sqe_writes \<Rightarrow> 'w \<Rightarrow> 'w"
  lib_submit :: "io_uring \<Rightarrow> 'w \<Rightarrow> int \<times> 'w"
  lib_peek_cqe :: "io_uring \<Rightarrow> 'w \<Rightarrow> int \<times> cqe \<times> 'w"
  lib_wait_cqe :: "io_uring \<Rightarrow> 'w \<Rightarrow> int \<times> cqe \<times> 'w"
  lib_wait_cqe_timeout :: "io_uring \<Rightarrow> kernel_timespec \<Rightarrow> 'w \<Rightarrow> int \<times> cqe \<times> 'w"
  lib_cqe_seen :: "io_uring \<Rightarrow> 'w \<Rightarrow> 'w"
  lib_register :: "io_uring \<Rightarrow> register_call \<Rightarrow> 'w \<Rightarrow> int \<times> 'w"
  lib_setup_buf_ring :: "io_uring \<Rightarrow> u32 \<Rightarrow> int \<Rightarrow> u32 \<Rightarrow> 'w \<Rightarrow> u64 \<times> int \<times> 'w"
  lib_free_buf_ring :: "u64 \<Rightarrow> u64 \<Rightarrow> u32 \<Rightarrow> int \<Rightarrow> 'w \<Rightarrow> 'w"
  lib_buf_ring_mask :: "u32 \<Rightarrow> int"
  lib_buf_ring_add :: "u64 \<Rightarrow> iovec \<Rightarrow> u16 \<Rightarrow> int \<Rightarrow> u16 \<Rightarrow> 'w \<Rightarrow> 'w"
  lib_buf_ring_advance :: "u64 \<Rightarrow> u16 \<Rightarrow> 'w \<Rightarrow> 'w"
  lib_register_napi :: "io_uring \<Rightarrow> u32 \<Rightarrow> u8 \<Rightarrow> 'w \<Rightarrow> int \<times> u32 \<times> u8 \<times> 'w"
  lib_unregister_napi :: "io_uring \<Rightarrow> u32 \<Rightarrow> u8 \<Rightarrow> 'w \<Rightarrow> int \<times> u32 \<times> u8 \<times> 'w"
  lib_register_iowq_max_workers :: "io_uring \<Rightarrow> u32 \<Rightarrow> u32 \<Rightarrow> 'w \<Rightarrow> int \<times> u32 \<times> u32 \<times> 'w"

end
