(* ===== verification/Operation.thy ===== *)
theory Operation
  imports Liburing
begin

text \<open>
  \<open>include/iouxx/iouringxx.hpp\<close>, the operation side: how a completion is delivered to a callback
  (\<open>syncwait_callback\<close>, \<open>awaiter_callback\<close>), operation identifiers, and the contract every
  operation class of the library fulfils (the concept \<open>operation\<close>: \<open>build\<close>, \<open>do_callback\<close> and
  \<open>opcode\<close>), stated as the locale \<open>io_operation\<close>.
\<close>

section \<open>Delivery of a completion\<close>

text \<open>
  The argument \<open>do_callback\<close> invokes the user callback with: the result itself, a
  \<open>std::unexpected\<close>, or an \<open>std::error_code\<close> for callbacks that take one; the \<open>void\<close>
  specialisations invoke nothing, and a failed \<open>IOUXX_ASSERT\<close> aborts before the callback.
\<close>

datatype 'r invocation =
    Invoke_value 'r
  | Invoke_unexpected error_code
  | Invoke_error_code error_code
  | No_invocation
  | Assertion_failed

text \<open>Which branch of \<open>if constexpr\<close> a callback selects for a \<open>void\<close> result.\<close>

datatype callback_kind = Stdexpected | Errorcode

definition kind_of_callback :: "'r callback_type \<Rightarrow> callback_kind option" where
  "kind_of_callback cb =
     (if stdexpected_callback cb None then Some Stdexpected
      else if errorcode_callback cb then Some Errorcode else None)"

text \<open>The completion code that operations with a \<open>void\<close> result share.\<close>

definition invoke_void :: "callback_kind \<Rightarrow> int \<Rightarrow> unit invocation" where
  "invoke_void k ev =
     (case k of
        Stdexpected \<Rightarrow>
          if ev = 0 then Invoke_value () else Invoke_unexpected (make_system_error_code (- ev))
      | Errorcode \<Rightarrow> Invoke_error_code (make_system_error_code (- ev)))"

text \<open>The completion code of operations whose non-negative results carry a value.\<close>

definition invoke_result :: "(int \<Rightarrow> 'r) \<Rightarrow> int \<Rightarrow> 'r invocation" where
  "invoke_result f ev =
     (if ev \<ge> 0 then Invoke_value (f ev) else Invoke_unexpected (make_system_error_code (- ev)))"

text \<open>The error a callback sees, if any.\<close>

fun invocation_error :: "'r invocation \<Rightarrow> error_code option" where
  "invocation_error (Invoke_value _) = None"
| "invocation_error (Invoke_unexpected e) = Some e"
| "invocation_error (Invoke_error_code e) = (if is_error e then Some e else None)"
| "invocation_error No_invocation = None"
| "invocation_error Assertion_failed = None"

text \<open>
  \<open>std::expected<T, std::error_code>\<close> constructed from the argument: the conversion at the call of
  \<open>syncwait_callback::operator()\<close> and \<open>awaiter_callback::operator()\<close>, which are invocable with
  \<open>std::expected\<close> and so never receive a bare \<open>std::error_code\<close>. \<open>None\<close> is the abort.
\<close>

fun to_expected :: "'r invocation \<Rightarrow> 'r expected \<Rightarrow> 'r expected option" where
  "to_expected (Invoke_value v) old = Some (Inr v)"
| "to_expected (Invoke_unexpected e) old = Some (Inl e)"
| "to_expected (Invoke_error_code e) old = Some old"
| "to_expected No_invocation old = Some old"
| "to_expected Assertion_failed old = None"

lemma invoke_void_error [simp]:
  "invocation_error (invoke_void k ev) = (if ev = 0 then None else Some (make_system_error_code (- ev)))"
  by (cases k) (simp_all add: invoke_void_def)

lemma invoke_result_error [simp]:
  "invocation_error (invoke_result f ev) = (if ev \<ge> 0 then None else Some (make_system_error_code (- ev)))"
  by (simp add: invoke_result_def)

section \<open>operation\_identifier\<close>

text \<open>An identifier is the address of the operation object; the default one is the null pointer.\<close>

record operation_identifier =
  id_raw :: u64

definition id_default :: operation_identifier where
  "id_default = \<lparr>id_raw = 0\<rparr>"

definition user_data64 :: "operation_identifier \<Rightarrow> u64" where
  "user_data64 i = id_raw i"

text \<open>Hashing and formatting are those of the pointer: \<open>hash_ptr\<close> and \<open>format_ptr\<close>.\<close>

definition identifier_hash :: "(u64 \<Rightarrow> u64) \<Rightarrow> operation_identifier \<Rightarrow> u64" where
  "identifier_hash hash_ptr i = hash_ptr (id_raw i)"

definition identifier_format :: "(u64 \<Rightarrow> string) \<Rightarrow> operation_identifier \<Rightarrow> string" where
  "identifier_format format_ptr i = format_ptr (id_raw i)"

definition to_tag :: "u64 \<Rightarrow> u64" where
  "to_tag cb = cb"

section \<open>The contract of an operation\<close>

text \<open>
  \<open>ok op ev\<close> says which raw results the operation reports as success. The laws: \<open>build\<close>
  initialises the entry with one \<open>prep\<close> call and leaves the user data to \<open>to_sqe\<close>; building an
  object again, as a second submission does, asks for the same thing; a result
  that is no success reaches the callback as the error \<open>-ev\<close> in the system category; a success
  reaches it as no error.
\<close>

locale io_operation =
  fixes build :: "'op \<Rightarrow> 'op \<times> sqe_writes"
    and do_callback :: "'op \<Rightarrow> int \<Rightarrow> u32 \<Rightarrow> 'r invocation"
    and ok :: "'op \<Rightarrow> int \<Rightarrow> bool"
  assumes build_wf: "sqe_wf (snd (build x))"
    and build_stable: "snd (build (fst (build x))) = snd (build x)"
    and error_delivered: "\<not> ok x ev \<Longrightarrow>
      invocation_error (do_callback x ev fl) = Some (make_system_error_code (- ev))"
    and success_delivered: "ok x ev \<Longrightarrow> invocation_error (do_callback x ev fl) = None"
begin

text \<open>The entry \<open>to_sqe\<close> leaves behind: prepared once, first, and tagged once, last.\<close>

lemma entry_shape:
  "\<exists>c ws. snd (build x) @ [Set_data self] = Prep c # ws @ [Set_data self]
     \<and> (\<forall>w \<in> set ws. \<not> is_prep w \<and> \<not> is_set_data w)"
proof (cases "snd (build x)")
  case Nil
  with build_wf [of x] show ?thesis by simp
next
  case (Cons w ws)
  with build_wf [of x] show ?thesis by (cases w) (auto simp: list_all_iff)
qed

text \<open>However often an object is submitted, each submission writes the same entry.\<close>

lemma resubmit_same: "snd (build (((fst \<circ> build) ^^ n) x)) = snd (build x)"
  by (induction n arbitrary: x) (simp_all add: funpow_swap1 build_stable del: funpow.simps add: funpow_Suc_right)

lemma delivered_iff_ok: "invocation_error (do_callback x ev fl) = None \<longleftrightarrow> ok x ev"
  using error_delivered [of x ev fl] success_delivered [of x ev fl] by (cases "ok x ev") auto

end

section \<open>Coroutine callbacks\<close>

text \<open>
  \<open>awaiter_callback\<close> and \<open>operation_awaiter\<close>: the suspended caller, whether its promise has
  \<open>unhandled_stopped\<close>, and the result slot. The outcome of a completion is either the resumption
  of the caller with a result or the resumption of its stop handler.
\<close>

datatype 'r resumption = Resume_caller "'r expected" | Resume_stopped

definition awaiter_complete :: "bool \<Rightarrow> 'r expected \<Rightarrow> 'r resumption" where
  "awaiter_complete has_cancel_handler res =
     (case res of
        Inl e \<Rightarrow>
          if has_cancel_handler \<and> equals_errc e Operation_canceled then Resume_stopped
          else Resume_caller res
      | Inr _ \<Rightarrow> Resume_caller res)"

text \<open>The life of one \<open>co_await\<close> on an operation.\<close>

datatype 'r await_state =
    Await_created
  | Await_suspended
  | Await_resumed "'r expected"
  | Await_stopped

text \<open>
  Steps: \<open>await_suspend\<close> with a failed submission resumes at once with the error; a successful one
  suspends; the completion resumes the caller or its stop handler.
\<close>

inductive await_step :: "bool \<Rightarrow> 'r await_state \<Rightarrow> 'r await_state \<Rightarrow> bool" for cancelable where
  submit_failed: "is_error e \<Longrightarrow> await_step cancelable Await_created (Await_resumed (Inl e))"
| submit_ok: "await_step cancelable Await_created Await_suspended"
| completed: "awaiter_complete cancelable res = Resume_caller r \<Longrightarrow>
    await_step cancelable Await_suspended (Await_resumed r)"
| stopped: "awaiter_complete cancelable (res :: 'r expected) = Resume_stopped \<Longrightarrow>
    await_step cancelable Await_suspended (Await_stopped :: 'r await_state)"

inductive await_reachable :: "bool \<Rightarrow> 'r await_state \<Rightarrow> bool" for cancelable where
  await_start: "await_reachable cancelable Await_created"
| await_next: "await_reachable cancelable s \<Longrightarrow> await_step cancelable s t \<Longrightarrow> await_reachable cancelable t"

inductive_cases await_from_resumed: "await_step c (Await_resumed r) t"
inductive_cases await_from_stopped: "await_step c Await_stopped t"
inductive_cases await_to_stopped: "await_step c s Await_stopped"
inductive_cases await_to_resumed: "await_step c s (Await_resumed r)"

lemma awaiter_complete_stopped_iff:
  "awaiter_complete c res = Resume_stopped \<longleftrightarrow> c \<and> (\<exists>e. res = Inl e \<and> equals_errc e Operation_canceled)"
  by (auto simp: awaiter_complete_def split: sum.splits)

lemma awaiter_complete_caller:
  "awaiter_complete c res = Resume_caller r \<Longrightarrow>
     r = res \<and> \<not> (c \<and> (\<exists>e. res = Inl e \<and> equals_errc e Operation_canceled))"
  by (auto simp: awaiter_complete_def split: sum.splits if_splits)

section \<open>Properties\<close>

text \<open>
  A callback that is eligible for a \<open>void\<close> result always selects one of the two delivery
  branches, so the \<open>static_assert(false)\<close> arms of the completion code are unreachable; and an
  alternative is chosen exactly when some alternative is eligible.
\<close>

theorem eligible_callback_has_kind:
  assumes "eligible_callback cb None"
  shows "kind_of_callback cb \<noteq> None
    \<and> (\<exists>r nt. chosen_result cb [None] = Some (r, nt))"
  using assms
  by (auto simp: kind_of_callback_def eligible_callback_def eligible_errorcode_callback_def)

theorem eligible_callback_has_kind_witness:
  "kind_of_callback \<lparr>invocable = (\<lambda>a :: unit cb_arg. a = Arg_error_code), nothrow_invocable_decl = (\<lambda>_. True)\<rparr> \<noteq> None
    \<and> (\<exists>r nt. chosen_result \<lparr>invocable = (\<lambda>a :: unit cb_arg. a = Arg_error_code), nothrow_invocable_decl = (\<lambda>_. True)\<rparr>
        [None] = Some (r, nt))"
  by (rule eligible_callback_has_kind)
    (simp add: eligible_callback_def eligible_errorcode_callback_def errorcode_callback_def)



end
