(* ===== verification/Version_Info.thy ===== *)
theory Version_Info
  imports Utility
begin

text \<open>
  \<open>ring::version_info\<close> of \<open>include/iouxx/iouringxx.hpp\<close>: the parser of \<open>"major.minor"\<close> strings,
  the comparison with versions and strings, the compatibility check and the formatter.
\<close>

section \<open>Model\<close>

record version_info =
  ver_major :: int
  ver_minor :: int

text \<open>\<open>std::numeric_limits<int>::max()\<close>, the default of both members.\<close>

abbreviation "int_max \<equiv> (2147483647 :: int)"

definition version_invalid :: version_info where
  "version_invalid = \<lparr>ver_major = int_max, ver_minor = int_max\<rparr>"

text \<open>
  \<open>std::from_chars\<close> into an \<open>int\<close>: an optional minus sign, then decimal digits; the result must fit
  into 32 bits. Only a match of the whole piece is accepted by the caller.
\<close>

definition from_chars_int :: "string \<Rightarrow> int option" where
  "from_chars_int s =
     (let neg = (s \<noteq> [] \<and> hd s = CHR ''-'');
          ds = (if neg then tl s else s)
      in if ds = [] \<or> \<not> list_all (is_digit 10) ds then None
         else let v = int (digits_value 10 ds); r = (if neg then - v else v)
              in if - (int_max + 1) \<le> r \<and> r \<le> int_max then Some r else None)"

text \<open>The loop over the pieces; \<open>-1\<close> marks a number that has not been read yet.\<close>

fun version_loop :: "string list \<Rightarrow> int \<Rightarrow> int \<Rightarrow> version_info" where
  "version_loop [] major minor =
     (if major = -1 \<or> minor = -1 then version_invalid
      else \<lparr>ver_major = major, ver_minor = minor\<rparr>)"
| "version_loop (num # parts) major minor =
     (if major = -1 then
        (case from_chars_int num of
           None \<Rightarrow> version_invalid
         | Some m \<Rightarrow> if m < 0 then version_invalid else version_loop parts m minor)
      else if minor = -1 then
        (case from_chars_int num of
           None \<Rightarrow> version_invalid
         | Some m \<Rightarrow> if m < 0 then version_invalid else version_loop parts major m)
      else version_invalid)"

definition version_from_string :: "string \<Rightarrow> version_info" where
  "version_from_string version = version_loop (split_view ''.'' version) (-1) (-1)"

text \<open>The defaulted \<open>operator<=>\<close>: member by member.\<close>

definition version_less :: "version_info \<Rightarrow> version_info \<Rightarrow> bool" where
  "version_less a b \<longleftrightarrow>
     ver_major a < ver_major b \<or> ver_major a = ver_major b \<and> ver_minor a < ver_minor b"

definition version_equal :: "version_info \<Rightarrow> version_info \<Rightarrow> bool" where
  "version_equal a b \<longleftrightarrow> ver_major a = ver_major b \<and> ver_minor a = ver_minor b"

definition version_equal_string :: "version_info \<Rightarrow> string \<Rightarrow> bool" where
  "version_equal_string ver str = version_equal ver (version_from_string str)"

definition version_less_string :: "version_info \<Rightarrow> string \<Rightarrow> bool" where
  "version_less_string ver str = version_less ver (version_from_string str)"

text \<open>
  The version of liburing: that of its header in constant evaluation, that of the loaded library at
  run time. Both are arguments.
\<close>

definition version_current :: "bool \<Rightarrow> int \<times> int \<Rightarrow> int \<times> int \<Rightarrow> version_info" where
  "version_current consteval_context header loaded =
     (if consteval_context then \<lparr>ver_major = fst header, ver_minor = snd header\<rparr>
      else \<lparr>ver_major = fst loaded, ver_minor = snd loaded\<rparr>)"

definition ring_version :: "bool \<Rightarrow> int \<times> int \<Rightarrow> int \<times> int \<Rightarrow> version_info" where
  "ring_version consteval_context header loaded = version_current consteval_context header loaded"

text \<open>\<open>check_version\<close> stands for \<open>io_uring_check_version\<close>.\<close>

definition version_compat_with :: "(int \<Rightarrow> int \<Rightarrow> bool) \<Rightarrow> version_info \<Rightarrow> bool" where
  "version_compat_with check_version requirement =
     (\<not> check_version (ver_major requirement) (ver_minor requirement))"

definition version_compat_with_string :: "(int \<Rightarrow> int \<Rightarrow> bool) \<Rightarrow> string \<Rightarrow> bool" where
  "version_compat_with_string check_version requirement =
     version_compat_with check_version (version_from_string requirement)"

text \<open>The formatter: the specification is at most one separator character before the closing brace.\<close>

definition version_format_parse :: "string \<Rightarrow> (char \<times> string) option" where
  "version_format_parse spec =
     (let (sep, it) =
        (if spec \<noteq> [] \<and> hd spec \<noteq> CHR 0x7D then (hd spec, tl spec) else (CHR ''.'', spec))
      in if it \<noteq> [] \<and> hd it \<noteq> CHR 0x7D then None else Some (sep, it))"

definition format_int :: "int \<Rightarrow> string" where
  "format_int i = (if i < 0 then CHR ''-'' # nat_digits False 10 (nat (- i)) else nat_digits False 10 (nat i))"

definition version_format :: "char \<Rightarrow> version_info \<Rightarrow> string" where
  "version_format sep ver = format_int (ver_major ver) @ [sep] @ format_int (ver_minor ver)"

section \<open>Parsing and printing\<close>

lemma digit_not_dot: "is_digit 10 c \<Longrightarrow> c \<noteq> CHR ''.'' \<and> c \<noteq> CHR ''-''"
  by (auto simp: is_digit_def digit_val_def)

lemma dot_notin_digits: "CHR ''.'' \<notin> set (nat_digits u 10 n)"
  using dec.digits_all_digit digit_not_dot by blast

lemma hd_digits_no_sign: "hd (nat_digits u 10 n) \<noteq> CHR ''-''"
  using dec.digits_all_digit [of u n] digit_not_dot by (metis list.set_sel(1) nat_digits_nonempty)

lemma from_chars_int_print [text_simps]:
  assumes "0 \<le> i" "i \<le> int_max"
  shows "from_chars_int (format_int i) = Some i"
  using assms dec.digits_all_digit [of False "nat i"]
  by (simp add: from_chars_int_def format_int_def hd_digits_no_sign list_all_iff Let_def)

lemma from_chars_int_bound: "from_chars_int s = Some i \<Longrightarrow> i \<le> int_max"
  by (auto simp: from_chars_int_def Let_def split: if_splits)

text \<open>What the loop accepts: exactly two numbers, both non-negative.\<close>

lemma version_loop_two:
  "version_loop ps (-1) (-1) =
     (case ps of
        [a, b] \<Rightarrow>
          (case (from_chars_int a, from_chars_int b) of
             (Some m, Some n) \<Rightarrow>
               if 0 \<le> m \<and> 0 \<le> n then \<lparr>ver_major = m, ver_minor = n\<rparr> else version_invalid
           | _ \<Rightarrow> version_invalid)
      | _ \<Rightarrow> version_invalid)"
  by (cases ps; cases "tl ps"; cases "tl (tl ps)") (auto split: option.splits)

lemma version_from_string_cases:
  "version_from_string s = version_invalid
   \<or> (\<exists>a b m n. split_view ''.'' s = [a, b] \<and> from_chars_int a = Some m \<and> from_chars_int b = Some n
        \<and> 0 \<le> m \<and> 0 \<le> n \<and> version_from_string s = \<lparr>ver_major = m, ver_minor = n\<rparr>)"
  by (auto simp: version_from_string_def version_loop_two split: list.splits option.splits if_splits)

lemma version_from_string_bounds:
  "0 \<le> ver_major (version_from_string s)" "ver_major (version_from_string s) \<le> int_max"
  "0 \<le> ver_minor (version_from_string s)" "ver_minor (version_from_string s) \<le> int_max"
  using version_from_string_cases [of s]
  by (auto simp: version_invalid_def dest: from_chars_int_bound)

section \<open>Properties\<close>

text \<open>
  C23. Every version with components in the range of a non-negative \<open>int\<close> is read back from the
  string the formatter prints with the default separator.
\<close>

theorem version_roundtrip:
  assumes "0 \<le> ver_major v" "ver_major v \<le> int_max" "0 \<le> ver_minor v" "ver_minor v \<le> int_max"
  shows "version_from_string (version_format CHR ''.'' v) = v"
proof -
  have "split_view ''.'' (version_format CHR ''.'' v) = [format_int (ver_major v), format_int (ver_minor v)]"
    using assms
    by (simp add: split_view_def version_format_def format_int_def dot_notin_digits text_simps)
  then show ?thesis
    using assms by (simp add: version_from_string_def version_loop_two from_chars_int_print)
qed

theorem version_roundtrip_witness:
  "version_from_string (version_format CHR ''.'' \<lparr>ver_major = 2, ver_minor = 11\<rparr>)
     = \<lparr>ver_major = 2, ver_minor = 11\<rparr>"
  by (rule version_roundtrip) simp_all

text \<open>
  A requirement string that is no version is never satisfied: any version a program can
  compare with, other than the sentinel itself, is less than what the string reads as. More
  generally the sentinel is an upper bound of everything the parser returns.
\<close>

theorem version_invalid_not_supported:
  assumes "version_from_string str = version_invalid"
    and "ver_major v \<le> int_max" "ver_minor v \<le> int_max" "v \<noteq> version_invalid"
  shows "version_less_string v str \<and> \<not> version_equal_string v str"
  using assms by (cases v) (auto simp: version_less_string_def version_less_def version_equal_string_def
    version_equal_def version_invalid_def)

theorem version_invalid_not_supported_witness:
  "version_less_string \<lparr>ver_major = 2, ver_minor = 11\<rparr> ''2.x''
    \<and> \<not> version_equal_string \<lparr>ver_major = 2, ver_minor = 11\<rparr> ''2.x''"
proof (rule version_invalid_not_supported)
  show "version_from_string ''2.x'' = version_invalid" by code_simp
qed (simp_all add: version_invalid_def)

end
