(* ===== verification/Ring.thy ===== *)
theory Ring
  imports Operation Version_Info "HOL-Library.Monad_Syntax"
begin

unbundle bit_operations_syntax

text \<open>
  The class \<open>ring\<close> of \<open>include/iouxx/iouringxx.hpp\<close> with \<open>ring_option\<close>, \<open>operation_result\<close>,
  \<open>buffer_ring\<close> and \<open>buffer_group\<close>. A method becomes a function from the ring and the world liburing
  acts on; \<open>None\<close> is the abort of a failed \<open>IOUXX_ASSERT\<close> (the default configuration). A
  method declared \<open>noexcept\<close> that catches allocation failures takes the outcome of its
  allocations as an argument.
\<close>

section \<open>Assertions and options\<close>

definition IOUXX_ASSERT :: "bool \<Rightarrow> unit option" where
  "IOUXX_ASSERT c = (if c then Some () else None)"

lemma IOUXX_ASSERT_simps [simp]: "IOUXX_ASSERT True = Some ()" "IOUXX_ASSERT False = None"
  by (simp_all add: IOUXX_ASSERT_def)

lemma IOUXX_ASSERT_bind [simp]: "Option.bind (IOUXX_ASSERT c) f = (if c then f () else None)"
  by (simp add: IOUXX_ASSERT_def)

record ring_option =
  ring_flags :: u32
  wq_fd :: u32
  cq_entries :: u32
  sq_thread_cpu :: u32
  sq_thread_idle :: u32

definition ring_option_default :: ring_option where
  "ring_option_default =
     \<lparr>ring_flags = 0, wq_fd = 0, cq_entries = 0, sq_thread_cpu = 0, sq_thread_idle = 0\<rparr>"

definition option_flags :: "u32 \<Rightarrow> ring_option \<Rightarrow> ring_option" where
  "option_flags f opt = opt\<lparr>ring_flags := ring_flags opt OR f\<rparr>"

text \<open>\<open>idle\<close> is a count of milliseconds in a signed 64-bit integer, narrowed to 32 bits.\<close>

definition setup_sqpoll :: "u32 \<Rightarrow> int \<Rightarrow> ring_option \<Rightarrow> ring_option" where
  "setup_sqpoll thread_cpu idle opt =
     (let opt = opt\<lparr>ring_flags := ring_flags opt OR IORING_SETUP_SQPOLL, sq_thread_idle := word_of_int idle\<rparr>
      in if thread_cpu < - 1
         then opt\<lparr>ring_flags := ring_flags opt OR IORING_SETUP_SQ_AFF, sq_thread_cpu := thread_cpu\<rparr>
         else opt\<lparr>ring_flags := ring_flags opt AND NOT IORING_SETUP_SQ_AFF\<rparr>)"

definition setup_cqsize :: "u32 \<Rightarrow> ring_option \<Rightarrow> ring_option" where
  "setup_cqsize cq_size opt =
     opt\<lparr>ring_flags := ring_flags opt OR IORING_SETUP_CQSIZE, cq_entries := cq_size\<rparr>"

definition to_params :: "ring_option \<Rightarrow> io_uring_params" where
  "to_params opt =
     \<lparr>p_flags = ring_flags opt, p_wq_fd = wq_fd opt, p_cq_entries = cq_entries opt,
      p_sq_thread_cpu = sq_thread_cpu opt, p_sq_thread_idle = sq_thread_idle opt\<rparr>"

section \<open>Completions\<close>

record operation_result =
  or_cb :: u64
  or_res :: int
  or_cqe_flags :: u32

definition operation_result_of :: "cqe \<Rightarrow> operation_result" where
  "operation_result_of c = \<lparr>or_cb = cqe_user_data c, or_res = cqe_res c, or_cqe_flags = cqe_flags c\<rparr>"

definition reset_result :: "int \<Rightarrow> operation_result \<Rightarrow> int \<times> operation_result" where
  "reset_result result r = (or_res r, r\<lparr>or_res := result\<rparr>)"

definition reset_flags :: "u32 \<Rightarrow> operation_result \<Rightarrow> u32 \<times> operation_result" where
  "reset_flags flags r = (or_cqe_flags r, r\<lparr>or_cqe_flags := flags\<rparr>)"

definition result_from_operation :: "operation_result \<Rightarrow> bool" where
  "result_from_operation r \<longleftrightarrow> or_cb r \<noteq> 0"

definition result_identifier :: "operation_result \<Rightarrow> operation_identifier" where
  "result_identifier r = \<lparr>id_raw = or_cb r\<rparr>"

section \<open>Provided buffer rings\<close>

text \<open>
  \<open>br_raw_ring\<close> is the address of the owning \<open>io_uring\<close> structure, \<open>br_buf_ring\<close> the address of
  the mapped ring (null when there is none).
\<close>

record buffer_ring =
  br_raw_ring :: u64
  br_buf_ring :: u64
  br_entries :: u32
  br_bgid :: int

definition buffer_ring_default :: buffer_ring where
  "buffer_ring_default = \<lparr>br_raw_ring = 0, br_buf_ring = 0, br_entries = 0, br_bgid = -1\<rparr>"

definition buffer_ring_valid :: "buffer_ring \<Rightarrow> bool" where
  "buffer_ring_valid b \<longleftrightarrow> br_buf_ring b \<noteq> 0"

text \<open>The move constructor: the new object, and what is left of the source.\<close>

definition buffer_ring_move :: "buffer_ring \<Rightarrow> buffer_ring \<times> buffer_ring" where
  "buffer_ring_move other =
     (other, other\<lparr>br_buf_ring := 0, br_entries := 0, br_bgid := -1\<rparr>)"

definition buffer_ring_destroy :: "'w liburing \<Rightarrow> buffer_ring \<Rightarrow> 'w \<Rightarrow> 'w" where
  "buffer_ring_destroy lib b w =
     (if br_buf_ring b \<noteq> 0
      then lib_free_buf_ring lib (br_raw_ring b) (br_buf_ring b) (br_entries b) (br_bgid b) w
      else w)"

text \<open>
  Move assignment: a temporary is move-constructed from the source, swapped with the target and
  destroyed. Returns the target, the source and the world.
\<close>

definition buffer_ring_assign ::
  "'w liburing \<Rightarrow> buffer_ring \<Rightarrow> buffer_ring \<Rightarrow> 'w \<Rightarrow> buffer_ring \<times> buffer_ring \<times> 'w" where
  "buffer_ring_assign lib this other w =
     (let (tmp, other') = buffer_ring_move other;
          (tmp, this) = (this, tmp)
      in (this, other', buffer_ring_destroy lib tmp w))"

definition buffer_ring_make ::
  "'w liburing \<Rightarrow> u64 \<Rightarrow> io_uring \<Rightarrow> u32 \<Rightarrow> int \<Rightarrow> u32 \<Rightarrow> 'w \<Rightarrow> buffer_ring expected \<times> 'w" where
  "buffer_ring_make lib addr raw entries bgid flags w =
     (case lib_setup_buf_ring lib raw entries bgid flags w of
        (buf_ring, err, w) \<Rightarrow>
          if err < 0 then (fail_ev (- err), w)
          else (Inr \<lparr>br_raw_ring = addr, br_buf_ring = buf_ring, br_entries = entries, br_bgid = bgid\<rparr>, w))"

definition buffer_ring_insert :: "'w liburing \<Rightarrow> buffer_ring \<Rightarrow> byte_span \<Rightarrow> u16 \<Rightarrow> 'w \<Rightarrow> 'w" where
  "buffer_ring_insert lib b buf bid w =
     (let w = lib_buf_ring_add lib (br_buf_ring b) \<lparr>iov_base = sp_data buf, iov_len = sp_size buf\<rparr> bid
                (lib_buf_ring_mask lib (br_entries b)) 0 w
      in lib_buf_ring_advance lib (br_buf_ring b) 1 w)"

text \<open>The loop over \<open>views::zip(bufs, bids)\<close> with the 16-bit counter \<open>total\<close>.\<close>

fun insert_loop ::
  "'w liburing \<Rightarrow> buffer_ring \<Rightarrow> (iovec \<times> u16) list \<Rightarrow> u16 \<Rightarrow> 'w \<Rightarrow> u16 \<times> 'w" where
  "insert_loop lib b [] tot w = (tot, w)"
| "insert_loop lib b ((buf, bid) # rest) tot w =
     insert_loop lib b rest (tot + 1)
       (lib_buf_ring_add lib (br_buf_ring b) buf bid (lib_buf_ring_mask lib (br_entries b)) tot w)"

definition to_iovecs :: "byte_span list \<Rightarrow> iovec list" where
  "to_iovecs buffers = map to_iovec buffers"

definition buffer_ring_insert_range ::
  "'w liburing \<Rightarrow> bool \<Rightarrow> buffer_ring \<Rightarrow> byte_span list \<Rightarrow> u16 list \<Rightarrow> 'w \<Rightarrow> (error_code \<times> 'w) option" where
  "buffer_ring_insert_range lib alloc b buffers bids w =
     (if \<not> alloc then Some (make_error_code Not_enough_memory, w)
      else do {
        IOUXX_ASSERT (length (to_iovecs buffers) = length bids);
        let (tot, w) = insert_loop lib b (zip (to_iovecs buffers) bids) 0 w;
        Some (no_error, lib_buf_ring_advance lib (br_buf_ring b) tot w)
      })"

section \<open>The ring\<close>

text \<open>\<open>ring_addr\<close> is the address \<open>&raw_ring\<close>; the object can be neither copied nor moved.\<close>

record ring =
  ring_addr :: u64
  raw_ring :: io_uring
  ring_probe :: "probe option"
  buffer_rings :: "buffer_ring list"

definition buffer_ring_size_max :: nat where
  "buffer_ring_size_max = 65536"

definition invalid_ring :: io_uring where
  "invalid_ring = \<lparr>ring_fd = -1, enter_ring_fd = -1, setup_flags = 0, features = 0\<rparr>"

definition ring_default :: "u64 \<Rightarrow> ring" where
  "ring_default addr =
     \<lparr>ring_addr = addr, raw_ring = invalid_ring, ring_probe = None,
      buffer_rings = replicate buffer_ring_size_max buffer_ring_default\<rparr>"

definition valid :: "ring \<Rightarrow> bool" where
  "valid r \<longleftrightarrow> ring_fd (raw_ring r) \<ge> 0"

definition native :: "ring \<Rightarrow> io_uring option" where
  "native r = do { IOUXX_ASSERT (valid r); Some (raw_ring r) }"

definition native_handle :: "ring \<Rightarrow> int option" where
  "native_handle r = do { IOUXX_ASSERT (valid r); Some (ring_fd (raw_ring r)) }"

definition get_native_handle :: "ring \<Rightarrow> u32 option" where
  "get_native_handle r = map_option word_of_int (native_handle r)"

definition setup_attach :: "ring \<Rightarrow> ring_option \<Rightarrow> ring_option option" where
  "setup_attach wq opt = do {
     fd \<leftarrow> get_native_handle wq;
     Some (opt\<lparr>ring_flags := ring_flags opt OR IORING_SETUP_ATTACH_WQ, wq_fd := fd\<rparr>) }"

text \<open>\<open>ring::swap\<close> exchanges the \<open>io_uring\<close> structures and nothing else.\<close>

definition ring_swap :: "ring \<Rightarrow> ring \<Rightarrow> ring \<times> ring" where
  "ring_swap this other =
     (this\<lparr>raw_ring := raw_ring other\<rparr>, other\<lparr>raw_ring := raw_ring this\<rparr>)"

definition stop :: "'w liburing \<Rightarrow> int \<Rightarrow> ring \<Rightarrow> 'w \<Rightarrow> (error_code \<times> 'w) option" where
  "stop lib timeout r w =
     (if \<not> valid r then Some (no_error, w)
      else
        let reg = \<lparr>sc_timeout = (if timeout \<noteq> 0 then to_kernel_timespec timeout
                                   else \<lparr>tv_sec = -1, tv_nsec = -1\<rparr>),
                   sc_flags = 0 OR (IORING_ASYNC_CANCEL_ANY OR IORING_ASYNC_CANCEL_ALL)\<rparr>
        in do {
          raw \<leftarrow> native r;
          let (ev, w) = lib_register_sync_cancel lib raw reg w;
          Some (make_system_error_code (- ev), w)
        })"

definition probe_reset :: "'w liburing \<Rightarrow> probe option \<Rightarrow> ring \<Rightarrow> 'w \<Rightarrow> ring \<times> 'w" where
  "probe_reset lib new r w =
     (r\<lparr>ring_probe := new\<rparr>, (case ring_probe r of None \<Rightarrow> w | Some p \<Rightarrow> lib_free_probe lib p w))"

definition ring_exit :: "'w liburing \<Rightarrow> ring \<Rightarrow> 'w \<Rightarrow> (ring \<times> 'w) option" where
  "ring_exit lib r w =
     (if valid r then do {
        (res, w) \<leftarrow> stop lib 0 r w;
        IOUXX_ASSERT (Inl res \<noteq> (fail_invalid_argument :: unit expected));
        let (r, w) = probe_reset lib None r w;
        let w = fold (buffer_ring_destroy lib) (buffer_rings r) w;
        let r = r\<lparr>buffer_rings := replicate buffer_ring_size_max buffer_ring_default\<rparr>;
        let w = lib_queue_exit lib (raw_ring r) w;
        Some (r\<lparr>raw_ring := invalid_ring\<rparr>, w)
      } else Some (r, w))"

definition do_init ::
  "'w liburing \<Rightarrow> u64 \<Rightarrow> ring_option \<Rightarrow> ring \<Rightarrow> 'w \<Rightarrow> (error_code \<times> ring \<times> 'w) option" where
  "do_init lib queue_depth opt r w = do {
     IOUXX_ASSERT (\<not> valid r);
     let (ev, raw, w) = lib_queue_init_params lib (ucast queue_depth) (to_params opt) w;
     let r = r\<lparr>raw_ring := raw\<rparr>;
     if ev < 0 then Some (make_system_error_code (- ev), r\<lparr>raw_ring := invalid_ring\<rparr>, w)
     else
       (case lib_get_probe_ring lib (raw_ring r) w of
          (Some raw, w) \<Rightarrow> (let (r, w) = probe_reset lib (Some raw) r w in Some (no_error, r, w))
        | (None, w) \<Rightarrow> do {
            (r, w) \<leftarrow> ring_exit lib r w;
            Some (make_error_code Not_enough_memory, r, w)
          })
   }"

text \<open>The throwing constructor; on an error the members of the half-built object are destroyed.\<close>

definition ring_ctor ::
  "'w liburing \<Rightarrow> u64 \<Rightarrow> u64 \<Rightarrow> ring_option \<Rightarrow> 'w \<Rightarrow> (ring expected \<times> 'w) option" where
  "ring_ctor lib addr queue_depth opt w = do {
     (ec, r, w) \<leftarrow> do_init lib queue_depth opt (ring_default addr) w;
     if is_error ec
     then Some (Inl ec, snd (probe_reset lib None r (fold (buffer_ring_destroy lib) (buffer_rings r) w)))
     else Some (Inr r, w)
   }"

definition reinit ::
  "'w liburing \<Rightarrow> u64 \<Rightarrow> ring_option \<Rightarrow> ring \<Rightarrow> 'w \<Rightarrow> (error_code \<times> ring \<times> 'w) option" where
  "reinit lib queue_depth opt r w = do {
     (r, w) \<leftarrow> ring_exit lib r w;
     do_init lib queue_depth opt r w
   }"

section \<open>Submission and completion queues\<close>

text \<open>\<open>sqe\<close> is \<open>None\<close> for the null pointer.\<close>

definition submit :: "'w liburing \<Rightarrow> nat option \<Rightarrow> ring \<Rightarrow> 'w \<Rightarrow> (error_code \<times> 'w) option" where
  "submit lib sqe r w = do {
     IOUXX_ASSERT (valid r);
     if sqe = None then Some (make_error_code Resource_unavailable_try_again, w)
     else do {
       raw \<leftarrow> native r;
       let (ev, w) = lib_submit lib raw w;
       if ev < 0 then Some (make_system_error_code (- ev), w) else Some (no_error, w)
     }
   }"

definition fetch_result :: "'w liburing \<Rightarrow> ring \<Rightarrow> 'w \<Rightarrow> (operation_result expected \<times> 'w) option" where
  "fetch_result lib r w = do {
     IOUXX_ASSERT (valid r);
     raw \<leftarrow> native r;
     let (ev, cqe, w) = lib_peek_cqe lib raw w;
     if ev < 0 then Some (fail_ev (- ev), w)
     else do {
       raw \<leftarrow> native r;
       Some (Inr (operation_result_of cqe), lib_cqe_seen lib raw w)
     }
   }"

definition wait_for_result ::
  "'w liburing \<Rightarrow> int \<Rightarrow> ring \<Rightarrow> 'w \<Rightarrow> (operation_result expected \<times> 'w) option" where
  "wait_for_result lib timeout r w = do {
     IOUXX_ASSERT (valid r);
     raw \<leftarrow> native r;
     let (ev, cqe, w) =
       (if timeout \<noteq> 0 then lib_wait_cqe_timeout lib raw (to_kernel_timespec timeout) w
        else lib_wait_cqe lib raw w);
     if ev < 0 then Some (fail_ev (- ev), w)
     else do {
       raw \<leftarrow> native r;
       Some (Inr (operation_result_of cqe), lib_cqe_seen lib raw w)
     }
   }"

section \<open>Registration\<close>

text \<open>The common shape of the methods that make one registration call and return its status.\<close>

definition register_status ::
  "'w liburing \<Rightarrow> register_call \<Rightarrow> ring \<Rightarrow> 'w \<Rightarrow> (error_code \<times> 'w) option" where
  "register_status lib call r w = do {
     raw \<leftarrow> native r;
     let (ev, w) = lib_register lib raw call w;
     Some (make_system_error_code (- ev), w)
   }"

text \<open>The same inside a \<open>try\<close> block that converts an exception into \<open>ENOMEM\<close>.\<close>

definition register_alloc ::
  "'w liburing \<Rightarrow> bool \<Rightarrow> register_call \<Rightarrow> ring \<Rightarrow> 'w \<Rightarrow> (error_code \<times> 'w) option" where
  "register_alloc lib alloc call r w = do {
     IOUXX_ASSERT (valid r);
     if alloc then register_status lib call r w
     else Some (make_error_code Not_enough_memory, w)
   }"

definition start_from_disabled :: "'w liburing \<Rightarrow> ring \<Rightarrow> 'w \<Rightarrow> (error_code \<times> 'w) option" where
  "start_from_disabled lib r w = register_status lib Reg_enable_rings r w"

definition register_buffer_table :: "'w liburing \<Rightarrow> u64 \<Rightarrow> ring \<Rightarrow> 'w \<Rightarrow> (error_code \<times> 'w) option" where
  "register_buffer_table lib sz r w = do {
     IOUXX_ASSERT (valid r);
     register_status lib (Reg_buffers_sparse (ucast sz)) r w }"

definition update_buffer_table_tagged ::
  "'w liburing \<Rightarrow> bool \<Rightarrow> u64 \<Rightarrow> byte_span list \<Rightarrow> u64 \<Rightarrow> ring \<Rightarrow> 'w \<Rightarrow> (error_code \<times> 'w) option" where
  "update_buffer_table_tagged lib alloc offset buffers unreg_op r w =
     (let iovecs = to_iovecs buffers; tags = replicate (length iovecs) (to_tag unreg_op)
      in register_alloc lib alloc (Reg_buffers_update_tag (ucast offset) iovecs (Some tags)) r w)"

definition update_buffer_table ::
  "'w liburing \<Rightarrow> bool \<Rightarrow> u64 \<Rightarrow> byte_span list \<Rightarrow> ring \<Rightarrow> 'w \<Rightarrow> (error_code \<times> 'w) option" where
  "update_buffer_table lib alloc offset buffers r w =
     register_alloc lib alloc (Reg_buffers_update_tag (ucast offset) (to_iovecs buffers) None) r w"

definition register_buffers_tagged ::
  "'w liburing \<Rightarrow> bool \<Rightarrow> byte_span list \<Rightarrow> u64 \<Rightarrow> ring \<Rightarrow> 'w \<Rightarrow> (error_code \<times> 'w) option" where
  "register_buffers_tagged lib alloc buffers unreg_op r w =
     (let iovecs = to_iovecs buffers; tags = replicate (length iovecs) (to_tag unreg_op)
      in register_alloc lib alloc (Reg_buffers_tags iovecs tags) r w)"

definition register_buffers ::
  "'w liburing \<Rightarrow> bool \<Rightarrow> byte_span list \<Rightarrow> ring \<Rightarrow> 'w \<Rightarrow> (error_code \<times> 'w) option" where
  "register_buffers lib alloc buffers r w =
     register_alloc lib alloc (Reg_buffers (to_iovecs buffers)) r w"

definition register_direct_descriptor_table_alloc_range ::
  "'w liburing \<Rightarrow> u64 \<Rightarrow> u64 \<Rightarrow> ring \<Rightarrow> 'w \<Rightarrow> (error_code \<times> 'w) option" where
  "register_direct_descriptor_table_alloc_range lib offset len r w = do {
     IOUXX_ASSERT (valid r);
     register_status lib (Reg_file_alloc_range (ucast offset) (ucast len)) r w }"

definition register_direct_descriptor_table ::
  "'w liburing \<Rightarrow> u64 \<Rightarrow> bool \<Rightarrow> ring \<Rightarrow> 'w \<Rightarrow> (error_code \<times> 'w) option" where
  "register_direct_descriptor_table lib sz all_alloc r w = do {
     IOUXX_ASSERT (valid r);
     raw \<leftarrow> native r;
     let (ev, w) = lib_register lib raw (Reg_files_sparse (ucast sz)) w;
     if ev \<ge> 0 \<and> all_alloc then register_direct_descriptor_table_alloc_range lib 0 sz r w
     else Some (make_system_error_code (- ev), w)
   }"

definition update_direct_descriptor_table ::
  "'w liburing \<Rightarrow> u64 \<Rightarrow> int list \<Rightarrow> ring \<Rightarrow> 'w \<Rightarrow> (error_code \<times> 'w) option" where
  "update_direct_descriptor_table lib offset fds r w = do {
     IOUXX_ASSERT (valid r);
     register_status lib (Reg_files_update (ucast offset) fds) r w }"

definition register_direct_descriptors ::
  "'w liburing \<Rightarrow> int list \<Rightarrow> ring \<Rightarrow> 'w \<Rightarrow> (error_code \<times> 'w) option" where
  "register_direct_descriptors lib fds r w = do {
     IOUXX_ASSERT (valid r);
     register_status lib (Reg_files fds) r w }"

section \<open>Buffer groups\<close>

text \<open>
  A \<open>buffer_group\<close> holds a pointer to an element of \<open>buffer_rings\<close>: its index, or \<open>None\<close> for
  null. The vector is never resized while a ring is valid, so the pointer stays an index.
\<close>

type_synonym buffer_group = "nat option"

definition register_buffer_group ::
  "'w liburing \<Rightarrow> u16 \<Rightarrow> u16 \<Rightarrow> bool \<Rightarrow> ring \<Rightarrow> 'w \<Rightarrow> (buffer_group expected \<times> ring \<times> 'w) option" where
  "register_buffer_group lib entries bgid inc_consume r w =
     (let i = unat bgid; br = buffer_rings r ! i
      in if buffer_ring_valid br then Some (fail_errc File_exists, r, w)
         else do {
           raw \<leftarrow> native r;
           (case buffer_ring_make lib (ring_addr r) raw (ucast entries) (uint bgid)
                   (if inc_consume then 0 else IOU_PBUF_RING_INC) w of
              (Inl e, w) \<Rightarrow> Some (Inl e, r, w)
            | (Inr new, w) \<Rightarrow>
                (case buffer_ring_assign lib br new w of
                   (br', new', w) \<Rightarrow>
                     Some (Inr (Some i), r\<lparr>buffer_rings := (buffer_rings r)[i := br']\<rparr>,
                           buffer_ring_destroy lib new' w)))
         })"

definition unregister_buffer_group :: "'w liburing \<Rightarrow> u16 \<Rightarrow> ring \<Rightarrow> 'w \<Rightarrow> ring \<times> 'w" where
  "unregister_buffer_group lib bgid r w =
     (let i = unat bgid; br = buffer_rings r ! i
      in if buffer_ring_valid br then
           (case buffer_ring_assign lib br buffer_ring_default w of
              (br', tmp, w) \<Rightarrow>
                (r\<lparr>buffer_rings := (buffer_rings r)[i := br']\<rparr>, buffer_ring_destroy lib tmp w))
         else (r, w))"

definition find_buffer_group :: "u16 \<Rightarrow> ring \<Rightarrow> buffer_group" where
  "find_buffer_group bgid r =
     (let i = unat bgid in if buffer_ring_valid (buffer_rings r ! i) then Some i else None)"

definition group_insert ::
  "'w liburing \<Rightarrow> buffer_group \<Rightarrow> byte_span \<Rightarrow> u16 \<Rightarrow> ring \<Rightarrow> 'w \<Rightarrow> 'w option" where
  "group_insert lib g buffer bid r w = do {
     IOUXX_ASSERT (g \<noteq> None);
     Some (buffer_ring_insert lib (buffer_rings r ! the g) buffer bid w) }"

definition group_insert_range ::
  "'w liburing \<Rightarrow> bool \<Rightarrow> buffer_group \<Rightarrow> byte_span list \<Rightarrow> u16 list \<Rightarrow> ring \<Rightarrow> 'w
     \<Rightarrow> (error_code \<times> 'w) option" where
  "group_insert_range lib alloc g buffers bids r w = do {
     IOUXX_ASSERT (g \<noteq> None);
     buffer_ring_insert_range lib alloc (buffer_rings r ! the g) buffers bids w }"

section \<open>Features, NAPI and workers\<close>

definition supported_features :: "ring \<Rightarrow> u32 option" where
  "supported_features r = do { IOUXX_ASSERT (valid r); Some (features (raw_ring r)) }"

definition test_feature :: "u32 \<Rightarrow> ring \<Rightarrow> bool option" where
  "test_feature f r = do {
     IOUXX_ASSERT (valid r);
     s \<leftarrow> supported_features r;
     Some (s AND f = f) }"

definition ring_setup_flags :: "ring \<Rightarrow> u32 option" where
  "ring_setup_flags r = do { IOUXX_ASSERT (valid r); Some (setup_flags (raw_ring r)) }"

definition test_flag :: "u32 \<Rightarrow> ring \<Rightarrow> bool option" where
  "test_flag f r = do {
     IOUXX_ASSERT (valid r);
     s \<leftarrow> ring_setup_flags r;
     Some (s AND f = f) }"

text \<open>\<open>busy_poll_to\<close> counts microseconds.\<close>

record napi_config =
  busy_poll_to :: int
  prefer_busy_poll :: bool

definition register_napi ::
  "'w liburing \<Rightarrow> int \<Rightarrow> bool \<Rightarrow> ring \<Rightarrow> 'w \<Rightarrow> (napi_config expected \<times> 'w) option" where
  "register_napi lib timeout prefer r w = do {
     IOUXX_ASSERT (valid r);
     raw \<leftarrow> native r;
     let (ev, to, pb, w) = lib_register_napi lib raw (word_of_int timeout) (if prefer then 1 else 0) w;
     if ev = 0 then Some (Inr \<lparr>busy_poll_to = uint to, prefer_busy_poll = (pb \<noteq> 0)\<rparr>, w)
     else Some (fail_ev (- ev), w)
   }"

definition unregister_napi :: "'w liburing \<Rightarrow> ring \<Rightarrow> 'w \<Rightarrow> (napi_config expected \<times> 'w) option" where
  "unregister_napi lib r w = do {
     IOUXX_ASSERT (valid r);
     raw \<leftarrow> native r;
     let (ev, to, pb, w) = lib_unregister_napi lib raw 0 0 w;
     if ev = 0 then Some (Inr \<lparr>busy_poll_to = uint to, prefer_busy_poll = (pb \<noteq> 0)\<rparr>, w)
     else Some (fail_ev (- ev), w)
   }"

text \<open>\<open>CPU_SET\<close> on a \<open>cpu_set_t\<close> of 1024 bits ignores larger numbers.\<close>

definition cpu_mask :: "u32 list \<Rightarrow> u32 set" where
  "cpu_mask cpus = set (filter (\<lambda>c. c < 1024) cpus)"

definition set_worker_affinity :: "'w liburing \<Rightarrow> u32 list \<Rightarrow> ring \<Rightarrow> 'w \<Rightarrow> (error_code \<times> 'w) option" where
  "set_worker_affinity lib thread_cpus r w = register_status lib (Reg_iowq_aff (cpu_mask thread_cpus)) r w"

definition reset_worker_affinity :: "'w liburing \<Rightarrow> ring \<Rightarrow> 'w \<Rightarrow> (error_code \<times> 'w) option" where
  "reset_worker_affinity lib r w = register_status lib Unreg_iowq_aff r w"

record worker_maximum =
  bounded :: u32
  unbounded :: u32

definition current_worker_maximum ::
  "'w liburing \<Rightarrow> ring \<Rightarrow> 'w \<Rightarrow> (worker_maximum \<times> 'w) option" where
  "current_worker_maximum lib r w = do {
     IOUXX_ASSERT (valid r);
     raw \<leftarrow> native r;
     let (ev, b, u, w) = lib_register_iowq_max_workers lib raw 0 0 w;
     IOUXX_ASSERT (ev = 0);
     Some (\<lparr>bounded = b, unbounded = u\<rparr>, w)
   }"

definition set_worker_maximum ::
  "'w liburing \<Rightarrow> u32 \<Rightarrow> u32 \<Rightarrow> ring \<Rightarrow> 'w \<Rightarrow> (error_code \<times> 'w) option" where
  "set_worker_maximum lib b u r w = do {
     IOUXX_ASSERT (valid r);
     raw \<leftarrow> native r;
     let (ev, b', u', w) = lib_register_iowq_max_workers lib raw b u w;
     Some (make_system_error_code (- ev), w)
   }"

end
