(* ===== verification/Ring_Invariant.thy ===== *)
theory Ring_Invariant
  imports Ring "HOL-Library.Multiset"
begin

text \<open>
  The invariant of \<open>ring\<close> objects: what the code relies on of liburing, and that every method of
  the class keeps the invariant. \<open>Ring_Resources\<close> lifts it to the whole life of a ring.
\<close>

section \<open>What the code relies on of liburing\<close>

text \<open>
  Documented behaviour: a successful \<open>io_uring_queue_init_params\<close> leaves a descriptor in
  \<open>ring_fd\<close>, and a successful \<open>io_uring_setup_buf_ring\<close> returns a non-null pointer.
\<close>

definition init_gives_fd :: "'w liburing \<Rightarrow> bool" where
  "init_gives_fd lib \<longleftrightarrow>
     (\<forall>n p w ev raw w'. lib_queue_init_params lib n p w = (ev, raw, w') \<longrightarrow> 0 \<le> ev \<longrightarrow> 0 \<le> ring_fd raw)"

definition setup_gives_pointer :: "'w liburing \<Rightarrow> bool" where
  "setup_gives_pointer lib \<longleftrightarrow>
     (\<forall>raw n g f w p err w'. lib_setup_buf_ring lib raw n g f w = (p, err, w') \<longrightarrow> 0 \<le> err \<longrightarrow> p \<noteq> 0)"

section \<open>The invariant\<close>

definition group_ok :: "u64 \<Rightarrow> buffer_ring list \<Rightarrow> nat \<Rightarrow> bool" where
  "group_ok addr brs i \<longleftrightarrow>
     (buffer_ring_valid (brs ! i) \<longrightarrow> br_bgid (brs ! i) = int i \<and> br_raw_ring (brs ! i) = addr)"

definition ring_inv :: "ring \<Rightarrow> bool" where
  "ring_inv r \<longleftrightarrow>
     length (buffer_rings r) = buffer_ring_size_max
     \<and> (\<forall>i < buffer_ring_size_max. group_ok (ring_addr r) (buffer_rings r) i)
     \<and> (valid r \<longrightarrow> ring_probe r \<noteq> None)
     \<and> (\<not> valid r \<longrightarrow> raw_ring r = invalid_ring \<and> ring_probe r = None
          \<and> buffer_rings r = replicate buffer_ring_size_max buffer_ring_default)"

lemma valid_default [simp]: "\<not> valid (ring_default addr)"
  by (simp add: valid_def ring_default_def invalid_ring_def)

lemma ring_addr_default [simp]: "ring_addr (ring_default addr) = addr"
  by (simp add: ring_default_def)

lemma default_invalid_raw [simp]: "(ring_default addr)\<lparr>raw_ring := invalid_ring\<rparr> = ring_default addr"
  by (simp add: ring_default_def)

lemma not_valid_buffer_ring_default [simp]: "\<not> buffer_ring_valid buffer_ring_default"
  by (simp add: buffer_ring_valid_def buffer_ring_default_def)

lemma bgid_in_range [simp]: "unat (bgid :: u16) < buffer_ring_size_max"
  using unsigned_less [of bgid] by (simp add: buffer_ring_size_max_def)

lemma ring_inv_default [simp]: "ring_inv (ring_default addr)"
  by (simp add: ring_inv_def group_ok_def) (simp add: ring_default_def)

lemma ring_inv_invalid: "ring_inv r \<Longrightarrow> \<not> valid r \<Longrightarrow> r = ring_default (ring_addr r)"
  by (cases r) (simp add: ring_inv_def ring_default_def)

lemma destroy_invalid [simp]: "\<not> buffer_ring_valid b \<Longrightarrow> buffer_ring_destroy lib b w = w"
  by (simp add: buffer_ring_destroy_def buffer_ring_valid_def)

lemma fold_destroy_default [simp]:
  "fold (buffer_ring_destroy lib) (replicate n buffer_ring_default) w = w"
  by (induction n) simp_all

section \<open>exit and initialisation never abort\<close>

lemma stop_valid:
  "valid r \<Longrightarrow> \<exists>ev w'. stop lib t r w = Some (make_system_error_code ev, w')"
  by (cases "t = 0") (auto simp: stop_def native_def Let_def split: prod.splits)

lemma system_not_invalid_argument: "Inl (make_system_error_code ev) \<noteq> (fail_invalid_argument :: 'a expected)"
  by (simp add: fail_invalid_argument_def fail_errc_def make_system_error_code_def make_error_code_def no_error_def)

lemma ring_exit_valid:
  assumes "valid r"
  shows "ring_exit lib r w = Some (ring_default (ring_addr r),
    lib_queue_exit lib (raw_ring r) (fold (buffer_ring_destroy lib) (buffer_rings r)
      (snd (probe_reset lib None r (snd (the (stop lib 0 r w)))))))"
proof -
  obtain ev w' where s: "stop lib 0 r w = Some (make_system_error_code ev, w')"
    using stop_valid [OF assms, of lib 0 w] by auto
  show ?thesis
    using assms by (simp add: ring_exit_def s system_not_invalid_argument probe_reset_def ring_default_def Let_def)
qed

lemma ring_exit_invalid [simp]: "\<not> valid r \<Longrightarrow> ring_exit lib r w = Some (r, w)"
  by (simp add: ring_exit_def)

lemma ring_exit_default:
  "ring_inv r \<Longrightarrow> \<exists>w'. ring_exit lib r w = Some (ring_default (ring_addr r), w')"
  by (cases "valid r") (auto simp: ring_exit_valid dest: ring_inv_invalid)

lemma do_init_cases:
  assumes "init_gives_fd lib"
    and "do_init lib n opt (ring_default addr) w = Some (ec, r', w')"
  shows "ring_inv r' \<and> ring_addr r' = addr \<and> buffer_rings r' = buffer_rings (ring_default addr)
    \<and> (is_error ec \<longleftrightarrow> \<not> valid r')"
proof -
  obtain ev raw w1 where q: "lib_queue_init_params lib (ucast n) (to_params opt) w = (ev, raw, w1)"
    by (metis prod_cases3)
  obtain p w2 where g: "lib_get_probe_ring lib raw w1 = (p, w2)" by (metis prod.exhaust)
  let ?r = "(ring_default addr)\<lparr>raw_ring := raw\<rparr>"
  show ?thesis
  proof (cases "ev < 0")
    case True
    then have "r' = ring_default addr \<and> ec = make_system_error_code (- ev)"
      using assms(2) q by (auto simp: do_init_def)
    with True show ?thesis by (simp add: is_error_def make_system_error_code_def)
  next
    case False
    then have v: "valid ?r" using assms(1) q unfolding init_gives_fd_def valid_def by (metis linorder_not_less ring.select_convs(2) ring.surjective ring.update_convs(2))
    show ?thesis
    proof (cases p)
      case None
      then have "r' = ring_default addr \<and> ec = make_error_code Not_enough_memory"
        using assms(2) q g False v by (auto simp: do_init_def ring_exit_valid)
      then show ?thesis by simp
    next
      case (Some pr)
      then have "r' = ?r\<lparr>ring_probe := Some pr\<rparr> \<and> ec = no_error"
        using assms(2) q g False by (auto simp: do_init_def probe_reset_def)
      with v show ?thesis
        by (simp add: ring_inv_def valid_def group_ok_def) (simp add: ring_default_def)
    qed
  qed
qed

lemma ring_exit_total: "\<exists>r' w'. ring_exit lib r w = Some (r', w')"
  by (cases "valid r") (simp_all add: ring_exit_valid)

lemma do_init_total:
  assumes "\<not> valid r"
  shows "\<exists>ec r' w'. do_init lib n opt r w = Some (ec, r', w')"
proof -
  obtain ev raw w1 where q: "lib_queue_init_params lib (ucast n) (to_params opt) w = (ev, raw, w1)"
    by (metis prod_cases3)
  obtain p w2 where g: "lib_get_probe_ring lib raw w1 = (p, w2)" by (metis prod.exhaust)
  obtain r3 w3 where "ring_exit lib (r\<lparr>raw_ring := raw\<rparr>) w2 = Some (r3, w3)" using ring_exit_total [of lib "r\<lparr>raw_ring := raw\<rparr>" w2] by auto
  with q g assms show ?thesis by (cases p) (simp_all add: do_init_def probe_reset_def Let_def)
qed

lemma reinit_as_init:
  "ring_inv r \<Longrightarrow> \<exists>w1. reinit lib n opt r w = do_init lib n opt (ring_default (ring_addr r)) w1"
  using ring_exit_default [of r lib w] by (auto simp: reinit_def)

section \<open>Buffer groups keep the invariant\<close>

lemma buffer_ring_assign_invalid:
  "\<not> buffer_ring_valid b \<Longrightarrow> buffer_ring_assign lib b new w
     = (new, new\<lparr>br_buf_ring := 0, br_entries := 0, br_bgid := -1\<rparr>, w)"
  by (simp add: buffer_ring_assign_def buffer_ring_move_def)

lemma moved_from_invalid [simp]:
  "\<not> buffer_ring_valid (b\<lparr>br_buf_ring := 0, br_entries := n, br_bgid := g\<rparr>)"
  by (simp add: buffer_ring_valid_def)

text \<open>The three outcomes of \<open>register_buffer_group\<close>.\<close>

lemma register_buffer_group_cases:
  assumes "register_buffer_group lib n bgid inc r w = Some (res, r', w')"
  obtains (exists) "buffer_ring_valid (buffer_rings r ! unat bgid)" "res = fail_errc File_exists" "r' = r" "w' = w"
  | (failed) err p where "\<not> buffer_ring_valid (buffer_rings r ! unat bgid)" "valid r"
      "lib_setup_buf_ring lib (raw_ring r) (ucast n) (uint bgid) (if inc then 0 else IOU_PBUF_RING_INC) w = (p, err, w')"
      "err < 0" "res = fail_ev (- err)" "r' = r"
  | (made) err p where "\<not> buffer_ring_valid (buffer_rings r ! unat bgid)" "valid r"
      "lib_setup_buf_ring lib (raw_ring r) (ucast n) (uint bgid) (if inc then 0 else IOU_PBUF_RING_INC) w = (p, err, w')"
      "0 \<le> err" "res = Inr (Some (unat bgid))"
      "r' = r\<lparr>buffer_rings := (buffer_rings r)[unat bgid :=
         \<lparr>br_raw_ring = ring_addr r, br_buf_ring = p, br_entries = ucast n, br_bgid = uint bgid\<rparr>]\<rparr>"
proof (cases "buffer_ring_valid (buffer_rings r ! unat bgid)")
  case True
  with assms show thesis by (intro exists) (auto simp: register_buffer_group_def)
next
  case False
  obtain p err w1 where q: "lib_setup_buf_ring lib (raw_ring r) (ucast n) (uint bgid)
      (if inc then 0 else IOU_PBUF_RING_INC) w = (p, err, w1)" by (metis prod_cases3)
  from assms False have v: "valid r" by (auto simp: register_buffer_group_def native_def split: if_splits)
  show thesis
  proof (cases "err < 0")
    case True
    with assms False q v show thesis
      by (intro failed) (auto simp: register_buffer_group_def native_def buffer_ring_make_def fail_ev_def)
  next
    case err: False
    with assms False q v show thesis
      by (intro made) (auto simp: register_buffer_group_def native_def buffer_ring_make_def
        buffer_ring_assign_invalid buffer_ring_destroy_def Let_def)
  qed
qed

lemma unregister_buffer_group_eq:
  "unregister_buffer_group lib bgid r w =
     (r\<lparr>buffer_rings := (buffer_rings r)[unat bgid :=
         (if buffer_ring_valid (buffer_rings r ! unat bgid) then buffer_ring_default
          else buffer_rings r ! unat bgid)]\<rparr>,
      buffer_ring_destroy lib (buffer_rings r ! unat bgid) w)"
  by (simp add: unregister_buffer_group_def buffer_ring_assign_def buffer_ring_move_def Let_def)

lemma group_ok_update:
  assumes "\<forall>i < length brs. group_ok addr brs i" "group_ok addr (brs[j := b]) j"
  shows "\<forall>i < length brs. group_ok addr (brs[j := b]) i"
proof (intro allI impI)
  fix i assume "i < length brs"
  with assms show "group_ok addr (brs[j := b]) i"
    by (cases "i = j") (auto simp: group_ok_def)
qed

lemma ring_inv_update:
  assumes "ring_inv r" "valid r" "j < buffer_ring_size_max"
    and "buffer_ring_valid b \<Longrightarrow> br_bgid b = int j \<and> br_raw_ring b = ring_addr r"
  shows "ring_inv (r\<lparr>buffer_rings := (buffer_rings r)[j := b]\<rparr>)"
proof -
  from assms have l: "length (buffer_rings r) = buffer_ring_size_max" by (simp add: ring_inv_def)
  have "group_ok (ring_addr r) ((buffer_rings r)[j := b]) j"
    using assms l by (simp add: group_ok_def)
  moreover have "\<forall>i < length (buffer_rings r). group_ok (ring_addr r) (buffer_rings r) i"
    using assms(1) l by (simp add: ring_inv_def)
  ultimately have "\<forall>i < length (buffer_rings r). group_ok (ring_addr r) ((buffer_rings r)[j := b]) i"
    by (rule group_ok_update [rotated])
  with assms(1,2) l show ?thesis by (simp add: ring_inv_def valid_def)
qed

lemma register_buffer_group_inv:
  assumes "ring_inv r" "register_buffer_group lib n bgid inc r w = Some (res, r', w')"
  shows "ring_inv r' \<and> ring_addr r' = ring_addr r"
  using assms(2)
proof (cases rule: register_buffer_group_cases)
  case (made err p)
  then show ?thesis using ring_inv_update [OF assms(1), of "unat bgid"] by simp
qed (use assms(1) in simp_all)

lemma unregister_buffer_group_inv:
  assumes "ring_inv r" "unregister_buffer_group lib bgid r w = (r', w')"
  shows "ring_inv r' \<and> ring_addr r' = ring_addr r"
proof (cases "buffer_ring_valid (buffer_rings r ! unat bgid)")
  case True
  then have "valid r"
    using assms(1) by (cases "valid r") (auto simp: ring_inv_def)
  with True assms ring_inv_update [OF assms(1), of "unat bgid" buffer_ring_default]
  show ?thesis by (auto simp: unregister_buffer_group_eq)
next
  case False
  with assms show ?thesis by (auto simp: unregister_buffer_group_eq)
qed

end
