(* ===== verification/Ring_Resources.thy ===== *)
theory Ring_Resources
  imports Ring_Invariant
begin

text \<open>
  The life of a \<open>ring\<close> as a step relation, and the accounting of the kernel resources it owns:
  the code runs on a liburing that counts the rings, probes and buffer rings it has handed out.
\<close>

section \<open>The life of a ring\<close>

text \<open>
  \<open>other\<close> is whatever the rest of the program and the kernel do to the world between two of the
  calls that change the ring object: submissions, completions, registrations.
\<close>

inductive ring_run ::
  "'w liburing \<Rightarrow> ('w \<Rightarrow> 'w \<Rightarrow> bool) \<Rightarrow> u64 \<Rightarrow> 'w \<Rightarrow> ring \<Rightarrow> 'w \<Rightarrow> bool"
  for lib other addr w0 where
  run_default: "ring_run lib other addr w0 (ring_default addr) w0"
| run_ctor: "ring_ctor lib addr n opt w0 = Some (Inr r, w) \<Longrightarrow> ring_run lib other addr w0 r w"
| run_reinit: "ring_run lib other addr w0 r w \<Longrightarrow> reinit lib n opt r w = Some (ec, r', w') \<Longrightarrow>
    ring_run lib other addr w0 r' w'"
| run_exit: "ring_run lib other addr w0 r w \<Longrightarrow> ring_exit lib r w = Some (r', w') \<Longrightarrow>
    ring_run lib other addr w0 r' w'"
| run_register: "ring_run lib other addr w0 r w \<Longrightarrow>
    register_buffer_group lib entries bgid inc r w = Some (res, r', w') \<Longrightarrow>
    ring_run lib other addr w0 r' w'"
| run_unregister: "ring_run lib other addr w0 r w \<Longrightarrow>
    unregister_buffer_group lib bgid r w = (r', w') \<Longrightarrow>
    ring_run lib other addr w0 r' w'"
| run_other: "ring_run lib other addr w0 r w \<Longrightarrow> other w w' \<Longrightarrow> ring_run lib other addr w0 r w'"

lemma ring_ctor_init:
  assumes "ring_ctor lib addr n opt w = Some (Inr r, w')"
  shows "\<exists>ec. do_init lib n opt (ring_default addr) w = Some (ec, r, w') \<and> \<not> is_error ec"
proof -
  obtain ec r1 w1 where d: "do_init lib n opt (ring_default addr) w = Some (ec, r1, w1)"
    using do_init_total [of "ring_default addr" lib n opt w] by auto
  with assms show ?thesis by (simp add: ring_ctor_def split: if_splits)
qed

lemma ring_run_inv:
  assumes "init_gives_fd lib" "ring_run lib other addr w0 r w"
  shows "ring_inv r \<and> ring_addr r = addr"
  using assms(2)
proof induction
  case (run_ctor n opt r w)
  then show ?case using do_init_cases [OF assms(1)] ring_ctor_init by metis
next
  case (run_reinit r w n opt ec r' w')
  then show ?case using do_init_cases [OF assms(1)] reinit_as_init by metis
next
  case (run_exit r w r' w')
  then show ?case using ring_exit_default [of r lib w] by auto
next
  case (run_register r w entries bgid inc res r' w')
  then show ?case using register_buffer_group_inv by metis
next
  case (run_unregister r w bgid r' w')
  then show ?case using unregister_buffer_group_inv by metis
qed simp_all

section \<open>A counting liburing\<close>

record account =
  acc_live :: "u64 multiset"
  acc_probes :: nat
  acc_rings :: nat
  acc_fault :: bool

text \<open>
  A fault is a free of something that is not outstanding, or the exit of a ring whose buffer
  rings are still registered.
\<close>

definition acc_setup :: "int \<Rightarrow> u64 \<Rightarrow> account \<Rightarrow> account" where
  "acc_setup err p a = (if err < 0 then a else a\<lparr>acc_live := add_mset p (acc_live a)\<rparr>)"

definition acc_free :: "u64 \<Rightarrow> account \<Rightarrow> account" where
  "acc_free p a = a\<lparr>acc_live := acc_live a - {#p#}, acc_fault := (acc_fault a \<or> p \<notin># acc_live a)\<rparr>"

definition acc_init :: "int \<Rightarrow> account \<Rightarrow> account" where
  "acc_init ev a = (if ev < 0 then a else a\<lparr>acc_rings := acc_rings a + 1\<rparr>)"

definition acc_exit :: "account \<Rightarrow> account" where
  "acc_exit a = a\<lparr>acc_rings := acc_rings a - 1,
     acc_fault := (acc_fault a \<or> acc_rings a = 0 \<or> acc_live a \<noteq> {#})\<rparr>"

definition acc_probe :: "probe option \<Rightarrow> account \<Rightarrow> account" where
  "acc_probe p a = (if p = None then a else a\<lparr>acc_probes := acc_probes a + 1\<rparr>)"

definition acc_free_probe :: "account \<Rightarrow> account" where
  "acc_free_probe a = a\<lparr>acc_probes := acc_probes a - 1, acc_fault := (acc_fault a \<or> acc_probes a = 0)\<rparr>"

text \<open>Calls that are not counted act on the world only.\<close>

definition uncounted :: "('w \<Rightarrow> 'a \<times> 'w) \<Rightarrow> 'w \<times> account \<Rightarrow> 'a \<times> 'w \<times> account" where
  "uncounted f = (\<lambda>(w, a). let (x, w') = f w in (x, w', a))"

definition uncounted3 :: "('w \<Rightarrow> 'a \<times> 'b \<times> 'w) \<Rightarrow> 'w \<times> account \<Rightarrow> 'a \<times> 'b \<times> 'w \<times> account" where
  "uncounted3 f = (\<lambda>(w, a). let (x, y, w') = f w in (x, y, w', a))"

definition uncounted4 :: "('w \<Rightarrow> 'a \<times> 'b \<times> 'c \<times> 'w) \<Rightarrow> 'w \<times> account \<Rightarrow> 'a \<times> 'b \<times> 'c \<times> 'w \<times> account" where
  "uncounted4 f = (\<lambda>(w, a). let (x, y, z, w') = f w in (x, y, z, w', a))"

definition track :: "'w liburing \<Rightarrow> ('w \<times> account) liburing" where
  "track lib =
     \<lparr>lib_queue_init_params = (\<lambda>n p (w, a). let (ev, raw, w') = lib_queue_init_params lib n p w in (ev, raw, w', acc_init ev a)),
      lib_get_probe_ring = (\<lambda>raw (w, a). let (p, w') = lib_get_probe_ring lib raw w in (p, w', acc_probe p a)),
      lib_free_probe = (\<lambda>p (w, a). (lib_free_probe lib p w, acc_free_probe a)),
      lib_register_sync_cancel = (\<lambda>raw reg. uncounted (lib_register_sync_cancel lib raw reg)),
      lib_queue_exit = (\<lambda>raw (w, a). (lib_queue_exit lib raw w, acc_exit a)),
      lib_get_sqe = (\<lambda>raw. uncounted (lib_get_sqe lib raw)),
      lib_write_sqe = (\<lambda>i ws (w, a). (lib_write_sqe lib i ws w, a)),
      lib_submit = (\<lambda>raw. uncounted (lib_submit lib raw)),
      lib_peek_cqe = (\<lambda>raw. uncounted3 (lib_peek_cqe lib raw)),
      lib_wait_cqe = (\<lambda>raw. uncounted3 (lib_wait_cqe lib raw)),
      lib_wait_cqe_timeout = (\<lambda>raw ts. uncounted3 (lib_wait_cqe_timeout lib raw ts)),
      lib_cqe_seen = (\<lambda>raw (w, a). (lib_cqe_seen lib raw w, a)),
      lib_register = (\<lambda>raw c. uncounted (lib_register lib raw c)),
      lib_setup_buf_ring = (\<lambda>raw n g f (w, a).
        let (p, err, w') = lib_setup_buf_ring lib raw n g f w in (p, err, w', acc_setup err p a)),
      lib_free_buf_ring = (\<lambda>addr p n g (w, a). (lib_free_buf_ring lib addr p n g w, acc_free p a)),
      lib_buf_ring_mask = lib_buf_ring_mask lib,
      lib_buf_ring_add = (\<lambda>p v b m o' (w, a). (lib_buf_ring_add lib p v b m o' w, a)),
      lib_buf_ring_advance = (\<lambda>p n (w, a). (lib_buf_ring_advance lib p n w, a)),
      lib_register_napi = (\<lambda>raw t p. uncounted4 (lib_register_napi lib raw t p)),
      lib_unregister_napi = (\<lambda>raw t p. uncounted4 (lib_unregister_napi lib raw t p)),
      lib_register_iowq_max_workers = (\<lambda>raw b u. uncounted4 (lib_register_iowq_max_workers lib raw b u))\<rparr>"

definition account_empty :: account where
  "account_empty = \<lparr>acc_live = {#}, acc_probes = 0, acc_rings = 0, acc_fault = False\<rparr>"

text \<open>What a ring object owns.\<close>

definition live_ptrs :: "buffer_ring list \<Rightarrow> u64 multiset" where
  "live_ptrs brs = image_mset br_buf_ring (filter_mset buffer_ring_valid (mset brs))"

definition owns :: "ring \<Rightarrow> account" where
  "owns r = \<lparr>acc_live = live_ptrs (buffer_rings r),
     acc_probes = (if ring_probe r = None then 0 else 1),
     acc_rings = (if valid r then 1 else 0), acc_fault = False\<rparr>"

section \<open>Each call keeps the books\<close>

lemma init_gives_fd_track: "init_gives_fd lib \<Longrightarrow> init_gives_fd (track lib)"
  unfolding init_gives_fd_def by (auto simp: track_def Let_def split: prod.splits)

lemma live_ptrs_Nil [simp]: "live_ptrs [] = {#}"
  by (simp add: live_ptrs_def)

lemma live_ptrs_Cons [simp]:
  "live_ptrs (b # brs) = (if buffer_ring_valid b then add_mset (br_buf_ring b) (live_ptrs brs) else live_ptrs brs)"
  by (simp add: live_ptrs_def)

lemma live_ptrs_replicate [simp]: "live_ptrs (replicate n buffer_ring_default) = {#}"
  by (induction n) simp_all

lemma live_ptrs_update:
  assumes "i < length brs"
  shows "live_ptrs (brs[i := b]) =
    (if buffer_ring_valid b then {#br_buf_ring b#} else {#})
    + (live_ptrs brs - (if buffer_ring_valid (brs ! i) then {#br_buf_ring (brs ! i)#} else {#}))"
  using assms by (simp add: live_ptrs_def mset_update image_mset_Diff)

lemma live_ptrs_nth: "i < length brs \<Longrightarrow> buffer_ring_valid (brs ! i) \<Longrightarrow> br_buf_ring (brs ! i) \<in># live_ptrs brs"
  by (simp add: live_ptrs_def)

lemma owns_default [simp]: "owns (ring_default addr) = account_empty"
  by (simp add: owns_def account_empty_def) (simp add: ring_default_def)

lemma destroy_track:
  "buffer_ring_destroy (track lib) b (w, a) =
     (buffer_ring_destroy lib b w, if buffer_ring_valid b then acc_free (br_buf_ring b) a else a)"
  by (simp add: buffer_ring_destroy_def buffer_ring_valid_def track_def)

lemma fold_destroy_track:
  "\<exists>w'. fold (buffer_ring_destroy (track lib)) brs (w, a\<lparr>acc_live := live_ptrs brs\<rparr>) = (w', a\<lparr>acc_live := {#}\<rparr>)"
  by (induction brs arbitrary: w a) (simp_all add: destroy_track acc_free_def)

lemma stop_track: "\<exists>ec w'. stop (track lib) t r (w, a) = Some (ec, w', a)" if "valid r"
  using that by (cases "t = 0")
    (auto simp: stop_def native_def track_def uncounted_def Let_def split: prod.splits)

lemma probe_reset_track:
  "probe_reset (track lib) new r (w, a) =
     (r\<lparr>ring_probe := new\<rparr>,
      (case ring_probe r of None \<Rightarrow> w | Some p \<Rightarrow> lib_free_probe lib p w),
      if ring_probe r = None then a else acc_free_probe a)"
  by (cases "ring_probe r") (simp_all add: probe_reset_def track_def)

text \<open>
  The account a ring leaves behind at \<open>exit\<close>, whether or not its initialisation got as far as the
  probe.
\<close>

lemma ring_exit_track:
  assumes "valid r"
  shows "\<exists>w'. ring_exit (track lib) r (w, owns r) = Some (ring_default (ring_addr r), w', account_empty)"
proof -
  obtain ec w1 where s: "stop (track lib) 0 r (w, owns r) = Some (ec, w1, owns r)"
    using stop_track [OF assms, of lib 0 w "owns r"] by auto
  obtain w2 where p: "snd (probe_reset (track lib) None r (w1, owns r)) = (w2, (owns r)\<lparr>acc_probes := 0\<rparr>)"
    by (auto simp: probe_reset_track owns_def acc_free_probe_def)
  have "(owns r)\<lparr>acc_probes := 0\<rparr> = (owns r)\<lparr>acc_probes := 0, acc_live := live_ptrs (buffer_rings r)\<rparr>"
    by (simp add: owns_def)
  then obtain w3 where f: "fold (buffer_ring_destroy (track lib)) (buffer_rings r) (w2, (owns r)\<lparr>acc_probes := 0\<rparr>)
      = (w3, (owns r)\<lparr>acc_probes := 0, acc_live := {#}\<rparr>)"
    using fold_destroy_track [of lib "buffer_rings r" w2 "(owns r)\<lparr>acc_probes := 0\<rparr>"] by auto
  have "acc_exit ((owns r)\<lparr>acc_probes := 0, acc_live := {#}\<rparr>) = account_empty"
    using assms by (simp add: acc_exit_def owns_def account_empty_def)
  then show ?thesis
    using assms by (simp add: ring_exit_valid s p f) (simp add: track_def)
qed

lemma do_init_track:
  assumes "init_gives_fd lib"
    and d: "do_init (track lib) n opt (ring_default addr) (w, account_empty) = Some (ec, r', w', a')"
  shows "a' = owns r'"
proof -
  obtain ev raw w1 where q: "lib_queue_init_params lib (ucast n) (to_params opt) w = (ev, raw, w1)"
    by (metis prod_cases3)
  obtain p w2 where g: "lib_get_probe_ring lib raw w1 = (p, w2)" by (metis prod.exhaust)
  let ?r = "(ring_default addr)\<lparr>raw_ring := raw\<rparr>"
  have q': "lib_queue_init_params (track lib) (ucast n) (to_params opt) (w, account_empty)
      = (ev, raw, w1, acc_init ev account_empty)" by (simp add: track_def q)
  have g': "lib_get_probe_ring (track lib) raw (w1, a) = (p, w2, acc_probe p a)" for a
    by (simp add: track_def g)
  show ?thesis
  proof (cases "ev < 0")
    case True
    with d q' show ?thesis by (auto simp: do_init_def acc_init_def)
  next
    case False
    then have v: "valid ?r" using assms(1) q unfolding init_gives_fd_def valid_def
      by (metis linorder_not_less ring.select_convs(2) ring.surjective ring.update_convs(2))
    have o: "acc_init ev account_empty = owns ?r"
      using False v by (simp add: acc_init_def owns_def account_empty_def) (simp add: ring_default_def)
    show ?thesis
    proof (cases p)
      case None
      then show ?thesis
        using d False ring_exit_track [OF v, of lib w2] by (auto simp: do_init_def q' g' o acc_probe_def)
    next
      case (Some pr)
      have np: "ring_probe (ring_default addr) = None" by (simp add: ring_default_def)
      then have "r' = ?r\<lparr>ring_probe := Some pr\<rparr> \<and> a' = acc_probe p (owns ?r)"
        using d False Some by (auto simp: do_init_def q' g' o probe_reset_track Let_def)
      with np Some show ?thesis by (simp add: acc_probe_def owns_def valid_def)
    qed
  qed
qed

text \<open>Every step of the life of a ring.\<close>

lemma ring_exit_owns:
  assumes "ring_inv r"
  shows "\<exists>w1. ring_exit (track lib) r (w, owns r) = Some (ring_default (ring_addr r), w1, account_empty)"
proof (cases "valid r")
  case False
  with assms have "r = ring_default (ring_addr r)" by (rule ring_inv_invalid)
  with False show ?thesis by (metis owns_default ring_exit_invalid)
qed (rule ring_exit_track)

lemma reinit_track:
  assumes "init_gives_fd lib" "ring_inv r"
    and "reinit (track lib) n opt r (w, owns r) = Some (ec, r', w', a')"
  shows "a' = owns r'"
proof -
  obtain w1 where "ring_exit (track lib) r (w, owns r) = Some (ring_default (ring_addr r), w1, account_empty)"
    using ring_exit_owns [OF assms(2), of lib w] by auto
  with assms(3) show ?thesis using do_init_track [OF assms(1)] by (simp add: reinit_def)
qed

lemma register_track:
  assumes "setup_gives_pointer lib" "ring_inv r"
    and reg: "register_buffer_group (track lib) n bgid inc r (w, owns r) = Some (res, r', w', a')"
  shows "a' = owns r'"
  using reg
proof (cases rule: register_buffer_group_cases)
  case exists
  then show ?thesis by simp
next
  case (failed err p)
  then show ?thesis by (auto simp: track_def acc_setup_def split: prod.splits)
next
  case (made err p)
  then obtain w1 where "lib_setup_buf_ring lib (raw_ring r) (ucast n) (uint bgid)
      (if inc then 0 else IOU_PBUF_RING_INC) w = (p, err, w1)" and "a' = acc_setup err p (owns r)"
    by (auto simp: track_def Let_def split: prod.splits)
  moreover from this made assms(1) have "p \<noteq> 0" unfolding setup_gives_pointer_def by metis
  moreover have "length (buffer_rings r) = buffer_ring_size_max" using assms(2) by (simp add: ring_inv_def)
  ultimately show ?thesis
    using made by (simp add: owns_def acc_setup_def live_ptrs_update buffer_ring_valid_def valid_def)
qed

lemma unregister_track:
  assumes "ring_inv r" "unregister_buffer_group (track lib) bgid r (w, owns r) = (r', w', a')"
  shows "a' = owns r'"
proof -
  have "unat bgid < length (buffer_rings r)" using assms(1) by (simp add: ring_inv_def)
  then show ?thesis
    using assms(2) live_ptrs_nth [of "unat bgid" "buffer_rings r"]
    by (auto simp: unregister_buffer_group_eq destroy_track acc_free_def owns_def live_ptrs_update valid_def)
qed

lemma ring_exit_keeps_account:
  assumes "ring_inv r" "ring_exit (track lib) r (w, owns r) = Some (r', w', a')"
  shows "a' = owns r'"
  using assms ring_exit_track [of r lib w] by (cases "valid r") auto

section \<open>A sample liburing\<close>

text \<open>
  A liburing whose calls all succeed, for examples: the world is the next address to hand out,
  and there is always one completion, of the operation at address 512.
\<close>

definition sample_raw :: io_uring where
  "sample_raw = \<lparr>ring_fd = 3, enter_ring_fd = 3, setup_flags = 0, features = 0xfff\<rparr>"

definition sample_cqe :: cqe where
  "sample_cqe = \<lparr>cqe_user_data = 512, cqe_res = 7, cqe_flags = 0\<rparr>"

definition sample_lib :: "u64 liburing" where
  "sample_lib =
     \<lparr>lib_queue_init_params = (\<lambda>n p w. (0, sample_raw, w)),
      lib_get_probe_ring = (\<lambda>raw w. (Some (\<lambda>_. True), w)),
      lib_free_probe = (\<lambda>p w. w),
      lib_register_sync_cancel = (\<lambda>raw reg w. (0, w)),
      lib_queue_exit = (\<lambda>raw w. w),
      lib_get_sqe = (\<lambda>raw w. (Some 0, w)),
      lib_write_sqe = (\<lambda>i ws w. w),
      lib_submit = (\<lambda>raw w. (1, w)),
      lib_peek_cqe = (\<lambda>raw w. (0, sample_cqe, w)),
      lib_wait_cqe = (\<lambda>raw w. (0, sample_cqe, w)),
      lib_wait_cqe_timeout = (\<lambda>raw ts w. (0, sample_cqe, w)),
      lib_cqe_seen = (\<lambda>raw w. w),
      lib_register = (\<lambda>raw c w. (0, w)),
      lib_setup_buf_ring = (\<lambda>raw n g f w. (w OR 4096, 0, w + 4096)),
      lib_free_buf_ring = (\<lambda>addr p n g w. w),
      lib_buf_ring_mask = (\<lambda>n. uint n - 1),
      lib_buf_ring_add = (\<lambda>p v b m o' w. w),
      lib_buf_ring_advance = (\<lambda>p n w. w),
      lib_register_napi = (\<lambda>raw t p w. (0, t, p, w)),
      lib_unregister_napi = (\<lambda>raw t p w. (0, t, p, w)),
      lib_register_iowq_max_workers = (\<lambda>raw b u w. (0, b, u, w))\<rparr>"

definition sample_ring :: ring where
  "sample_ring = (ring_default 256)\<lparr>raw_ring := sample_raw, ring_probe := Some (\<lambda>_. True)\<rparr>"

lemma sample_init_gives_fd [simp]: "init_gives_fd sample_lib"
  by (simp add: init_gives_fd_def sample_lib_def sample_raw_def)

lemma sample_setup_gives_pointer [simp]: "setup_gives_pointer sample_lib"
proof -
  have "w OR 4096 \<noteq> 0" for w :: u64
  proof
    assume "w OR 4096 = 0"
    then have "bit (w OR 4096) 12 = bit (0 :: u64) 12" by (rule arg_cong)
    then show False by (simp add: bit_simps)
  qed
  then show ?thesis by (simp add: setup_gives_pointer_def sample_lib_def)
qed

lemma sample_ring_valid [simp]: "valid sample_ring"
  by (simp add: valid_def sample_ring_def sample_raw_def)

lemma sample_ring_ctor: "ring_ctor sample_lib 256 8 ring_option_default 4096 = Some (Inr sample_ring, 4096)"
  by (simp add: ring_ctor_def do_init_def sample_lib_def probe_reset_def sample_ring_def Let_def)
    (simp add: ring_default_def)

lemma sample_ring_inv [simp]: "ring_inv sample_ring"
  using ring_run_inv [OF sample_init_gives_fd ring_run.run_ctor [OF sample_ring_ctor]] by simp

section \<open>Properties\<close>





text \<open>
  C11. Buffer groups behave as a map from group ids: after a successful registration the group is
  found, no other group is affected, a second registration of the id is refused with
  \<open>EEXIST\<close> and changes nothing, and after \<open>unregister_buffer_group\<close> the id is free again.
\<close>

theorem buffer_group_map:
  assumes "ring_inv r" "setup_gives_pointer lib"
    and "register_buffer_group lib n bgid inc r w = Some (Inr g, r', w')"
  shows "find_buffer_group bgid r' = g \<and> g = Some (unat bgid)
    \<and> (\<forall>b. b \<noteq> bgid \<longrightarrow> find_buffer_group b r' = find_buffer_group b r)
    \<and> register_buffer_group lib n2 bgid inc2 r' w2 = Some (fail_errc File_exists, r', w2)
    \<and> find_buffer_group bgid (fst (unregister_buffer_group lib bgid r' w2)) = None"
  using assms(3)
proof (cases rule: register_buffer_group_cases)
  case (made err p)
  have l: "length (buffer_rings r) = buffer_ring_size_max" using assms(1) by (simp add: ring_inv_def)
  have p: "p \<noteq> 0" using assms(2) made unfolding setup_gives_pointer_def by metis
  have "find_buffer_group b r' = find_buffer_group b r" if "b \<noteq> bgid" for b
  proof -
    have "unat b \<noteq> unat bgid" using that by (simp add: word_unat_eq_iff)
    then show ?thesis using made by (simp add: find_buffer_group_def)
  qed
  then show ?thesis
    using made l p by (simp add: find_buffer_group_def register_buffer_group_def unregister_buffer_group_eq
      buffer_ring_valid_def buffer_ring_default_def)
qed (simp_all add: fail_errc_def fail_ev_def)

theorem buffer_group_map_witness:
  "\<exists>r'. find_buffer_group 5 r' = Some (unat (5 :: u16)) \<and> Some (unat (5 :: u16)) = Some (unat (5 :: u16))
    \<and> find_buffer_group 6 r' = find_buffer_group 6 sample_ring
    \<and> register_buffer_group sample_lib 16 5 False r' 8192 = Some (fail_errc File_exists, r', 8192)
    \<and> find_buffer_group 5 (fst (unregister_buffer_group sample_lib 5 r' 8192)) = None"
proof -
  have "\<not> buffer_ring_valid (buffer_rings sample_ring ! 5)"
    by (simp add: sample_ring_def ring_default_def buffer_ring_size_max_def)
  then have "\<exists>r' w'. register_buffer_group sample_lib 8 5 False sample_ring 4096 = Some (Inr (Some (unat (5 :: u16))), r', w')"
    by (simp add: register_buffer_group_def native_def buffer_ring_make_def buffer_ring_assign_invalid sample_lib_def)
  then obtain r' w' where reg: "register_buffer_group sample_lib 8 5 False sample_ring 4096
      = Some (Inr (Some (unat (5 :: u16))), r', w')" by blast
  note group = buffer_group_map [OF sample_ring_inv sample_setup_gives_pointer reg, of 16 False 8192]
  have "(6 :: u16) \<noteq> 5" by simp
  with group have "find_buffer_group 6 r' = find_buffer_group 6 sample_ring" by (elim conjE allE [of _ 6] impE)
  with group show ?thesis by (intro exI [of _ r'] conjI) (elim conjE, assumption)+
qed

text \<open>
  \<open>swap\<close> does not respect ownership: exchanging an initialised ring with an uninitialised one
  leaves the first without a descriptor but with its probe, and the second initialised without
  one, so neither satisfies the invariant.
\<close>

theorem swap_breaks_invariant:
  assumes "ring_inv r" "valid r"
  shows "\<not> ring_inv (fst (ring_swap r (ring_default addr))) \<and> \<not> ring_inv (snd (ring_swap r (ring_default addr)))"
  using assms by (auto simp: ring_swap_def ring_inv_def valid_def ring_default_def invalid_ring_def)

theorem swap_breaks_invariant_witness:
  "\<not> ring_inv (fst (ring_swap sample_ring (ring_default 1024)))
    \<and> \<not> ring_inv (snd (ring_swap sample_ring (ring_default 1024)))"
  by (rule swap_breaks_invariant) simp_all

text \<open>
  The flag \<open>inc_consume\<close> reaches \<open>io_uring_setup_buf_ring\<close> inverted: a caller that asks for
  incremental consumption gets flags 0, and one that does not gets \<open>IOU_PBUF_RING_INC\<close>.
\<close>

lemma inc_consume_inverted:
  assumes "\<not> buffer_ring_valid (buffer_rings r ! unat bgid)" "valid r"
    and "lib_setup_buf_ring lib (raw_ring r) (ucast n) (uint bgid) (if inc then 0 else IOU_PBUF_RING_INC) w = (p, err, w')"
    and "err < 0"
  shows "register_buffer_group lib n bgid inc r w = Some (fail_ev (- err), r, w')"
  using assms by (simp add: register_buffer_group_def native_def buffer_ring_make_def fail_ev_def)

end
