(* ===== verification/Submit.thy ===== *)
theory Submit
  imports Ring_Resources
begin

text \<open>
  \<open>operation_base\<close> and \<open>ring_management_operation\<close> of \<open>include/iouxx/iouringxx.hpp\<close>: from an
  operation object to a submission queue entry, and from its completion back to the caller, for
  callbacks, synchronous waits and coroutines. Every function is generic in the operation class:
  \<open>build\<close> and \<open>do_callback\<close> are those of the class, \<open>self\<close> is the address of the object.
\<close>

section \<open>Submission\<close>

text \<open>
  \<open>enabled\<close> is \<open>IOUXX_IORING_FEATURE_TESTS_ENABLED\<close>. \<open>io_uring_opcode_supported\<close> reads through the
  probe pointer, so a null probe is a crash (\<open>None\<close>).
\<close>

definition feature_test :: "bool \<Rightarrow> u8 \<Rightarrow> ring \<Rightarrow> error_code option" where
  "feature_test enabled opcode r =
     (if enabled then
        (case ring_probe r of
           None \<Rightarrow> None
         | Some p \<Rightarrow> if \<not> p opcode then Some (make_error_code Function_not_supported) else Some no_error)
      else Some no_error)"

definition to_sqe ::
  "'w liburing \<Rightarrow> ('op \<Rightarrow> 'op \<times> sqe_writes) \<Rightarrow> u64 \<Rightarrow> 'op \<Rightarrow> ring \<Rightarrow> 'w \<Rightarrow> (nat option \<times> 'op \<times> 'w) option" where
  "to_sqe lib build self op r w = do {
     raw \<leftarrow> native r;
     let (sqe, w) = lib_get_sqe lib raw w;
     (case sqe of
        None \<Rightarrow> Some (None, op, w)
      | Some i \<Rightarrow>
          let (op, ws) = build op;
              w = lib_write_sqe lib i (ws @ [Set_data self]) w
          in Some (Some i, op, w))
   }"

definition do_submit ::
  "'w liburing \<Rightarrow> bool \<Rightarrow> u8 \<Rightarrow> ('op \<Rightarrow> 'op \<times> sqe_writes) \<Rightarrow> u64 \<Rightarrow> 'op \<Rightarrow> ring \<Rightarrow> 'w
     \<Rightarrow> (error_code \<times> 'op \<times> 'w) option" where
  "do_submit lib enabled opcode build self op r w = do {
     test \<leftarrow> feature_test enabled opcode r;
     if is_error test then Some (test, op, w)
     else do {
       (sqe, op, w) \<leftarrow> to_sqe lib build self op r w;
       (ec, w) \<leftarrow> submit lib sqe r w;
       Some (ec, op, w)
     }
   }"

section \<open>Completion\<close>

text \<open>
  The type-erased \<open>operation_base::callback\<close>: the object whose address the completion carries runs
  its \<open>do_callback\<close>. For the operation at hand that is the \<open>do_callback\<close> given; what a callback of
  some other object does to the world is \<open>dispatch\<close> (\<open>None\<close> when it never returns).
\<close>

definition submit_and_wait ::
  "'w liburing \<Rightarrow> bool \<Rightarrow> u8 \<Rightarrow> ('op \<Rightarrow> 'op \<times> sqe_writes) \<Rightarrow> ('op \<Rightarrow> int \<Rightarrow> u32 \<Rightarrow> 'r invocation)
     \<Rightarrow> (u64 \<Rightarrow> int \<Rightarrow> u32 \<Rightarrow> 'w \<Rightarrow> 'w option) \<Rightarrow> u64 \<Rightarrow> 'op \<Rightarrow> 'r expected \<Rightarrow> ring \<Rightarrow> 'w
     \<Rightarrow> ('r expected \<times> 'op \<times> 'w) option" where
  "submit_and_wait lib enabled opcode build do_callback dispatch self op slot r w = do {
     (res, op, w) \<leftarrow> do_submit lib enabled opcode build self op r w;
     if is_error res then Some (Inl res, op, w)
     else do {
       (cqe_result, w) \<leftarrow> wait_for_result lib 0 r w;
       (case cqe_result of
          Inl e \<Rightarrow> Some (Inl e, op, w)
        | Inr c \<Rightarrow>
            if or_cb c = self
            then do {
              slot \<leftarrow> to_expected (do_callback op (or_res c) (or_cqe_flags c)) slot;
              Some (slot, op, w)
            }
            else do {
              w \<leftarrow> dispatch (or_cb c) (or_res c) (or_cqe_flags c) w;
              Some (slot, op, w)
            })
     }
   }"

text \<open>The initial result of \<open>syncwait_callback\<close> and \<open>operation_awaiter\<close>.\<close>

definition initial_result :: "'r expected" where
  "initial_result = Inl no_error"

text \<open>
  \<open>await_suspend\<close>: whether the coroutine stays suspended, and the result slot. The callback has
  been given the coroutine and its stop handler before the submission.
\<close>

definition await_suspend ::
  "'w liburing \<Rightarrow> bool \<Rightarrow> u8 \<Rightarrow> ('op \<Rightarrow> 'op \<times> sqe_writes) \<Rightarrow> u64 \<Rightarrow> 'op \<Rightarrow> ring \<Rightarrow> 'w
     \<Rightarrow> (bool \<times> 'r expected \<times> 'op \<times> 'w) option" where
  "await_suspend lib enabled opcode build self op r w = do {
     (res, op, w) \<leftarrow> do_submit lib enabled opcode build self op r w;
     if is_error res then Some (False, Inl res, op, w)
     else Some (True, initial_result, op, w)
   }"

section \<open>ring\_management\_operation\<close>

record management_info =
  mi_ev :: int
  mi_cqe_flags :: u32
  mi_ring :: u64

record management_op =
  mo_ring_ptr :: u64

definition management_build :: "management_op \<Rightarrow> management_op \<times> sqe_writes" where
  "management_build op = (op, [Prep Prep_nop])"

definition management_do_callback :: "management_op \<Rightarrow> int \<Rightarrow> u32 \<Rightarrow> management_info invocation" where
  "management_do_callback op ev fl =
     Invoke_value \<lparr>mi_ev = ev, mi_cqe_flags = fl, mi_ring = mo_ring_ptr op\<rparr>"

interpretation management: io_operation management_build management_do_callback "\<lambda>_ _. True"
  by unfold_locales (simp_all add: management_build_def management_do_callback_def)

section \<open>Behaviour of a submission\<close>

lemma do_submit_passed:
  assumes "valid r" "feature_test enabled opcode r = Some no_error"
    and "lib_get_sqe lib (raw_ring r) w = (Some i, w1)"
    and "lib_submit lib (raw_ring r) (lib_write_sqe lib i (snd (build op) @ [Set_data self]) w1) = (ev, w2)"
  shows "do_submit lib enabled opcode build self op r w =
    Some (if ev < 0 then make_system_error_code (- ev) else no_error, fst (build op), w2)"
  using assms by (cases "build op") (simp add: do_submit_def to_sqe_def native_def submit_def)

lemma do_submit_full:
  assumes "valid r" "feature_test enabled opcode r = Some no_error"
    and "lib_get_sqe lib (raw_ring r) w = (None, w1)"
  shows "do_submit lib enabled opcode build self op r w =
    Some (make_error_code Resource_unavailable_try_again, op, w1)"
  using assms by (simp add: do_submit_def to_sqe_def native_def submit_def)

lemma do_submit_unsupported:
  "feature_test enabled opcode r = Some ec \<Longrightarrow> is_error ec \<Longrightarrow>
     do_submit lib enabled opcode build self op r w = Some (ec, op, w)"
  by (simp add: do_submit_def)

definition opcode_unsupported :: "bool \<Rightarrow> u8 \<Rightarrow> ring \<Rightarrow> bool" where
  "opcode_unsupported enabled opcode r \<longleftrightarrow>
     enabled \<and> (case ring_probe r of None \<Rightarrow> False | Some p \<Rightarrow> \<not> p opcode)"

lemma feature_test_valid:
  "ring_inv r \<Longrightarrow> valid r \<Longrightarrow> feature_test enabled opcode r =
     Some (if opcode_unsupported enabled opcode r then make_error_code Function_not_supported else no_error)"
  by (auto simp: feature_test_def ring_inv_def opcode_unsupported_def)

section \<open>Synchronous results of a well-behaved operation\<close>

context io_operation
begin

text \<open>
  With its own completion at the head of the queue, a synchronous operation returns an error
  exactly when the kernel reported a failure, and then that error; it is never the
  placeholder the result slot starts with.
\<close>

lemma sync_result:
  assumes "do_submit lib en oc build self x r w = Some (ec, x', w1)" "\<not> is_error ec"
    and "wait_for_result lib 0 r w1 = Some (Inr c, w2)" "or_cb c = self"
    and "do_callback x' (or_res c) (or_cqe_flags c) \<in> range Invoke_value \<union> range Invoke_unexpected"
  shows "\<exists>res. submit_and_wait lib en oc build do_callback dispatch self x initial_result r w = Some (res, x', w2)
    \<and> (case res of Inl e \<Rightarrow> \<not> ok x' (or_res c) \<and> e = make_system_error_code (- or_res c)
        | Inr v \<Rightarrow> ok x' (or_res c) \<and> do_callback x' (or_res c) (or_cqe_flags c) = Invoke_value v)"
  using assms error_delivered [of x' "or_res c" "or_cqe_flags c"] delivered_iff_ok [of x' "or_res c" "or_cqe_flags c"]
  by (cases "do_callback x' (or_res c) (or_cqe_flags c)") (auto simp: submit_and_wait_def)

end

section \<open>Properties\<close>

text \<open>
  C7. Submission on an initialised ring never aborts, and every outcome is reported: an
  unsupported operation code as \<open>ENOSYS\<close> before anything is written, a full queue as \<open>EAGAIN\<close>,
  a failing \<open>io_uring_submit\<close> as its error. When no error is reported, exactly one entry was
  written, built from the operation and tagged with its address as the last store.
\<close>

theorem do_submit_reports:
  assumes "ring_inv r" "valid r"
  shows "\<exists>ec op' w'. do_submit lib enabled opcode build self op r w = Some (ec, op', w')
    \<and> (if opcode_unsupported enabled opcode r
       then ec = make_error_code Function_not_supported \<and> op' = op \<and> w' = w
       else (\<exists>w1. lib_get_sqe lib (raw_ring r) w = (None, w1)
            \<and> ec = make_error_code Resource_unavailable_try_again \<and> op' = op \<and> w' = w1)
         \<or> (\<exists>i w1 ev. lib_get_sqe lib (raw_ring r) w = (Some i, w1)
            \<and> lib_submit lib (raw_ring r) (lib_write_sqe lib i (snd (build op) @ [Set_data self]) w1) = (ev, w')
            \<and> op' = fst (build op)
            \<and> ec = (if ev < 0 then make_system_error_code (- ev) else no_error)))"
proof (cases "opcode_unsupported enabled opcode r")
  case True
  then show ?thesis using feature_test_valid [OF assms, of enabled opcode] by (simp add: do_submit_unsupported)
next
  case False
  then have ft: "feature_test enabled opcode r = Some no_error" using feature_test_valid [OF assms] by simp
  obtain sqe w1 where g: "lib_get_sqe lib (raw_ring r) w = (sqe, w1)" by (metis prod.exhaust)
  show ?thesis
  proof (cases sqe)
    case None
    with g False show ?thesis by (simp add: do_submit_full [OF assms(2) ft])
  next
    case (Some i)
    obtain ev w2 where "lib_submit lib (raw_ring r) (lib_write_sqe lib i (snd (build op) @ [Set_data self]) w1) = (ev, w2)"
      by (metis prod.exhaust)
    with g Some False show ?thesis by (simp add: do_submit_passed [OF assms(2) ft, of lib w i w1 build op self ev w2])
  qed
qed

theorem do_submit_reports_witness:
  "\<exists>ec op' w'. do_submit sample_lib True 0 management_build 512 \<lparr>mo_ring_ptr = 256\<rparr> sample_ring 4096 = Some (ec, op', w')
    \<and> (if opcode_unsupported True 0 sample_ring
       then ec = make_error_code Function_not_supported \<and> op' = \<lparr>mo_ring_ptr = 256\<rparr> \<and> w' = 4096
       else (\<exists>w1. lib_get_sqe sample_lib (raw_ring sample_ring) 4096 = (None, w1)
            \<and> ec = make_error_code Resource_unavailable_try_again \<and> op' = \<lparr>mo_ring_ptr = 256\<rparr> \<and> w' = w1)
         \<or> (\<exists>i w1 ev. lib_get_sqe sample_lib (raw_ring sample_ring) 4096 = (Some i, w1)
            \<and> lib_submit sample_lib (raw_ring sample_ring)
                (lib_write_sqe sample_lib i (snd (management_build \<lparr>mo_ring_ptr = 256\<rparr>) @ [Set_data 512]) w1) = (ev, w')
            \<and> op' = fst (management_build \<lparr>mo_ring_ptr = 256\<rparr>)
            \<and> ec = (if ev < 0 then make_system_error_code (- ev) else no_error)))"
  by (rule do_submit_reports) simp_all



text \<open>
  \<open>await_suspend\<close> implements the first step of a coroutine's life: it resumes at once, with
  the error, exactly when the submission failed, and otherwise suspends; the completion then
  implements the second step.
\<close>

theorem await_refines_step:
  assumes "await_suspend lib en oc build self op r w = Some (suspended, res, op', w')"
  shows "await_step c Await_created (if suspended then Await_suspended else Await_resumed res)
    \<and> await_step c Await_suspended
        (case awaiter_complete c out of Resume_caller v \<Rightarrow> Await_resumed v | Resume_stopped \<Rightarrow> Await_stopped)"
proof
  show "await_step c Await_created (if suspended then Await_suspended else Await_resumed res)"
    using assms by (auto simp: await_suspend_def bind_eq_Some_conv split: if_splits intro: await_step.intros)
  show "await_step c Await_suspended
      (case awaiter_complete c out of Resume_caller v \<Rightarrow> Await_resumed v | Resume_stopped \<Rightarrow> Await_stopped)"
    by (cases "awaiter_complete c out") (auto intro: await_step.intros)
qed

theorem await_refines_step_witness:
  "await_step True Await_created (if True then Await_suspended else Await_resumed (initial_result :: int expected))
    \<and> await_step True Await_suspended
        (case awaiter_complete True (Inr 7 :: int expected) of
           Resume_caller v \<Rightarrow> Await_resumed v | Resume_stopped \<Rightarrow> Await_stopped)"
proof (rule await_refines_step)
  have "feature_test True 0 sample_ring = Some no_error" by (simp add: feature_test_def sample_ring_def)
  then show "await_suspend sample_lib True 0 management_build 512 \<lparr>mo_ring_ptr = 256\<rparr> sample_ring 4096
      = Some (True, initial_result :: int expected, \<lparr>mo_ring_ptr = 256\<rparr>, 4096)"
    by (simp add: await_suspend_def do_submit_def to_sqe_def native_def submit_def management_build_def sample_lib_def)
qed

end
