(* ===== verification/Ops_Basic.thy ===== *)
theory Ops_Basic
  imports Submit
begin

text \<open>
  The operations of \<open>include/iouxx/iouops/noop.hpp\<close>, \<open>timeout.hpp\<close>, \<open>cancel.hpp\<close> and \<open>futex.hpp\<close>.
  Per class: a record of its members, the setters, \<open>build\<close> and \<open>do_callback\<close>. \<open>k\<close> is the branch the
  callback type selects for a \<open>void\<close> result. The \<open>void\<close> specialisations ignore the completion.
\<close>

section \<open>noop\<close>

record noop_op =
  noop_result_code :: int

definition noop_init :: noop_op where
  "noop_init = \<lparr>noop_result_code = 0\<rparr>"

text \<open>\<open>-res\<close> is computed in 32 unsigned bits and stored into an \<open>int\<close>.\<close>

definition noop_pseudo_result :: "u32 \<Rightarrow> noop_op \<Rightarrow> noop_op" where
  "noop_pseudo_result res op = op\<lparr>noop_result_code := sint (- res)\<rparr>"

definition noop_pseudo_result_ec :: "error_code \<Rightarrow> noop_op \<Rightarrow> noop_op" where
  "noop_pseudo_result_ec ec op = noop_pseudo_result (word_of_int (ec_value ec)) op"

definition noop_opcode :: u8 where
  "noop_opcode = IORING_OP_NOP"

definition noop_build :: "noop_op \<Rightarrow> noop_op \<times> sqe_writes" where
  "noop_build op = (op, [Prep Prep_nop]
     @ (if noop_result_code op \<noteq> 0
        then [Or_nop_flags IORING_NOP_INJECT_RESULT, Set_len (word_of_int (noop_result_code op))] else []))"

definition noop_do_callback :: "callback_kind \<Rightarrow> noop_op \<Rightarrow> int \<Rightarrow> u32 \<Rightarrow> unit invocation" where
  "noop_do_callback k op ev fl = invoke_void k ev"

interpretation noop: io_operation noop_build "noop_do_callback k" "\<lambda>_ ev. ev = 0" for k
  by unfold_locales (simp_all add: noop_build_def noop_do_callback_def)

definition noop_void_opcode :: u8 where
  "noop_void_opcode = IORING_OP_NOP"

definition noop_void_build :: "unit \<Rightarrow> unit \<times> sqe_writes" where
  "noop_void_build op = (op, [Prep Prep_nop])"

text \<open>The empty \<open>do_callback\<close> of every \<open>void\<close> specialisation.\<close>

definition ignore_callback :: "'op \<Rightarrow> int \<Rightarrow> u32 \<Rightarrow> unit invocation" where
  "ignore_callback op ev fl = No_invocation"

interpretation noop_void: io_operation noop_void_build ignore_callback "\<lambda>_ _. True"
  by unfold_locales (simp_all add: noop_void_build_def ignore_callback_def)

section \<open>timeout\<close>

text \<open>The three clocks io\_uring supports: \<open>steady_clock\<close>, \<open>system_clock\<close>, \<open>boottime_clock\<close>.\<close>

datatype clock = Steady_clock | System_clock | Boottime_clock

fun set_clock_flag :: "clock \<Rightarrow> u32 \<Rightarrow> u32" where
  "set_clock_flag Steady_clock flags = flags AND NOT IORING_TIMEOUT_REALTIME AND NOT IORING_TIMEOUT_BOOTTIME"
| "set_clock_flag System_clock flags = (flags OR IORING_TIMEOUT_REALTIME) AND NOT IORING_TIMEOUT_BOOTTIME"
| "set_clock_flag Boottime_clock flags = (flags OR IORING_TIMEOUT_BOOTTIME) AND NOT IORING_TIMEOUT_REALTIME"

record timeout_base =
  to_ts :: kernel_timespec
  to_flags :: u32

definition timeout_base_init :: timeout_base where
  "timeout_base_init = \<lparr>to_ts = \<lparr>tv_sec = 0, tv_nsec = 0\<rparr>, to_flags = 0\<rparr>"

definition wait_for :: "int \<Rightarrow> clock \<Rightarrow> 'a timeout_base_scheme \<Rightarrow> 'a timeout_base_scheme" where
  "wait_for duration clock op =
     op\<lparr>to_ts := to_kernel_timespec duration,
        to_flags := set_clock_flag clock (to_flags op) AND NOT IORING_TIMEOUT_ABS\<rparr>"

definition wait_until :: "int \<Rightarrow> clock \<Rightarrow> 'a timeout_base_scheme \<Rightarrow> 'a timeout_base_scheme" where
  "wait_until since_epoch clock op =
     op\<lparr>to_ts := to_kernel_timespec since_epoch,
        to_flags := set_clock_flag clock (to_flags op) OR IORING_TIMEOUT_ABS\<rparr>"

definition timeout_opcode :: u8 where
  "timeout_opcode = IORING_OP_TIMEOUT"

definition timeout_build :: "timeout_base \<Rightarrow> timeout_base \<times> sqe_writes" where
  "timeout_build op = (op, [Prep (Prep_timeout (to_ts op) 0 (to_flags op))])"

definition timeout_do_callback :: "callback_kind \<Rightarrow> timeout_base \<Rightarrow> int \<Rightarrow> u32 \<Rightarrow> unit invocation" where
  "timeout_do_callback k op ev fl =
     (let ev = (if ev = - ETIME then 0 else ev) in invoke_void k ev)"

interpretation timeout: io_operation timeout_build "timeout_do_callback k" "\<lambda>_ ev. ev = 0 \<or> ev = - ETIME" for k
  by unfold_locales (auto simp: timeout_build_def timeout_do_callback_def)

record multishot_timeout_op = timeout_base +
  mt_count :: u64

definition multishot_timeout_init :: multishot_timeout_op where
  "multishot_timeout_init = timeout_base.extend timeout_base_init \<lparr>mt_count = 1\<rparr>"

definition mt_repeat :: "u64 \<Rightarrow> multishot_timeout_op \<Rightarrow> multishot_timeout_op" where
  "mt_repeat n op = op\<lparr>mt_count := n\<rparr>"

definition mt_repeat_forever :: "multishot_timeout_op \<Rightarrow> multishot_timeout_op" where
  "mt_repeat_forever op = mt_repeat 0 op"

definition multishot_timeout_opcode :: u8 where
  "multishot_timeout_opcode = IORING_OP_TIMEOUT"

definition multishot_timeout_build :: "multishot_timeout_op \<Rightarrow> multishot_timeout_op \<times> sqe_writes" where
  "multishot_timeout_build op =
     (let op = op\<lparr>to_flags := to_flags op OR IORING_TIMEOUT_MULTISHOT\<rparr>
      in (op, [Prep (Prep_timeout (to_ts op) (ucast (mt_count op)) (to_flags op))]))"

definition cqe_more :: "u32 \<Rightarrow> bool" where
  "cqe_more fl \<longleftrightarrow> fl AND IORING_CQE_F_MORE \<noteq> 0"

definition multishot_timeout_do_callback :: "multishot_timeout_op \<Rightarrow> int \<Rightarrow> u32 \<Rightarrow> bool invocation" where
  "multishot_timeout_do_callback op ev fl =
     (let ev = (if ev = - ETIME then 0 else ev); more = cqe_more fl
      in if ev = 0 then Invoke_value more else Invoke_unexpected (make_system_error_code (- ev)))"

interpretation multishot_timeout:
  io_operation multishot_timeout_build multishot_timeout_do_callback "\<lambda>_ ev. ev = 0 \<or> ev = - ETIME"
  by unfold_locales (auto simp: multishot_timeout_build_def multishot_timeout_do_callback_def Let_def or.assoc)

record timeout_cancel_op =
  tc_id :: operation_identifier

definition timeout_cancel_init :: timeout_cancel_op where
  "timeout_cancel_init = \<lparr>tc_id = id_default\<rparr>"

definition timeout_cancel_target :: "operation_identifier \<Rightarrow> timeout_cancel_op \<Rightarrow> timeout_cancel_op" where
  "timeout_cancel_target identifier op = op\<lparr>tc_id := identifier\<rparr>"

definition timeout_cancel_opcode :: u8 where
  "timeout_cancel_opcode = IORING_OP_TIMEOUT_REMOVE"

definition timeout_cancel_build :: "timeout_cancel_op \<Rightarrow> timeout_cancel_op \<times> sqe_writes" where
  "timeout_cancel_build op = (op, [Prep (Prep_timeout_remove (user_data64 (tc_id op)) 0)])"

definition timeout_cancel_do_callback :: "callback_kind \<Rightarrow> timeout_cancel_op \<Rightarrow> int \<Rightarrow> u32 \<Rightarrow> unit invocation" where
  "timeout_cancel_do_callback k op ev fl = invoke_void k ev"

interpretation timeout_cancel: io_operation timeout_cancel_build "timeout_cancel_do_callback k" "\<lambda>_ ev. ev = 0" for k
  by unfold_locales (simp_all add: timeout_cancel_build_def timeout_cancel_do_callback_def)

interpretation timeout_cancel_void: io_operation timeout_cancel_build ignore_callback "\<lambda>_ _. True"
  by unfold_locales (simp_all add: timeout_cancel_build_def ignore_callback_def)

section \<open>cancel\<close>

record cancel_op =
  ca_flags :: u32
  ca_id :: operation_identifier

record cancel_fd_op =
  cf_flags :: u32
  cf_fd :: int

definition cancel_init :: cancel_op where
  "cancel_init = \<lparr>ca_flags = IORING_ASYNC_CANCEL_USERDATA, ca_id = id_default\<rparr>"

definition cancel_fd_init :: cancel_fd_op where
  "cancel_fd_init = \<lparr>cf_flags = IORING_ASYNC_CANCEL_USERDATA, cf_fd = -1\<rparr>"

definition cancel_target :: "operation_identifier \<Rightarrow> cancel_op \<Rightarrow> cancel_op" where
  "cancel_target identifier op = op\<lparr>ca_id := identifier\<rparr>"

text \<open>The target of \<open>cancel_fd_operation\<close>: the descriptor of a file or the index of a fixed file.\<close>

definition cancel_fd_target_file :: "int \<Rightarrow> cancel_fd_op \<Rightarrow> cancel_fd_op" where
  "cancel_fd_target_file handle op =
     op\<lparr>cf_fd := handle, cf_flags := cf_flags op AND NOT IORING_ASYNC_CANCEL_FD_FIXED\<rparr>"

definition cancel_fd_target_fixed :: "int \<Rightarrow> cancel_fd_op \<Rightarrow> cancel_fd_op" where
  "cancel_fd_target_fixed index op =
     op\<lparr>cf_fd := index, cf_flags := cf_flags op OR IORING_ASYNC_CANCEL_FD_FIXED\<rparr>"

text \<open>\<open>cancel_one\<close> and \<open>cancel_all\<close> on the shared flags.\<close>

definition cancel_one :: "u32 \<Rightarrow> u32" where
  "cancel_one flags = flags AND NOT IORING_ASYNC_CANCEL_ALL"

definition cancel_all :: "u32 \<Rightarrow> u32" where
  "cancel_all flags = flags OR IORING_ASYNC_CANCEL_ALL"

definition cancel_opcode :: u8 where
  "cancel_opcode = IORING_OP_ASYNC_CANCEL"

definition cancel_build :: "cancel_op \<Rightarrow> cancel_op \<times> sqe_writes" where
  "cancel_build op = (op, [Prep (Prep_cancel (id_raw (ca_id op)) (ca_flags op))])"

definition cancel_fd_opcode :: u8 where
  "cancel_fd_opcode = IORING_OP_ASYNC_CANCEL"

definition cancel_fd_build :: "cancel_fd_op \<Rightarrow> cancel_fd_op \<times> sqe_writes" where
  "cancel_fd_build op = (op, [Prep (Prep_cancel_fd (cf_fd op) (cf_flags op))])"

definition invoke_cancelled :: "u32 \<Rightarrow> int \<Rightarrow> u64 invocation" where
  "invoke_cancelled flags ev =
     (let (ev, cancelled_count) =
        (if ev \<ge> 0 then (0, if flags AND IORING_ASYNC_CANCEL_ALL \<noteq> 0 then word_of_int ev else 1)
         else (ev, 0))
      in if ev = 0 then Invoke_value cancelled_count else Invoke_unexpected (make_system_error_code (- ev)))"

definition cancel_do_callback :: "cancel_op \<Rightarrow> int \<Rightarrow> u32 \<Rightarrow> u64 invocation" where
  "cancel_do_callback op ev fl = invoke_cancelled (ca_flags op) ev"

definition cancel_fd_do_callback :: "cancel_fd_op \<Rightarrow> int \<Rightarrow> u32 \<Rightarrow> u64 invocation" where
  "cancel_fd_do_callback op ev fl = invoke_cancelled (cf_flags op) ev"

lemma invoke_cancelled_eq: "invoke_cancelled flags ev =
    invoke_result (\<lambda>ev. if flags AND IORING_ASYNC_CANCEL_ALL \<noteq> 0 then word_of_int ev else 1) ev"
  by (simp add: invoke_cancelled_def invoke_result_def)

interpretation cancel: io_operation cancel_build cancel_do_callback "\<lambda>_ ev. ev \<ge> 0"
  by unfold_locales (simp_all add: cancel_build_def cancel_do_callback_def invoke_cancelled_eq)

interpretation cancel_fd: io_operation cancel_fd_build cancel_fd_do_callback "\<lambda>_ ev. ev \<ge> 0"
  by unfold_locales (simp_all add: cancel_fd_build_def cancel_fd_do_callback_def invoke_cancelled_eq)

interpretation cancel_void: io_operation cancel_build ignore_callback "\<lambda>_ _. True"
  by unfold_locales (simp_all add: cancel_build_def ignore_callback_def)

interpretation cancel_fd_void: io_operation cancel_fd_build ignore_callback "\<lambda>_ _. True"
  by unfold_locales (simp_all add: cancel_fd_build_def ignore_callback_def)

section \<open>futex\<close>

record futex_base =
  fx_addr :: u64
  fx_mask :: u32
  fx_private :: bool

definition futex_base_init :: futex_base where
  "futex_base_init = \<lparr>fx_addr = 0, fx_mask = FUTEX_BITSET_MATCH_ANY, fx_private = True\<rparr>"

definition futex_word :: "u64 \<Rightarrow> 'a futex_base_scheme \<Rightarrow> 'a futex_base_scheme" where
  "futex_word addr op = op\<lparr>fx_addr := addr\<rparr>"

definition futex_mask :: "u32 \<Rightarrow> 'a futex_base_scheme \<Rightarrow> 'a futex_base_scheme" where
  "futex_mask m op = op\<lparr>fx_mask := m\<rparr>"

definition private_futex :: "bool \<Rightarrow> 'a futex_base_scheme \<Rightarrow> 'a futex_base_scheme" where
  "private_futex is_private op = op\<lparr>fx_private := is_private\<rparr>"

definition build_futex2_flags :: "bool \<Rightarrow> u32" where
  "build_futex2_flags is_private = (if is_private then FUTEX2_PRIVATE else 0) OR FUTEX2_SIZE_U32"

record futex_wait_op = futex_base +
  fw_last_value :: u32

definition futex_wait_init :: futex_wait_op where
  "futex_wait_init = futex_base.extend futex_base_init \<lparr>fw_last_value = 0\<rparr>"

definition futex_expected_value :: "u32 \<Rightarrow> futex_wait_op \<Rightarrow> futex_wait_op" where
  "futex_expected_value v op = op\<lparr>fw_last_value := v\<rparr>"

definition futex_wait_opcode :: u8 where
  "futex_wait_opcode = IORING_OP_FUTEX_WAIT"

definition futex_wait_build :: "futex_wait_op \<Rightarrow> futex_wait_op \<times> sqe_writes" where
  "futex_wait_build op = (op, [Prep (Prep_futex_wait (fx_addr op) (ucast (fw_last_value op)) (ucast (fx_mask op))
     (build_futex2_flags (fx_private op)) 0)])"

definition futex_wait_do_callback :: "callback_kind \<Rightarrow> futex_wait_op \<Rightarrow> int \<Rightarrow> u32 \<Rightarrow> unit invocation" where
  "futex_wait_do_callback k op ev fl = invoke_void k ev"

interpretation futex_wait: io_operation futex_wait_build "futex_wait_do_callback k" "\<lambda>_ ev. ev = 0" for k
  by unfold_locales (simp_all add: futex_wait_build_def futex_wait_do_callback_def)

record futex_wake_op = futex_base +
  fk_wakeups :: u64

definition futex_wake_init :: futex_wake_op where
  "futex_wake_init = futex_base.extend futex_base_init \<lparr>fk_wakeups = 1\<rparr>"

definition futex_notify :: "u64 \<Rightarrow> futex_wake_op \<Rightarrow> futex_wake_op" where
  "futex_notify n op = op\<lparr>fk_wakeups := n\<rparr>"

definition futex_notify_all :: "futex_wake_op \<Rightarrow> futex_wake_op" where
  "futex_notify_all op = op\<lparr>fk_wakeups := word_of_int INT_MAX\<rparr>"

definition futex_wake_opcode :: u8 where
  "futex_wake_opcode = IORING_OP_FUTEX_WAKE"

definition futex_wake_build :: "futex_wake_op \<Rightarrow> futex_wake_op \<times> sqe_writes" where
  "futex_wake_build op = (op, [Prep (Prep_futex_wake (fx_addr op) (fk_wakeups op) (ucast (fx_mask op))
     (build_futex2_flags (fx_private op)) 0)])"

definition futex_wake_do_callback :: "futex_wake_op \<Rightarrow> int \<Rightarrow> u32 \<Rightarrow> u64 invocation" where
  "futex_wake_do_callback op ev fl = invoke_result word_of_int ev"

interpretation futex_wake: io_operation futex_wake_build futex_wake_do_callback "\<lambda>_ ev. ev \<ge> 0"
  by unfold_locales (simp_all add: futex_wake_build_def futex_wake_do_callback_def)

definition make_futex_waitv :: "u64 \<Rightarrow> u32 \<Rightarrow> bool \<Rightarrow> futex_waitv" where
  "make_futex_waitv addr expected is_private =
     \<lparr>fwv_uaddr = addr, fwv_val = ucast expected, fwv_flags = build_futex2_flags is_private\<rparr>"

record futex_waitv_op =
  fv_waitv_args :: "futex_waitv list"

definition futex_waitv_set :: "futex_waitv list \<Rightarrow> futex_waitv_op \<Rightarrow> futex_waitv_op" where
  "futex_waitv_set args op = op\<lparr>fv_waitv_args := args\<rparr>"

definition futex_waitv_opcode :: u8 where
  "futex_waitv_opcode = IORING_OP_FUTEX_WAITV"

definition futex_waitv_build :: "futex_waitv_op \<Rightarrow> futex_waitv_op \<times> sqe_writes" where
  "futex_waitv_build op =
     (op, [Prep (Prep_futex_waitv (fv_waitv_args op) (of_nat (length (fv_waitv_args op))) 0)])"

definition futex_waitv_do_callback :: "futex_waitv_op \<Rightarrow> int \<Rightarrow> u32 \<Rightarrow> u64 invocation" where
  "futex_waitv_do_callback op ev fl = invoke_result word_of_int ev"

interpretation futex_waitv: io_operation futex_waitv_build futex_waitv_do_callback "\<lambda>_ ev. ev \<ge> 0"
  by unfold_locales (simp_all add: futex_waitv_build_def futex_waitv_do_callback_def)

section \<open>Properties\<close>

subsection \<open>Sequences of timeout settings\<close>

datatype timeout_call = Wait_for int clock | Wait_until int clock

fun apply_timeout_call :: "timeout_call \<Rightarrow> 'a timeout_base_scheme \<Rightarrow> 'a timeout_base_scheme" where
  "apply_timeout_call (Wait_for d c) op = wait_for d c op"
| "apply_timeout_call (Wait_until d c) op = wait_until d c op"

text \<open>What the kernel has to be told for a call: its time, its clock, and whether the time is absolute.\<close>

fun clock_bits :: "clock \<Rightarrow> u32" where
  "clock_bits Steady_clock = 0"
| "clock_bits System_clock = IORING_TIMEOUT_REALTIME"
| "clock_bits Boottime_clock = IORING_TIMEOUT_BOOTTIME"

fun call_bits :: "timeout_call \<Rightarrow> u32" where
  "call_bits (Wait_for d c) = clock_bits c"
| "call_bits (Wait_until d c) = clock_bits c OR IORING_TIMEOUT_ABS"

fun call_time :: "timeout_call \<Rightarrow> int" where
  "call_time (Wait_for d c) = d"
| "call_time (Wait_until d c) = d"

definition timeout_flag_values :: "u32 set" where
  "timeout_flag_values = {0, 1, 4, 5, 8, 9}"

lemma timeout_call_step:
  assumes "to_flags op \<in> timeout_flag_values"
  shows "to_flags (apply_timeout_call c op) = call_bits c" "to_ts (apply_timeout_call c op) = to_kernel_timespec (call_time c)"
    and "call_bits c \<in> timeout_flag_values"
proof -
  have "to_flags (apply_timeout_call c op) = call_bits c \<and> call_bits c \<in> timeout_flag_values"
  proof (cases c)
    case (Wait_for d k)
    then show ?thesis using assms by (cases k) (auto simp: timeout_flag_values_def wait_for_def)
  next
    case (Wait_until d k)
    then show ?thesis using assms by (cases k) (auto simp: timeout_flag_values_def wait_until_def)
  qed
  then show "to_flags (apply_timeout_call c op) = call_bits c" "call_bits c \<in> timeout_flag_values" by simp_all
  show "to_ts (apply_timeout_call c op) = to_kernel_timespec (call_time c)"
    by (cases c) (simp_all add: wait_for_def wait_until_def)
qed

lemma timeout_calls_flags:
  "to_flags op \<in> timeout_flag_values \<Longrightarrow> to_flags (fold apply_timeout_call cs op) \<in> timeout_flag_values"
  by (induction cs arbitrary: op) (simp_all add: timeout_call_step)

text \<open>
  C35. Whatever \<open>wait_for\<close> and \<open>wait_until\<close> calls a timeout object has seen, the entry it builds
  is that of the last call: its time, its clock alone, and the absolute flag only for \<open>wait_until\<close>.
  A multishot timeout, which only has \<open>wait_for\<close>, adds its own flag and nothing else.
\<close>

theorem timeout_last_call_wins:
  "snd (timeout_build (fold apply_timeout_call (cs @ [c]) timeout_base_init))
     = [Prep (Prep_timeout (to_kernel_timespec (call_time c)) 0 (call_bits c))]
   \<and> snd (multishot_timeout_build (wait_for d k (fold (\<lambda>(d, k). wait_for d k) ws multishot_timeout_init)))
     = [Prep (Prep_timeout (to_kernel_timespec d) 1 (clock_bits k OR IORING_TIMEOUT_MULTISHOT))]"
proof
  have "to_flags timeout_base_init \<in> timeout_flag_values"
    by (simp add: timeout_flag_values_def timeout_base_init_def)
  then show "snd (timeout_build (fold apply_timeout_call (cs @ [c]) timeout_base_init))
     = [Prep (Prep_timeout (to_kernel_timespec (call_time c)) 0 (call_bits c))]"
    by (simp add: timeout_build_def timeout_call_step timeout_calls_flags)
next
  have "to_flags (fold (\<lambda>(d, k). wait_for d k) ws op) \<in> timeout_flag_values
      \<and> mt_count (fold (\<lambda>(d, k). wait_for d k) ws op) = mt_count op"
    if "to_flags op \<in> timeout_flag_values" for op :: multishot_timeout_op
    using that
  proof (induction ws arbitrary: op)
    case (Cons w ws)
    then show ?case
      using timeout_call_step(1,3) [of op "Wait_for (fst w) (snd w)"] Cons.IH [of "wait_for (fst w) (snd w) op"]
      by (simp add: case_prod_beta) (simp add: wait_for_def)
  qed simp
  from this [of multishot_timeout_init] timeout_call_step
    [of "fold (\<lambda>(d, k). wait_for d k) ws multishot_timeout_init" "Wait_for d k"]
  show "snd (multishot_timeout_build (wait_for d k (fold (\<lambda>(d, k). wait_for d k) ws multishot_timeout_init)))
     = [Prep (Prep_timeout (to_kernel_timespec d) 1 (clock_bits k OR IORING_TIMEOUT_MULTISHOT))]"
    by (simp add: multishot_timeout_build_def Let_def timeout_flag_values_def multishot_timeout_init_def
        timeout_base_init_def timeout_base.defs) (simp add: wait_for_def)
qed

subsection \<open>Injected results\<close>

text \<open>
  A pseudo result set on a no-op, once the kernel completes the entry with the injected
  result, reaches the callback as exactly that error; 0 reaches it as success. \<open>complete\<close> stands for
  the kernel: it completes a plain no-op with 0 and an injecting one with its \<open>len\<close> as an \<open>int\<close>.
\<close>

theorem noop_injected_result:
  assumes plain: "complete [Prep Prep_nop] = 0"
    and inject: "\<And>l. complete [Prep Prep_nop, Or_nop_flags IORING_NOP_INJECT_RESULT, Set_len l] = sint l"
    and range: "res < 0x80000000"
  shows "invocation_error (noop_do_callback k op (complete (snd (noop_build (noop_pseudo_result res noop_init)))) fl)
    = (if res = 0 then None else Some (make_system_error_code (uint res)))"
proof -
  have neg: "sint (- res) = - uint res" if "res \<noteq> 0"
  proof -
    have u: "0 < uint res" "uint res < 2 ^ 31"
      using that range by (simp_all add: word_less_def word_neq_0_conv flip: word_gt_0)
    have "- res = (word_of_int (- uint res) :: u32)" by simp
    then have "sint (- res) = signed_take_bit 31 (- uint res)" by (simp only: sint_sbintrunc' len_bit0 len_num1) simp
    with u show ?thesis by (simp add: signed_take_bit_int_eq_self)
  qed
  show ?thesis
  proof (cases "res = 0")
    case True
    then show ?thesis
      using plain by (simp add: noop_do_callback_def noop_build_def noop_pseudo_result_def noop_init_def)
  next
    case False
    then have "uint res \<noteq> 0" by (simp add: uint_0_iff)
    with False show ?thesis
      using neg [OF False] inject
      by (simp add: noop_do_callback_def noop_build_def noop_pseudo_result_def noop_init_def)
  qed
qed

text \<open>A kernel of that kind, on the entries \<open>noop_build\<close> can write.\<close>

fun written_len :: "sqe_write \<Rightarrow> u32" where
  "written_len (Set_len l) = l"
| "written_len _ = 0"

definition nop_kernel :: "sqe_writes \<Rightarrow> int" where
  "nop_kernel ws = (if Or_nop_flags IORING_NOP_INJECT_RESULT \<in> set ws then sint (written_len (last ws)) else 0)"

theorem noop_injected_result_witness:
  "invocation_error (noop_do_callback Stdexpected noop_init
      (nop_kernel (snd (noop_build (noop_pseudo_result 5 noop_init)))) 0) = Some (make_system_error_code 5)"
  using noop_injected_result [of nop_kernel 5 Stdexpected noop_init 0] by (simp add: nop_kernel_def)

end
