(* ===== verification/Ops_File.thy ===== *)
theory Ops_File
  imports Ops_Basic
begin

text \<open>
  The operations of \<open>include/iouxx/iouops/file/\<close>: opening, closing and registering files
  (\<open>openclose.hpp\<close>), reading and writing (\<open>fileio.hpp\<close>), directory entries (\<open>directory.hpp\<close>) and
  polling (\<open>poll.hpp\<close>). Operations that work on a file take it as a descriptor or as an index
  into the ring's table of fixed files; the contract \<open>targeted_operation\<close> says that the entry
  tells the kernel which of the two it is.
\<close>

section \<open>Files\<close>

record file_handle =
  native_fd :: int

definition invalid_file :: file_handle where
  "invalid_file = \<lparr>native_fd = -1\<rparr>"

record fixed_file =
  fd_index :: int

definition current_directory :: file_handle where
  "current_directory = \<lparr>native_fd = AT_FDCWD\<rparr>"

text \<open>\<open>std::string::c_str\<close> as the kernel reads it: up to the first NUL.\<close>

definition c_str :: "string \<Rightarrow> string" where
  "c_str s = takeWhile (\<lambda>c. c \<noteq> CHR 0x00) s"

text \<open>The statement \<open>if (is_fixed) sqe->flags |= IOSQE_FIXED_FILE\<close> that \<open>build\<close> methods share.\<close>

definition fixed_flag :: "bool \<Rightarrow> sqe_writes" where
  "fixed_flag is_fixed = (if is_fixed then [Or_flags IOSQE_FIXED_FILE] else [])"

lemma fixed_flag_simps [op_simps]:
  "fixed_flag True = [Or_flags IOSQE_FIXED_FILE]" "fixed_flag False = []"
  "list_all (\<lambda>x. \<not> is_prep x \<and> \<not> is_set_data x) (fixed_flag b)" "sqe_fixed_file (Prep c # fixed_flag b) \<longleftrightarrow> b"
  by (auto simp: fixed_flag_def sqe_fixed_file_def)

locale targeted_operation = io_operation build do_callback ok
  for build :: "'op \<Rightarrow> 'op \<times> sqe_writes" and do_callback :: "'op \<Rightarrow> int \<Rightarrow> u32 \<Rightarrow> 'r invocation" and ok +
  fixes is_fixed :: "'op \<Rightarrow> bool"
  assumes fixed_iff: "sqe_fixed_file (snd (build x)) \<longleftrightarrow> is_fixed x"
begin

lemma entry_fixed: "sqe_fixed_file (snd (build x) @ [Set_data self]) \<longleftrightarrow> is_fixed x"
  using fixed_iff [of x] by (auto simp: sqe_fixed_file_def)

lemma resubmit_fixed: "sqe_fixed_file (snd (build (((fst \<circ> build) ^^ n) x))) \<longleftrightarrow> is_fixed x"
  by (simp add: resubmit_same fixed_iff)

end

section \<open>Opening and closing\<close>

record file_open_op =
  fo_path :: string
  fo_dirfd :: int
  fo_how :: open_how

definition file_open_init :: file_open_op where
  "file_open_init = \<lparr>fo_path = [], fo_dirfd = native_fd current_directory,
     fo_how = \<lparr>how_flags = 0, how_mode = 0, how_resolve = 0\<rparr>\<rparr>"

definition open_set_path :: "string \<Rightarrow> 'a file_open_op_scheme \<Rightarrow> 'a file_open_op_scheme" where
  "open_set_path p op = op\<lparr>fo_path := p\<rparr>"

definition open_set_directory :: "file_handle \<Rightarrow> 'a file_open_op_scheme \<Rightarrow> 'a file_open_op_scheme" where
  "open_set_directory dir op = op\<lparr>fo_dirfd := native_fd dir\<rparr>"

definition open_set_options :: "u64 \<Rightarrow> 'a file_open_op_scheme \<Rightarrow> 'a file_open_op_scheme" where
  "open_set_options flags op = op\<lparr>fo_how := (fo_how op)\<lparr>how_flags := flags\<rparr>\<rparr>"

definition open_set_mode :: "u64 \<Rightarrow> 'a file_open_op_scheme \<Rightarrow> 'a file_open_op_scheme" where
  "open_set_mode mode op = op\<lparr>fo_how := (fo_how op)\<lparr>how_mode := mode\<rparr>\<rparr>"

definition open_set_resolve :: "u64 \<Rightarrow> 'a file_open_op_scheme \<Rightarrow> 'a file_open_op_scheme" where
  "open_set_resolve resolve op = op\<lparr>fo_how := (fo_how op)\<lparr>how_resolve := resolve\<rparr>\<rparr>"

definition file_open_opcode :: u8 where
  "file_open_opcode = IORING_OP_OPENAT2"

definition file_open_build :: "file_open_op \<Rightarrow> file_open_op \<times> sqe_writes" where
  "file_open_build op =
     (let op = op\<lparr>fo_how := (fo_how op)\<lparr>how_flags := how_flags (fo_how op) OR (O_NONBLOCK OR O_CLOEXEC)\<rparr>\<rparr>
      in (op, [Prep (Prep_openat2 (fo_dirfd op) (c_str (fo_path op)) (fo_how op))]))"

definition file_open_do_callback :: "file_open_op \<Rightarrow> int \<Rightarrow> u32 \<Rightarrow> file_handle invocation" where
  "file_open_do_callback op ev fl = invoke_result (\<lambda>ev. \<lparr>native_fd = ev\<rparr>) ev"

record fixed_file_open_op = file_open_op +
  ffo_file_index :: int

definition fixed_file_open_init :: fixed_file_open_op where
  "fixed_file_open_init = file_open_op.extend file_open_init \<lparr>ffo_file_index = IORING_FILE_INDEX_ALLOC\<rparr>"

definition fixed_file_open_index :: "int \<Rightarrow> fixed_file_open_op \<Rightarrow> fixed_file_open_op" where
  "fixed_file_open_index index op = op\<lparr>ffo_file_index := index\<rparr>"

definition fixed_file_open_opcode :: u8 where
  "fixed_file_open_opcode = IORING_OP_OPENAT2"

definition fixed_file_open_build :: "fixed_file_open_op \<Rightarrow> fixed_file_open_op \<times> sqe_writes" where
  "fixed_file_open_build op =
     (let op = op\<lparr>fo_how := (fo_how op)\<lparr>how_flags := how_flags (fo_how op) OR O_NONBLOCK\<rparr>\<rparr>;
          op = op\<lparr>fo_how := (fo_how op)\<lparr>how_flags := how_flags (fo_how op) AND NOT O_CLOEXEC\<rparr>\<rparr>
      in (op, [Prep (Prep_openat2_direct (fo_dirfd op) (c_str (fo_path op)) (fo_how op) (ffo_file_index op))]))"

definition fixed_file_open_do_callback :: "fixed_file_open_op \<Rightarrow> int \<Rightarrow> u32 \<Rightarrow> fixed_file invocation" where
  "fixed_file_open_do_callback op ev fl = invoke_result (\<lambda>ev. \<lparr>fd_index = ev\<rparr>) ev"

definition directory_open_opcode :: u8 where
  "directory_open_opcode = IORING_OP_OPENAT2"

definition directory_open_build :: "file_open_op \<Rightarrow> file_open_op \<times> sqe_writes" where
  "directory_open_build op =
     (let op = op\<lparr>fo_how := (fo_how op)\<lparr>how_flags := how_flags (fo_how op) OR (O_DIRECTORY OR O_NONBLOCK)\<rparr>\<rparr>
      in (op, [Prep (Prep_openat2 (fo_dirfd op) (c_str (fo_path op)) (fo_how op))]))"

definition directory_open_do_callback :: "file_open_op \<Rightarrow> int \<Rightarrow> u32 \<Rightarrow> file_handle invocation" where
  "directory_open_do_callback op ev fl = invoke_result (\<lambda>ev. \<lparr>native_fd = ev\<rparr>) ev"

lemma or_stable: "((x :: 'a :: semiring_bit_operations) OR m) OR m = x OR m"
  by (simp add: or.assoc)

lemma or_and_stable: "(((x :: u64) OR a) AND m OR a) AND m = (x OR a) AND m"
  by (rule bit_eqI) (auto simp: bit_simps)

interpretation file_open: io_operation file_open_build file_open_do_callback "\<lambda>_ ev. ev \<ge> 0"
  by unfold_locales (simp_all add: file_open_build_def file_open_do_callback_def Let_def or_stable)

interpretation fixed_file_open: io_operation fixed_file_open_build fixed_file_open_do_callback "\<lambda>_ ev. ev \<ge> 0"
  by unfold_locales (simp_all add: fixed_file_open_build_def fixed_file_open_do_callback_def Let_def or_and_stable)

interpretation directory_open: io_operation directory_open_build directory_open_do_callback "\<lambda>_ ev. ev \<ge> 0"
  by unfold_locales (simp_all add: directory_open_build_def directory_open_do_callback_def Let_def or_stable)

record file_close_op =
  cl_fd :: int
  cl_is_fixed :: bool

definition file_close_init :: file_close_op where
  "file_close_init = \<lparr>cl_fd = -1, cl_is_fixed = False\<rparr>"

definition file_close_file :: "file_handle \<Rightarrow> file_close_op \<Rightarrow> file_close_op" where
  "file_close_file f op = op\<lparr>cl_fd := native_fd f, cl_is_fixed := False\<rparr>"

definition file_close_fixed :: "fixed_file \<Rightarrow> file_close_op \<Rightarrow> file_close_op" where
  "file_close_fixed f op = op\<lparr>cl_fd := fd_index f, cl_is_fixed := True\<rparr>"

text \<open>\<open>io_uring_prep_close_direct\<close> takes the index as an unsigned number.\<close>

definition file_close_opcode :: u8 where
  "file_close_opcode = IORING_OP_CLOSE"

definition file_close_build :: "file_close_op \<Rightarrow> file_close_op \<times> sqe_writes" where
  "file_close_build op =
     (op, if cl_is_fixed op then [Prep (Prep_close_direct (cl_fd op))] else [Prep (Prep_close (cl_fd op))])"

definition file_close_do_callback :: "callback_kind \<Rightarrow> file_close_op \<Rightarrow> int \<Rightarrow> u32 \<Rightarrow> unit invocation" where
  "file_close_do_callback k op ev fl = invoke_void k ev"

interpretation file_close: io_operation file_close_build "file_close_do_callback k" "\<lambda>_ ev. ev = 0" for k
  by unfold_locales (simp_all add: file_close_build_def file_close_do_callback_def)

section \<open>Registering fixed files\<close>

text \<open>
  The kernel writes the allocated index back into \<open>fd\<close> when the offset is \<open>alloc_index\<close>, so
  \<open>do_callback\<close> reads the member as it is at completion.
\<close>

record file_register_op =
  fr_fd :: int
  fr_off :: int

definition file_register_init :: file_register_op where
  "file_register_init = \<lparr>fr_fd = -1, fr_off = IORING_FILE_INDEX_ALLOC\<rparr>"

definition file_register_file :: "file_handle \<Rightarrow> file_register_op \<Rightarrow> file_register_op" where
  "file_register_file f op = op\<lparr>fr_fd := native_fd f\<rparr>"

definition file_register_offset :: "int \<Rightarrow> file_register_op \<Rightarrow> file_register_op" where
  "file_register_offset off op = op\<lparr>fr_off := off\<rparr>"

definition file_register_opcode :: u8 where
  "file_register_opcode = IORING_OP_FILES_UPDATE"

definition file_register_build :: "file_register_op \<Rightarrow> file_register_op \<times> sqe_writes" where
  "file_register_build op = (op, [Prep (Prep_files_update [fr_fd op] 1 (fr_off op))])"

definition file_register_do_callback :: "file_register_op \<Rightarrow> int \<Rightarrow> u32 \<Rightarrow> fixed_file invocation" where
  "file_register_do_callback op ev fl =
     invoke_result (\<lambda>_. \<lparr>fd_index = (if fr_off op = IORING_FILE_INDEX_ALLOC then fr_fd op else fr_off op)\<rparr>) ev"

interpretation file_register: io_operation file_register_build file_register_do_callback "\<lambda>_ ev. ev \<ge> 0"
  by unfold_locales (simp_all add: file_register_build_def file_register_do_callback_def)

record register_batch_op =
  rb_fds :: "int list"
  rb_off :: int

record register_batch_result =
  rb_allocated :: u64
  rb_file_index :: "int list"

definition register_batch_files :: "int list \<Rightarrow> register_batch_op \<Rightarrow> register_batch_op" where
  "register_batch_files fds op = op\<lparr>rb_fds := fds\<rparr>"

definition register_batch_offset :: "int \<Rightarrow> register_batch_op \<Rightarrow> register_batch_op" where
  "register_batch_offset off op = op\<lparr>rb_off := off\<rparr>"

definition register_batch_opcode :: u8 where
  "register_batch_opcode = IORING_OP_FILES_UPDATE"

definition register_batch_build :: "register_batch_op \<Rightarrow> register_batch_op \<times> sqe_writes" where
  "register_batch_build op =
     (op, [Prep (Prep_files_update (rb_fds op) (of_nat (length (rb_fds op))) (rb_off op))])"

text \<open>The loop \<open>fds[i] = off + i\<close>.\<close>

fun number_from :: "int \<Rightarrow> int list \<Rightarrow> int list" where
  "number_from off [] = []"
| "number_from off (_ # fds) = off # number_from (off + 1) fds"

definition register_batch_do_callback :: "register_batch_op \<Rightarrow> int \<Rightarrow> u32 \<Rightarrow> register_batch_result invocation" where
  "register_batch_do_callback op ev fl =
     invoke_result (\<lambda>ev. \<lparr>rb_allocated = word_of_int ev,
       rb_file_index = (if rb_off op \<noteq> IORING_FILE_INDEX_ALLOC then number_from (rb_off op) (rb_fds op) else rb_fds op)\<rparr>) ev"

interpretation register_batch: io_operation register_batch_build register_batch_do_callback "\<lambda>_ ev. ev \<ge> 0"
  by unfold_locales (simp_all add: register_batch_build_def register_batch_do_callback_def)

record file_install_op =
  fi_file_index :: int
  fi_no_cloexec :: bool

definition file_install_init :: file_install_op where
  "file_install_init = \<lparr>fi_file_index = -1, fi_no_cloexec = False\<rparr>"

definition file_install_file :: "fixed_file \<Rightarrow> file_install_op \<Rightarrow> file_install_op" where
  "file_install_file f op = op\<lparr>fi_file_index := fd_index f\<rparr>"

definition file_install_no_cloexec :: "bool \<Rightarrow> file_install_op \<Rightarrow> file_install_op" where
  "file_install_no_cloexec b op = op\<lparr>fi_no_cloexec := b\<rparr>"

definition file_install_opcode :: u8 where
  "file_install_opcode = IORING_OP_FILES_UPDATE"

definition file_install_build :: "file_install_op \<Rightarrow> file_install_op \<times> sqe_writes" where
  "file_install_build op =
     (op, [Prep (Prep_fixed_fd_install (fi_file_index op) (if fi_no_cloexec op then IORING_FIXED_FD_NO_CLOEXEC else 0))])"

definition file_install_do_callback :: "file_install_op \<Rightarrow> int \<Rightarrow> u32 \<Rightarrow> file_handle invocation" where
  "file_install_do_callback op ev fl = invoke_result (\<lambda>ev. \<lparr>native_fd = ev\<rparr>) ev"

interpretation file_install: io_operation file_install_build file_install_do_callback "\<lambda>_ ev. ev \<ge> 0"
  by unfold_locales (simp_all add: file_install_build_def file_install_do_callback_def)

section \<open>Reading and writing\<close>

text \<open>
  The members of \<open>file_read_write_operation_base\<close>, the buffer bases, \<open>rw_flag_base\<close>, the vectored
  bases and \<open>fixed_buffer_base\<close>. Each class below uses some of them.
\<close>

record file_rw_base =
  rw_is_fixed :: bool
  rw_fd :: int
  rw_off :: u64

record file_rw_op = file_rw_base +
  rw_buf :: u64
  rw_len :: u64
  rw_buf_index :: int

record file_vec_op = file_rw_base +
  rv_flags :: u32
  rv_iovecs :: "iovec list"
  rv_buf_index :: int

definition file_rw_init :: file_rw_op where
  "file_rw_init = \<lparr>rw_is_fixed = False, rw_fd = -1, rw_off = 0, rw_buf = 0, rw_len = 0, rw_buf_index = -1\<rparr>"

text \<open>\<open>MaxIOvecs\<close> zero-initialised entries, none for the raw variant.\<close>

definition file_vec_init :: "nat \<Rightarrow> file_vec_op" where
  "file_vec_init max_iovecs =
     \<lparr>rw_is_fixed = False, rw_fd = -1, rw_off = 0, rv_flags = 0,
      rv_iovecs = replicate max_iovecs \<lparr>iov_base = 0, iov_len = 0\<rparr>, rv_buf_index = -1\<rparr>"

definition rw_file :: "file_handle \<Rightarrow> 'a file_rw_base_scheme \<Rightarrow> 'a file_rw_base_scheme" where
  "rw_file f op = op\<lparr>rw_fd := native_fd f, rw_is_fixed := False\<rparr>"

definition rw_fixed_file :: "fixed_file \<Rightarrow> 'a file_rw_base_scheme \<Rightarrow> 'a file_rw_base_scheme" where
  "rw_fixed_file f op = op\<lparr>rw_fd := fd_index f, rw_is_fixed := True\<rparr>"

definition rw_offset :: "u64 \<Rightarrow> 'a file_rw_base_scheme \<Rightarrow> 'a file_rw_base_scheme" where
  "rw_offset off op = op\<lparr>rw_off := off\<rparr>"

definition rw_buffer :: "byte_span \<Rightarrow> file_rw_op \<Rightarrow> file_rw_op" where
  "rw_buffer sp op = op\<lparr>rw_buf := sp_data sp, rw_len := sp_size sp\<rparr>"

definition write_buffer :: "byte_span \<Rightarrow> file_rw_op \<Rightarrow> file_rw_op" where
  "write_buffer sp op = op\<lparr>rw_buf := sp_data sp, rw_len := sp_size sp\<rparr>"

definition rw_index :: "int \<Rightarrow> file_rw_op \<Rightarrow> file_rw_op" where
  "rw_index index op = op\<lparr>rw_buf_index := index\<rparr>"

definition vec_index :: "int \<Rightarrow> file_vec_op \<Rightarrow> file_vec_op" where
  "vec_index index op = op\<lparr>rv_buf_index := index\<rparr>"

definition vec_options :: "u32 \<Rightarrow> file_vec_op \<Rightarrow> file_vec_op" where
  "vec_options flags op = op\<lparr>rv_flags := flags\<rparr>"

definition raw_iovecs :: "iovec list \<Rightarrow> file_vec_op \<Rightarrow> file_vec_op" where
  "raw_iovecs raw op = op\<lparr>rv_iovecs := raw\<rparr>"

text \<open>\<open>std::array::operator[]\<close> does not check its index: \<open>None\<close> is undefined behaviour.\<close>

definition vec_read_buffer :: "nat \<Rightarrow> byte_span \<Rightarrow> file_vec_op \<Rightarrow> file_vec_op option" where
  "vec_read_buffer off sp op =
     (if off < length (rv_iovecs op)
      then Some (op\<lparr>rv_iovecs := (rv_iovecs op)[off := \<lparr>iov_base = sp_data sp, iov_len = sp_size sp\<rparr>]\<rparr>)
      else None)"

definition vec_write_buffer :: "nat \<Rightarrow> byte_span \<Rightarrow> file_vec_op \<Rightarrow> file_vec_op option" where
  "vec_write_buffer off sp op =
     (if off < length (rv_iovecs op)
      then Some (op\<lparr>rv_iovecs := (rv_iovecs op)[off := \<lparr>iov_base = sp_data sp, iov_len = sp_size sp\<rparr>]\<rparr>)
      else None)"

text \<open>The byte count is \<open>unsigned\<close> in liburing: \<open>std::size_t\<close> lengths are narrowed.\<close>

definition file_read_opcode :: u8 where
  "file_read_opcode = IORING_OP_READ"

definition file_read_build :: "file_rw_op \<Rightarrow> file_rw_op \<times> sqe_writes" where
  "file_read_build op = (op, Prep (Prep_read (rw_fd op) (rw_buf op) (ucast (rw_len op)) (rw_off op))
     # fixed_flag (rw_is_fixed op))"

definition file_read_fixed_opcode :: u8 where
  "file_read_fixed_opcode = IORING_OP_READ_FIXED"

definition file_read_fixed_build :: "file_rw_op \<Rightarrow> file_rw_op \<times> sqe_writes" where
  "file_read_fixed_build op =
     (op, Prep (Prep_read_fixed (rw_fd op) (rw_buf op) (ucast (rw_len op)) (rw_off op) (rw_buf_index op))
     # fixed_flag (rw_is_fixed op))"

definition file_write_opcode :: u8 where
  "file_write_opcode = IORING_OP_WRITE"

definition file_write_build :: "file_rw_op \<Rightarrow> file_rw_op \<times> sqe_writes" where
  "file_write_build op = (op, Prep (Prep_write (rw_fd op) (rw_buf op) (ucast (rw_len op)) (rw_off op))
     # fixed_flag (rw_is_fixed op))"

definition file_write_fixed_opcode :: u8 where
  "file_write_fixed_opcode = IORING_OP_WRITE_FIXED"

definition file_write_fixed_build :: "file_rw_op \<Rightarrow> file_rw_op \<times> sqe_writes" where
  "file_write_fixed_build op =
     (op, Prep (Prep_write_fixed (rw_fd op) (rw_buf op) (ucast (rw_len op)) (rw_off op) (rw_buf_index op))
     # fixed_flag (rw_is_fixed op))"

definition file_readv_opcode :: u8 where
  "file_readv_opcode = IORING_OP_READV"

definition file_readv_build :: "file_vec_op \<Rightarrow> file_vec_op \<times> sqe_writes" where
  "file_readv_build op =
     (op, Prep (Prep_readv2 (rw_fd op) (rv_iovecs op) (of_nat (length (rv_iovecs op))) (rw_off op) (rv_flags op))
     # fixed_flag (rw_is_fixed op))"

definition file_readv_fixed_opcode :: u8 where
  "file_readv_fixed_opcode = IORING_OP_READV_FIXED"

definition file_readv_fixed_build :: "file_vec_op \<Rightarrow> file_vec_op \<times> sqe_writes" where
  "file_readv_fixed_build op =
     (op, Prep (Prep_readv_fixed (rw_fd op) (rv_iovecs op) (of_nat (length (rv_iovecs op))) (rw_off op) (rv_flags op)
       (rv_buf_index op))
     # fixed_flag (rw_is_fixed op))"

definition file_writev_opcode :: u8 where
  "file_writev_opcode = IORING_OP_WRITEV"

definition file_writev_build :: "file_vec_op \<Rightarrow> file_vec_op \<times> sqe_writes" where
  "file_writev_build op =
     (op, Prep (Prep_writev2 (rw_fd op) (rv_iovecs op) (of_nat (length (rv_iovecs op))) (rw_off op) (rv_flags op))
     # fixed_flag (rw_is_fixed op))"

definition file_writev_fixed_opcode :: u8 where
  "file_writev_fixed_opcode = IORING_OP_WRITEV_FIXED"

definition file_writev_fixed_build :: "file_vec_op \<Rightarrow> file_vec_op \<times> sqe_writes" where
  "file_writev_fixed_build op =
     (op, Prep (Prep_writev_fixed (rw_fd op) (rv_iovecs op) (of_nat (length (rv_iovecs op))) (rw_off op) (rv_flags op)
       (rv_buf_index op))
     # fixed_flag (rw_is_fixed op))"

text \<open>The eight classes deliver the number of bytes as \<open>std::ptrdiff_t\<close>.\<close>

definition file_read_do_callback :: "file_rw_op \<Rightarrow> int \<Rightarrow> u32 \<Rightarrow> int invocation" where
  "file_read_do_callback op ev fl = invoke_result (\<lambda>ev. ev) ev"

definition file_read_fixed_do_callback :: "file_rw_op \<Rightarrow> int \<Rightarrow> u32 \<Rightarrow> int invocation" where
  "file_read_fixed_do_callback op ev fl = invoke_result (\<lambda>ev. ev) ev"

definition file_write_do_callback :: "file_rw_op \<Rightarrow> int \<Rightarrow> u32 \<Rightarrow> int invocation" where
  "file_write_do_callback op ev fl = invoke_result (\<lambda>ev. ev) ev"

definition file_write_fixed_do_callback :: "file_rw_op \<Rightarrow> int \<Rightarrow> u32 \<Rightarrow> int invocation" where
  "file_write_fixed_do_callback op ev fl = invoke_result (\<lambda>ev. ev) ev"

definition file_readv_do_callback :: "file_vec_op \<Rightarrow> int \<Rightarrow> u32 \<Rightarrow> int invocation" where
  "file_readv_do_callback op ev fl = invoke_result (\<lambda>ev. ev) ev"

definition file_readv_fixed_do_callback :: "file_vec_op \<Rightarrow> int \<Rightarrow> u32 \<Rightarrow> int invocation" where
  "file_readv_fixed_do_callback op ev fl = invoke_result (\<lambda>ev. ev) ev"

definition file_writev_do_callback :: "file_vec_op \<Rightarrow> int \<Rightarrow> u32 \<Rightarrow> int invocation" where
  "file_writev_do_callback op ev fl = invoke_result (\<lambda>ev. ev) ev"

definition file_writev_fixed_do_callback :: "file_vec_op \<Rightarrow> int \<Rightarrow> u32 \<Rightarrow> int invocation" where
  "file_writev_fixed_do_callback op ev fl = invoke_result (\<lambda>ev. ev) ev"

lemmas file_rw_defs [op_simps] =
  file_read_build_def file_read_fixed_build_def file_write_build_def file_write_fixed_build_def
  file_readv_build_def file_readv_fixed_build_def file_writev_build_def file_writev_fixed_build_def
  file_read_do_callback_def file_read_fixed_do_callback_def file_write_do_callback_def
  file_write_fixed_do_callback_def file_readv_do_callback_def file_readv_fixed_do_callback_def
  file_writev_do_callback_def file_writev_fixed_do_callback_def

interpretation file_read: targeted_operation file_read_build file_read_do_callback "\<lambda>_ ev. ev \<ge> 0" rw_is_fixed
  by unfold_locales (simp_all add: op_simps)

interpretation file_read_fixed:
  targeted_operation file_read_fixed_build file_read_fixed_do_callback "\<lambda>_ ev. ev \<ge> 0" rw_is_fixed
  by unfold_locales (simp_all add: op_simps)

interpretation file_write: targeted_operation file_write_build file_write_do_callback "\<lambda>_ ev. ev \<ge> 0" rw_is_fixed
  by unfold_locales (simp_all add: op_simps)

interpretation file_write_fixed:
  targeted_operation file_write_fixed_build file_write_fixed_do_callback "\<lambda>_ ev. ev \<ge> 0" rw_is_fixed
  by unfold_locales (simp_all add: op_simps)

interpretation file_readv: targeted_operation file_readv_build file_readv_do_callback "\<lambda>_ ev. ev \<ge> 0" rw_is_fixed
  by unfold_locales (simp_all add: op_simps)

interpretation file_readv_fixed:
  targeted_operation file_readv_fixed_build file_readv_fixed_do_callback "\<lambda>_ ev. ev \<ge> 0" rw_is_fixed
  by unfold_locales (simp_all add: op_simps)

interpretation file_writev: targeted_operation file_writev_build file_writev_do_callback "\<lambda>_ ev. ev \<ge> 0" rw_is_fixed
  by unfold_locales (simp_all add: op_simps)

interpretation file_writev_fixed:
  targeted_operation file_writev_fixed_build file_writev_fixed_do_callback "\<lambda>_ ev. ev \<ge> 0" rw_is_fixed
  by unfold_locales (simp_all add: op_simps)

section \<open>Directory entries\<close>

record single_path_op =
  sp_pathstr :: string
  sp_dirfd :: int

record dual_path_op =
  dp_oldpathstr :: string
  dp_olddirfd :: int
  dp_newpathstr :: string
  dp_newdirfd :: int

definition single_path_init :: single_path_op where
  "single_path_init = \<lparr>sp_pathstr = [], sp_dirfd = native_fd current_directory\<rparr>"

definition dual_path_init :: dual_path_op where
  "dual_path_init = \<lparr>dp_oldpathstr = [], dp_olddirfd = native_fd current_directory,
     dp_newpathstr = [], dp_newdirfd = native_fd current_directory\<rparr>"

definition sp_path :: "string \<Rightarrow> 'a single_path_op_scheme \<Rightarrow> 'a single_path_op_scheme" where
  "sp_path p op = op\<lparr>sp_pathstr := p\<rparr>"

definition sp_directory :: "file_handle \<Rightarrow> 'a single_path_op_scheme \<Rightarrow> 'a single_path_op_scheme" where
  "sp_directory dir op = op\<lparr>sp_dirfd := native_fd dir\<rparr>"

definition dp_old_path :: "string \<Rightarrow> 'a dual_path_op_scheme \<Rightarrow> 'a dual_path_op_scheme" where
  "dp_old_path p op = op\<lparr>dp_oldpathstr := p\<rparr>"

definition dp_old_directory :: "file_handle \<Rightarrow> 'a dual_path_op_scheme \<Rightarrow> 'a dual_path_op_scheme" where
  "dp_old_directory dir op = op\<lparr>dp_olddirfd := native_fd dir\<rparr>"

definition dp_new_path :: "string \<Rightarrow> 'a dual_path_op_scheme \<Rightarrow> 'a dual_path_op_scheme" where
  "dp_new_path p op = op\<lparr>dp_newpathstr := p\<rparr>"

definition dp_new_directory :: "file_handle \<Rightarrow> 'a dual_path_op_scheme \<Rightarrow> 'a dual_path_op_scheme" where
  "dp_new_directory dir op = op\<lparr>dp_newdirfd := native_fd dir\<rparr>"

record unlink_op = single_path_op +
  ul_flags :: u32

record mkdir_op = single_path_op +
  mk_mode :: u32

record rename_op = dual_path_op +
  rn_flags :: u32

record link_op = dual_path_op +
  ln_flags :: u32

record symlink_op =
  sy_target :: string
  sy_linkpath :: string
  sy_newdirfd :: int

definition unlink_set_flags :: "u32 \<Rightarrow> unlink_op \<Rightarrow> unlink_op" where
  "unlink_set_flags fl op = op\<lparr>ul_flags := fl\<rparr>"

definition unlink_opcode :: u8 where
  "unlink_opcode = IORING_OP_UNLINKAT"

definition unlink_build :: "unlink_op \<Rightarrow> unlink_op \<times> sqe_writes" where
  "unlink_build op = (op, [Prep (Prep_unlinkat (sp_dirfd op) (c_str (sp_pathstr op)) (ul_flags op))])"

definition unlink_do_callback :: "callback_kind \<Rightarrow> unlink_op \<Rightarrow> int \<Rightarrow> u32 \<Rightarrow> unit invocation" where
  "unlink_do_callback k op ev fl = invoke_void k ev"

definition rename_set_flags :: "u32 \<Rightarrow> rename_op \<Rightarrow> rename_op" where
  "rename_set_flags fl op = op\<lparr>rn_flags := fl\<rparr>"

definition rename_opcode :: u8 where
  "rename_opcode = IORING_OP_RENAMEAT"

definition rename_build :: "rename_op \<Rightarrow> rename_op \<times> sqe_writes" where
  "rename_build op = (op, [Prep (Prep_renameat (dp_olddirfd op) (c_str (dp_oldpathstr op))
     (dp_newdirfd op) (c_str (dp_newpathstr op)) (rn_flags op))])"

definition rename_do_callback :: "callback_kind \<Rightarrow> rename_op \<Rightarrow> int \<Rightarrow> u32 \<Rightarrow> unit invocation" where
  "rename_do_callback k op ev fl = invoke_void k ev"

text \<open>\<open>open_mode\<close> is 64 bits wide, \<open>mode_t\<close> 32.\<close>

definition mkdir_set_mode :: "u64 \<Rightarrow> mkdir_op \<Rightarrow> mkdir_op" where
  "mkdir_set_mode mode op = op\<lparr>mk_mode := ucast mode\<rparr>"

definition mkdir_opcode :: u8 where
  "mkdir_opcode = IORING_OP_MKDIRAT"

definition mkdir_build :: "mkdir_op \<Rightarrow> mkdir_op \<times> sqe_writes" where
  "mkdir_build op = (op, [Prep (Prep_mkdirat (sp_dirfd op) (c_str (sp_pathstr op)) (mk_mode op))])"

definition mkdir_do_callback :: "callback_kind \<Rightarrow> mkdir_op \<Rightarrow> int \<Rightarrow> u32 \<Rightarrow> unit invocation" where
  "mkdir_do_callback k op ev fl = invoke_void k ev"

definition symlink_init :: symlink_op where
  "symlink_init = \<lparr>sy_target = [], sy_linkpath = [], sy_newdirfd = native_fd current_directory\<rparr>"

definition symlink_target :: "string \<Rightarrow> symlink_op \<Rightarrow> symlink_op" where
  "symlink_target p op = op\<lparr>sy_target := p\<rparr>"

definition symlink_link_path :: "string \<Rightarrow> symlink_op \<Rightarrow> symlink_op" where
  "symlink_link_path p op = op\<lparr>sy_linkpath := p\<rparr>"

definition symlink_directory :: "file_handle \<Rightarrow> symlink_op \<Rightarrow> symlink_op" where
  "symlink_directory dir op = op\<lparr>sy_newdirfd := native_fd dir\<rparr>"

definition symlink_opcode :: u8 where
  "symlink_opcode = IORING_OP_SYMLINKAT"

definition symlink_build :: "symlink_op \<Rightarrow> symlink_op \<times> sqe_writes" where
  "symlink_build op = (op, [Prep (Prep_symlinkat (c_str (sy_target op)) (sy_newdirfd op) (c_str (sy_linkpath op)))])"

definition symlink_do_callback :: "callback_kind \<Rightarrow> symlink_op \<Rightarrow> int \<Rightarrow> u32 \<Rightarrow> unit invocation" where
  "symlink_do_callback k op ev fl = invoke_void k ev"

definition link_set_flags :: "u32 \<Rightarrow> link_op \<Rightarrow> link_op" where
  "link_set_flags fl op = op\<lparr>ln_flags := fl\<rparr>"

definition link_opcode :: u8 where
  "link_opcode = IORING_OP_LINKAT"

definition link_build :: "link_op \<Rightarrow> link_op \<times> sqe_writes" where
  "link_build op = (op, [Prep (Prep_linkat (dp_olddirfd op) (c_str (dp_oldpathstr op))
     (dp_newdirfd op) (c_str (dp_newpathstr op)) (ln_flags op))])"

definition link_do_callback :: "callback_kind \<Rightarrow> link_op \<Rightarrow> int \<Rightarrow> u32 \<Rightarrow> unit invocation" where
  "link_do_callback k op ev fl = invoke_void k ev"

interpretation unlink: io_operation unlink_build "unlink_do_callback k" "\<lambda>_ ev. ev = 0" for k
  by unfold_locales (simp_all add: unlink_build_def unlink_do_callback_def)

interpretation rename: io_operation rename_build "rename_do_callback k" "\<lambda>_ ev. ev = 0" for k
  by unfold_locales (simp_all add: rename_build_def rename_do_callback_def)

interpretation mkdir: io_operation mkdir_build "mkdir_do_callback k" "\<lambda>_ ev. ev = 0" for k
  by unfold_locales (simp_all add: mkdir_build_def mkdir_do_callback_def)

interpretation symlink: io_operation symlink_build "symlink_do_callback k" "\<lambda>_ ev. ev = 0" for k
  by unfold_locales (simp_all add: symlink_build_def symlink_do_callback_def)

interpretation link: io_operation link_build "link_do_callback k" "\<lambda>_ ev. ev = 0" for k
  by unfold_locales (simp_all add: link_build_def link_do_callback_def)

section \<open>Polling\<close>

record poll_op =
  po_fd :: int
  po_is_fixed :: bool
  po_mask :: u32

definition poll_init :: poll_op where
  "poll_init = \<lparr>po_fd = -1, po_is_fixed = False, po_mask = 0\<rparr>"

definition poll_file :: "file_handle \<Rightarrow> poll_op \<Rightarrow> poll_op" where
  "poll_file f op = op\<lparr>po_fd := native_fd f, po_is_fixed := False\<rparr>"

definition poll_fixed_file :: "fixed_file \<Rightarrow> poll_op \<Rightarrow> poll_op" where
  "poll_fixed_file f op = op\<lparr>po_fd := fd_index f, po_is_fixed := True\<rparr>"

definition poll_events :: "u32 \<Rightarrow> poll_op \<Rightarrow> poll_op" where
  "poll_events events op = op\<lparr>po_mask := events\<rparr>"

definition poll_add_opcode :: u8 where
  "poll_add_opcode = IORING_OP_POLL_ADD"

definition poll_add_build :: "poll_op \<Rightarrow> poll_op \<times> sqe_writes" where
  "poll_add_build op = (op, Prep (Prep_poll_add (po_fd op) (po_mask op)) # fixed_flag (po_is_fixed op))"

definition poll_add_do_callback :: "poll_op \<Rightarrow> int \<Rightarrow> u32 \<Rightarrow> u32 invocation" where
  "poll_add_do_callback op ev fl = invoke_result word_of_int ev"

record multishot_poll_result =
  mp_events :: u32
  mp_more :: bool

definition poll_multishot_opcode :: u8 where
  "poll_multishot_opcode = IORING_OP_POLL_ADD"

definition poll_multishot_build :: "poll_op \<Rightarrow> poll_op \<times> sqe_writes" where
  "poll_multishot_build op = (op, Prep (Prep_poll_multishot (po_fd op) (po_mask op)) # fixed_flag (po_is_fixed op))"

definition poll_multishot_do_callback :: "poll_op \<Rightarrow> int \<Rightarrow> u32 \<Rightarrow> multishot_poll_result invocation" where
  "poll_multishot_do_callback op ev fl =
     invoke_result (\<lambda>ev. \<lparr>mp_events = word_of_int ev, mp_more = cqe_more fl\<rparr>) ev"

interpretation poll_add: targeted_operation poll_add_build poll_add_do_callback "\<lambda>_ ev. ev \<ge> 0" po_is_fixed
  by unfold_locales (simp_all add: poll_add_build_def poll_add_do_callback_def op_simps)

interpretation poll_multishot:
  targeted_operation poll_multishot_build poll_multishot_do_callback "\<lambda>_ ev. ev \<ge> 0" po_is_fixed
  by unfold_locales (simp_all add: poll_multishot_build_def poll_multishot_do_callback_def op_simps)

record poll_remove_op =
  pr_id :: operation_identifier

definition poll_remove_target :: "operation_identifier \<Rightarrow> 'a poll_remove_op_scheme \<Rightarrow> 'a poll_remove_op_scheme" where
  "poll_remove_target identifier op = op\<lparr>pr_id := identifier\<rparr>"

definition poll_remove_opcode :: u8 where
  "poll_remove_opcode = IORING_OP_POLL_REMOVE"

definition poll_remove_build :: "poll_remove_op \<Rightarrow> poll_remove_op \<times> sqe_writes" where
  "poll_remove_build op = (op, [Prep (Prep_poll_remove (user_data64 (pr_id op)))])"

definition poll_remove_do_callback :: "callback_kind \<Rightarrow> poll_remove_op \<Rightarrow> int \<Rightarrow> u32 \<Rightarrow> unit invocation" where
  "poll_remove_do_callback k op ev fl = invoke_void k ev"

interpretation poll_remove: io_operation poll_remove_build "poll_remove_do_callback k" "\<lambda>_ ev. ev = 0" for k
  by unfold_locales (simp_all add: poll_remove_build_def poll_remove_do_callback_def)

record poll_update_op = poll_remove_op +
  pu_mask :: u32
  pu_flags :: u32

definition poll_update_init :: poll_update_op where
  "poll_update_init = \<lparr>pr_id = id_default, pu_mask = 0, pu_flags = IORING_POLL_UPDATE_EVENTS\<rparr>"

definition poll_update_events :: "u32 \<Rightarrow> poll_update_op \<Rightarrow> poll_update_op" where
  "poll_update_events events op = op\<lparr>pu_mask := events\<rparr>"

definition poll_update_multishot :: "poll_update_op \<Rightarrow> poll_update_op" where
  "poll_update_multishot op = op\<lparr>pu_flags := pu_flags op OR IORING_POLL_ADD_MULTI\<rparr>"

definition poll_update_opcode :: u8 where
  "poll_update_opcode = IORING_OP_POLL_REMOVE"

definition poll_update_build :: "poll_update_op \<Rightarrow> poll_update_op \<times> sqe_writes" where
  "poll_update_build op = (op, [Prep (Prep_poll_update (user_data64 (pr_id op)) 0 (pu_mask op) (pu_flags op))])"

definition poll_update_do_callback :: "callback_kind \<Rightarrow> poll_update_op \<Rightarrow> int \<Rightarrow> u32 \<Rightarrow> unit invocation" where
  "poll_update_do_callback k op ev fl = invoke_void k ev"

interpretation poll_update: io_operation poll_update_build "poll_update_do_callback k" "\<lambda>_ ev. ev = 0" for k
  by unfold_locales (simp_all add: poll_update_build_def poll_update_do_callback_def)

end
