(* ===== verification/Sockets.thy ===== *)
theory Sockets
  imports Ops_File
begin

text \<open>
  \<open>include/iouxx/iouops/network/\<close>: the socket types of \<open>socket.hpp\<close>, the operations of
  \<open>sockprep.hpp\<close> (open, close, bind) and of \<open>connection.hpp\<close> (listen, connect, accept, shutdown).
  The operations that are templates over an endpoint class take its conversions and the size of
  its system structure as arguments; the contract of such a class is the locale \<open>endpoint\<close>.
\<close>

section \<open>Sockets and connections\<close>

abbreviation "SOCK_STREAM \<equiv> (1 :: u32)"
abbreviation "unknown_protocol_no \<equiv> (-1 :: int)"
abbreviation "protocol_no_limit \<equiv> (512 :: nat)"

record socket_config =
  sc_domain :: u32
  sc_type :: u32
  sc_protocol :: int

definition socket_config_default :: socket_config where
  "socket_config_default = \<lparr>sc_domain = 0, sc_type = SOCK_STREAM, sc_protocol = unknown_protocol_no\<rparr>"

record socket = socket_config +
  sock_fd :: int

record fixed_socket = socket_config +
  sock_index :: int

record connection = socket +
  conn_fd :: int

record fixed_connection = fixed_socket +
  conn_index :: int

definition socket_default :: socket where
  "socket_default = socket_config.extend socket_config_default \<lparr>sock_fd = -1\<rparr>"

definition fixed_socket_default :: fixed_socket where
  "fixed_socket_default = socket_config.extend socket_config_default \<lparr>sock_index = -1\<rparr>"

definition connection_of :: "socket \<Rightarrow> int \<Rightarrow> connection" where
  "connection_of s fd = socket.extend s \<lparr>conn_fd = fd\<rparr>"

definition fixed_connection_of :: "fixed_socket \<Rightarrow> int \<Rightarrow> fixed_connection" where
  "fixed_connection_of s index = fixed_socket.extend s \<lparr>conn_index = index\<rparr>"

text \<open>\<open>socket_variant\<close>, and what the visitors of the \<open>build\<close> methods read from it.\<close>

datatype socket_variant = Plain_socket socket | Fixed_socket fixed_socket

fun variant_fd :: "socket_variant \<Rightarrow> int" where
  "variant_fd (Plain_socket s) = sock_fd s"
| "variant_fd (Fixed_socket s) = sock_index s"

fun variant_fixed :: "socket_variant \<Rightarrow> bool" where
  "variant_fixed (Plain_socket s) = False"
| "variant_fixed (Fixed_socket s) = True"

text \<open>
  The overloaded setters \<open>socket(...)\<close> of the classes that keep a descriptor and \<open>is_fixed\<close>: a
  socket, a fixed socket, a connection or a fixed connection.
\<close>

datatype socket_arg =
    Arg_socket socket
  | Arg_fixed_socket fixed_socket
  | Arg_connection connection
  | Arg_fixed_connection fixed_connection

fun arg_target :: "socket_arg \<Rightarrow> int \<times> bool" where
  "arg_target (Arg_socket s) = (sock_fd s, False)"
| "arg_target (Arg_fixed_socket s) = (sock_index s, True)"
| "arg_target (Arg_connection c) = (conn_fd c, False)"
| "arg_target (Arg_fixed_connection c) = (conn_index c, True)"

fun arg_domain :: "socket_arg \<Rightarrow> u32" where
  "arg_domain (Arg_socket s) = sc_domain s"
| "arg_domain (Arg_fixed_socket s) = sc_domain s"
| "arg_domain (Arg_connection c) = sc_domain c"
| "arg_domain (Arg_fixed_connection c) = sc_domain c"

section \<open>Endpoint classes\<close>

locale endpoint =
  fixes to_sys :: "'i \<Rightarrow> sys_sockaddr" and from_sys :: "sys_sockaddr \<Rightarrow> nat \<Rightarrow> 'i option" and sys_size :: nat
    and valid_info :: "'i \<Rightarrow> bool"
  assumes from_to: "valid_info i \<Longrightarrow> from_sys (to_sys i) sys_size = Some i"
begin

lemma to_sys_inj: "valid_info i \<Longrightarrow> valid_info j \<Longrightarrow> to_sys i = to_sys j \<longleftrightarrow> i = j"
  using from_to by (metis option.inject)

end

text \<open>Most endpoint classes insist on the exact size of their structure.\<close>

locale sized_endpoint = endpoint +
  assumes wrong_size: "n \<noteq> sys_size \<Longrightarrow> from_sys a n = None"
begin

lemma from_sys_size: "from_sys a n = Some i \<Longrightarrow> n = sys_size"
  using wrong_size by (cases "n = sys_size") auto

end

section \<open>Opening, closing, binding\<close>

definition prep_domain :: "u32 \<Rightarrow> 'a socket_config_scheme \<Rightarrow> 'a socket_config_scheme" where
  "prep_domain d op = op\<lparr>sc_domain := d\<rparr>"

definition prep_type :: "u32 \<Rightarrow> 'a socket_config_scheme \<Rightarrow> 'a socket_config_scheme" where
  "prep_type t op = op\<lparr>sc_type := t OR SOCK_NONBLOCK\<rparr>"

definition prep_protocol :: "int \<Rightarrow> 'a socket_config_scheme \<Rightarrow> 'a socket_config_scheme" where
  "prep_protocol p op = op\<lparr>sc_protocol := p\<rparr>"

definition socket_open_opcode :: u8 where
  "socket_open_opcode = IORING_OP_SOCKET"

definition socket_open_build :: "socket_config \<Rightarrow> socket_config \<times> sqe_writes" where
  "socket_open_build op =
     (op, [Prep (Prep_socket (sc_domain op) (sc_type op OR SOCK_CLOEXEC) (sc_protocol op) 0)])"

definition socket_open_do_callback :: "socket_config \<Rightarrow> int \<Rightarrow> u32 \<Rightarrow> socket invocation" where
  "socket_open_do_callback op ev fl =
     invoke_result (\<lambda>ev. \<lparr>sc_domain = sc_domain op, sc_type = sc_type op, sc_protocol = sc_protocol op, sock_fd = ev\<rparr>) ev"

interpretation socket_open: io_operation socket_open_build socket_open_do_callback "\<lambda>_ ev. ev \<ge> 0"
  by unfold_locales (simp_all add: socket_open_build_def socket_open_do_callback_def)

record fixed_socket_open_op = socket_config +
  fso_file_index :: int

definition fixed_socket_open_init :: fixed_socket_open_op where
  "fixed_socket_open_init = socket_config.extend socket_config_default \<lparr>fso_file_index = IORING_FILE_INDEX_ALLOC\<rparr>"

definition fixed_socket_open_index :: "int \<Rightarrow> fixed_socket_open_op \<Rightarrow> fixed_socket_open_op" where
  "fixed_socket_open_index index op = op\<lparr>fso_file_index := index\<rparr>"

definition fixed_socket_open_opcode :: u8 where
  "fixed_socket_open_opcode = IORING_OP_SOCKET"

definition fixed_socket_open_build :: "fixed_socket_open_op \<Rightarrow> fixed_socket_open_op \<times> sqe_writes" where
  "fixed_socket_open_build op =
     (op, [Prep (Prep_socket_direct (sc_domain op) (sc_type op) (sc_protocol op) (fso_file_index op) 0)])"

definition fixed_socket_open_do_callback :: "fixed_socket_open_op \<Rightarrow> int \<Rightarrow> u32 \<Rightarrow> fixed_socket invocation" where
  "fixed_socket_open_do_callback op ev fl =
     invoke_result (\<lambda>ev. \<lparr>sc_domain = sc_domain op, sc_type = sc_type op, sc_protocol = sc_protocol op, sock_index = ev\<rparr>) ev"

interpretation fixed_socket_open:
  io_operation fixed_socket_open_build fixed_socket_open_do_callback "\<lambda>_ ev. ev \<ge> 0"
  by unfold_locales (simp_all add: fixed_socket_open_build_def fixed_socket_open_do_callback_def)

record socket_close_op =
  so_fd :: int
  so_is_fixed :: bool

definition socket_close_init :: socket_close_op where
  "socket_close_init = \<lparr>so_fd = -1, so_is_fixed = False\<rparr>"

definition socket_close_socket :: "socket_arg \<Rightarrow> socket_close_op \<Rightarrow> socket_close_op" where
  "socket_close_socket a op = op\<lparr>so_fd := fst (arg_target a), so_is_fixed := snd (arg_target a)\<rparr>"

definition socket_close_opcode :: u8 where
  "socket_close_opcode = IORING_OP_CLOSE"

definition socket_close_build :: "socket_close_op \<Rightarrow> socket_close_op \<times> sqe_writes" where
  "socket_close_build op =
     (op, if so_is_fixed op then [Prep (Prep_close_direct (so_fd op))] else [Prep (Prep_close (so_fd op))])"

definition socket_close_do_callback :: "callback_kind \<Rightarrow> socket_close_op \<Rightarrow> int \<Rightarrow> u32 \<Rightarrow> unit invocation" where
  "socket_close_do_callback k op ev fl = invoke_void k ev"

interpretation socket_close: io_operation socket_close_build "socket_close_do_callback k" "\<lambda>_ ev. ev = 0" for k
  by unfold_locales (simp_all add: socket_close_build_def socket_close_do_callback_def)

record bind_op =
  bi_sock :: socket_variant
  bi_sockaddr :: sys_sockaddr

text \<open>The domain of the endpoint class must be that of the socket.\<close>

definition bind_socket :: "u32 \<Rightarrow> socket \<Rightarrow> bind_op \<Rightarrow> bind_op option" where
  "bind_socket info_domain s op = do {
     IOUXX_ASSERT (info_domain = sc_domain s);
     Some (op\<lparr>bi_sock := Plain_socket s\<rparr>) }"

definition bind_fixed_socket :: "u32 \<Rightarrow> fixed_socket \<Rightarrow> bind_op \<Rightarrow> bind_op option" where
  "bind_fixed_socket info_domain s op = do {
     IOUXX_ASSERT (info_domain = sc_domain s);
     Some (op\<lparr>bi_sock := Fixed_socket s\<rparr>) }"

definition bind_socket_info :: "('i \<Rightarrow> sys_sockaddr) \<Rightarrow> 'i \<Rightarrow> bind_op \<Rightarrow> bind_op" where
  "bind_socket_info to_sys addr op = op\<lparr>bi_sockaddr := to_sys addr\<rparr>"

definition bind_opcode :: u8 where
  "bind_opcode = IORING_OP_BIND"

definition bind_build :: "nat \<Rightarrow> bind_op \<Rightarrow> bind_op \<times> sqe_writes" where
  "bind_build sys_size op =
     (op, case bi_sock op of
            Plain_socket s \<Rightarrow> [Prep (Prep_bind (sock_fd s) (bi_sockaddr op) sys_size)]
          | Fixed_socket s \<Rightarrow> [Prep (Prep_bind (sock_index s) (bi_sockaddr op) sys_size), Or_flags IOSQE_FIXED_FILE])"

definition bind_do_callback :: "callback_kind \<Rightarrow> bind_op \<Rightarrow> int \<Rightarrow> u32 \<Rightarrow> unit invocation" where
  "bind_do_callback k op ev fl = invoke_void k ev"

interpretation socket_bind: targeted_operation "bind_build n" "bind_do_callback k" "\<lambda>_ ev. ev = 0"
  "\<lambda>op. variant_fixed (bi_sock op)" for n k
  by unfold_locales
    (simp_all add: bind_build_def bind_do_callback_def sqe_fixed_file_def split: socket_variant.splits)

section \<open>Listening and connecting\<close>

record listen_op =
  li_sock :: socket_variant
  li_bl :: int

definition listen_init :: listen_op where
  "listen_init = \<lparr>li_sock = Plain_socket socket_default, li_bl = int SOMAXCONN\<rparr>"

definition listen_socket :: "socket_variant \<Rightarrow> listen_op \<Rightarrow> listen_op" where
  "listen_socket s op = op\<lparr>li_sock := s\<rparr>"

text \<open>\<open>std::clamp(backlog, DEFAULT_BACKLOG, INT_MAX)\<close> on 64-bit unsigned values, stored into an \<open>int\<close>.\<close>

definition clamp :: "u64 \<Rightarrow> u64 \<Rightarrow> u64 \<Rightarrow> u64" where
  "clamp v lo hi = (if v < lo then lo else if hi < v then hi else v)"

definition listen_backlog :: "u64 \<Rightarrow> listen_op \<Rightarrow> listen_op" where
  "listen_backlog backlog op = op\<lparr>li_bl := uint (clamp backlog (of_nat SOMAXCONN) (word_of_int INT_MAX))\<rparr>"

definition listen_opcode :: u8 where
  "listen_opcode = IORING_OP_LISTEN"

definition listen_build :: "listen_op \<Rightarrow> listen_op \<times> sqe_writes" where
  "listen_build op =
     (op, case li_sock op of
            Plain_socket s \<Rightarrow> [Prep (Prep_listen (sock_fd s) (li_bl op))]
          | Fixed_socket s \<Rightarrow> [Prep (Prep_listen (sock_index s) (li_bl op)), Or_flags IOSQE_FIXED_FILE])"

definition listen_do_callback :: "callback_kind \<Rightarrow> listen_op \<Rightarrow> int \<Rightarrow> u32 \<Rightarrow> unit invocation" where
  "listen_do_callback k op ev fl = invoke_void k ev"

interpretation socket_listen: targeted_operation listen_build "listen_do_callback k" "\<lambda>_ ev. ev = 0"
  "\<lambda>op. variant_fixed (li_sock op)" for k
  by unfold_locales
    (simp_all add: listen_build_def listen_do_callback_def sqe_fixed_file_def split: socket_variant.splits)

text \<open>
  The backlog always fits into an \<open>int\<close>; requests below \<open>SOMAXCONN\<close> are raised to it, so no
  smaller backlog can be asked for.
\<close>

lemma listen_backlog_bounds:
  "li_bl (listen_backlog b op) = max 4096 (min (uint b) INT_MAX)"
  by (auto simp: listen_backlog_def clamp_def word_less_def)

record connect_op =
  co_sock :: socket_variant
  co_sockaddr :: sys_sockaddr

definition connect_socket :: "u32 \<Rightarrow> socket \<Rightarrow> connect_op \<Rightarrow> connect_op option" where
  "connect_socket info_domain s op = do {
     IOUXX_ASSERT (info_domain = sc_domain s);
     Some (op\<lparr>co_sock := Plain_socket s\<rparr>) }"

definition connect_fixed_socket :: "u32 \<Rightarrow> fixed_socket \<Rightarrow> connect_op \<Rightarrow> connect_op option" where
  "connect_fixed_socket info_domain s op = do {
     IOUXX_ASSERT (info_domain = sc_domain s);
     Some (op\<lparr>co_sock := Fixed_socket s\<rparr>) }"

text \<open>\<open>peer_socket_info_base\<close>.\<close>

definition peer_socket_info :: "('i \<Rightarrow> sys_sockaddr) \<Rightarrow> 'i \<Rightarrow> connect_op \<Rightarrow> connect_op" where
  "peer_socket_info to_sys addr op = op\<lparr>co_sockaddr := to_sys addr\<rparr>"

definition connect_opcode :: u8 where
  "connect_opcode = IORING_OP_CONNECT"

definition connect_build :: "nat \<Rightarrow> connect_op \<Rightarrow> connect_op \<times> sqe_writes" where
  "connect_build addrlen op =
     (op, case co_sock op of
            Plain_socket s \<Rightarrow> [Prep (Prep_connect (sock_fd s) (co_sockaddr op) addrlen)]
          | Fixed_socket s \<Rightarrow> [Prep (Prep_connect (sock_index s) (co_sockaddr op) addrlen), Or_flags IOSQE_FIXED_FILE])"

definition connect_do_callback :: "callback_kind \<Rightarrow> connect_op \<Rightarrow> int \<Rightarrow> u32 \<Rightarrow> unit invocation" where
  "connect_do_callback k op ev fl = invoke_void k ev"

interpretation socket_connect: targeted_operation "connect_build n" "connect_do_callback k" "\<lambda>_ ev. ev = 0"
  "\<lambda>op. variant_fixed (co_sock op)" for n k
  by unfold_locales
    (simp_all add: connect_build_def connect_do_callback_def sqe_fixed_file_def split: socket_variant.splits)

section \<open>Accepting\<close>

text \<open>
  \<open>ac_sockaddr\<close> and \<open>ac_addrlen\<close> are written by the kernel before the completion. The length is
  initialised once, with the size of the structure.
\<close>

record accept_op =
  ac_sock :: socket
  ac_sockaddr :: sys_sockaddr
  ac_addrlen :: nat

record 'i accept_result =
  ar_conn :: connection
  ar_peer :: 'i

definition accept_init :: "nat \<Rightarrow> accept_op" where
  "accept_init sys_size = \<lparr>ac_sock = socket_default, ac_sockaddr = Sa_unspec, ac_addrlen = sys_size\<rparr>"

definition accept_socket :: "u32 \<Rightarrow> socket \<Rightarrow> accept_op \<Rightarrow> accept_op option" where
  "accept_socket info_domain s op = do {
     IOUXX_ASSERT (info_domain = sc_domain s);
     Some (op\<lparr>ac_sock := s\<rparr>) }"

definition accept_opcode :: u8 where
  "accept_opcode = IORING_OP_ACCEPT"

definition accept_build :: "accept_op \<Rightarrow> accept_op \<times> sqe_writes" where
  "accept_build op =
     (op, [Prep (Prep_accept (sock_fd (ac_sock op)) (Some (ac_addrlen op)) (SOCK_NONBLOCK OR SOCK_CLOEXEC))])"

definition accept_do_callback ::
  "(sys_sockaddr \<Rightarrow> nat \<Rightarrow> 'i option) \<Rightarrow> accept_op \<Rightarrow> int \<Rightarrow> u32 \<Rightarrow> 'i accept_result invocation" where
  "accept_do_callback from_sys op ev fl =
     (if ev \<ge> 0 then
        (case from_sys (ac_sockaddr op) (ac_addrlen op) of
           None \<Rightarrow> Assertion_failed
         | Some peer \<Rightarrow> Invoke_value \<lparr>ar_conn = connection_of (ac_sock op) ev, ar_peer = peer\<rparr>)
      else Invoke_unexpected (make_system_error_code (- ev)))"

interpretation socket_accept: targeted_operation accept_build "accept_do_callback from_sys" "\<lambda>_ ev. ev \<ge> 0"
  "\<lambda>_. False" for from_sys
  by unfold_locales (simp_all add: accept_build_def accept_do_callback_def sqe_fixed_file_def split: option.splits)

definition socket_accept_opcode :: u8 where
  "socket_accept_opcode = IORING_OP_ACCEPT"

definition socket_accept_build :: "socket \<Rightarrow> socket \<times> sqe_writes" where
  "socket_accept_build op = (op, [Prep (Prep_accept (sock_fd op) None (SOCK_NONBLOCK OR SOCK_CLOEXEC))])"

definition socket_accept_do_callback :: "socket \<Rightarrow> int \<Rightarrow> u32 \<Rightarrow> connection invocation" where
  "socket_accept_do_callback op ev fl = invoke_result (connection_of op) ev"

interpretation socket_accept_nopeer:
  targeted_operation socket_accept_build socket_accept_do_callback "\<lambda>_ ev. ev \<ge> 0" "\<lambda>_. False"
  by unfold_locales (simp_all add: socket_accept_build_def socket_accept_do_callback_def sqe_fixed_file_def)

record fixed_accept_op =
  fa_sock :: fixed_socket
  fa_file_index :: int

record fixed_accept_peer_op = fixed_accept_op +
  fa_sockaddr :: sys_sockaddr
  fa_addrlen :: nat

record 'i fixed_accept_result =
  fr_conn :: fixed_connection
  fr_peer :: 'i

definition fixed_accept_init :: fixed_accept_op where
  "fixed_accept_init = \<lparr>fa_sock = fixed_socket_default, fa_file_index = IORING_FILE_INDEX_ALLOC\<rparr>"

definition fixed_accept_peer_socket :: "u32 \<Rightarrow> fixed_socket \<Rightarrow> fixed_accept_peer_op \<Rightarrow> fixed_accept_peer_op option" where
  "fixed_accept_peer_socket info_domain s op = do {
     IOUXX_ASSERT (info_domain = sc_domain s);
     Some (op\<lparr>fa_sock := s\<rparr>) }"

definition fixed_accept_index :: "int \<Rightarrow> 'a fixed_accept_op_scheme \<Rightarrow> 'a fixed_accept_op_scheme" where
  "fixed_accept_index index op = op\<lparr>fa_file_index := index\<rparr>"

definition fixed_accept_socket :: "fixed_socket \<Rightarrow> fixed_accept_op \<Rightarrow> fixed_accept_op" where
  "fixed_accept_socket s op = op\<lparr>fa_sock := s\<rparr>"

definition fixed_accept_peer_opcode :: u8 where
  "fixed_accept_peer_opcode = IORING_OP_ACCEPT"

definition fixed_accept_peer_build :: "fixed_accept_peer_op \<Rightarrow> fixed_accept_peer_op \<times> sqe_writes" where
  "fixed_accept_peer_build op =
     (op, [Prep (Prep_accept_direct (sock_index (fa_sock op)) (Some (fa_addrlen op)) SOCK_NONBLOCK (fa_file_index op)),
           Or_flags IOSQE_FIXED_FILE])"

definition fixed_accept_peer_do_callback ::
  "(sys_sockaddr \<Rightarrow> nat \<Rightarrow> 'i option) \<Rightarrow> fixed_accept_peer_op \<Rightarrow> int \<Rightarrow> u32 \<Rightarrow> 'i fixed_accept_result invocation" where
  "fixed_accept_peer_do_callback from_sys op ev fl =
     (if ev \<ge> 0 then
        (case from_sys (fa_sockaddr op) (fa_addrlen op) of
           None \<Rightarrow> Assertion_failed
         | Some peer \<Rightarrow> Invoke_value \<lparr>fr_conn = fixed_connection_of (fa_sock op) ev, fr_peer = peer\<rparr>)
      else Invoke_unexpected (make_system_error_code (- ev)))"

interpretation fixed_accept_peer: targeted_operation fixed_accept_peer_build
  "fixed_accept_peer_do_callback from_sys" "\<lambda>_ ev. ev \<ge> 0" "\<lambda>_. True" for from_sys
  by unfold_locales
    (simp_all add: fixed_accept_peer_build_def fixed_accept_peer_do_callback_def sqe_fixed_file_def split: option.splits)

definition fixed_accept_opcode :: u8 where
  "fixed_accept_opcode = IORING_OP_ACCEPT"

definition fixed_accept_build :: "fixed_accept_op \<Rightarrow> fixed_accept_op \<times> sqe_writes" where
  "fixed_accept_build op =
     (op, [Prep (Prep_accept_direct (sock_index (fa_sock op)) None SOCK_NONBLOCK (fa_file_index op)),
           Or_flags IOSQE_FIXED_FILE])"

definition fixed_accept_do_callback :: "fixed_accept_op \<Rightarrow> int \<Rightarrow> u32 \<Rightarrow> fixed_connection invocation" where
  "fixed_accept_do_callback op ev fl = invoke_result (fixed_connection_of (fa_sock op)) ev"

interpretation fixed_accept:
  targeted_operation fixed_accept_build fixed_accept_do_callback "\<lambda>_ ev. ev \<ge> 0" "\<lambda>_. True"
  by unfold_locales (simp_all add: fixed_accept_build_def fixed_accept_do_callback_def sqe_fixed_file_def)

record multishot_accept_result =
  ma_conn :: connection
  ma_more :: bool

definition multishot_accept_opcode :: u8 where
  "multishot_accept_opcode = IORING_OP_ACCEPT"

definition multishot_accept_build :: "socket \<Rightarrow> socket \<times> sqe_writes" where
  "multishot_accept_build op = (op, [Prep (Prep_multishot_accept (sock_fd op) (SOCK_NONBLOCK OR SOCK_CLOEXEC))])"

definition multishot_accept_do_callback :: "socket \<Rightarrow> int \<Rightarrow> u32 \<Rightarrow> multishot_accept_result invocation" where
  "multishot_accept_do_callback op ev fl =
     invoke_result (\<lambda>ev. \<lparr>ma_conn = connection_of op ev, ma_more = cqe_more fl\<rparr>) ev"

interpretation multishot_accept:
  targeted_operation multishot_accept_build multishot_accept_do_callback "\<lambda>_ ev. ev \<ge> 0" "\<lambda>_. False"
  by unfold_locales (simp_all add: multishot_accept_build_def multishot_accept_do_callback_def sqe_fixed_file_def)

record multishot_fixed_accept_result =
  mf_conn :: fixed_connection
  mf_more :: bool

definition multishot_fixed_accept_opcode :: u8 where
  "multishot_fixed_accept_opcode = IORING_OP_ACCEPT"

definition multishot_fixed_accept_build :: "fixed_socket \<Rightarrow> fixed_socket \<times> sqe_writes" where
  "multishot_fixed_accept_build op =
     (op, [Prep (Prep_multishot_accept_direct (sock_index op) SOCK_NONBLOCK), Or_flags IOSQE_FIXED_FILE])"

definition multishot_fixed_accept_do_callback ::
  "fixed_socket \<Rightarrow> int \<Rightarrow> u32 \<Rightarrow> multishot_fixed_accept_result invocation" where
  "multishot_fixed_accept_do_callback op ev fl =
     invoke_result (\<lambda>ev. \<lparr>mf_conn = fixed_connection_of op ev, mf_more = cqe_more fl\<rparr>) ev"

interpretation multishot_fixed_accept:
  targeted_operation multishot_fixed_accept_build multishot_fixed_accept_do_callback "\<lambda>_ ev. ev \<ge> 0" "\<lambda>_. True"
  by unfold_locales
    (simp_all add: multishot_fixed_accept_build_def multishot_fixed_accept_do_callback_def sqe_fixed_file_def)

section \<open>Shutting down\<close>

record shutdown_op =
  sd_how :: u32
  sd_fd :: int
  sd_is_fixed :: bool

definition shutdown_init :: shutdown_op where
  "shutdown_init = \<lparr>sd_how = 2, sd_fd = -1, sd_is_fixed = False\<rparr>"

definition shutdown_socket :: "socket_arg \<Rightarrow> shutdown_op \<Rightarrow> shutdown_op" where
  "shutdown_socket a op = op\<lparr>sd_fd := fst (arg_target a), sd_is_fixed := snd (arg_target a)\<rparr>"

definition shutdown_options :: "u32 \<Rightarrow> shutdown_op \<Rightarrow> shutdown_op" where
  "shutdown_options how op = op\<lparr>sd_how := how\<rparr>"

definition shutdown_opcode :: u8 where
  "shutdown_opcode = IORING_OP_SHUTDOWN"

definition shutdown_build :: "shutdown_op \<Rightarrow> shutdown_op \<times> sqe_writes" where
  "shutdown_build op = (op, Prep (Prep_shutdown (sd_fd op) (sd_how op)) # fixed_flag (sd_is_fixed op))"

definition shutdown_do_callback :: "callback_kind \<Rightarrow> shutdown_op \<Rightarrow> int \<Rightarrow> u32 \<Rightarrow> unit invocation" where
  "shutdown_do_callback k op ev fl = invoke_void k ev"

interpretation socket_shutdown:
  targeted_operation shutdown_build "shutdown_do_callback k" "\<lambda>_ ev. ev = 0" sd_is_fixed for k
  by unfold_locales (simp_all add: shutdown_build_def shutdown_do_callback_def op_simps)

section \<open>Delivering the peer of an accepted connection\<close>

context endpoint
begin

text \<open>
  When the kernel has stored the peer's address with the size of the structure, the callback gets
  the connection and that peer.
\<close>

lemma accept_peer:
  assumes "valid_info i" "0 \<le> ev"
  shows "accept_do_callback from_sys (op\<lparr>ac_sockaddr := to_sys i, ac_addrlen := sys_size\<rparr>) ev fl
    = Invoke_value \<lparr>ar_conn = connection_of (ac_sock op) ev, ar_peer = i\<rparr>"
  using assms from_to by (simp add: accept_do_callback_def)

lemma fixed_accept_peer:
  assumes "valid_info i" "0 \<le> ev"
  shows "fixed_accept_peer_do_callback from_sys (op\<lparr>fa_sockaddr := to_sys i, fa_addrlen := sys_size\<rparr>) ev fl
    = Invoke_value \<lparr>fr_conn = fixed_connection_of (fa_sock op) ev, fr_peer = i\<rparr>"
  using assms from_to by (simp add: fixed_accept_peer_do_callback_def)

end

context sized_endpoint
begin

text \<open>
  If the kernel stored any other length the program aborts; and the object is left with that
  length, which the next submission passes on as the size of the buffer.
\<close>

lemma accept_other_length:
  assumes "n \<noteq> sys_size" "0 \<le> ev"
  shows "accept_do_callback from_sys (op\<lparr>ac_sockaddr := a, ac_addrlen := n\<rparr>) ev fl = Assertion_failed"
  using assms wrong_size by (simp add: accept_do_callback_def)

end

end
