(* ===== verification/Ip_V4.thy ===== *)
theory Ip_V4
  imports Utility
begin

text \<open>
  \<open>include/iouxx/iouops/network/ip.hpp\<close>, first part: byte order conversion, \<open>address_v4\<close> and
  \<open>port\<close> with their parsers and formatters. The parsers are shown to accept exactly the strings
  the formatters print.
\<close>

section \<open>Network byte order\<close>

definition hton_16 :: "endian \<Rightarrow> u16 \<Rightarrow> u16" where
  "hton_16 en host = (if en = Little then byteswap16 host else host)"

definition hton_v4 :: "endian \<Rightarrow> u32 \<Rightarrow> u32" where
  "hton_v4 en host = (if en = Little then byteswap32 host else host)"

definition hton_v6 :: "endian \<Rightarrow> u16 list \<Rightarrow> u16 list" where
  "hton_v6 en host = (if en = Little then map byteswap16 host else host)"

section \<open>address\_v4\<close>

record address_v4 =
  v4_raw :: u32

definition v4_of_raw :: "u32 \<Rightarrow> address_v4" where
  "v4_of_raw net_order_raw = \<lparr>v4_raw = net_order_raw\<rparr>"

definition v4_loopback :: "endian \<Rightarrow> address_v4" where
  "v4_loopback en = v4_of_raw (hton_v4 en 0x7f000001)"

definition v4_any :: "endian \<Rightarrow> address_v4" where
  "v4_any en = v4_of_raw (hton_v4 en 0x00000000)"

definition v4_broadcast :: "endian \<Rightarrow> address_v4" where
  "v4_broadcast en = v4_of_raw (hton_v4 en 0xffffffff)"

text \<open>
  The body of the loop of \<open>address_v4::from_string\<close> for one part: length and leading zero checks,
  then \<open>std::from_chars\<close> into an 8-bit integer.
\<close>

definition v4_octet :: "string \<Rightarrow> u8 expected" where
  "v4_octet sub =
     (if sub = [] \<or> length sub > 3 then fail_invalid_argument
      else if length sub > 1 \<and> hd sub = CHR ''0'' then fail_invalid_argument
      else (case from_chars_unsigned 8 10 sub of
              Conv_error ec \<Rightarrow> fail_errc ec
            | Parsed v ptr \<Rightarrow>
                if ptr \<noteq> length sub then fail_invalid_argument else Inr (of_nat v)))"

fun v4_parts :: "string list \<Rightarrow> nat \<Rightarrow> u8 list \<Rightarrow> (nat \<times> u8 list) expected" where
  "v4_parts [] count part_results = Inr (count, part_results)"
| "v4_parts (sub # parts) count part_results =
     (if count \<ge> 4 then fail_invalid_argument
      else (case v4_octet sub of
              Inl e \<Rightarrow> Inl e
            | Inr v \<Rightarrow> v4_parts parts (Suc count) (part_results[count := v])))"

text \<open>\<open>std::bit_cast<v4raw>(std::array<std::uint8_t, 4>)\<close>.\<close>

definition v4_of_array :: "endian \<Rightarrow> u8 list \<Rightarrow> address_v4" where
  "v4_of_array en r = v4_of_raw (u32_of_bytes en (r ! 0, r ! 1, r ! 2, r ! 3))"

definition v4_from_string :: "endian \<Rightarrow> string \<Rightarrow> address_v4 expected" where
  "v4_from_string en ipv4_str =
     (if ipv4_str = [] \<or> length ipv4_str > 15 then fail_invalid_argument
      else (case v4_parts (split_view ''.'' ipv4_str) 0 [0, 0, 0, 0] of
              Inl e \<Rightarrow> Inl e
            | Inr (count, part_results) \<Rightarrow>
                if count \<noteq> 4 then fail_invalid_argument
                else Inr (v4_of_array en part_results)))"

text \<open>
  \<open>address_v4::from_string_uncheck\<close>: \<open>None\<close> where an \<open>[[assume]]\<close> of the source is violated, that
  is where its behaviour is undefined.
\<close>

fun v4_parts_uncheck :: "string list \<Rightarrow> nat \<Rightarrow> u8 list \<Rightarrow> u8 list option" where
  "v4_parts_uncheck [] count part_results = Some part_results"
| "v4_parts_uncheck (sub # parts) count part_results =
     (if \<not> count < 4 then None
      else (case from_chars_unsigned 8 10 sub of
              Conv_error ec \<Rightarrow> None
            | Parsed v ptr \<Rightarrow>
                if ptr \<noteq> length sub then None
                else v4_parts_uncheck parts (Suc count) (part_results[count := of_nat v])))"

definition v4_from_string_uncheck :: "endian \<Rightarrow> string \<Rightarrow> address_v4 option" where
  "v4_from_string_uncheck en ipv4_str =
     map_option (v4_of_array en) (v4_parts_uncheck (split_view ''.'' ipv4_str) 0 [0, 0, 0, 0])"

text \<open>\<open>std::formatter<address_v4>::format\<close>: four decimal numbers separated by dots.\<close>

definition dec_u8 :: "u8 \<Rightarrow> string" where
  "dec_u8 b = nat_digits False 10 (unat b)"

definition v4_format :: "endian \<Rightarrow> address_v4 \<Rightarrow> string" where
  "v4_format en addr = (case bytes_of_u32 en (v4_raw addr) of (a, b, c, d) \<Rightarrow>
     dec_u8 a @ ''.'' @ dec_u8 b @ ''.'' @ dec_u8 c @ ''.'' @ dec_u8 d)"

definition v4_to_string :: "endian \<Rightarrow> address_v4 \<Rightarrow> string" where
  "v4_to_string en addr = v4_format en addr"

section \<open>port\<close>

record port =
  port_raw :: u16

definition port_of_raw :: "u16 \<Rightarrow> port" where
  "port_of_raw net_order_raw = \<lparr>port_raw = net_order_raw\<rparr>"

text \<open>Comparison of a port with a number in host byte order.\<close>

definition port_eq_local :: "endian \<Rightarrow> port \<Rightarrow> u16 \<Rightarrow> bool" where
  "port_eq_local en lhs rhs \<longleftrightarrow> port_raw lhs = hton_16 en rhs"

definition port_from_string_uncheck :: "endian \<Rightarrow> string \<Rightarrow> port option" where
  "port_from_string_uncheck en port_str =
     (case from_chars_unsigned 16 10 port_str of
        Conv_error ec \<Rightarrow> None
      | Parsed v ptr \<Rightarrow>
          if ptr \<noteq> length port_str then None else Some (port_of_raw (hton_16 en (of_nat v))))"

definition port_from_string :: "endian \<Rightarrow> string \<Rightarrow> port expected" where
  "port_from_string en port_str =
     (if length port_str > 1 \<and> hd port_str = CHR ''0'' then fail_invalid_argument
      else (case from_chars_unsigned 16 10 port_str of
              Conv_error ec \<Rightarrow> fail_errc ec
            | Parsed v ptr \<Rightarrow>
                if ptr \<noteq> length port_str then fail_invalid_argument
                else Inr (port_of_raw (hton_16 en (of_nat v)))))"

definition port_format :: "endian \<Rightarrow> port \<Rightarrow> string" where
  "port_format en p = nat_digits False 10 (unat (hton_16 en (port_raw p)))"

definition port_to_string :: "endian \<Rightarrow> port \<Rightarrow> string" where
  "port_to_string en p = port_format en p"

section \<open>Lemmas\<close>

lemma hton_16_invol [byte_simps, simp]: "hton_16 en (hton_16 en w) = w"
  by (simp add: hton_16_def)

lemma hton_16_eq_iff [simp]: "hton_16 en a = hton_16 en b \<longleftrightarrow> a = b"
  by (metis hton_16_invol)

lemma hton_v6_map: "hton_v6 en xs = map (hton_16 en) xs"
  by (cases en) (simp_all add: hton_v6_def hton_16_def cong: map_cong)

lemma hton_v6_invol [byte_simps, simp]: "hton_v6 en (hton_v6 en xs) = xs"
  by (simp add: hton_v6_map comp_def)

lemma length_hton_v6 [simp]: "length (hton_v6 en xs) = length xs"
  by (simp add: hton_v6_map)

lemma hton_v4_invol [byte_simps, simp]: "hton_v4 en (hton_v4 en w) = w"
proof -
  have "byteswap32 (byteswap32 w) = w"
  proof (rule bit_word_eqI)
    fix n :: nat assume n: "n < LENGTH(32)"
    have m: "0xff00 = (push_bit 8 (mask 8) :: u32)" "0xff0000 = (push_bit 16 (mask 8) :: u32)"
      by (simp_all add: mask_eq_exp_minus_1 push_bit_eq_mult)
    consider "n < 8" | "8 \<le> n" "n < 16" | "16 \<le> n" "n < 24" | "24 \<le> n" by linarith
    then show "bit (byteswap32 (byteswap32 w)) n = bit w n"
      using n by cases (auto simp: byteswap32_def m bit_simps dest: bit_imp_le_length)
  qed
  then show ?thesis by (simp add: hton_v4_def)
qed

lemma dec_u8_length: "length (dec_u8 b) \<le> 3"
proof -
  have "unat b < 10 ^ 3" by (rule less_le_trans [OF unat_u8_bound]) simp
  then show "length (dec_u8 b) \<le> 3" unfolding dec_u8_def by (rule dec.length_nat_digits) simp
qed

lemma dec_u8_props [simp]: "CHR ''.'' \<notin> set (dec_u8 b)" "dec_u8 b \<noteq> []"
proof -
  have "\<not> is_digit 10 CHR ''.''" by (simp add: is_digit_def digit_val_def)
  then show "CHR ''.'' \<notin> set (dec_u8 b)"
    using dec.digits_all_digit [of False "unat b"] by (auto simp: dec_u8_def)
  show "dec_u8 b \<noteq> []" by (simp add: dec_u8_def)
qed

lemma dec_u8_canonical [simp]: "canonical_dec (dec_u8 b)"
  by (simp add: dec_u8_def)

lemma dec_u8_scan: "from_chars_unsigned 8 10 (dec_u8 b) = Parsed (unat b) (length (dec_u8 b))"
  using dec.scan_print [of "unat b" 8 False] by (simp add: dec_u8_def)

lemma v4_octet_print [simp]: "v4_octet (dec_u8 b) = Inr b"
  using dec_u8_canonical [of b] dec_u8_length [of b]
  by (auto simp: v4_octet_def dec_u8_scan canonical_dec_def simp del: dec_u8_canonical)

lemma v4_octet_Inr:
  assumes "v4_octet sub = Inr b"
  shows "sub = dec_u8 b"
proof -
  from assms obtain v where p: "from_chars_unsigned 8 10 sub = Parsed v (length sub)"
    and b: "b = of_nat v" and lz: "\<not> (length sub > 1 \<and> hd sub = CHR ''0'')"
    by (auto simp: v4_octet_def split: if_splits from_chars_result.splits)
  from dec.scan_whole [OF p] have s: "\<forall>c \<in> set sub. is_digit 10 c" "sub \<noteq> []"
    "v = digits_value 10 sub" "v < 256" by simp_all
  with lz have "canonical_dec sub" by (auto simp: canonical_dec_def)
  from print_canonical [OF this, of False] s b show ?thesis by (simp add: dec_u8_def)
qed

lemma v4_octet_iff: "v4_octet sub = Inr b \<longleftrightarrow> sub = dec_u8 b"
  using v4_octet_Inr by auto

lemma v4_octet_error: "v4_octet sub = Inl e \<Longrightarrow>
  e = make_error_code Invalid_argument \<or> e = make_error_code Result_out_of_range"
  by (auto simp: v4_octet_def fail_invalid_argument_def fail_errc_def from_chars_unsigned_def Let_def
      split: if_splits)

lemma v4_octet_uncheck: "v4_octet sub = Inr b \<Longrightarrow>
  from_chars_unsigned 8 10 sub = Parsed (unat b) (length sub)"
  by (drule v4_octet_Inr) (simp add: dec_u8_scan)

lemma v4_parts_count: "v4_parts parts c rs = Inr (n, rs') \<Longrightarrow> n = c + length parts"
  by (induction parts c rs rule: v4_parts.induct) (auto split: if_splits sum.splits)

lemma v4_parts_error: "v4_parts parts c rs = Inl e \<Longrightarrow>
  e = make_error_code Invalid_argument \<or> e = make_error_code Result_out_of_range"
proof (induction parts c rs rule: v4_parts.induct)
  case (2 sub parts c rs)
  then show ?case
    by (auto simp: fail_invalid_argument_def fail_errc_def dest: v4_octet_error split: if_splits sum.splits)
qed simp

lemma v4_parts_uncheck_agrees:
  "v4_parts parts c rs = Inr (n, rs') \<Longrightarrow> v4_parts_uncheck parts c rs = Some rs'"
proof (induction parts c rs rule: v4_parts.induct)
  case (2 sub parts c rs)
  from "2.prems" obtain b where b: "v4_octet sub = Inr b" "\<not> 4 \<le> c"
    "v4_parts parts (Suc c) (rs[c := b]) = Inr (n, rs')"
    by (auto split: if_splits sum.splits)
  from "2.IH" [OF b(2,1,3)] v4_octet_uncheck [OF b(1)] b(2) show ?case by simp
qed simp

text \<open>What \<open>v4_parts\<close> computes when it reaches the fourth part.\<close>

lemma v4_parts_four:
  assumes "v4_parts ps 0 [0, 0, 0, 0] = Inr (4, rs)"
  obtains a b c d where "ps = [dec_u8 a, dec_u8 b, dec_u8 c, dec_u8 d]" "rs = [a, b, c, d]"
proof -
  from v4_parts_count [OF assms] have "length ps = 4" by simp
  then obtain p q r s where ps: "ps = [p, q, r, s]"
    by (auto simp: length_Suc_conv eval_nat_numeral)
  with assms that show ?thesis by (auto simp: v4_octet_iff split: sum.splits)
qed

lemma v4_split_format:
  "split_view ''.'' (v4_format en addr) =
     (case bytes_of_u32 en (v4_raw addr) of (a, b, c, d) \<Rightarrow> [dec_u8 a, dec_u8 b, dec_u8 c, dec_u8 d])"
  by (auto simp: v4_format_def split_view_def text_simps split: prod.splits)

lemma v4_format_length: "length (v4_format en addr) \<le> 15"
proof -
  have "length (dec_u8 a @ ''.'' @ dec_u8 b @ ''.'' @ dec_u8 c @ ''.'' @ dec_u8 d) \<le> 15" for a b c d
    using dec_u8_length [of a] dec_u8_length [of b] dec_u8_length [of c] dec_u8_length [of d]
    by simp
  then show ?thesis by (simp add: v4_format_def split: prod.splits)
qed

lemma v4_parse_format [simp]: "v4_from_string en (v4_format en addr) = Inr addr"
proof -
  obtain a b c d where w: "bytes_of_u32 en (v4_raw addr) = (a, b, c, d)"
    by (cases "bytes_of_u32 en (v4_raw addr)") auto
  then have "u32_of_bytes en (a, b, c, d) = v4_raw addr" by (metis u32_bytes_roundtrip)
  moreover have "v4_format en addr \<noteq> []" by (simp add: v4_format_def w)
  ultimately show ?thesis
    using v4_format_length [of en addr]
    by (simp add: v4_from_string_def v4_split_format w v4_of_array_def v4_of_raw_def)
qed

lemma v4_from_string_Inr:
  assumes "v4_from_string en s = Inr addr"
  shows "v4_format en addr = s"
proof -
  from assms obtain rs where p: "v4_parts (split_view ''.'' s) 0 [0, 0, 0, 0] = Inr (4, rs)"
    and a: "addr = v4_of_array en rs" and s: "s \<noteq> []"
    by (auto simp: v4_from_string_def split: if_splits sum.splits)
  from p obtain x y z w where ps: "split_view ''.'' s = [dec_u8 x, dec_u8 y, dec_u8 z, dec_u8 w]"
    and rs: "rs = [x, y, z, w]" by (rule v4_parts_four)
  from s have "join_with ''.'' (split_view ''.'' s) = s" by (simp add: split_view_def join_split)
  with ps a rs show ?thesis by (simp add: v4_format_def v4_of_array_def v4_of_raw_def)
qed

lemma v4_checked_uncheck: "v4_from_string en s = Inr addr \<Longrightarrow> v4_from_string_uncheck en s = Some addr"
  by (auto simp: v4_from_string_def v4_from_string_uncheck_def dest: v4_parts_uncheck_agrees
      split: if_splits sum.splits)

lemma port_checked_uncheck: "port_from_string en s = Inr p \<Longrightarrow> port_from_string_uncheck en s = Some p"
  by (auto simp: port_from_string_def port_from_string_uncheck_def split: if_splits from_chars_result.splits)

lemma port_checked_digits: "port_from_string en s = Inr p \<Longrightarrow> \<forall>c \<in> set s. is_digit 10 c"
  using dec.scan_whole [of 16 s]
  by (auto simp: port_from_string_def split: if_splits from_chars_result.splits)

section \<open>Properties\<close>

text \<open>
  C9. \<open>address_v4::from_string\<close> accepts exactly the strings \<open>address_v4::to_string\<close> prints: parsing
  a string yields an address if and only if printing that address gives the string back. Both
  directions of the round trip, for either byte order.
\<close>

theorem v4_from_string_iff_to_string:
  "v4_from_string en s = Inr addr \<longleftrightarrow> v4_to_string en addr = s"
  using v4_from_string_Inr by (auto simp: v4_to_string_def)

text \<open>
  A rejected IPv4 string is always reported as \<open>invalid_argument\<close> or \<open>result_out_of_range\<close>
  in the generic category, never as success and never as any other code.
\<close>

theorem v4_from_string_errors:
  "(\<exists>addr. v4_from_string en s = Inr addr) \<or>
   v4_from_string en s = Inl (make_error_code Invalid_argument) \<or>
   v4_from_string en s = Inl (make_error_code Result_out_of_range)"
proof (cases "v4_from_string en s")
  case (Inl e)
  then show ?thesis
    by (auto simp: v4_from_string_def fail_invalid_argument_def fail_errc_def
        dest: v4_parts_error split: if_splits sum.splits)
qed auto

text \<open>
  Wherever the checked IPv4 parser succeeds, \<open>from_string_uncheck\<close> meets none of its
  undefined cases and returns the same address.
\<close>

theorem v4_uncheck_agrees:
  assumes "v4_from_string en s = Inr addr"
  shows "v4_from_string_uncheck en s = Some addr"
  using assms by (rule v4_checked_uncheck)

theorem v4_uncheck_agrees_witness:
  "v4_from_string_uncheck Little ''192.168.0.1'' = Some \<lparr>v4_raw = 0x0100a8c0\<rparr>"
proof -
  have "v4_from_string Little ''192.168.0.1'' = Inr \<lparr>v4_raw = 0x0100a8c0\<rparr>" by code_simp
  then show ?thesis by (rule v4_uncheck_agrees)
qed

lemma port_parse_format [simp]: "port_from_string en (port_format en p) = Inr p"
proof -
  let ?n = "unat (hton_16 en (port_raw p))"
  have c: "canonical_dec (nat_digits False 10 ?n)" by simp
  have "from_chars_unsigned 16 10 (nat_digits False 10 ?n) = Parsed ?n (length (nat_digits False 10 ?n))"
    by (rule dec.scan_print) simp
  with c show ?thesis
    by (auto simp: port_from_string_def port_format_def canonical_dec_def port_of_raw_def)
qed

text \<open>
  \<open>port::from_string\<close> accepts exactly the strings \<open>port::to_string\<close> prints: the decimal
  numbers 0 to 65535 without redundant leading zeros, converted to and from network byte order.
\<close>

theorem port_from_string_iff_to_string:
  "port_from_string en s = Inr p \<longleftrightarrow> port_to_string en p = s"
proof
  assume h: "port_from_string en s = Inr p"
  then obtain v where q: "from_chars_unsigned 16 10 s = Parsed v (length s)"
    and p: "p = port_of_raw (hton_16 en (of_nat v))" and lz: "\<not> (length s > 1 \<and> hd s = CHR ''0'')"
    by (auto simp: port_from_string_def split: if_splits from_chars_result.splits)
  from dec.scan_whole [OF q] have s: "\<forall>c \<in> set s. is_digit 10 c" "s \<noteq> []"
    "v = digits_value 10 s" "v < 65536" by simp_all
  with lz have "canonical_dec s" by (auto simp: canonical_dec_def)
  from print_canonical [OF this, of False] s p show "port_to_string en p = s"
    by (simp add: port_to_string_def port_format_def port_of_raw_def)
qed (auto simp: port_to_string_def)

end
