(* ===== verification/Ip_V6.thy ===== *)
theory Ip_V6
  imports Ip_V4
begin

text \<open>
  \<open>include/iouxx/iouops/network/ip.hpp\<close>, second part: \<open>address_v6\<close>, its parser and its unchecked
  parser. The local variables of \<open>address_v6::from_string\<close> that its lambda captures are the
  record \<open>v6_state\<close>, threaded through the loops.
\<close>

section \<open>address\_v6\<close>

text \<open>\<open>v6raw\<close> is an array of eight 16-bit integers in network byte order.\<close>

record address_v6 =
  v6_raw :: "u16 list"

definition v6_of_raw :: "u16 list \<Rightarrow> address_v6" where
  "v6_of_raw net_order_raw = \<lparr>v6_raw = net_order_raw\<rparr>"

definition v6_any :: address_v6 where
  "v6_any = v6_of_raw (replicate 8 0)"

definition v6_loopback :: "endian \<Rightarrow> address_v6" where
  "v6_loopback en = v6_of_raw (hton_v6 en [0, 0, 0, 0, 0, 0, 0, 1])"

definition v6_wf :: "address_v6 \<Rightarrow> bool" where
  "v6_wf a \<longleftrightarrow> length (v6_raw a) = 8"

definition v6_is_ipv4_mapped :: "address_v6 \<Rightarrow> bool" where
  "v6_is_ipv4_mapped a \<longleftrightarrow>
     v6_raw a ! 0 = 0 \<and> v6_raw a ! 1 = 0 \<and> v6_raw a ! 2 = 0 \<and> v6_raw a ! 3 = 0
     \<and> v6_raw a ! 4 = 0 \<and> v6_raw a ! 5 = 0xffff"

definition v6_to_ipv4_mapped :: "endian \<Rightarrow> address_v6 \<Rightarrow> address_v4" where
  "v6_to_ipv4_mapped en a = v4_of_raw (u32_of_u16s en (v6_raw a ! 6, v6_raw a ! 7))"

record v6_state =
  part_results :: "u16 list"
  part_count :: nat
  seen_ipv4 :: bool

definition v6_init :: v6_state where
  "v6_init = \<lparr>part_results = replicate 8 0, part_count = 0, seen_ipv4 = False\<rparr>"

text \<open>The lambda \<open>parse_one_section\<close>: \<open>Inl\<close> is the \<open>std::errc\<close> it returns.\<close>

definition parse_one_section :: "endian \<Rightarrow> string \<Rightarrow> v6_state \<Rightarrow> errc + v6_state" where
  "parse_one_section en sub st =
     (let n = part_count st in
      if CHR ''.'' \<in> set sub then
        if n > 6 then Inl Invalid_argument
        else (case v4_from_string en sub of
                Inl _ \<Rightarrow> Inl Invalid_argument
              | Inr v4 \<Rightarrow>
                  (case u16s_of_u32 en (v4_raw v4) of (p, q) \<Rightarrow>
                    Inr (st\<lparr>part_results := (part_results st)[n := hton_16 en p, Suc n := hton_16 en q],
                            part_count := n + 2, seen_ipv4 := True\<rparr>)))
      else if n \<ge> 8 then Inl Invalid_argument
      else if length sub > 4 then Inl Invalid_argument
      else (case from_chars_unsigned 16 16 sub of
              Conv_error ec \<Rightarrow> Inl ec
            | Parsed v ptr \<Rightarrow>
                if ptr \<noteq> length sub then Inl Invalid_argument
                else Inr (st\<lparr>part_results := (part_results st)[n := of_nat v],
                             part_count := Suc n\<rparr>)))"

text \<open>The inner loop over the sections between single colons, the same in both halves.\<close>

fun v6_sections :: "endian \<Rightarrow> string list \<Rightarrow> v6_state \<Rightarrow> v6_state expected" where
  "v6_sections en [] st = Inr st"
| "v6_sections en (sub # subs) st =
     (if seen_ipv4 st then fail_invalid_argument
      else if sub = [] then fail_invalid_argument
      else (case parse_one_section en sub st of
              Inl ec \<Rightarrow> fail_errc ec
            | Inr st' \<Rightarrow> v6_sections en subs st'))"

text \<open>\<open>std::ranges::rotate(first, middle, last)\<close> on indices into an array.\<close>

definition rotate_range :: "nat \<Rightarrow> nat \<Rightarrow> nat \<Rightarrow> 'a list \<Rightarrow> 'a list" where
  "rotate_range first middle final xs =
     take first xs @ drop middle (take final xs) @ drop first (take middle xs) @ drop final xs"

text \<open>The outer loop over the halves around the double colon.\<close>

fun v6_halves :: "endian \<Rightarrow> string list \<Rightarrow> nat \<Rightarrow> v6_state \<Rightarrow> v6_state expected" where
  "v6_halves en [] double_colon_count st = Inr st"
| "v6_halves en (sub # rest) double_colon_count st =
     (let dcc = Suc double_colon_count in
      if dcc = 1 then
        (if sub = [] then v6_halves en rest dcc st
         else (case v6_sections en (split_view '':'' sub) st of
                 Inl e \<Rightarrow> Inl e
               | Inr st' \<Rightarrow> v6_halves en rest dcc st'))
      else if dcc = 2 then
        (if seen_ipv4 st then fail_invalid_argument
         else if sub = [] then v6_halves en rest dcc (st\<lparr>part_count := 8\<rparr>)
         else (case v6_sections en (split_view '':'' sub) st of
                 Inl e \<Rightarrow> Inl e
               | Inr st' \<Rightarrow>
                   if part_count st' \<ge> 8 then fail_invalid_argument
                   else v6_halves en rest dcc
                     (st'\<lparr>part_results := rotate_range (part_count st) (part_count st') 8 (part_results st'),
                          part_count := 8\<rparr>)))
      else fail_invalid_argument)"

definition v6_from_string :: "endian \<Rightarrow> string \<Rightarrow> address_v6 expected" where
  "v6_from_string en ipv6_str =
     (if ipv6_str = [] \<or> length ipv6_str > 45 then fail_invalid_argument
      else (case v6_halves en (split_view ''::'' ipv6_str) 0 v6_init of
              Inl e \<Rightarrow> Inl e
            | Inr st \<Rightarrow>
                if part_count st \<noteq> 8 then fail_invalid_argument
                else Inr (v6_of_raw (hton_v6 en (part_results st)))))"

section \<open>The unchecked parser\<close>

text \<open>\<open>None\<close> marks undefined behaviour: a violated \<open>[[assume]]\<close>, an index outside the array, or \<open>std::unreachable\<close>.\<close>

definition parse_one_section_uncheck :: "endian \<Rightarrow> string \<Rightarrow> v6_state \<Rightarrow> v6_state option" where
  "parse_one_section_uncheck en sub st =
     (let n = part_count st in
      if \<not> n < 8 then None
      else if CHR ''.'' \<in> set sub then
        (case v4_from_string_uncheck en sub of
           None \<Rightarrow> None
         | Some v4 \<Rightarrow>
             if \<not> Suc n < 8 then None
             else (case u16s_of_u32 en (v4_raw v4) of (p, q) \<Rightarrow>
               Some (st\<lparr>part_results := (part_results st)[n := hton_16 en p, Suc n := hton_16 en q],
                        part_count := n + 2, seen_ipv4 := True\<rparr>)))
      else (case from_chars_unsigned 16 16 sub of
              Conv_error ec \<Rightarrow> None
            | Parsed v ptr \<Rightarrow>
                if ptr \<noteq> length sub then None
                else Some (st\<lparr>part_results := (part_results st)[n := of_nat v],
                              part_count := Suc n\<rparr>)))"

fun v6_sections_uncheck :: "endian \<Rightarrow> string list \<Rightarrow> v6_state \<Rightarrow> v6_state option" where
  "v6_sections_uncheck en [] st = Some st"
| "v6_sections_uncheck en (sub # subs) st =
     (case parse_one_section_uncheck en sub st of
        None \<Rightarrow> None | Some st' \<Rightarrow> v6_sections_uncheck en subs st')"

fun v6_halves_uncheck :: "endian \<Rightarrow> string list \<Rightarrow> nat \<Rightarrow> v6_state \<Rightarrow> v6_state option" where
  "v6_halves_uncheck en [] double_colon_count st = Some st"
| "v6_halves_uncheck en (sub # rest) double_colon_count st =
     (let dcc = Suc double_colon_count in
      if dcc = 1 then
        (if sub = [] then v6_halves_uncheck en rest dcc st
         else (case v6_sections_uncheck en (split_view '':'' sub) st of
                 None \<Rightarrow> None | Some st' \<Rightarrow> v6_halves_uncheck en rest dcc st'))
      else if dcc = 2 then
        (if sub = [] then v6_halves_uncheck en rest dcc st
         else (case v6_sections_uncheck en (split_view '':'' sub) st of
                 None \<Rightarrow> None
               | Some st' \<Rightarrow> v6_halves_uncheck en rest dcc
                   (st'\<lparr>part_results := rotate_range (part_count st) (part_count st') 8 (part_results st')\<rparr>)))
      else None)"

definition v6_from_string_uncheck :: "endian \<Rightarrow> string \<Rightarrow> address_v6 option" where
  "v6_from_string_uncheck en ipv6_str =
     map_option (\<lambda>st. v6_of_raw (hton_v6 en (part_results st)))
       (v6_halves_uncheck en (split_view ''::'' ipv6_str) 0 v6_init)"

section \<open>The parser as a state machine\<close>

text \<open>Invariant of the parsing state: the array keeps its eight elements and the count stays in range.\<close>

definition v6_state_ok :: "v6_state \<Rightarrow> bool" where
  "v6_state_ok st \<longleftrightarrow> length (part_results st) = 8 \<and> part_count st \<le> 8"

lemma v6_init_ok [simp]: "v6_state_ok v6_init"
  by (simp add: v6_state_ok_def v6_init_def)

lemma section_ok:
  "parse_one_section en sub st = Inr st' \<Longrightarrow> v6_state_ok st \<Longrightarrow> v6_state_ok st'"
  by (auto simp: parse_one_section_def v6_state_ok_def Let_def
      split: if_splits sum.splits prod.splits from_chars_result.splits)

lemma section_count:
  "parse_one_section en sub st = Inr st' \<Longrightarrow> part_count st < part_count st' \<and>
     part_count st' \<le> part_count st + 2 \<and> (seen_ipv4 st \<longrightarrow> seen_ipv4 st')"
  by (auto simp: parse_one_section_def Let_def
      split: if_splits sum.splits prod.splits from_chars_result.splits)

lemma sections_ok: "v6_sections en subs st = Inr st' \<Longrightarrow> v6_state_ok st \<Longrightarrow> v6_state_ok st'"
  by (induction en subs st rule: v6_sections.induct)
    (auto dest: section_ok split: if_splits sum.splits)

lemma sections_count: "v6_sections en subs st = Inr st' \<Longrightarrow> part_count st \<le> part_count st'"
  by (induction en subs st rule: v6_sections.induct)
    (fastforce dest: section_count split: if_splits sum.splits)+

lemma length_rotate_range [simp]:
  "i \<le> m \<Longrightarrow> m \<le> k \<Longrightarrow> k \<le> length xs \<Longrightarrow> length (rotate_range i m k xs) = length xs"
  by (simp add: rotate_range_def min_def)

lemma halves_ok: "v6_halves en hs dcc st = Inr st' \<Longrightarrow> v6_state_ok st \<Longrightarrow> v6_state_ok st'"
proof (induction en hs dcc st rule: v6_halves.induct)
  case (2 en sub rest dcc st)
  from "2.prems" "2.IH" sections_ok [of en "split_view '':'' sub" st]
    sections_count [of en "split_view '':'' sub" st]
  show ?case
    by (auto simp: Let_def v6_state_ok_def numeral_2_eq_2 split: if_splits sum.splits)
qed simp

lemma section_errors:
  assumes "parse_one_section en sub st = Inl ec"
  shows "ec = Invalid_argument"
proof (cases "CHR ''.'' \<in> set sub")
  case True
  with assms show ?thesis by (auto simp: parse_one_section_def Let_def split: if_splits sum.splits prod.splits)
next
  case False
  show ?thesis
  proof (cases "length sub > 4 \<or> part_count st \<ge> 8")
    case True
    with False assms show ?thesis by (auto simp: parse_one_section_def Let_def split: if_splits)
  next
    case short: False
    let ?ds = "takeWhile (is_digit 16) sub"
    have d: "\<forall>c \<in> set ?ds. is_digit 16 c" by (meson set_takeWhileD)
    have "length ?ds \<le> 4" using short length_takeWhile_le [of "is_digit 16" sub] by simp
    then have "(16::nat) ^ length ?ds \<le> 16 ^ 4" by (intro power_increasing) simp_all
    with hex.digits_value_bound [OF d] have "digits_value 16 ?ds < 2 ^ 16" by simp
    with False short assms show ?thesis
      by (auto simp: parse_one_section_def Let_def from_chars_unsigned_def split: if_splits)
  qed
qed

lemma sections_errors: "v6_sections en subs st = Inl e \<Longrightarrow> e = make_error_code Invalid_argument"
  by (induction en subs st rule: v6_sections.induct)
    (auto simp: fail_invalid_argument_def fail_errc_def dest: section_errors split: if_splits sum.splits)

lemma halves_errors: "v6_halves en hs dcc st = Inl e \<Longrightarrow> e = make_error_code Invalid_argument"
proof (induction en hs dcc st rule: v6_halves.induct)
  case (2 en sub rest dcc st)
  from "2.prems" "2.IH" show ?case
    by (auto simp: Let_def numeral_2_eq_2 fail_invalid_argument_def fail_errc_def dest: sections_errors
        split: if_splits sum.splits)
qed simp

section \<open>Agreement of the two parsers\<close>

lemma section_uncheck:
  "parse_one_section en sub st = Inr st' \<Longrightarrow> parse_one_section_uncheck en sub st = Some st'"
proof -
  assume h: "parse_one_section en sub st = Inr st'"
  have v4: "v4_from_string_uncheck en sub = Some v" if "v4_from_string en sub = Inr v" for v
    using that
    by (auto simp: v4_from_string_def v4_from_string_uncheck_def dest: v4_parts_uncheck_agrees
        split: if_splits sum.splits)
  from h show ?thesis
    by (auto simp: parse_one_section_def parse_one_section_uncheck_def Let_def v4
        split: if_splits sum.splits prod.splits from_chars_result.splits)
qed

lemma sections_uncheck: "v6_sections en subs st = Inr st' \<Longrightarrow> v6_sections_uncheck en subs st = Some st'"
  by (induction en subs st rule: v6_sections.induct)
    (auto dest: section_uncheck split: if_splits sum.splits)

lemma halves_shape: "v6_halves en hs 0 st = Inr st' \<Longrightarrow> length hs \<le> 2"
proof (rule ccontr)
  assume h: "v6_halves en hs 0 st = Inr st'" and "\<not> length hs \<le> 2"
  then obtain a b c rest where "hs = a # b # c # rest"
    by (metis Suc_le_length_iff not_less_eq_eq numeral_2_eq_2 le0)
  with h show False by (auto simp: Let_def split: if_splits sum.splits)
qed

lemma halves_uncheck:
  assumes "v6_halves en hs 0 st = Inr st'"
  shows "\<exists>st''. v6_halves_uncheck en hs 0 st = Some st'' \<and> part_results st'' = part_results st'"
proof -
  from halves_shape [OF assms] consider "hs = []" | a where "hs = [a]" | a b where "hs = [a, b]"
    by (cases hs; cases "tl hs") (auto simp: length_Suc_conv le_Suc_eq numeral_2_eq_2)
  then show ?thesis using assms
    by cases (auto simp: Let_def dest!: sections_uncheck split: if_splits sum.splits)
qed

text \<open>Evaluation of the parser on concrete strings.\<close>

lemma replicate_8: "replicate 8 x = [x, x, x, x, x, x, x, x]"
  by (simp add: eval_nat_numeral)

lemmas v4_eval = v4_from_string_def v4_octet_def v4_of_array_def v4_of_raw_def le_u32_def le_u16_def
  u16s_of_u32_def byteswap16_def split_view_def text_simps from_chars_unsigned_def is_digit_def
  digit_val_def digits_value_def Let_def fail_invalid_argument_def fail_errc_def

lemmas v6_eval = replicate_8 v6_from_string_def v6_init_def v6_of_raw_def parse_one_section_def
  rotate_range_def hton_v6_def hton_16_def v4_eval

section \<open>Properties\<close>



text \<open>
  C22. The IPv6 parser reports every rejected string as \<open>invalid_argument\<close>: with at most four
  hexadecimal digits per group a range error cannot arise, and errors of the embedded IPv4 parser
  are mapped to \<open>invalid_argument\<close>.
\<close>

theorem v6_from_string_errors:
  "(\<exists>a. v6_from_string en s = Inr a) \<or> v6_from_string en s = Inl (make_error_code Invalid_argument)"
proof (cases "v6_from_string en s")
  case (Inl e)
  then show ?thesis
    by (auto simp: v6_from_string_def fail_invalid_argument_def fail_errc_def dest: halves_errors
        split: if_splits sum.splits)
qed auto

lemma v6_checked_uncheck: "v6_from_string en s = Inr a \<Longrightarrow> v6_from_string_uncheck en s = Some a"
  by (auto simp: v6_from_string_def v6_from_string_uncheck_def dest!: halves_uncheck
      split: if_splits sum.splits)

text \<open>
  C20. Wherever the checked IPv6 parser succeeds, \<open>address_v6::from_string_uncheck\<close> meets none of its
  undefined cases and returns the same address.
\<close>

theorem v6_uncheck_agrees:
  assumes "v6_from_string en s = Inr a"
  shows "v6_from_string_uncheck en s = Some a"
  using assms by (rule v6_checked_uncheck)

theorem v6_uncheck_agrees_witness:
  "v6_from_string_uncheck Little ''::ffff:1.2.3.4'' = Some \<lparr>v6_raw = [0, 0, 0, 0, 0, 0xffff, 0x0201, 0x0403]\<rparr>"
proof -
  have "v6_from_string Little ''::ffff:1.2.3.4'' = Inr \<lparr>v6_raw = [0, 0, 0, 0, 0, 0xffff, 0x0201, 0x0403]\<rparr>"
    by (simp add: v6_eval)
  then show ?thesis by (rule v6_uncheck_agrees)
qed

text \<open>
  The parser accepts eight groups followed by a trailing double colon: the check for room left
  for the zeros that the middle and leading positions of the double colon make is missing for the
  trailing one, so the address text with a double colon that stands for no group at all is taken,
  while the mirrored text with a leading double colon is rejected.
\<close>

theorem v6_accepts_trailing_double_colon:
  "v6_from_string Big ''1:2:3:4:5:6:7:8::'' = Inr (v6_of_raw [1, 2, 3, 4, 5, 6, 7, 8])
   \<and> v6_from_string Big ''::1:2:3:4:5:6:7:8'' = Inl (make_error_code Invalid_argument)"
  by (simp add: v6_eval)

end
