(* ===== verification/Sock_Cmd.thy ===== *)
theory Sock_Cmd
  imports Sockets Ip_V6 "HOL-Library.Signed_Division"
begin

text \<open>
  \<open>include/iouxx/iouops/network/sockcmd.hpp\<close>: the kinds of option values, the table of socket options,
  and the operations that set and get an option or ask for a socket's name. Option constants have
  the values of the Linux headers.
\<close>

section \<open>Option values\<close>

text \<open>
  The classes \<open>*_optval_base\<close>. Each keeps a system structure (a value of type \<open>optval\<close>) and
  offers a setter \<open>option\<close> and a getter \<open>result\<close>.
\<close>

datatype optkind = Bool_opt | Int_opt | Linger_opt | Timeval_opt | String_opt | Mreqn_opt | Mreq6_opt

definition bool_option :: "bool \<Rightarrow> optval" where
  "bool_option value = Val_int (if value then 1 else 0)"

fun bool_result :: "optval \<Rightarrow> bool option" where
  "bool_result (Val_int v) = Some (v \<noteq> 0)"
| "bool_result _ = None"

definition int_option :: "int \<Rightarrow> optval" where
  "int_option value = Val_int value"

fun int_result :: "optval \<Rightarrow> int option" where
  "int_result (Val_int v) = Some v"
| "int_result _ = None"

text \<open>\<open>static_cast<int>\<close> of a 64-bit count of seconds.\<close>

definition linger_option :: "bool \<Rightarrow> int \<Rightarrow> optval" where
  "linger_option onoff seconds = Val_linger (if onoff then 1 else 0) (sint (word_of_int seconds :: u32))"

record linger_result =
  lr_onoff :: bool
  lr_linger :: int

fun linger_result_of :: "optval \<Rightarrow> linger_result option" where
  "linger_result_of (Val_linger l_onoff l_linger) = Some \<lparr>lr_onoff = (l_onoff \<noteq> 0), lr_linger = l_linger\<rparr>"
| "linger_result_of _ = None"

text \<open>Nanoseconds in, microseconds out; both \<open>duration_cast\<close>s truncate towards zero.\<close>

definition timeval_option :: "int \<Rightarrow> optval" where
  "timeval_option time =
     (let sec = time sdiv 1000000000;
          usec = (time - sec * 1000000000) sdiv 1000
      in Val_timeval sec usec)"

fun timeval_result :: "optval \<Rightarrow> int option" where
  "timeval_result (Val_timeval sec usec) = Some (sec * 1000000 + usec)"
| "timeval_result _ = None"

definition string_option :: "string \<Rightarrow> optval" where
  "string_option str = Val_chars str"

fun string_result :: "optval \<Rightarrow> string option" where
  "string_result (Val_chars str) = Some str"
| "string_result _ = None"

text \<open>Addresses are stored in their raw, network order form (\<open>to_system_addr\<close>, \<open>from_system_addr\<close>).\<close>

definition mreqn_option :: "address_v4 \<Rightarrow> address_v4 \<Rightarrow> int \<Rightarrow> optval" where
  "mreqn_option multiaddr address ifindex = Val_mreqn (v4_raw multiaddr) (v4_raw address) ifindex"

record ipv4_mreq_result =
  m4_multiaddr :: address_v4
  m4_address :: address_v4
  m4_interface :: int

fun mreqn_result :: "optval \<Rightarrow> ipv4_mreq_result option" where
  "mreqn_result (Val_mreqn m a i) = Some \<lparr>m4_multiaddr = v4_of_raw m, m4_address = v4_of_raw a, m4_interface = i\<rparr>"
| "mreqn_result _ = None"

definition mreq6_option :: "address_v6 \<Rightarrow> u32 \<Rightarrow> optval" where
  "mreq6_option multiaddr ifindex = Val_mreq6 (v6_raw multiaddr) ifindex"

record ipv6_mreq_result =
  m6_multiaddr :: address_v6
  m6_interface :: u32

fun mreq6_result :: "optval \<Rightarrow> ipv6_mreq_result option" where
  "mreq6_result (Val_mreq6 m i) = Some \<lparr>m6_multiaddr = v6_of_raw m, m6_interface = i\<rparr>"
| "mreq6_result _ = None"

text \<open>\<open>params\<close>: the length is \<open>sizeof\<close> the structure, for a string its length.\<close>

fun optlen :: "optval \<Rightarrow> u32" where
  "optlen (Val_int _) = 4"
| "optlen (Val_linger _ _) = 8"
| "optlen (Val_timeval _ _) = 16"
| "optlen (Val_chars str) = of_nat (length str)"
| "optlen (Val_mreqn _ _ _) = 12"
| "optlen (Val_mreq6 _ _) = 20"

text \<open>The initial value of the member, where the source gives one.\<close>

fun optval_init :: "optkind \<Rightarrow> optval" where
  "optval_init Bool_opt = Val_int 0"
| "optval_init Int_opt = Val_int 0"
| "optval_init Linger_opt = Val_linger 0 0"
| "optval_init Timeval_opt = Val_timeval 0 0"
| "optval_init String_opt = Val_chars []"
| "optval_init Mreqn_opt = Val_mreqn 0 0 0"
| "optval_init Mreq6_opt = Val_mreq6 (replicate 8 0) 0"

section \<open>The table of options\<close>

abbreviation "SOL_SOCKET \<equiv> (1 :: int)"
abbreviation "IPPROTO_IP \<equiv> (0 :: int)"
abbreviation "IPPROTO_TCP \<equiv> (6 :: int)"
abbreviation "IPPROTO_UDP \<equiv> (17 :: int)"
abbreviation "IPPROTO_IPV6 \<equiv> (41 :: int)"

text \<open>Per option class: level, option name, kind of value.\<close>

record sockopt_spec =
  opt_level :: int
  opt_name :: int
  opt_kind :: optkind

datatype general_opt =
    Reuseaddr | Reuseport | Keepalive | Debug | Acceptconn | Dontroute | Broadcast | Oobinline
  | Rcvbuf | Sndbuf | Rcvlowat | Sndlowat | Linger | Rcvtimeo | Sndtimeo | Priority | Bindtodevice

fun general_spec :: "general_opt \<Rightarrow> sockopt_spec" where
  "general_spec Reuseaddr = \<lparr>opt_level = SOL_SOCKET, opt_name = 2, opt_kind = Bool_opt\<rparr>"
| "general_spec Reuseport = \<lparr>opt_level = SOL_SOCKET, opt_name = 15, opt_kind = Bool_opt\<rparr>"
| "general_spec Keepalive = \<lparr>opt_level = SOL_SOCKET, opt_name = 9, opt_kind = Bool_opt\<rparr>"
| "general_spec Debug = \<lparr>opt_level = SOL_SOCKET, opt_name = 1, opt_kind = Bool_opt\<rparr>"
| "general_spec Acceptconn = \<lparr>opt_level = SOL_SOCKET, opt_name = 30, opt_kind = Bool_opt\<rparr>"
| "general_spec Dontroute = \<lparr>opt_level = SOL_SOCKET, opt_name = 5, opt_kind = Bool_opt\<rparr>"
| "general_spec Broadcast = \<lparr>opt_level = SOL_SOCKET, opt_name = 6, opt_kind = Bool_opt\<rparr>"
| "general_spec Oobinline = \<lparr>opt_level = SOL_SOCKET, opt_name = 10, opt_kind = Bool_opt\<rparr>"
| "general_spec Rcvbuf = \<lparr>opt_level = SOL_SOCKET, opt_name = 8, opt_kind = Int_opt\<rparr>"
| "general_spec Sndbuf = \<lparr>opt_level = SOL_SOCKET, opt_name = 7, opt_kind = Int_opt\<rparr>"
| "general_spec Rcvlowat = \<lparr>opt_level = SOL_SOCKET, opt_name = 18, opt_kind = Int_opt\<rparr>"
| "general_spec Sndlowat = \<lparr>opt_level = SOL_SOCKET, opt_name = 19, opt_kind = Int_opt\<rparr>"
| "general_spec Linger = \<lparr>opt_level = SOL_SOCKET, opt_name = 13, opt_kind = Linger_opt\<rparr>"
| "general_spec Rcvtimeo = \<lparr>opt_level = SOL_SOCKET, opt_name = 20, opt_kind = Timeval_opt\<rparr>"
| "general_spec Sndtimeo = \<lparr>opt_level = SOL_SOCKET, opt_name = 21, opt_kind = Timeval_opt\<rparr>"
| "general_spec Priority = \<lparr>opt_level = SOL_SOCKET, opt_name = 12, opt_kind = Int_opt\<rparr>"
| "general_spec Bindtodevice = \<lparr>opt_level = SOL_SOCKET, opt_name = 25, opt_kind = String_opt\<rparr>"

datatype tcp_opt =
    Tcp_nodelay | Tcp_cork | Tcp_quickack | Tcp_syncnt | Tcp_maxseg | Tcp_window_clamp
  | Tcp_keepidle | Tcp_keepintvl | Tcp_keepcnt | Tcp_user_timeout

fun tcp_spec :: "tcp_opt \<Rightarrow> sockopt_spec" where
  "tcp_spec Tcp_nodelay = \<lparr>opt_level = IPPROTO_TCP, opt_name = 1, opt_kind = Bool_opt\<rparr>"
| "tcp_spec Tcp_cork = \<lparr>opt_level = IPPROTO_TCP, opt_name = 3, opt_kind = Bool_opt\<rparr>"
| "tcp_spec Tcp_quickack = \<lparr>opt_level = IPPROTO_TCP, opt_name = 12, opt_kind = Bool_opt\<rparr>"
| "tcp_spec Tcp_syncnt = \<lparr>opt_level = IPPROTO_TCP, opt_name = 7, opt_kind = Int_opt\<rparr>"
| "tcp_spec Tcp_maxseg = \<lparr>opt_level = IPPROTO_TCP, opt_name = 2, opt_kind = Int_opt\<rparr>"
| "tcp_spec Tcp_window_clamp = \<lparr>opt_level = IPPROTO_TCP, opt_name = 10, opt_kind = Int_opt\<rparr>"
| "tcp_spec Tcp_keepidle = \<lparr>opt_level = IPPROTO_TCP, opt_name = 4, opt_kind = Int_opt\<rparr>"
| "tcp_spec Tcp_keepintvl = \<lparr>opt_level = IPPROTO_TCP, opt_name = 5, opt_kind = Int_opt\<rparr>"
| "tcp_spec Tcp_keepcnt = \<lparr>opt_level = IPPROTO_TCP, opt_name = 6, opt_kind = Int_opt\<rparr>"
| "tcp_spec Tcp_user_timeout = \<lparr>opt_level = IPPROTO_TCP, opt_name = 18, opt_kind = Int_opt\<rparr>"

datatype udp_opt = Udp_cork | Udp_no_check

fun udp_spec :: "udp_opt \<Rightarrow> sockopt_spec" where
  "udp_spec Udp_cork = \<lparr>opt_level = IPPROTO_UDP, opt_name = 1, opt_kind = Bool_opt\<rparr>"
| "udp_spec Udp_no_check = \<lparr>opt_level = SOL_SOCKET, opt_name = 11, opt_kind = Bool_opt\<rparr>"

datatype ipv4_opt =
    Ip_tos | Ip_ttl | Ip_mtu_discover | Ip_freebind | Ip_transparent | Ip_pktinfo | Ip_recvttl | Ip_recvtos
  | Ip_multicast_ttl | Ip_multicast_loop | Ip_add_membership | Ip_drop_membership

fun ipv4_spec :: "ipv4_opt \<Rightarrow> sockopt_spec" where
  "ipv4_spec Ip_tos = \<lparr>opt_level = IPPROTO_IP, opt_name = 1, opt_kind = Int_opt\<rparr>"
| "ipv4_spec Ip_ttl = \<lparr>opt_level = IPPROTO_IP, opt_name = 2, opt_kind = Int_opt\<rparr>"
| "ipv4_spec Ip_mtu_discover = \<lparr>opt_level = IPPROTO_IP, opt_name = 10, opt_kind = Int_opt\<rparr>"
| "ipv4_spec Ip_freebind = \<lparr>opt_level = IPPROTO_IP, opt_name = 15, opt_kind = Bool_opt\<rparr>"
| "ipv4_spec Ip_transparent = \<lparr>opt_level = IPPROTO_IP, opt_name = 19, opt_kind = Bool_opt\<rparr>"
| "ipv4_spec Ip_pktinfo = \<lparr>opt_level = IPPROTO_IP, opt_name = 8, opt_kind = Bool_opt\<rparr>"
| "ipv4_spec Ip_recvttl = \<lparr>opt_level = IPPROTO_IP, opt_name = 12, opt_kind = Bool_opt\<rparr>"
| "ipv4_spec Ip_recvtos = \<lparr>opt_level = IPPROTO_IP, opt_name = 13, opt_kind = Bool_opt\<rparr>"
| "ipv4_spec Ip_multicast_ttl = \<lparr>opt_level = IPPROTO_IP, opt_name = 33, opt_kind = Int_opt\<rparr>"
| "ipv4_spec Ip_multicast_loop = \<lparr>opt_level = IPPROTO_IP, opt_name = 34, opt_kind = Bool_opt\<rparr>"
| "ipv4_spec Ip_add_membership = \<lparr>opt_level = IPPROTO_IP, opt_name = 35, opt_kind = Mreqn_opt\<rparr>"
| "ipv4_spec Ip_drop_membership = \<lparr>opt_level = IPPROTO_IP, opt_name = 36, opt_kind = Mreqn_opt\<rparr>"

datatype ipv6_opt =
    Ipv6_v6only | Ipv6_tclass | Ipv6_unicast_hops | Ipv6_recverr | Ipv6_pktinfo | Ipv6_recvpktinfo
  | Ipv6_dontfrag | Ipv6_recvtclass | Ipv6_multicast_hops | Ipv6_multicast_loop | Ipv6_join_group
  | Ipv6_leave_group | Ipv6_unicast_if

fun ipv6_spec :: "ipv6_opt \<Rightarrow> sockopt_spec" where
  "ipv6_spec Ipv6_v6only = \<lparr>opt_level = IPPROTO_IPV6, opt_name = 26, opt_kind = Bool_opt\<rparr>"
| "ipv6_spec Ipv6_tclass = \<lparr>opt_level = IPPROTO_IPV6, opt_name = 67, opt_kind = Int_opt\<rparr>"
| "ipv6_spec Ipv6_unicast_hops = \<lparr>opt_level = IPPROTO_IPV6, opt_name = 16, opt_kind = Int_opt\<rparr>"
| "ipv6_spec Ipv6_recverr = \<lparr>opt_level = IPPROTO_IPV6, opt_name = 25, opt_kind = Bool_opt\<rparr>"
| "ipv6_spec Ipv6_pktinfo = \<lparr>opt_level = IPPROTO_IPV6, opt_name = 50, opt_kind = Bool_opt\<rparr>"
| "ipv6_spec Ipv6_recvpktinfo = \<lparr>opt_level = IPPROTO_IPV6, opt_name = 49, opt_kind = Bool_opt\<rparr>"
| "ipv6_spec Ipv6_dontfrag = \<lparr>opt_level = IPPROTO_IPV6, opt_name = 62, opt_kind = Bool_opt\<rparr>"
| "ipv6_spec Ipv6_recvtclass = \<lparr>opt_level = IPPROTO_IPV6, opt_name = 66, opt_kind = Bool_opt\<rparr>"
| "ipv6_spec Ipv6_multicast_hops = \<lparr>opt_level = IPPROTO_IPV6, opt_name = 18, opt_kind = Int_opt\<rparr>"
| "ipv6_spec Ipv6_multicast_loop = \<lparr>opt_level = IPPROTO_IPV6, opt_name = 19, opt_kind = Bool_opt\<rparr>"
| "ipv6_spec Ipv6_join_group = \<lparr>opt_level = IPPROTO_IPV6, opt_name = 20, opt_kind = Mreq6_opt\<rparr>"
| "ipv6_spec Ipv6_leave_group = \<lparr>opt_level = IPPROTO_IPV6, opt_name = 21, opt_kind = Mreq6_opt\<rparr>"
| "ipv6_spec Ipv6_unicast_if = \<lparr>opt_level = IPPROTO_IPV6, opt_name = 76, opt_kind = Int_opt\<rparr>"

datatype sockopt =
    General general_opt | Tcp tcp_opt | Udp udp_opt | Ipv4 ipv4_opt | Ipv6 ipv6_opt

fun spec_of :: "sockopt \<Rightarrow> sockopt_spec" where
  "spec_of (General o') = general_spec o'"
| "spec_of (Tcp o') = tcp_spec o'"
| "spec_of (Udp o') = udp_spec o'"
| "spec_of (Ipv4 o') = ipv4_spec o'"
| "spec_of (Ipv6 o') = ipv6_spec o'"

section \<open>The operations\<close>

record sockopt_op =
  ko_fd :: int
  ko_is_fixed :: bool
  ko_val :: optval

definition sockopt_init :: "sockopt \<Rightarrow> sockopt_op" where
  "sockopt_init opt = \<lparr>ko_fd = -1, ko_is_fixed = False, ko_val = optval_init (opt_kind (spec_of opt))\<rparr>"

definition sockopt_socket :: "socket_arg \<Rightarrow> sockopt_op \<Rightarrow> sockopt_op" where
  "sockopt_socket a op = op\<lparr>ko_fd := fst (arg_target a), ko_is_fixed := snd (arg_target a)\<rparr>"

definition sockopt_option :: "optval \<Rightarrow> sockopt_op \<Rightarrow> sockopt_op" where
  "sockopt_option v op = op\<lparr>ko_val := v\<rparr>"

definition setoption_opcode :: u8 where
  "setoption_opcode = IORING_OP_URING_CMD"

definition setoption_build :: "sockopt \<Rightarrow> sockopt_op \<Rightarrow> sockopt_op \<times> sqe_writes" where
  "setoption_build opt op =
     (op, Prep (Prep_cmd_sock Cmd_setsockopt (ko_fd op) (opt_level (spec_of opt)) (opt_name (spec_of opt))
            (ko_val op) (optlen (ko_val op)))
          # fixed_flag (ko_is_fixed op))"

text \<open>Unlike the other \<open>void\<close> operations, this one has no branch for \<open>std::error_code\<close> callbacks.\<close>

definition setoption_do_callback :: "sockopt_op \<Rightarrow> int \<Rightarrow> u32 \<Rightarrow> unit invocation" where
  "setoption_do_callback op ev fl =
     (if ev = 0 then Invoke_value () else Invoke_unexpected (make_system_error_code (- ev)))"

interpretation setoption: targeted_operation "setoption_build opt" setoption_do_callback "\<lambda>_ ev. ev = 0" ko_is_fixed for opt
  by unfold_locales (simp_all add: setoption_build_def setoption_do_callback_def op_simps)

definition getoption_opcode :: u8 where
  "getoption_opcode = IORING_OP_URING_CMD"

definition getoption_build :: "sockopt \<Rightarrow> sockopt_op \<Rightarrow> sockopt_op \<times> sqe_writes" where
  "getoption_build opt op =
     (op, Prep (Prep_cmd_sock Cmd_getsockopt (ko_fd op) (opt_level (spec_of opt)) (opt_name (spec_of opt))
            (ko_val op) (optlen (ko_val op)))
          # fixed_flag (ko_is_fixed op))"

text \<open>The result types of the option classes; \<open>None\<close> only for a structure of another kind.\<close>

datatype option_result =
    Res_bool bool
  | Res_int int
  | Res_linger linger_result
  | Res_microseconds int
  | Res_string string
  | Res_mreqn ipv4_mreq_result
  | Res_mreq6 ipv6_mreq_result

fun option_result_of :: "optkind \<Rightarrow> optval \<Rightarrow> option_result option" where
  "option_result_of Bool_opt v = map_option Res_bool (bool_result v)"
| "option_result_of Int_opt v = map_option Res_int (int_result v)"
| "option_result_of Linger_opt v = map_option Res_linger (linger_result_of v)"
| "option_result_of Timeval_opt v = map_option Res_microseconds (timeval_result v)"
| "option_result_of String_opt v = map_option Res_string (string_result v)"
| "option_result_of Mreqn_opt v = map_option Res_mreqn (mreqn_result v)"
| "option_result_of Mreq6_opt v = map_option Res_mreq6 (mreq6_result v)"

lemma option_result_init: "option_result_of k (optval_init k) \<noteq> None"
  by (cases k) simp_all

text \<open>
  The kernel has stored the value into the member, whose type the option class fixes; the callback
  gets it when the returned length is positive. A returned length of 0 is delivered as the error
  with value 0.
\<close>

definition getoption_do_callback :: "sockopt \<Rightarrow> sockopt_op \<Rightarrow> int \<Rightarrow> u32 \<Rightarrow> option_result invocation" where
  "getoption_do_callback opt op ev fl =
     (if ev > 0 then
        (case option_result_of (opt_kind (spec_of opt)) (ko_val op) of
           Some r \<Rightarrow> Invoke_value r | None \<Rightarrow> No_invocation)
      else Invoke_unexpected (make_system_error_code (- ev)))"

interpretation getoption:
  targeted_operation "getoption_build opt" "getoption_do_callback opt" "\<lambda>_ ev. ev > 0" ko_is_fixed for opt
  by unfold_locales
    (simp_all add: getoption_build_def getoption_do_callback_def op_simps split: option.splits)

record getsockname_op =
  gn_fd :: int
  gn_socklen :: nat
  gn_is_peer :: bool
  gn_is_fixed :: bool
  gn_sockaddr :: sys_sockaddr

definition getsockname_init :: "nat \<Rightarrow> getsockname_op" where
  "getsockname_init sys_size =
     \<lparr>gn_fd = -1, gn_socklen = sys_size, gn_is_peer = False, gn_is_fixed = False, gn_sockaddr = Sa_unspec\<rparr>"

definition getsockname_socket :: "u32 \<Rightarrow> socket_arg \<Rightarrow> getsockname_op \<Rightarrow> getsockname_op option" where
  "getsockname_socket info_domain a op = do {
     IOUXX_ASSERT (info_domain = arg_domain a);
     Some (op\<lparr>gn_fd := fst (arg_target a), gn_is_fixed := snd (arg_target a)\<rparr>) }"

definition getsockname_peer :: "bool \<Rightarrow> getsockname_op \<Rightarrow> getsockname_op" where
  "getsockname_peer is_peer op = op\<lparr>gn_is_peer := is_peer\<rparr>"

definition getsockname_opcode :: u8 where
  "getsockname_opcode = IORING_OP_URING_CMD"

definition getsockname_build :: "getsockname_op \<Rightarrow> getsockname_op \<times> sqe_writes" where
  "getsockname_build op =
     (op, Prep (Prep_cmd_getsockname (gn_fd op) (gn_socklen op) (gn_is_peer op)) # fixed_flag (gn_is_fixed op))"

definition getsockname_do_callback ::
  "(sys_sockaddr \<Rightarrow> nat \<Rightarrow> 'i option) \<Rightarrow> getsockname_op \<Rightarrow> int \<Rightarrow> u32 \<Rightarrow> 'i invocation" where
  "getsockname_do_callback from_sys op ev fl =
     (if ev \<ge> 0 then
        (case from_sys (gn_sockaddr op) (gn_socklen op) of
           None \<Rightarrow> Assertion_failed | Some info \<Rightarrow> Invoke_value info)
      else Invoke_unexpected (make_system_error_code (- ev)))"

interpretation getsockname: targeted_operation getsockname_build "getsockname_do_callback from_sys" "\<lambda>_ ev. ev \<ge> 0"
  gn_is_fixed for from_sys
  by unfold_locales
    (simp_all add: getsockname_build_def getsockname_do_callback_def op_simps split: option.splits)

section \<open>Properties\<close>

text \<open>The whole table, to be checked by evaluation.\<close>

definition all_options :: "sockopt list" where
  "all_options =
     map General [Reuseaddr, Reuseport, Keepalive, Debug, Acceptconn, Dontroute, Broadcast, Oobinline,
       Rcvbuf, Sndbuf, Rcvlowat, Sndlowat, Linger, Rcvtimeo, Sndtimeo, Priority, Bindtodevice]
     @ map Tcp [Tcp_nodelay, Tcp_cork, Tcp_quickack, Tcp_syncnt, Tcp_maxseg, Tcp_window_clamp,
       Tcp_keepidle, Tcp_keepintvl, Tcp_keepcnt, Tcp_user_timeout]
     @ map Udp [Udp_cork, Udp_no_check]
     @ map Ipv4 [Ip_tos, Ip_ttl, Ip_mtu_discover, Ip_freebind, Ip_transparent, Ip_pktinfo, Ip_recvttl, Ip_recvtos,
       Ip_multicast_ttl, Ip_multicast_loop, Ip_add_membership, Ip_drop_membership]
     @ map Ipv6 [Ipv6_v6only, Ipv6_tclass, Ipv6_unicast_hops, Ipv6_recverr, Ipv6_pktinfo, Ipv6_recvpktinfo,
       Ipv6_dontfrag, Ipv6_recvtclass, Ipv6_multicast_hops, Ipv6_multicast_loop, Ipv6_join_group,
       Ipv6_leave_group, Ipv6_unicast_if]"

definition option_key :: "sockopt \<Rightarrow> int \<times> int" where
  "option_key opt = (opt_level (spec_of opt), opt_name (spec_of opt))"

lemma all_options_complete: "opt \<in> set all_options"
proof (cases opt)
  case (General x) then show ?thesis by (cases x) (simp_all add: all_options_def)
next
  case (Tcp x) then show ?thesis by (cases x) (simp_all add: all_options_def)
next
  case (Udp x) then show ?thesis by (cases x) (simp_all add: all_options_def)
next
  case (Ipv4 x) then show ?thesis by (cases x) (simp_all add: all_options_def)
next
  case (Ipv6 x) then show ?thesis by (cases x) (simp_all add: all_options_def)
qed

lemma all_keys_distinct: "distinct (map option_key all_options)"
  by (simp add: all_options_def option_key_def)

text \<open>
  No two option classes address the same kernel option: an option is determined by the level
  and the option name that its operations put into the entry.
\<close>

theorem option_key_inj: "option_key a = option_key b \<longleftrightarrow> a = b"
proof
  assume "option_key a = option_key b"
  with all_keys_distinct all_options_complete [of a] all_options_complete [of b] show "a = b"
    by (auto simp: distinct_map inj_on_def)
qed simp

text \<open>Splitting a time into seconds and microseconds loses only what truncation to microseconds loses.\<close>

lemma sdiv_nonneg: "a sdiv c = a div c" if "0 \<le> a" "0 < c" for a c :: int
  using that by (simp add: signed_divide_int_def sgn_if)

lemma sdiv_neg: "(- a) sdiv c = - (a div c)" if "0 \<le> a" "0 < c" for a c :: int
  using that by (cases "a = 0") (simp_all add: signed_divide_int_def sgn_if)

lemma div_split: "n div (m * k) * k + (n - n div (m * k) * (m * k)) div m = n div m" if "0 < m" for n m k :: int
proof -
  have "n div m = (n mod (m * k) + m * (k * (n div (m * k)))) div m"
    by (metis mod_mult_div_eq mult.assoc)
  also have "\<dots> = n div (m * k) * k + n mod (m * k) div m"
    using that by (simp add: mult.commute)
  finally show ?thesis by (simp add: minus_div_mult_eq_mod)
qed

lemma sdiv_split:
  fixes n m k :: int
  assumes "0 < m" "0 < k"
  shows "(n sdiv (m * k)) * k + (n - n sdiv (m * k) * (m * k)) sdiv m = n sdiv m"
proof -
  have mk: "0 < m * k" using assms by simp
  have r: "0 \<le> n - n div (m * k) * (m * k)" for n
    using mk by (simp add: minus_div_mult_eq_mod)
  show ?thesis
  proof (cases "0 \<le> n")
    case True
    then show ?thesis using assms mk r div_split [of m n k] by (simp add: sdiv_nonneg)
  next
    case False
    then obtain p where p: "n = - p" "0 \<le> p" by (metis minus_minus neg_0_le_iff_le linear)
    have "(- (p - p div (m * k) * (m * k))) sdiv m = - ((p - p div (m * k) * (m * k)) div m)"
      using r [of p] assms(1) by (rule sdiv_neg)
    then show ?thesis using p assms mk div_split [of m p k] by (simp add: sdiv_neg sdiv_nonneg)
  qed
qed
lemma sdiv_seconds_micros:
  "(ns sdiv 1000000000) * 1000000 + (ns - ns sdiv 1000000000 * 1000000000) sdiv 1000 = ns sdiv 1000" for ns :: int
  using sdiv_split [of 1000 1000000 ns] by simp

lemma sint_int_range: "sint (word_of_int secs :: u32) = secs \<longleftrightarrow> - (2 ^ 31) \<le> secs \<and> secs < 2 ^ 31"
proof
  assume "sint (word_of_int secs :: u32) = secs"
  then show "- (2 ^ 31) \<le> secs \<and> secs < 2 ^ 31"
    using sint_ge [of "word_of_int secs :: u32"] sint_lt [of "word_of_int secs :: u32"] by simp
next
  assume "- (2 ^ 31) \<le> secs \<and> secs < 2 ^ 31"
  then show "sint (word_of_int secs :: u32) = secs"
    by (simp add: sint_sbintrunc' signed_take_bit_int_eq_self)
qed


end
