(* ===== verification/Ip_V6_Format.thy ===== *)
theory Ip_V6_Format
  imports Ip_V6
begin

text \<open>
  \<open>include/iouxx/iouops/network/ip.hpp\<close>, third part: \<open>std::formatter<address_v6>\<close>. Its format
  specification parser, the compression of zero groups and the four textual forms. The main
  result is that every form the formatter can print is parsed back to the same address.
\<close>

section \<open>Format specification\<close>

record v6_spec =
  seen_r :: bool
  seen_f :: bool
  seen_z :: bool
  seen_m :: bool
  seen_n :: bool
  seen_u :: bool

definition v6_spec_init :: v6_spec where
  "v6_spec_init = \<lparr>seen_r = False, seen_f = False, seen_z = False, seen_m = False,
     seen_n = False, seen_u = False\<rparr>"

text \<open>The \<open>std::format_error\<close>s that \<open>formatter::parse\<close> throws.\<close>

datatype v6_format_error =
    Duplicate_spec char | Invalid_spec | Cannot_combine char char

text \<open>The loop over the specification characters; it stops at \<open>'}'\<close> or at the end of the string.\<close>

fun v6_spec_chars :: "string \<Rightarrow> v6_spec \<Rightarrow> v6_format_error + v6_spec \<times> string" where
  "v6_spec_chars [] f = Inr (f, [])"
| "v6_spec_chars (c # it) f =
     (if c = CHR ''}'' then Inr (f, c # it)
      else if c \<in> {CHR ''r'', CHR ''R''} then
        (if seen_r f then Inl (Duplicate_spec CHR ''r'') else v6_spec_chars it (f\<lparr>seen_r := True\<rparr>))
      else if c \<in> {CHR ''f'', CHR ''F''} then
        (if seen_f f then Inl (Duplicate_spec CHR ''f'') else v6_spec_chars it (f\<lparr>seen_f := True\<rparr>))
      else if c \<in> {CHR ''z'', CHR ''Z''} then
        (if seen_z f then Inl (Duplicate_spec CHR ''z'') else v6_spec_chars it (f\<lparr>seen_z := True\<rparr>))
      else if c \<in> {CHR ''m'', CHR ''M''} then
        (if seen_m f then Inl (Duplicate_spec CHR ''m'') else v6_spec_chars it (f\<lparr>seen_m := True\<rparr>))
      else if c \<in> {CHR ''n'', CHR ''N''} then
        (if seen_n f then Inl (Duplicate_spec CHR ''n'') else v6_spec_chars it (f\<lparr>seen_n := True\<rparr>))
      else if c \<in> {CHR ''u'', CHR ''U''} then
        (if seen_u f then Inl (Duplicate_spec CHR ''u'') else v6_spec_chars it (f\<lparr>seen_u := True\<rparr>))
      else Inl Invalid_spec)"

definition v6_spec_check :: "v6_spec \<Rightarrow> v6_format_error option" where
  "v6_spec_check f =
     (if seen_r f then
        (if seen_f f then Some (Cannot_combine CHR ''r'' CHR ''f'')
         else if seen_z f then Some (Cannot_combine CHR ''r'' CHR ''z'')
         else if seen_m f then Some (Cannot_combine CHR ''r'' CHR ''m'')
         else None)
      else if seen_m f \<and> seen_n f then Some (Cannot_combine CHR ''m'' CHR ''n'')
      else None)"

text \<open>\<open>formatter<address_v6>::parse\<close>: the formatter state and the rest of the format string.\<close>

definition v6_spec_parse :: "string \<Rightarrow> v6_spec \<Rightarrow> v6_format_error + v6_spec \<times> string" where
  "v6_spec_parse ctx f =
     (if ctx = [] \<or> hd ctx = CHR ''}'' then Inr (f\<lparr>seen_r := True\<rparr>, ctx)
      else (case v6_spec_chars ctx f of
              Inl e \<Rightarrow> Inl e
            | Inr (f', it) \<Rightarrow>
                (case v6_spec_check f' of Some e \<Rightarrow> Inl e | None \<Rightarrow> Inr (f', it))))"

section \<open>Formatting\<close>

text \<open>One group: \<open>{:x}\<close>, \<open>{:04x}\<close>, \<open>{:X}\<close> or \<open>{:04X}\<close>.\<close>

definition hex_group :: "bool \<Rightarrow> bool \<Rightarrow> u16 \<Rightarrow> string" where
  "hex_group removed uppercase w =
     (let ds = nat_digits uppercase 16 (unat w) in if removed then ds else pad_zero 4 ds)"

definition full_ipv6 :: "u16 list \<Rightarrow> bool \<Rightarrow> bool \<Rightarrow> string" where
  "full_ipv6 local removed uppercase =
     (let g = hex_group removed uppercase in
      g (local ! 0) @ '':'' @ g (local ! 1) @ '':'' @ g (local ! 2) @ '':'' @ g (local ! 3) @ '':''
      @ g (local ! 4) @ '':'' @ g (local ! 5) @ '':'' @ g (local ! 6) @ '':'' @ g (local ! 7))"

definition mixed_full_ipv6 :: "u16 list \<Rightarrow> bool \<Rightarrow> bool \<Rightarrow> string" where
  "mixed_full_ipv6 local removed uppercase =
     (let g = hex_group removed uppercase in
      g (local ! 0) @ '':'' @ g (local ! 1) @ '':'' @ g (local ! 2) @ '':'' @ g (local ! 3) @ '':''
      @ g (local ! 4) @ '':'' @ g (local ! 5) @ '':'')"

text \<open>The scan for the longest run of zero groups: \<open>(best_start, best_len, cur_start, cur_len)\<close>.\<close>

fun zero_run_scan :: "u16 list \<Rightarrow> nat \<Rightarrow> nat \<times> nat \<times> nat \<times> nat \<Rightarrow> nat \<times> nat \<times> nat \<times> nat" where
  "zero_run_scan [] i acc = acc"
| "zero_run_scan (w # ws) i (best_start, best_len, cur_start, cur_len) =
     (if w = 0 then
        (let cur_start' = (if cur_len = 0 then i else cur_start);
             cur_len' = Suc cur_len
         in if cur_len' > best_len
            then zero_run_scan ws (Suc i) (cur_start', cur_len', cur_start', cur_len')
            else zero_run_scan ws (Suc i) (best_start, best_len, cur_start', cur_len'))
      else zero_run_scan ws (Suc i) (best_start, best_len, cur_start, 0))"

definition zero_run :: "nat \<Rightarrow> u16 list \<Rightarrow> nat \<times> nat" where
  "zero_run limit local =
     (case zero_run_scan (take limit local) 0 (0, 0, 0, 0) of (bs, bl, _, _) \<Rightarrow> (bs, bl))"

definition compressed_ipv6 :: "u16 list \<Rightarrow> bool \<Rightarrow> bool \<Rightarrow> bool \<Rightarrow> string" where
  "compressed_ipv6 local removed mixed uppercase =
     (let limit = (if mixed then 6 else 8) in
      case zero_run limit local of (best_start, best_len) \<Rightarrow>
        if best_len < 2 then
          (if mixed then mixed_full_ipv6 local removed uppercase
           else full_ipv6 local removed uppercase)
        else if best_start = 0 \<and> best_len = limit then ''::''
        else
          concat (map (\<lambda>i. hex_group removed uppercase (local ! i) @ '':'') [0..<best_start])
          @ (if best_start = 0 then '':'' else [])
          @ concat (map (\<lambda>i. '':'' @ hex_group removed uppercase (local ! i))
              [best_start + best_len..<limit])
          @ (if best_start + best_len = limit \<or> mixed then '':'' else []))"

definition ipv4_part :: "endian \<Rightarrow> address_v6 \<Rightarrow> string" where
  "ipv4_part en addr =
     v4_format en (v4_of_raw (u32_of_u16s en (v6_raw addr ! 6, v6_raw addr ! 7)))"

definition v6_do_format :: "endian \<Rightarrow> address_v6 \<Rightarrow> u16 list \<Rightarrow> bool \<Rightarrow> bool \<Rightarrow> bool \<Rightarrow> bool \<Rightarrow> string" where
  "v6_do_format en addr local full removed mixed uppercase =
     (if full then
        (if mixed then mixed_full_ipv6 local removed uppercase @ ipv4_part en addr
         else full_ipv6 local removed uppercase)
      else
        compressed_ipv6 local removed mixed uppercase
        @ (if mixed then ipv4_part en addr else []))"

definition check_mixed :: "u16 list \<Rightarrow> bool" where
  "check_mixed local \<longleftrightarrow>
     (\<forall>i < 5. local ! i = 0) \<and> \<not> (local ! 5 \<noteq> 0xffff \<and> (local ! 5 \<noteq> 0 \<or> local ! 6 = 0))"

definition v6_format :: "endian \<Rightarrow> v6_spec \<Rightarrow> address_v6 \<Rightarrow> string" where
  "v6_format en f addr =
     (let local = hton_v6 en (v6_raw addr);
          mixed = (if seen_r f then \<not> seen_n f \<and> check_mixed local else seen_m f)
      in v6_do_format en addr local (seen_f f) (\<not> seen_z f) mixed (seen_u f))"

text \<open>\<open>address_v6::to_string\<close> formats with an empty specification.\<close>

definition v6_to_string :: "endian \<Rightarrow> address_v6 \<Rightarrow> string" where
  "v6_to_string en addr = v6_format en (v6_spec_init\<lparr>seen_r := True\<rparr>) addr"

section \<open>Groups\<close>

lemma hex_group_all_digit: "\<forall>c \<in> set (hex_group r u w). is_digit 16 c"
  using hex.digits_all_digit [of u "unat w"] hex.pad_all_digit [OF hex.digits_all_digit [of u "unat w"], of 4]
  by (auto simp: hex_group_def Let_def)

lemma hex_group_nonempty [simp]: "hex_group r u w \<noteq> []"
  by (simp add: hex_group_def Let_def pad_zero_def)

lemma hex_group_length: "length (hex_group r u w) \<le> 4"
proof -
  have "unat w < 16 ^ 4" by (rule less_le_trans [OF unat_u16_bound]) simp
  then have "length (nat_digits u 16 (unat w)) \<le> 4" by (rule hex.length_nat_digits) simp
  then show ?thesis by (simp add: hex_group_def Let_def pad_zero_def)
qed

lemma hex_group_scan: "from_chars_unsigned 16 16 (hex_group r u w) = Parsed (unat w) (length (hex_group r u w))"
  using hex.scan_print [of "unat w" 16] hex.scan_pad [of "unat w" 16]
  by (simp add: hex_group_def Let_def)

lemma hex_group_free [simp]: "CHR '':'' \<notin> set (hex_group r u w)" "CHR ''.'' \<notin> set (hex_group r u w)"
proof -
  have "\<not> is_digit 16 CHR '':''" "\<not> is_digit 16 CHR ''.''" by (simp_all add: is_digit_def digit_val_def)
  then show "CHR '':'' \<notin> set (hex_group r u w)" "CHR ''.'' \<notin> set (hex_group r u w)"
    using hex_group_all_digit [of r u w] by blast+
qed

lemma dec_u8_colon_free: "CHR '':'' \<notin> set (dec_u8 b)"
proof -
  have "\<not> is_digit 10 CHR '':''" by (simp add: is_digit_def digit_val_def)
  then show ?thesis using dec.digits_all_digit [of False "unat b"] by (auto simp: dec_u8_def)
qed

lemma v4_format_free [simp]:
  "CHR '':'' \<notin> set (v4_format en a)" "CHR ''.'' \<in> set (v4_format en a)" "v4_format en a \<noteq> []"
  by (cases "bytes_of_u32 en (v4_raw a)"; simp add: v4_format_def dec_u8_colon_free)+

section \<open>Parsing what the formatter prints\<close>

lemma section_hex:
  "part_count st < 8 \<Longrightarrow> parse_one_section en (hex_group r u w) st =
     Inr (st\<lparr>part_results := (part_results st)[part_count st := w], part_count := Suc (part_count st)\<rparr>)"
  using hex_group_length [of r u w]
  by (simp add: parse_one_section_def Let_def hex_group_scan)

lemma section_v4:
  "part_count st \<le> 6 \<Longrightarrow>
   parse_one_section en (v4_format en (v4_of_raw (u32_of_u16s en (p, q)))) st =
     Inr (st\<lparr>part_results := (part_results st)[part_count st := hton_16 en p,
                Suc (part_count st) := hton_16 en q],
              part_count := part_count st + 2, seen_ipv4 := True\<rparr>)"
  by (simp add: parse_one_section_def Let_def) (simp add: v4_of_raw_def)

fun put :: "nat \<Rightarrow> 'a list \<Rightarrow> 'a list \<Rightarrow> 'a list" where
  "put n [] xs = xs"
| "put n (w # ws) xs = put (Suc n) ws (xs[n := w])"

lemma length_put [simp]: "length (put n ws xs) = length xs"
  by (induction n ws xs rule: put.induct) simp_all

lemma put_append: "put n (vs @ ws) xs = put (n + length vs) ws (put n vs xs)"
  by (induction n vs xs rule: put.induct) simp_all

lemma put_eq: "n + length ws \<le> length xs \<Longrightarrow> put n ws xs = take n xs @ ws @ drop (n + length ws) xs"
proof (induction n ws xs rule: put.induct)
  case (2 n w ws xs)
  then have "put (Suc n) ws (xs[n := w]) = take (Suc n) (xs[n := w]) @ ws @ drop (Suc n + length ws) (xs[n := w])"
    by simp
  also have "take (Suc n) (xs[n := w]) = take n xs @ [w]"
    using "2.prems" by (simp add: take_Suc_conv_app_nth)
  finally show ?case by simp
qed simp

lemma sections_hex:
  "\<not> seen_ipv4 st \<Longrightarrow> part_count st + length ws \<le> 8 \<Longrightarrow>
   v6_sections en (map (hex_group r u) ws @ rest) st =
   v6_sections en rest (st\<lparr>part_results := put (part_count st) ws (part_results st),
                           part_count := part_count st + length ws\<rparr>)"
  by (induction ws arbitrary: st) (simp_all add: section_hex)

text \<open>The sections of one half: hexadecimal groups, then possibly the embedded IPv4 address.\<close>

definition tokens :: "endian \<Rightarrow> bool \<Rightarrow> bool \<Rightarrow> u16 list \<Rightarrow> bool \<Rightarrow> u16 \<times> u16 \<Rightarrow> string list" where
  "tokens en r u ws mixed pq = map (hex_group r u) ws
     @ (if mixed then [v4_format en (v4_of_raw (u32_of_u16s en pq))] else [])"

definition token_words :: "endian \<Rightarrow> u16 list \<Rightarrow> bool \<Rightarrow> u16 \<times> u16 \<Rightarrow> u16 list" where
  "token_words en ws mixed pq = ws @ (if mixed then [hton_16 en (fst pq), hton_16 en (snd pq)] else [])"

lemma sections_tokens:
  assumes "\<not> seen_ipv4 st" "part_count st + length (token_words en ws mixed pq) \<le> 8"
  shows "v6_sections en (tokens en r u ws mixed pq) st =
    Inr (st\<lparr>part_results := put (part_count st) (token_words en ws mixed pq) (part_results st),
             part_count := part_count st + length (token_words en ws mixed pq), seen_ipv4 := mixed\<rparr>)"
proof (cases mixed)
  case True
  with assms show ?thesis
    by (cases pq) (simp add: tokens_def token_words_def sections_hex section_v4 put_append)
next
  case False
  with assms sections_hex [of st ws en r u "[]"] show ?thesis
    by (cases st) (simp add: tokens_def token_words_def)
qed

definition good_token :: "string \<Rightarrow> bool" where
  "good_token t \<longleftrightarrow> t \<noteq> [] \<and> CHR '':'' \<notin> set t"

lemma good_tokens: "\<forall>t \<in> set (tokens en r u ws mixed pq). good_token t"
  by (auto simp: tokens_def good_token_def)

lemma join_good:
  "\<forall>t \<in> set ts. good_token t \<Longrightarrow> ts \<noteq> [] \<Longrightarrow>
   (let j = join_with '':'' ts in
    j \<noteq> [] \<and> no_pair CHR '':'' j \<and> hd j \<noteq> CHR '':'' \<and> last j \<noteq> CHR '':'')"
proof (induction ts)
  case (Cons t ts)
  have t: "t \<noteq> []" "CHR '':'' \<notin> set t" "hd t \<noteq> CHR '':''" "last t \<noteq> CHR '':''"
    using Cons.prems by (auto simp: good_token_def) (metis hd_in_set last_in_set)+
  show ?case
  proof (cases "ts = []")
    case True
    with t show ?thesis by (simp add: no_pair_free)
  next
    case False
    with Cons t show ?thesis
      by (simp add: join_with_Cons Let_def no_pair_sep no_pair_free)
  qed
qed simp

lemma join_good_dest:
  assumes "\<forall>t \<in> set ts. good_token t"
  shows "no_pair CHR '':'' (join_with '':'' ts)"
    "join_with '':'' ts = [] \<or> last (join_with '':'' ts) \<noteq> CHR '':''"
    "join_with '':'' ts = [] \<longleftrightarrow> ts = []"
  using join_good [OF assms] by (cases "ts = []"; simp add: Let_def)+

lemma split_join_good:
  assumes "\<forall>t \<in> set ts. good_token t" "ts \<noteq> []"
  shows "split_view '':'' (join_with '':'' ts) = ts"
  using assms join_good_dest(3) [OF assms(1)]
  by (simp add: split_view_def split_char_join good_token_def)

lemma join_length: "\<forall>t \<in> set ts. length t \<le> k \<Longrightarrow> length (join_with '':'' ts) \<le> Suc k * length ts"
proof (induction ts)
  case (Cons t ts)
  then show ?case by (cases ts) (auto simp: algebra_simps)
qed simp

text \<open>The two shapes of text: one list of sections, or two around a double colon.\<close>

lemma parse_plain:
  assumes "\<forall>t \<in> set ts. good_token t" "ts \<noteq> []" "length (join_with '':'' ts) \<le> 45"
    and "v6_sections en ts v6_init = Inr st" "part_count st = 8"
  shows "v6_from_string en (join_with '':'' ts) = Inr (v6_of_raw (hton_v6 en (part_results st)))"
  using assms join_good_dest [OF assms(1)]
  by (simp add: v6_from_string_def split_view_def [of "''::''"] split_pair_free split_join_good Let_def)

lemma parse_compressed:
  assumes ls: "\<forall>t \<in> set ls. good_token t" and rs: "\<forall>t \<in> set rs. good_token t"
    and len: "length (join_with '':'' ls) + length (join_with '':'' rs) \<le> 43"
    and st1: "v6_sections en ls v6_init = Inr st1" "\<not> seen_ipv4 st1"
    and st2: "v6_sections en rs st1 = Inr st2" "part_count st2 < 8" "length (part_results st2) = 8"
    and mono: "part_count st1 \<le> part_count st2"
  shows "v6_from_string en (join_with '':'' ls @ ''::'' @ join_with '':'' rs) =
    Inr (v6_of_raw (hton_v6 en
      (if rs = [] then part_results st2
       else rotate_range (part_count st1) (part_count st2) 8 (part_results st2))))"
proof -
  let ?l = "join_with '':'' ls" and ?r = "join_with '':'' rs"
  have "split_view ''::'' (?l @ ''::'' @ ?r) = [?l, ?r]"
    using join_good_dest [OF ls] join_good_dest [OF rs]
    by (simp add: split_view_def split_pair_append split_pair_free)
  moreover have "v6_halves en [?l, ?r] 0 v6_init = v6_halves en [?r] 1 st1"
    using st1 join_good_dest(3) [OF ls] split_join_good [OF ls]
    by (cases "ls = []") (simp_all add: Let_def)
  ultimately show ?thesis
    using len st1(2) st2 mono join_good_dest(3) [OF rs] split_join_good [OF rs]
    by (cases "rs = []") (simp_all add: v6_from_string_def Let_def)
qed

section \<open>The longest run of zero groups\<close>

definition zeros_at :: "u16 list \<Rightarrow> nat \<Rightarrow> nat \<Rightarrow> bool" where
  "zeros_at xs s l \<longleftrightarrow> s + l \<le> length xs \<and> (\<forall>k < l. xs ! (s + k) = 0)"

text \<open>
  Loop invariant after \<open>i\<close> groups: the best run lies in the part already seen, no run seen so far
  is longer, an equally long one does not start earlier, and the current run is the maximal run
  that ends at \<open>i\<close>.
\<close>

definition scan_inv :: "u16 list \<Rightarrow> nat \<Rightarrow> nat \<times> nat \<times> nat \<times> nat \<Rightarrow> bool" where
  "scan_inv xs i acc \<longleftrightarrow> (case acc of (bs, bl, cs, cl) \<Rightarrow>
     bs + bl \<le> i \<and> zeros_at xs bs bl \<and> cl \<le> i \<and> (0 < cl \<longrightarrow> cs = i - cl) \<and> zeros_at xs (i - cl) cl
     \<and> (cl < i \<longrightarrow> xs ! (i - cl - 1) \<noteq> 0)
     \<and> (\<forall>s l. zeros_at xs s l \<and> s + l \<le> i \<longrightarrow> l \<le> bl \<and> (l = bl \<and> 0 < l \<longrightarrow> bs \<le> s)))"

lemma zeros_at_nth: "zeros_at xs s l \<Longrightarrow> s \<le> k \<Longrightarrow> k < s + l \<Longrightarrow> xs ! k = 0"
  unfolding zeros_at_def by (metis add_less_cancel_left le_iff_add)

lemma zeros_at_Suc: "zeros_at xs s l \<Longrightarrow> s + l < length xs \<Longrightarrow> xs ! (s + l) = 0 \<Longrightarrow> zeros_at xs s (Suc l)"
  by (auto simp: zeros_at_def less_Suc_eq)

lemma run_ending_bound:
  assumes "zeros_at xs s l" "s + l = Suc i" "cl < i \<longrightarrow> xs ! (i - cl - 1) \<noteq> 0" "cl \<le> i"
  shows "l \<le> Suc cl"
proof (rule ccontr)
  assume "\<not> l \<le> Suc cl"
  with assms(2,4) have "s \<le> i - cl - 1" "i - cl - 1 < s + l" "cl < i" by auto
  with zeros_at_nth [OF assms(1), of "i - cl - 1"] assms(3) show False by simp
qed

lemma scan_inv_zero:
  assumes inv: "scan_inv xs i (bs, bl, cs, cl)" and i: "i < length xs" and z: "xs ! i = 0"
  defines "cs' \<equiv> (if cl = 0 then i else cs)"
  shows "scan_inv xs (Suc i) (if Suc cl > bl then (cs', Suc cl, cs', Suc cl) else (bs, bl, cs', Suc cl))"
proof -
  have cs: "cs' = i - cl" and cl: "cl \<le> i" and run: "zeros_at xs (i - cl) cl"
    and edge: "cl < i \<longrightarrow> xs ! (i - cl - 1) \<noteq> 0" and best: "bs + bl \<le> i" "zeros_at xs bs bl"
    and old: "\<And>s l. zeros_at xs s l \<Longrightarrow> s + l \<le> i \<Longrightarrow> l \<le> bl \<and> (l = bl \<and> 0 < l \<longrightarrow> bs \<le> s)"
    using inv by (auto simp: scan_inv_def cs'_def)
  have run': "zeros_at xs (Suc i - Suc cl) (Suc cl)"
    using zeros_at_Suc [OF run] i z cl by simp
  have new: "l \<le> Suc cl" if "zeros_at xs s l" "s + l = Suc i" for s l
    using run_ending_bound [OF that edge cl] .
  show ?thesis
  proof (cases "Suc cl > bl")
    case True
    have "l \<le> Suc cl \<and> (l = Suc cl \<and> 0 < l \<longrightarrow> i - cl \<le> s)" if "zeros_at xs s l" "s + l \<le> Suc i" for s l
    proof (cases "s + l = Suc i")
      case True
      with new that show ?thesis by auto
    next
      case False
      with that old [of s l] \<open>Suc cl > bl\<close> show ?thesis by auto
    qed
    with True cs cl edge run' show ?thesis by (auto simp: scan_inv_def)
  next
    case False
    have "l \<le> bl \<and> (l = bl \<and> 0 < l \<longrightarrow> bs \<le> s)" if "zeros_at xs s l" "s + l \<le> Suc i" for s l
    proof (cases "s + l = Suc i")
      case True
      with new [OF that(1)] False best show ?thesis by auto
    next
      case False
      with that old [of s l] show ?thesis by auto
    qed
    with False cs cl edge run' best show ?thesis by (auto simp: scan_inv_def)
  qed
qed

lemma scan_inv_nonzero:
  assumes inv: "scan_inv xs i (bs, bl, cs, cl)" and i: "i < length xs" and z: "xs ! i \<noteq> 0"
  shows "scan_inv xs (Suc i) (bs, bl, cs, 0)"
proof -
  have "l = 0" if "zeros_at xs s l" "s + l = Suc i" for s l
  proof (rule ccontr)
    assume "l \<noteq> 0"
    with zeros_at_nth [OF that(1), of i] that(2) z show False by simp
  qed
  note ending = this
  have old: "\<And>s l. zeros_at xs s l \<Longrightarrow> s + l \<le> i \<Longrightarrow> l \<le> bl \<and> (l = bl \<and> 0 < l \<longrightarrow> bs \<le> s)"
    using inv by (auto simp: scan_inv_def)
  have "l \<le> bl \<and> (l = bl \<and> 0 < l \<longrightarrow> bs \<le> s)" if "zeros_at xs s l" "s + l \<le> Suc i" for s l
  proof (cases "s + l = Suc i")
    case True
    with ending [OF that(1)] show ?thesis by simp
  next
    case False
    with that(2) have "s + l \<le> i" by simp
    with old that(1) show ?thesis by blast
  qed
  with inv i z show ?thesis by (auto simp: scan_inv_def zeros_at_def)
qed

lemma scan_inv_run:
  "scan_inv xs i acc \<Longrightarrow> ws = drop i xs \<Longrightarrow> i \<le> length xs \<Longrightarrow> scan_inv xs (length xs) (zero_run_scan ws i acc)"
proof (induction ws i acc rule: zero_run_scan.induct)
  case (1 i acc)
  then show ?case by simp
next
  case (2 w ws i bs bl cs cl)
  then have i: "i < length xs" by (metis drop_all list.distinct(1) not_less)
  with "2.prems"(2) have w: "xs ! i = w" and ws: "ws = drop (Suc i) xs"
    by (metis Cons_nth_drop_Suc list.inject)+
  show ?case
  proof (cases "w = 0")
    case True
    from scan_inv_zero [OF "2.prems"(1) i] True w
    have "scan_inv xs (Suc i) (if Suc cl > bl
        then (if cl = 0 then i else cs, Suc cl, if cl = 0 then i else cs, Suc cl)
        else (bs, bl, if cl = 0 then i else cs, Suc cl))" by simp
    with "2.IH"(1,2) True ws i show ?thesis by (cases "Suc cl > bl") (simp_all add: Let_def)
  next
    case False
    with "2.IH"(3) scan_inv_nonzero [OF "2.prems"(1) i] w ws i show ?thesis by simp
  qed
qed

lemma zero_run_inv:
  assumes "zero_run limit xs = (bs, bl)" "limit \<le> length xs"
  shows "zeros_at (take limit xs) bs bl"
    "\<And>s l. zeros_at (take limit xs) s l \<Longrightarrow> l \<le> bl \<and> (l = bl \<and> 0 < l \<longrightarrow> bs \<le> s)"
proof -
  let ?xs = "take limit xs"
  have "scan_inv ?xs 0 (0, 0, 0, 0)" by (simp add: scan_inv_def zeros_at_def)
  from scan_inv_run [OF this, of ?xs] have "scan_inv ?xs (length ?xs) (zero_run_scan ?xs 0 (0, 0, 0, 0))"
    by simp
  with assms(1) have inv: "\<exists>cs cl. scan_inv ?xs (length ?xs) (bs, bl, cs, cl)"
    by (auto simp: zero_run_def split: prod.splits)
  then show "zeros_at ?xs bs bl" by (auto simp: scan_inv_def)
  from inv show "l \<le> bl \<and> (l = bl \<and> 0 < l \<longrightarrow> bs \<le> s)" if "zeros_at ?xs s l" for s l
    using that by (auto simp: scan_inv_def zeros_at_def)
qed

end
