(* ===== verification/Ip_V6_Roundtrip.thy ===== *)
theory Ip_V6_Roundtrip
  imports Ip_V6_Format
begin

text \<open>
  The round trip of IPv6 text: each of the four forms \<open>formatter<address_v6>\<close> prints is a list of
  sections joined by colons, or two such lists around a double colon, and is parsed back to the
  address it was printed from.
\<close>

section \<open>The shape of formatted text\<close>

lemma full_ipv6_join:
  "length local = 8 \<Longrightarrow> full_ipv6 local r u = join_with '':'' (map (hex_group r u) local)"
  by (erule length8_cases) (simp add: full_ipv6_def Let_def)

lemma mixed_full_ipv6_join:
  "length local = 8 \<Longrightarrow> v4s \<noteq> [] \<Longrightarrow>
   mixed_full_ipv6 local r u @ v4s = join_with '':'' (map (hex_group r u) (take 6 local) @ [v4s])"
  by (erule length8_cases) (simp add: mixed_full_ipv6_def Let_def)

lemma concat_before:
  "xs \<noteq> [] \<Longrightarrow> concat (map (\<lambda>w. g w @ '':'') xs) = join_with '':'' (map g xs) @ '':''"
proof (induction xs)
  case (Cons x xs)
  then show ?case by (cases xs) simp_all
qed simp

lemma concat_after:
  "xs \<noteq> [] \<Longrightarrow> concat (map (\<lambda>w. CHR '':'' # g w) xs) = CHR '':'' # join_with '':'' (map g xs)"
proof (induction xs)
  case (Cons x xs)
  then show ?case by (cases xs) simp_all
qed simp

lemma join_snoc: "ts \<noteq> [] \<Longrightarrow> join_with '':'' (ts @ [t]) = join_with '':'' ts @ '':'' @ t"
proof (induction ts)
  case (Cons x ts)
  then show ?case by (cases ts) simp_all
qed simp

lemma map_nth_upt: "b \<le> length xs \<Longrightarrow> map (\<lambda>i. f (xs ! i)) [a..<b] = map f (drop a (take b xs))"
proof -
  assume "b \<le> length xs"
  then have "map ((!) xs) [a..<b] = drop a (take b xs)"
    by (intro nth_equalityI) auto
  then show ?thesis by (metis (no_types, lifting) list.map_comp comp_def map_eq_conv)
qed

text \<open>Text with a double colon: the groups before and after the run of zeros.\<close>

lemma compressed_shape:
  assumes len: "length local = 8" and run: "zero_run (if mixed then 6 else 8) local = (bs, bl)" "2 \<le> bl"
    and v4s: "mixed \<longrightarrow> v4s \<noteq> []" "\<not> mixed \<longrightarrow> v4s = []"
  shows "compressed_ipv6 local r mixed u @ v4s =
    join_with '':'' (map (hex_group r u) (take bs local)) @ ''::'' @
    join_with '':'' (map (hex_group r u) (drop (bs + bl) (take (if mixed then 6 else 8) local))
      @ (if mixed then [v4s] else []))"
proof -
  let ?limit = "if mixed then 6 else (8::nat)"
  let ?g = "hex_group r u"
  let ?before = "take bs local" and ?after = "drop (bs + bl) (take ?limit local)"
  have lim: "?limit \<le> length local" using len by simp
  have "zeros_at (take ?limit local) bs bl" by (rule zero_run_inv(1) [OF run(1) lim])
  then have b: "bs + bl \<le> ?limit" using len by (auto simp: zeros_at_def split: if_splits)
  have before: "concat (map (\<lambda>i. ?g (local ! i) @ '':'') [0..<bs]) = concat (map (\<lambda>w. ?g w @ '':'') ?before)"
    using map_nth_upt [of bs local "\<lambda>w. ?g w @ '':''" 0] b len by (auto split: if_splits)
  have after: "concat (map (\<lambda>i. '':'' @ ?g (local ! i)) [bs + bl..<?limit]) = concat (map (\<lambda>w. '':'' @ ?g w) ?after)"
    using map_nth_upt [of ?limit local "\<lambda>w. '':'' @ ?g w" "bs + bl"] lim by (auto split: if_splits)
  have ne: "?before = [] \<longleftrightarrow> bs = 0" "?after = [] \<longleftrightarrow> bs + bl = ?limit"
    using b len by (auto split: if_splits)
  have "compressed_ipv6 local r mixed u =
    (if bs = 0 \<and> bl = ?limit then ''::''
     else concat (map (\<lambda>w. ?g w @ '':'') ?before) @ (if bs = 0 then '':'' else [])
       @ concat (map (\<lambda>w. '':'' @ ?g w) ?after) @ (if bs + bl = ?limit \<or> mixed then '':'' else []))"
    unfolding compressed_ipv6_def Let_def run(1) prod.case before after using run(2) by simp
  with ne v4s show ?thesis
    by (cases "?before = []"; cases "?after = []"; cases mixed)
      (simp_all add: concat_before concat_after join_snoc)
qed

section \<open>Reassembly of the groups\<close>

lemma put_init: "length ws \<le> 8 \<Longrightarrow> put 0 ws (replicate 8 0) = ws @ replicate (8 - length ws) 0"
  by (simp add: put_eq drop_replicate)

text \<open>Rotating the groups after the double colon to the end puts the zeros back between them.\<close>

lemma rotate_groups:
  assumes "length xs = 8" "i + l + length ys = 8" "xs = take i xs @ replicate l 0 @ ys"
  shows "rotate_range i (i + length ys) 8 (take i xs @ ys @ replicate l 0) = xs"
proof -
  have "length (take i xs) = i" using assms by simp
  then have "rotate_range i (i + length ys) 8 (take i xs @ ys @ replicate l 0) = take i xs @ replicate l 0 @ ys"
    using assms(2) by (simp add: rotate_range_def)
  with assms(3) show ?thesis by simp
qed

lemma zeros_decompose:
  assumes "zeros_at (take n xs) s l" "n \<le> length xs"
  shows "xs = take s xs @ replicate l 0 @ drop (s + l) (take n xs) @ drop n xs"
proof -
  have sl: "s + l \<le> n" using assms by (auto simp: zeros_at_def)
  have "take l (drop s xs) = replicate l 0"
    by (rule nth_equalityI) (use assms sl in \<open>auto simp: zeros_at_def\<close>)
  then have "drop s xs = replicate l 0 @ drop (s + l) xs"
    by (metis append_take_drop_id drop_drop add.commute)
  moreover have "drop (s + l) xs = drop (s + l) (take n xs) @ drop n xs"
  proof -
    have "drop (s + l) xs = drop (s + l) (take n xs @ drop n xs)" by simp
    also have "\<dots> = drop (s + l) (take n xs) @ drop (s + l - length (take n xs)) (drop n xs)"
      by (rule drop_append)
    finally show ?thesis using sl assms(2) by simp
  qed
  ultimately show ?thesis by (metis append_take_drop_id)
qed

lemma tokens_length: "\<forall>t \<in> set (tokens en r u ws mixed pq). length t \<le> (if mixed then 15 else 4)"
  using hex_group_length [of r u] v4_format_length [of en] by (fastforce simp: tokens_def intro: order_trans)

lemma join_hex_length: "length (join_with '':'' (map (hex_group r u) ws)) \<le> 5 * length ws"
  using join_length [of "map (hex_group r u) ws" 4] hex_group_length [of r u] by simp

lemma join_tokens_length:
  "length (join_with '':'' (tokens en r u ws mixed pq)) \<le> 5 * length ws + (if mixed then 15 else 0)"
proof (cases "mixed \<and> ws \<noteq> []")
  case True
  with join_hex_length [of r u ws] v4_format_length [of en "v4_of_raw (u32_of_u16s en pq)"]
  have "length (join_with '':'' (tokens en r u ws mixed pq)) \<le> Suc (5 * length ws + 15)"
    by (simp add: tokens_def join_snoc)
  show ?thesis
  proof (cases ws)
    case (Cons w ws')
    have "length (join_with '':'' (map (hex_group r u) ws)) + 1 \<le> 5 * length ws"
    proof -
      have "length (join_with '':'' (map (hex_group r u) vs)) + 1 \<le> 5 * length vs" if "vs \<noteq> []" for vs
        using that
      proof (induction vs)
        case (Cons v vs)
        with hex_group_length [of r u v] show ?case by (cases vs) simp_all
      qed simp
      with True show ?thesis by blast
    qed
    with True v4_format_length [of en "v4_of_raw (u32_of_u16s en pq)"] show ?thesis
      by (simp add: tokens_def join_snoc)
  qed (use True in simp)
next
  case False
  with join_hex_length [of r u ws] v4_format_length [of en "v4_of_raw (u32_of_u16s en pq)"] show ?thesis
    by (auto simp: tokens_def)
qed

section \<open>Round trip\<close>

text \<open>The words behind the sections of an address whose last 32 bits may be printed as IPv4.\<close>

lemma token_words_local:
  assumes "length raw = 8"
  shows "token_words en (take (if mixed then 6 else 8) (hton_v6 en raw)) mixed (raw ! 6, raw ! 7) = hton_v6 en raw"
  using assms by (cases mixed) (auto simp: token_words_def hton_v6_map elim!: length8_cases)

lemma roundtrip_plain:
  fixes en :: endian
  assumes "v6_wf addr"
  defines "local \<equiv> hton_v6 en (v6_raw addr)"
  shows "v6_from_string en (join_with '':'' (tokens en r u (take (if mixed then 6 else 8) local) mixed
    (v6_raw addr ! 6, v6_raw addr ! 7))) = Inr addr"
proof -
  let ?pq = "(v6_raw addr ! 6, v6_raw addr ! 7)"
  let ?ws = "take (if mixed then 6 else 8) local"
  let ?ts = "tokens en r u ?ws mixed ?pq"
  have len: "length (v6_raw addr) = 8" "length local = 8" using assms by (simp_all add: v6_wf_def)
  have tw: "token_words en ?ws mixed ?pq = local"
    unfolding local_def by (rule token_words_local) (rule len(1))
  have "?ts \<noteq> []" using len by (cases mixed) (auto simp: tokens_def)
  moreover have "length (join_with '':'' ?ts) \<le> 45"
    using join_tokens_length [of en r u ?ws mixed ?pq] len by (cases mixed) simp_all
  moreover have "v6_sections en ?ts v6_init =
      Inr \<lparr>part_results = local, part_count = 8, seen_ipv4 = mixed\<rparr>"
    using sections_tokens [of v6_init en ?ws mixed ?pq r u] len
    by (simp add: tw v6_init_def put_init)
  ultimately have "v6_from_string en (join_with '':'' ?ts) = Inr (v6_of_raw (hton_v6 en local))"
    using parse_plain [OF good_tokens] by fastforce
  then show ?thesis by (simp add: local_def v6_of_raw_def)
qed

lemma roundtrip_compressed:
  fixes en :: endian
  assumes "v6_wf addr" and run: "zero_run (if mixed then 6 else 8) (hton_v6 en (v6_raw addr)) = (bs, bl)" "2 \<le> bl"
  defines "local \<equiv> hton_v6 en (v6_raw addr)"
  defines "ws \<equiv> drop (bs + bl) (take (if mixed then 6 else 8) local)"
  defines "pq \<equiv> (v6_raw addr ! 6, v6_raw addr ! 7)"
  shows "v6_from_string en (join_with '':'' (map (hex_group r u) (take bs local)) @ ''::''
    @ join_with '':'' (tokens en r u ws mixed pq)) = Inr addr"
proof -
  let ?limit = "if mixed then 6 else (8::nat)"
  let ?ls = "map (hex_group r u) (take bs local)" and ?rs = "tokens en r u ws mixed pq"
  let ?ys = "token_words en ws mixed pq"
  have len: "length (v6_raw addr) = 8" "length local = 8" using assms by (simp_all add: v6_wf_def)
  have z: "zeros_at (take ?limit local) bs bl"
    using zero_run_inv(1) [OF run(1)] len by (simp add: local_def)
  then have b: "bs + bl \<le> ?limit" using len by (auto simp: zeros_at_def split: if_splits)
  have "take ?limit local @ drop ?limit local = token_words en (take ?limit local) mixed pq"
    unfolding append_take_drop_id
    using token_words_local [OF len(1), of en mixed] by (simp add: local_def pq_def)
  then have tl: "drop ?limit local = (if mixed then [hton_16 en (fst pq), hton_16 en (snd pq)] else [])"
    by (simp add: token_words_def del: append_take_drop_id)
  have ys: "?ys = ws @ drop ?limit local" by (simp add: token_words_def tl)
  have split: "local = take bs local @ replicate bl 0 @ ?ys"
    using zeros_decompose [OF z] len ys by (simp add: ws_def)
  have lys: "bs + bl + length ?ys = 8" using arg_cong [OF split, of length] len b by (auto split: if_splits)
  let ?st1 = "\<lparr>part_results = take bs local @ replicate (8 - bs) 0, part_count = bs, seen_ipv4 = False\<rparr>"
  let ?st2 = "\<lparr>part_results = take bs local @ ?ys @ replicate bl 0, part_count = bs + length ?ys, seen_ipv4 = mixed\<rparr>"
  have st1: "v6_sections en ?ls v6_init = Inr ?st1"
    using sections_hex [of v6_init "take bs local" en r u "[]"] b len
    by (auto simp: v6_init_def put_init min_def split: if_splits)
  have "put bs ?ys (take bs local @ replicate (8 - bs) 0) = take bs local @ ?ys @ replicate bl 0"
  proof -
    let ?xs = "take bs local @ replicate (8 - bs) (0 :: u16)"
    have bs: "length (take bs local) = bs" "length ?xs = 8" "8 - bs - length ?ys = bl"
      using lys len by simp_all
    then have "put bs ?ys ?xs = take bs ?xs @ ?ys @ drop (bs + length ?ys) ?xs"
      using lys by (intro put_eq) simp
    with bs show ?thesis by (simp add: drop_replicate)
  qed
  then have st2: "v6_sections en ?rs ?st1 = Inr ?st2"
    using sections_tokens [of ?st1 en ws mixed pq r u] lys by simp
  have gl: "\<forall>t \<in> set ?ls. good_token t" by (auto simp: good_token_def)
  have lens: "length (join_with '':'' ?ls) + length (join_with '':'' ?rs) \<le> 43"
    using join_hex_length [of r u "take bs local"] join_tokens_length [of en r u ws mixed pq] b run(2) len
    by (cases mixed) (auto simp: ws_def)
  have rot: "rotate_range bs (bs + length ?ys) 8 (part_results ?st2) = local"
    using rotate_groups [OF len(2) lys split] by simp
  have "part_results ?st2 = local" if "?rs = []"
    using that split lys by (auto simp: tokens_def token_words_def split: if_splits)
  with parse_compressed [OF gl good_tokens lens st1 _ st2] rot lys run(2) len
  have "v6_from_string en (join_with '':'' ?ls @ ''::'' @ join_with '':'' ?rs) = Inr (v6_of_raw (hton_v6 en local))"
    by (auto simp: min_def)
  then show ?thesis by (simp add: local_def v6_of_raw_def)
qed

lemma do_format_roundtrip:
  assumes "v6_wf addr"
  shows "v6_from_string en (v6_do_format en addr (hton_v6 en (v6_raw addr)) full removed mixed uppercase) = Inr addr"
proof -
  let ?local = "hton_v6 en (v6_raw addr)" and ?limit = "if mixed then 6 else (8::nat)"
  let ?pq = "(v6_raw addr ! 6, v6_raw addr ! 7)"
  let ?g = "hex_group removed uppercase"
  have len: "length ?local = 8" using assms by (simp add: v6_wf_def)
  have plain: "(if mixed then mixed_full_ipv6 ?local removed uppercase @ ipv4_part en addr
      else full_ipv6 ?local removed uppercase) =
      join_with '':'' (tokens en removed uppercase (take ?limit ?local) mixed ?pq)"
    using full_ipv6_join [OF len] mixed_full_ipv6_join [OF len, of "ipv4_part en addr"] len
    by (simp add: tokens_def ipv4_part_def)
  obtain bs bl where run: "zero_run ?limit ?local = (bs, bl)" by (cases "zero_run ?limit ?local")
  show ?thesis
  proof (cases "full \<or> bl < 2")
    case True
    then have "v6_do_format en addr ?local full removed mixed uppercase =
        (if mixed then mixed_full_ipv6 ?local removed uppercase @ ipv4_part en addr
         else full_ipv6 ?local removed uppercase)"
      using run by (cases mixed) (auto simp: v6_do_format_def compressed_ipv6_def)
    with plain roundtrip_plain [OF assms, of en removed uppercase mixed] show ?thesis by simp
  next
    case False
    then have bl: "2 \<le> bl" by simp
    have "v6_do_format en addr ?local full removed mixed uppercase =
        compressed_ipv6 ?local removed mixed uppercase @ (if mixed then ipv4_part en addr else [])"
      using False by (simp add: v6_do_format_def)
    also have "\<dots> = join_with '':'' (map ?g (take bs ?local)) @ ''::'' @
        join_with '':'' (tokens en removed uppercase (drop (bs + bl) (take ?limit ?local)) mixed ?pq)"
      using compressed_shape [OF len run bl, of "if mixed then ipv4_part en addr else []"]
      by (simp add: tokens_def ipv4_part_def)
    finally show ?thesis
      using roundtrip_compressed [OF assms run bl, of removed uppercase] by simp
  qed
qed

section \<open>Properties\<close>

text \<open>
  C6. Every text the IPv6 formatter can print, under any format specification (recommended, full,
  zero-padded, mixed with an embedded IPv4 address, upper case, and their combinations), is parsed
  back by \<open>address_v6::from_string\<close> to the address it was printed from.
\<close>

theorem v6_format_roundtrip:
  assumes "v6_wf addr"
  shows "v6_from_string en (v6_format en f addr) = Inr addr"
  using do_format_roundtrip [OF assms] by (simp add: v6_format_def Let_def)

theorem v6_format_roundtrip_witness:
  "v6_from_string Big (v6_format Big v6_spec_init \<lparr>v6_raw = [1, 0, 0, 2, 0, 0, 0, 3]\<rparr>)
     = Inr \<lparr>v6_raw = [1, 0, 0, 2, 0, 0, 0, 3]\<rparr>"
  by (rule v6_format_roundtrip) (simp add: v6_wf_def)

text \<open>
  C18. The run of groups that the formatter replaces by the double colon is the one RFC 5952
  asks for: a longest run of zero groups among the groups printed in hexadecimal, and the leftmost
  of the longest ones.
\<close>

theorem zero_run_leftmost_longest:
  assumes "zero_run limit xs = (bs, bl)" "limit \<le> length xs"
  shows "zeros_at (take limit xs) bs bl \<and>
    (\<forall>s l. zeros_at (take limit xs) s l \<longrightarrow> l \<le> bl \<and> (l = bl \<and> 0 < l \<longrightarrow> bs \<le> s))"
  using zero_run_inv [OF assms] by blast

theorem zero_run_leftmost_longest_witness:
  "zeros_at (take 8 [1, 0, 0, 2, 0, 0, 3, 4]) 1 2 \<and> \<not> zeros_at (take 8 [1, 0, 0, 2, 0, 0, 3, 4]) 3 3
    \<and> \<not> zeros_at (take 8 [1, 0, 0, 2, 0, 0, 3, 4]) 0 2"
proof -
  have run: "zero_run 8 [1, 0, 0, 2, 0, 0, 3, 4] = (1, 2)" by (simp add: zero_run_def Let_def)
  have "8 \<le> length [1 :: u16, 0, 0, 2, 0, 0, 3, 4]" by simp
  from zero_run_leftmost_longest [OF run this] show ?thesis by fastforce
qed

end
