(* ===== verification/Socket_Info.thy ===== *)
theory Socket_Info
  imports Ip_V6_Roundtrip Sockaddr
begin

text \<open>
  \<open>include/iouxx/iouops/network/ip.hpp\<close>, last part (\<open>socket_v4_info\<close>, \<open>socket_v6_info\<close> and their
  formatters), \<open>network/uds.hpp\<close> (\<open>uds_info\<close>) and \<open>unspecified_socket_info\<close>: the endpoint types,
  their text forms and their conversion to and from system socket addresses.
\<close>

section \<open>socket\_v4\_info\<close>

record socket_v4_info =
  s4_addr :: address_v4
  s4_port :: port

definition socket_v4_init :: socket_v4_info where
  "socket_v4_init = \<lparr>s4_addr = \<lparr>v4_raw = 0\<rparr>, s4_port = \<lparr>port_raw = 0\<rparr>\<rparr>"

definition socket_v4_to_sys :: "socket_v4_info \<Rightarrow> sockaddr_in" where
  "socket_v4_to_sys s = \<lparr>sin_family = AF_INET, sin_port = port_raw (s4_port s),
     sin_addr = v4_raw (s4_addr s), sin_zero = replicate 8 0\<rparr>"

text \<open>\<open>from_system_sockaddr\<close>: \<open>None\<close> where \<open>IOUXX_ASSERT\<close> on the length fails.\<close>

definition socket_v4_from_sys :: "sockaddr_in \<Rightarrow> nat \<Rightarrow> socket_v4_info option" where
  "socket_v4_from_sys addr addrlen =
     (if addrlen \<noteq> sizeof_sockaddr_in then None
      else Some \<lparr>s4_addr = v4_of_raw (sin_addr addr), s4_port = port_of_raw (sin_port addr)\<rparr>)"

fun socket_v4_parts :: "endian \<Rightarrow> string list \<Rightarrow> nat \<Rightarrow> socket_v4_info \<Rightarrow> (nat \<times> socket_v4_info) expected" where
  "socket_v4_parts en [] count r = Inr (count, r)"
| "socket_v4_parts en (sub # parts) count r =
     (let n = Suc count in
      if n > 2 then fail_invalid_argument
      else if n = 1 then
        (case v4_from_string en sub of
           Inl e \<Rightarrow> Inl e | Inr a \<Rightarrow> socket_v4_parts en parts n (r\<lparr>s4_addr := a\<rparr>))
      else
        (case port_from_string en sub of
           Inl e \<Rightarrow> Inl e | Inr p \<Rightarrow> socket_v4_parts en parts n (r\<lparr>s4_port := p\<rparr>)))"

definition socket_v4_from_string :: "endian \<Rightarrow> string \<Rightarrow> socket_v4_info expected" where
  "socket_v4_from_string en str =
     (let parse = (\<lambda>seperator.
            case socket_v4_parts en (split_view [seperator] str) 0 socket_v4_init of
              Inl e \<Rightarrow> Inl e
            | Inr (count, r) \<Rightarrow> if count \<noteq> 2 then fail_invalid_argument else Inr r)
      in if CHR '':'' \<in> set str then parse CHR '':''
         else if CHR ''/'' \<in> set str then parse CHR ''/''
         else fail_invalid_argument)"

text \<open>\<open>formatter<socket_v4_info>\<close>: the separator chosen by the specification, then the text.\<close>

definition socket_v4_spec :: "string \<Rightarrow> (char \<times> string) option" where
  "socket_v4_spec ctx =
     (if ctx = [] \<or> hd ctx = CHR ''}'' then Some (CHR '':'', ctx)
      else let sep = (if hd ctx = CHR ''/'' then CHR ''/'' else CHR '':'');
               it = (if hd ctx = CHR ''/'' then tl ctx else ctx)
           in if it \<noteq> [] \<and> hd it \<noteq> CHR ''}'' then None else Some (sep, it))"

definition socket_v4_format :: "endian \<Rightarrow> char \<Rightarrow> socket_v4_info \<Rightarrow> string" where
  "socket_v4_format en seperator s =
     (if seperator = CHR '':'' then v4_format en (s4_addr s) @ '':'' @ port_format en (s4_port s)
      else v4_format en (s4_addr s) @ ''/'' @ port_format en (s4_port s))"

section \<open>socket\_v6\_info\<close>

record socket_v6_info =
  s6_addr :: address_v6
  s6_port :: port

definition socket_v6_init :: socket_v6_info where
  "socket_v6_init = \<lparr>s6_addr = \<lparr>v6_raw = replicate 8 0\<rparr>, s6_port = \<lparr>port_raw = 0\<rparr>\<rparr>"

definition socket_v6_to_sys :: "socket_v6_info \<Rightarrow> sockaddr_in6" where
  "socket_v6_to_sys s = \<lparr>sin6_family = AF_INET6, sin6_port = port_raw (s6_port s),
     sin6_flowinfo = 0, sin6_addr = v6_raw (s6_addr s), sin6_scope_id = 0\<rparr>"

definition socket_v6_from_sys :: "sockaddr_in6 \<Rightarrow> nat \<Rightarrow> socket_v6_info option" where
  "socket_v6_from_sys addr addrlen =
     (if addrlen \<noteq> sizeof_sockaddr_in6 then None
      else Some \<lparr>s6_addr = v6_of_raw (sin6_addr addr), s6_port = port_of_raw (sin6_port addr)\<rparr>)"

fun socket_v6_parts :: "endian \<Rightarrow> string list \<Rightarrow> nat \<Rightarrow> socket_v6_info \<Rightarrow> (nat \<times> socket_v6_info) expected" where
  "socket_v6_parts en [] count r = Inr (count, r)"
| "socket_v6_parts en (sub # parts) count r =
     (let n = Suc count in
      if n > 2 then fail_invalid_argument
      else if n = 1 then
        (case v6_from_string en sub of
           Inl e \<Rightarrow> Inl e | Inr a \<Rightarrow> socket_v6_parts en parts n (r\<lparr>s6_addr := a\<rparr>))
      else
        (case port_from_string en sub of
           Inl e \<Rightarrow> Inl e | Inr p \<Rightarrow> socket_v6_parts en parts n (r\<lparr>s6_port := p\<rparr>)))"

definition socket_v6_from_string :: "endian \<Rightarrow> string \<Rightarrow> socket_v6_info expected" where
  "socket_v6_from_string en str =
     (let parse = (\<lambda>sep s.
            case socket_v6_parts en (split_view sep s) 0 socket_v6_init of
              Inl e \<Rightarrow> Inl e
            | Inr (count, r) \<Rightarrow> if count \<noteq> 2 then fail_invalid_argument else Inr r)
      in if contains_str '']:'' str then
           (if hd str \<noteq> CHR ''['' then fail_invalid_argument else parse '']:'' (tl str))
         else if CHR ''/'' \<in> set str then parse ''/'' str
         else if CHR ''#'' \<in> set str then parse ''#'' str
         else fail_invalid_argument)"

text \<open>
  \<open>formatter<socket_v6_info>\<close>: \<open>None\<close> as separator is the \<open>'\0'\<close> of the source, the recommended
  form with brackets; the address part has its own specification.
\<close>

definition socket_v6_format :: "endian \<Rightarrow> char option \<Rightarrow> v6_spec \<Rightarrow> socket_v6_info \<Rightarrow> string" where
  "socket_v6_format en seperator addr_formatter s =
     (case seperator of
        None \<Rightarrow> ''['' @ v6_format en addr_formatter (s6_addr s) @ '']:'' @ port_format en (s6_port s)
      | Some c \<Rightarrow> v6_format en addr_formatter (s6_addr s) @ [c] @ port_format en (s6_port s))"

section \<open>uds\_info\<close>

record uds_info =
  uds_addr :: sockaddr_un

definition uds_default :: uds_info where
  "uds_default = \<lparr>uds_addr = \<lparr>sun_family = AF_UNIX, sun_path = replicate sizeof_sun_path (CHR 0x00)\<rparr>\<rparr>"

text \<open>The constructor throws \<open>std::invalid_argument\<close> (\<open>None\<close>) when the path and its terminator do not fit.\<close>

definition uds_of_path :: "string \<Rightarrow> uds_info option" where
  "uds_of_path path =
     (if length path \<ge> sizeof_sun_path then None
      else Some (uds_default\<lparr>uds_addr := (uds_addr uds_default)\<lparr>sun_path :=
        path @ [CHR 0x00] @ drop (Suc (length path)) (sun_path (uds_addr uds_default))\<rparr>\<rparr>))"

definition uds_from_sys :: "sockaddr_un \<Rightarrow> nat \<Rightarrow> uds_info option" where
  "uds_from_sys sa addrlen =
     (if addrlen \<noteq> sizeof_sockaddr_un \<or> sun_family sa \<noteq> AF_UNIX then None
      else Some \<lparr>uds_addr = sa\<rparr>)"

text \<open>\<open>uds_info::path\<close> reads \<open>sun_path\<close> as a NUL-terminated string.\<close>

definition uds_path :: "uds_info \<Rightarrow> string" where
  "uds_path u = takeWhile (\<lambda>c. c \<noteq> CHR 0x00) (sun_path (uds_addr u))"

section \<open>Characters of formatted addresses\<close>

definition addr_char :: "char \<Rightarrow> bool" where
  "addr_char c \<longleftrightarrow> is_digit 16 c \<or> c = CHR '':'' \<or> c = CHR ''.''"

lemma addr_char_simps [simp]:
  "addr_char CHR '':''" "addr_char CHR ''.''" "\<not> addr_char CHR '']''" "\<not> addr_char CHR ''[''"
  "\<not> addr_char CHR ''/''" "\<not> addr_char CHR ''#''"
  by (simp_all add: addr_char_def is_digit_def digit_val_def)

lemma dec_digit_hex: "is_digit 10 c \<Longrightarrow> is_digit 16 c"
  by (auto simp: is_digit_def split: option.splits)

lemma dec_digits_addr: "c \<in> set (nat_digits False 10 n) \<Longrightarrow> addr_char c"
  using dec.digits_all_digit [of False n] by (auto simp: addr_char_def dec_digit_hex)

lemma v4_format_chars: "c \<in> set (v4_format en a) \<Longrightarrow> addr_char c"
  by (cases "bytes_of_u32 en (v4_raw a)") (auto simp: v4_format_def dec_u8_def dec_digits_addr)

lemma hex_group_chars: "c \<in> set (hex_group r u w) \<Longrightarrow> addr_char c"
  using hex_group_all_digit [of r u w] by (auto simp: addr_char_def)

lemma v6_format_chars: "c \<in> set (v6_format en f a) \<Longrightarrow> addr_char c"
  by (auto simp: v6_format_def v6_do_format_def full_ipv6_def mixed_full_ipv6_def compressed_ipv6_def
      ipv4_part_def Let_def dest: hex_group_chars v4_format_chars split: if_splits prod.splits)

lemma port_format_chars: "c \<in> set (port_format en p) \<Longrightarrow> is_digit 10 c"
  using dec.digits_all_digit [of False] by (auto simp: port_format_def)

lemma port_format_free [simp]:
  "CHR '':'' \<notin> set (port_format en p)" "CHR ''/'' \<notin> set (port_format en p)"
  "CHR ''#'' \<notin> set (port_format en p)" "CHR '']'' \<notin> set (port_format en p)" "port_format en p \<noteq> []"
  by (auto dest!: port_format_chars simp: is_digit_def digit_val_def) (simp add: port_format_def)

lemma v4_format_sep [simp]: "CHR ''/'' \<notin> set (v4_format en a)"
  using v4_format_chars by fastforce

lemma v6_format_sep [simp]:
  "CHR ''/'' \<notin> set (v6_format en f a)" "CHR ''#'' \<notin> set (v6_format en f a)"
  "CHR '']'' \<notin> set (v6_format en f a)"
  using v6_format_chars by fastforce+

lemma v6_format_parse: "v6_wf a \<Longrightarrow> v6_from_string en (v6_format en f a) = Inr a"
  using do_format_roundtrip by (simp add: v6_format_def Let_def)

lemma socket_v6_parts_two:
  "v6_wf (s6_addr s) \<Longrightarrow>
   socket_v6_parts en [v6_format en f (s6_addr s), port_format en (s6_port s)] 0 socket_v6_init = Inr (2, s)"
  by (cases s) (simp add: Let_def v6_format_parse socket_v6_init_def)

section \<open>Properties\<close>

text \<open>
  C17. An IPv4 endpoint printed with either separator the formatter supports is parsed back to the
  same endpoint by \<open>socket_v4_info::from_string\<close>.
\<close>

theorem socket_v4_roundtrip:
  "socket_v4_from_string en (socket_v4_format en sep s) = Inr s"
  by (cases s; cases "sep = CHR '':''")
    (simp_all add: socket_v4_from_string_def socket_v4_format_def split_view_def text_simps
      socket_v4_init_def Let_def)

text \<open>
  C16. An IPv6 endpoint printed in the bracketed form or with \<open>/\<close> or \<open>#\<close>, with any address
  specification, is parsed back to the same endpoint by \<open>socket_v6_info::from_string\<close>.
\<close>

theorem socket_v6_roundtrip:
  assumes "v6_wf (s6_addr s)" "sep \<in> {None, Some CHR ''/'', Some CHR ''#''}"
  shows "socket_v6_from_string en (socket_v6_format en sep f s) = Inr s"
proof -
  let ?a = "v6_format en f (s6_addr s)" and ?p = "port_format en (s6_port s)"
  note two = socket_v6_parts_two [OF assms(1), of en f]
  have nb: "\<not> contains_str '']:'' (?a @ [c] @ ?p)" if "c \<noteq> CHR '']''" for c
    using that contains_str_set [of "'']:''" "?a @ [c] @ ?p"] by auto
  from assms(2) consider "sep = None" | "sep = Some CHR ''/''" | "sep = Some CHR ''#''" by auto
  then show ?thesis
  proof cases
    case 1
    have "contains_str '']:'' (socket_v6_format en sep f s)"
      using contains_str_append [of "'']:''" "''['' @ ?a" ?p] 1 by (simp add: socket_v6_format_def)
    moreover have "split_view '']:'' (?a @ '']:'' @ ?p) = [?a, ?p]"
      by (simp add: split_view_def split_two_append split_two_free)
    ultimately show ?thesis
      using two 1 by (simp add: socket_v6_from_string_def socket_v6_format_def Let_def)
  next
    case 2
    then show ?thesis
      using two nb [of "CHR ''/''"]
      by (simp add: socket_v6_from_string_def socket_v6_format_def Let_def split_view_def text_simps)
  next
    case 3
    then show ?thesis
      using two nb [of "CHR ''#''"]
      by (simp add: socket_v6_from_string_def socket_v6_format_def Let_def split_view_def text_simps)
  qed
qed

theorem socket_v6_roundtrip_witness:
  "socket_v6_from_string Big (socket_v6_format Big None v6_spec_init
     \<lparr>s6_addr = \<lparr>v6_raw = [0, 0, 0, 0, 0, 0, 0, 1]\<rparr>, s6_port = \<lparr>port_raw = 80\<rparr>\<rparr>)
   = Inr \<lparr>s6_addr = \<lparr>v6_raw = [0, 0, 0, 0, 0, 0, 0, 1]\<rparr>, s6_port = \<lparr>port_raw = 80\<rparr>\<rparr>"
  by (rule socket_v6_roundtrip) (simp_all add: v6_wf_def)

text \<open>
  Conversion to a system socket address and back, with the length the library passes, is the
  identity on IPv4 and IPv6 endpoints, and both carry the address family of their domain.
\<close>

theorem sockaddr_roundtrip:
  "socket_v4_from_sys (socket_v4_to_sys s) sizeof_sockaddr_in = Some s
   \<and> socket_v6_from_sys (socket_v6_to_sys t) sizeof_sockaddr_in6 = Some t
   \<and> sin_family (socket_v4_to_sys s) = AF_INET \<and> sin6_family (socket_v6_to_sys t) = AF_INET6"
  by (cases s; cases t)
    (simp add: socket_v4_from_sys_def socket_v4_to_sys_def socket_v6_from_sys_def socket_v6_to_sys_def
      v4_of_raw_def v6_of_raw_def port_of_raw_def)

text \<open>
  A Unix socket path without NUL characters that fits is stored NUL-terminated in the
  108-character array and read back unchanged; a longer one is rejected by the constructor.
\<close>

theorem uds_path_roundtrip:
  "(case uds_of_path p of
      None \<Rightarrow> length p \<ge> 108
    | Some u \<Rightarrow> length p < 108 \<and> length (sun_path (uds_addr u)) = 108
        \<and> sun_family (uds_addr u) = AF_UNIX
        \<and> (uds_path u = p \<longleftrightarrow> CHR 0x00 \<notin> set p))"
proof -
  have tw: "takeWhile (\<lambda>c. c \<noteq> CHR 0x00) (p @ CHR 0x00 # xs) = p \<longleftrightarrow> CHR 0x00 \<notin> set p" for xs
  proof
    assume "takeWhile (\<lambda>c. c \<noteq> CHR 0x00) (p @ CHR 0x00 # xs) = p"
    then show "CHR 0x00 \<notin> set p" by (metis (mono_tags, lifting) set_takeWhileD)
  next
    assume "CHR 0x00 \<notin> set p"
    then show "takeWhile (\<lambda>c. c \<noteq> CHR 0x00) (p @ CHR 0x00 # xs) = p"
      by (subst takeWhile_append2) auto
  qed
  show ?thesis
    by (auto simp: uds_of_path_def uds_default_def uds_path_def sizeof_sun_path_def tw)
qed

text \<open>
  C19. The text \<open>::ffff:\<close> followed by an IPv4 address parses to an IPv4-mapped address, and
  \<open>to_ipv4_mapped\<close> recovers the IPv4 address from it.
\<close>

theorem ipv4_mapped_roundtrip:
  "\<exists>m. v6_from_string en (''::ffff:'' @ v4_to_string en a) = Inr m
     \<and> v6_is_ipv4_mapped m \<and> v6_to_ipv4_mapped en m = a"
proof -
  obtain p q where pq: "u16s_of_u32 en (v4_raw a) = (p, q)" by (cases "u16s_of_u32 en (v4_raw a)")
  then have v4: "v4_of_raw (u32_of_u16s en (p, q)) = a"
    by (metis u32_u16s_roundtrip v4_of_raw_def address_v4.surjective old.unit.exhaust)
  let ?m = "v6_of_raw [0, 0, 0, 0, 0, 0xffff, p, q]"
  have z: "hton_16 en 0 = 0" "hton_16 en 0xffff = 0xffff" by (simp_all add: hton_16_def byteswap16_def)
  have "hex_group True False 0xffff = ''ffff''"
    by (simp add: hex_group_def nat_digits.simps digit_char_def char_of_def bit_Suc_0_iff)
  moreover have "[Suc (Suc (Suc (Suc (Suc 0))))..<6] = [5]" by code_simp
  ultimately have "v6_do_format en ?m (hton_v6 en (v6_raw ?m)) False True True False = ''::ffff:'' @ v4_to_string en a"
    using v4
    by (simp add: v6_do_format_def compressed_ipv6_def zero_run_def v6_of_raw_def hton_v6_map z Let_def
        ipv4_part_def v4_to_string_def)
  moreover have "v6_wf ?m" by (simp add: v6_wf_def v6_of_raw_def)
  ultimately have "v6_from_string en (''::ffff:'' @ v4_to_string en a) = Inr ?m"
    using do_format_roundtrip by metis
  with v4 show ?thesis by (auto simp: v6_is_ipv4_mapped_def v6_to_ipv4_mapped_def v6_of_raw_def)
qed

end
