(* ===== verification/Endpoints.thy ===== *)
theory Endpoints
  imports Sock_Cmd Socket_Info
begin

text \<open>
  The endpoint classes as the network operations use them: the conversions of \<open>socket_v4_info\<close>,
  \<open>socket_v6_info\<close>, \<open>uds_info\<close> and \<open>unspecified_socket_info\<close> fulfil the contract \<open>endpoint\<close> (all but
  the last also \<open>sized_endpoint\<close>), and what the operations deliver follows from it.
\<close>

section \<open>unspecified\_socket\_info\<close>

text \<open>The class has no members; its domain is \<open>AF_UNSPEC\<close>.\<close>

definition unspec_to_sys :: "unit \<Rightarrow> sys_sockaddr" where
  "unspec_to_sys i = Sa_unspec"

definition unspec_from_sys :: "sys_sockaddr \<Rightarrow> nat \<Rightarrow> unit option" where
  "unspec_from_sys a n = Some ()"

definition unspec_parse :: "string \<Rightarrow> string option" where
  "unspec_parse ctx = (if ctx \<noteq> [] \<and> hd ctx \<noteq> CHR ''}'' then None else Some ctx)"

definition unspec_format :: "unit \<Rightarrow> string" where
  "unspec_format i = ''unspecified socket''"

section \<open>The conversions on generic socket addresses\<close>

text \<open>
  The operations pass \<open>sockaddr\<close> pointers. Each class reads the structure of its own family; the
  setters of the operations have checked that the socket has that family, so memory that holds
  another structure is outside the model and read as no endpoint.
\<close>

definition v4_sys :: "socket_v4_info \<Rightarrow> sys_sockaddr" where
  "v4_sys s = Sa_in (socket_v4_to_sys s)"

fun v4_of_sys :: "sys_sockaddr \<Rightarrow> nat \<Rightarrow> socket_v4_info option" where
  "v4_of_sys (Sa_in a) n = socket_v4_from_sys a n"
| "v4_of_sys _ n = None"

definition v6_sys :: "socket_v6_info \<Rightarrow> sys_sockaddr" where
  "v6_sys s = Sa_in6 (socket_v6_to_sys s)"

fun v6_of_sys :: "sys_sockaddr \<Rightarrow> nat \<Rightarrow> socket_v6_info option" where
  "v6_of_sys (Sa_in6 a) n = socket_v6_from_sys a n"
| "v6_of_sys _ n = None"

definition uds_sys :: "uds_info \<Rightarrow> sys_sockaddr" where
  "uds_sys s = Sa_un (uds_addr s)"

fun uds_of_sys :: "sys_sockaddr \<Rightarrow> nat \<Rightarrow> uds_info option" where
  "uds_of_sys (Sa_un a) n = uds_from_sys a n"
| "uds_of_sys _ n = None"

text \<open>The class never stores another family into its structure.\<close>

definition uds_valid :: "uds_info \<Rightarrow> bool" where
  "uds_valid u \<longleftrightarrow> sun_family (uds_addr u) = AF_UNIX"

lemma uds_of_path_valid: "uds_of_path p = Some u \<Longrightarrow> uds_valid u"
  by (auto simp: uds_of_path_def uds_valid_def uds_default_def split: if_splits)

interpretation v4_endpoint: sized_endpoint v4_sys v4_of_sys sizeof_sockaddr_in "\<lambda>_. True"
proof unfold_locales
  show "v4_of_sys (v4_sys i) sizeof_sockaddr_in = Some i" for i
    by (cases i) (simp add: v4_sys_def socket_v4_from_sys_def socket_v4_to_sys_def v4_of_raw_def port_of_raw_def)
  show "n \<noteq> sizeof_sockaddr_in \<Longrightarrow> v4_of_sys a n = None" for n a
    by (cases a) (simp_all add: socket_v4_from_sys_def)
qed

interpretation v6_endpoint: sized_endpoint v6_sys v6_of_sys sizeof_sockaddr_in6 "\<lambda>_. True"
proof unfold_locales
  show "v6_of_sys (v6_sys i) sizeof_sockaddr_in6 = Some i" for i
    by (cases i) (simp add: v6_sys_def socket_v6_from_sys_def socket_v6_to_sys_def v6_of_raw_def port_of_raw_def)
  show "n \<noteq> sizeof_sockaddr_in6 \<Longrightarrow> v6_of_sys a n = None" for n a
    by (cases a) (simp_all add: socket_v6_from_sys_def)
qed

interpretation uds_endpoint: sized_endpoint uds_sys uds_of_sys sizeof_sockaddr_un uds_valid
proof unfold_locales
  show "uds_valid i \<Longrightarrow> uds_of_sys (uds_sys i) sizeof_sockaddr_un = Some i" for i
    by (cases i) (simp add: uds_sys_def uds_from_sys_def uds_valid_def)
  show "n \<noteq> sizeof_sockaddr_un \<Longrightarrow> uds_of_sys a n = None" for n a
    by (cases a) (simp_all add: uds_from_sys_def)
qed

interpretation unspec_endpoint: endpoint unspec_to_sys unspec_from_sys sizeof_sockaddr "\<lambda>_. True"
  by unfold_locales (simp add: unspec_from_sys_def)

section \<open>Names of sockets\<close>

text \<open>The address and length of a \<open>bind\<close> entry.\<close>

fun bind_address :: "sqe_writes \<Rightarrow> (sys_sockaddr \<times> nat) option" where
  "bind_address (Prep (Prep_bind fd sa n) # ws) = Some (sa, n)"
| "bind_address _ = None"

context endpoint
begin

lemma getsockname_name:
  assumes "valid_info i" "0 \<le> ev"
  shows "getsockname_do_callback from_sys (op\<lparr>gn_sockaddr := to_sys i, gn_socklen := sys_size\<rparr>) ev fl = Invoke_value i"
  using assms from_to by (simp add: getsockname_do_callback_def)

text \<open>
  What one side binds to, the other side sees: the address of a \<open>bind\<close> entry, stored by the kernel
  for a peer that accepts or asks for a name, is delivered as the endpoint given to \<open>bind\<close>.
\<close>

lemma bound_address_seen:
  assumes "valid_info i" "0 \<le> ev"
  shows "\<exists>sa n. bind_address (snd (bind_build sys_size (bind_socket_info to_sys i bop))) = Some (sa, n)
    \<and> getsockname_do_callback from_sys (gop\<lparr>gn_sockaddr := sa, gn_socklen := n\<rparr>) ev fl = Invoke_value i
    \<and> accept_do_callback from_sys (aop\<lparr>ac_sockaddr := sa, ac_addrlen := n\<rparr>) ev fl
      = Invoke_value \<lparr>ar_conn = connection_of (ac_sock aop) ev, ar_peer = i\<rparr>
    \<and> fixed_accept_peer_do_callback from_sys (fop\<lparr>fa_sockaddr := sa, fa_addrlen := n\<rparr>) ev fl
      = Invoke_value \<lparr>fr_conn = fixed_connection_of (fa_sock fop) ev, fr_peer = i\<rparr>"
proof (intro exI conjI)
  show "bind_address (snd (bind_build sys_size (bind_socket_info to_sys i bop))) = Some (to_sys i, sys_size)"
    by (simp add: bind_build_def bind_socket_info_def split: socket_variant.splits)
qed (use assms in \<open>simp_all add: getsockname_name accept_peer fixed_accept_peer\<close>)

end

context sized_endpoint
begin

lemma getsockname_other_length:
  assumes "n \<noteq> sys_size" "0 \<le> ev"
  shows "getsockname_do_callback from_sys (op\<lparr>gn_sockaddr := a, gn_socklen := n\<rparr>) ev fl = Assertion_failed"
  using assms wrong_size by (simp add: getsockname_do_callback_def)

end

section \<open>Properties\<close>





end
