(* ===== verification/Socket_Text.thy ===== *)
theory Socket_Text
  imports Socket_Info
begin

text \<open>
  \<open>include/iouxx/iouops/network/ip.hpp\<close>, the rest of the endpoint classes: the unchecked parsers of
  \<open>socket_v4_info\<close> and \<open>socket_v6_info\<close>, \<open>to_string\<close>, the literal operators, and the format
  specifications of IPv6 endpoints and of the types that take none.
\<close>

section \<open>Unchecked parsers\<close>

text \<open>\<open>None\<close> is undefined behaviour: a violated assumption of the part parsers or \<open>std::unreachable\<close>.\<close>

fun socket_v4_parts_uncheck :: "endian \<Rightarrow> string list \<Rightarrow> nat \<Rightarrow> socket_v4_info \<Rightarrow> socket_v4_info option" where
  "socket_v4_parts_uncheck en [] count r = Some r"
| "socket_v4_parts_uncheck en (sub # parts) count r =
     (let n = Suc count in
      if n = 1 then
        (case v4_from_string_uncheck en sub of
           None \<Rightarrow> None | Some a \<Rightarrow> socket_v4_parts_uncheck en parts n (r\<lparr>s4_addr := a\<rparr>))
      else
        (case port_from_string_uncheck en sub of
           None \<Rightarrow> None | Some p \<Rightarrow> socket_v4_parts_uncheck en parts n (r\<lparr>s4_port := p\<rparr>)))"

definition socket_v4_from_string_uncheck :: "endian \<Rightarrow> string \<Rightarrow> socket_v4_info option" where
  "socket_v4_from_string_uncheck en str =
     (let seperator = (if CHR ''/'' \<in> set str then CHR ''/'' else CHR '':'')
      in socket_v4_parts_uncheck en (split_view [seperator] str) 0 socket_v4_init)"

fun socket_v6_parts_uncheck :: "endian \<Rightarrow> string list \<Rightarrow> nat \<Rightarrow> socket_v6_info \<Rightarrow> socket_v6_info option" where
  "socket_v6_parts_uncheck en [] count r = Some r"
| "socket_v6_parts_uncheck en (sub # parts) count r =
     (let n = Suc count in
      if n = 1 then
        (case v6_from_string_uncheck en sub of
           None \<Rightarrow> None | Some a \<Rightarrow> socket_v6_parts_uncheck en parts n (r\<lparr>s6_addr := a\<rparr>))
      else
        (case port_from_string_uncheck en sub of
           None \<Rightarrow> None | Some p \<Rightarrow> socket_v6_parts_uncheck en parts n (r\<lparr>s6_port := p\<rparr>)))"

definition socket_v6_from_string_uncheck :: "endian \<Rightarrow> string \<Rightarrow> socket_v6_info option" where
  "socket_v6_from_string_uncheck en str =
     (if contains_str '']:'' str then
        socket_v6_parts_uncheck en (split_view '']:'' (tl str)) 0 socket_v6_init
      else if CHR ''/'' \<in> set str then socket_v6_parts_uncheck en (split_view ''/'' str) 0 socket_v6_init
      else if CHR ''#'' \<in> set str then socket_v6_parts_uncheck en (split_view ''#'' str) 0 socket_v6_init
      else None)"

section \<open>Printing\<close>

definition socket_v4_to_string :: "endian \<Rightarrow> socket_v4_info \<Rightarrow> string" where
  "socket_v4_to_string en s = socket_v4_format en CHR '':'' s"

definition socket_v6_to_string :: "endian \<Rightarrow> socket_v6_info \<Rightarrow> string" where
  "socket_v6_to_string en s = socket_v6_format en None (v6_spec_init\<lparr>seen_r := True\<rparr>) s"

text \<open>
  \<open>formatter<socket_v6_info>::parse\<close>: the separator, the specification of the address part and the
  rest, an exception, or a read past the end of the format string.
\<close>

datatype socket_v6_spec_result =
    Spec_ok "char option" v6_spec string
  | Spec_error
  | Spec_past_end

definition socket_v6_spec :: "string \<Rightarrow> socket_v6_spec_result" where
  "socket_v6_spec ctx =
     (if ctx = [] then Spec_past_end
      else
        let seperator = (if hd ctx = CHR ''/'' \<or> hd ctx = CHR ''#'' then Some (hd ctx) else None);
            it = (if hd ctx = CHR ''/'' \<or> hd ctx = CHR ''#'' then tl ctx else ctx);
            finish = (\<lambda>f it. if it \<noteq> [] \<and> hd it \<noteq> CHR ''}'' then Spec_error else Spec_ok seperator f it)
        in if it = [] then Spec_past_end
           else if hd it = CHR '':'' then
             (case v6_spec_parse (tl it) v6_spec_init of Inl e \<Rightarrow> Spec_error | Inr (f, it') \<Rightarrow> finish f it')
           else finish (v6_spec_init\<lparr>seen_r := True\<rparr>) it)"

section \<open>Literals and specifications without content\<close>

text \<open>
  The literal operators are evaluated at compile time, where \<open>value()\<close> of an error makes the
  program ill-formed (\<open>None\<close>).
\<close>

definition expected_value :: "'a expected \<Rightarrow> 'a option" where
  "expected_value e = (case e of Inl _ \<Rightarrow> None | Inr v \<Rightarrow> Some v)"

definition ipv4_literal :: "endian \<Rightarrow> string \<Rightarrow> address_v4 option" where
  "ipv4_literal en str = expected_value (v4_from_string en str)"

definition ipv6_literal :: "endian \<Rightarrow> string \<Rightarrow> address_v6 option" where
  "ipv6_literal en str = expected_value (v6_from_string en str)"

definition sockv4_literal :: "endian \<Rightarrow> string \<Rightarrow> socket_v4_info option" where
  "sockv4_literal en str = expected_value (socket_v4_from_string en str)"

definition sockv6_literal :: "endian \<Rightarrow> string \<Rightarrow> socket_v6_info option" where
  "sockv6_literal en str = expected_value (socket_v6_from_string en str)"

text \<open>The \<open>parse\<close> of formatters without a specification: the rest of the string, or an exception.\<close>

definition v4_spec_parse :: "string \<Rightarrow> string option" where
  "v4_spec_parse ctx = (if ctx \<noteq> [] \<and> hd ctx \<noteq> CHR 0x7D then None else Some ctx)"

definition port_spec_parse :: "string \<Rightarrow> string option" where
  "port_spec_parse ctx = (if ctx \<noteq> [] \<and> hd ctx \<noteq> CHR 0x7D then None else Some ctx)"

text \<open>An accepted literal is what the unchecked parser yields.\<close>

lemma ipv4_literal_uncheck: "ipv4_literal en str = Some a \<Longrightarrow> v4_from_string_uncheck en str = Some a"
  by (auto simp: ipv4_literal_def expected_value_def split: sum.splits intro: v4_checked_uncheck)

lemma ipv6_literal_uncheck: "ipv6_literal en str = Some a \<Longrightarrow> v6_from_string_uncheck en str = Some a"
  by (auto simp: ipv6_literal_def expected_value_def split: sum.splits intro: v6_checked_uncheck)

section \<open>Agreement of the parsers\<close>

lemma socket_v4_parts_two_iff:
  "socket_v4_parts en ps 0 r0 = Inr (2, r) \<longleftrightarrow>
     (\<exists>a p. ps = [a, p] \<and> v4_from_string en a = Inr (s4_addr r) \<and> port_from_string en p = Inr (s4_port r)
       \<and> r = r0\<lparr>s4_addr := s4_addr r, s4_port := s4_port r\<rparr>)"
proof -
  consider "ps = []" | a where "ps = [a]" | a p where "ps = [a, p]" | a p q qs where "ps = a # p # q # qs"
    by (metis neq_Nil_conv)
  then show ?thesis
    by cases (auto simp: Let_def fail_invalid_argument_def split: sum.splits)
qed

lemma socket_v6_parts_two_iff:
  "socket_v6_parts en ps 0 r0 = Inr (2, r) \<longleftrightarrow>
     (\<exists>a p. ps = [a, p] \<and> v6_from_string en a = Inr (s6_addr r) \<and> port_from_string en p = Inr (s6_port r)
       \<and> r = r0\<lparr>s6_addr := s6_addr r, s6_port := s6_port r\<rparr>)"
proof -
  consider "ps = []" | a where "ps = [a]" | a p where "ps = [a, p]" | a p q qs where "ps = a # p # q # qs"
    by (metis neq_Nil_conv)
  then show ?thesis
    by cases (auto simp: Let_def fail_invalid_argument_def split: sum.splits)
qed

lemma socket_v4_parts_checked_uncheck:
  "socket_v4_parts en ps 0 r0 = Inr (2, r) \<Longrightarrow> socket_v4_parts_uncheck en ps 0 r0 = Some r"
  by (auto simp: socket_v4_parts_two_iff v4_checked_uncheck port_checked_uncheck Let_def)

lemma socket_v6_parts_checked_uncheck:
  "socket_v6_parts en ps 0 r0 = Inr (2, r) \<Longrightarrow> socket_v6_parts_uncheck en ps 0 r0 = Some r"
  by (auto simp: socket_v6_parts_two_iff v6_checked_uncheck port_checked_uncheck Let_def)

text \<open>The checked IPv4 parser prefers \<open>:\<close>, the unchecked one \<open>/\<close>; accepted texts have only one of them.\<close>

lemma socket_v4_colon_no_slash:
  assumes "socket_v4_parts en (split_view '':'' str) 0 r0 = Inr (2, r)"
  shows "CHR ''/'' \<notin> set str"
proof -
  from assms obtain a p where ps: "split_view '':'' str = [a, p]"
    and a: "v4_from_string en a = Inr (s4_addr r)" and p: "port_from_string en p = Inr (s4_port r)"
    by (auto simp: socket_v4_parts_two_iff)
  from ps have str: "str = a @ '':'' @ p"
    using join_split [of "'':''" str] by (auto simp: split_view_def split: if_splits)
  have "CHR ''/'' \<notin> set a" using v4_from_string_Inr [OF a] v4_format_sep [of en "s4_addr r"] by simp
  moreover have "CHR ''/'' \<notin> set p"
    using port_checked_digits [OF p] by (auto simp: is_digit_def digit_val_def)
  ultimately show ?thesis by (simp add: str)
qed

text \<open>
  C26. Wherever the checked parsers of IPv4 and IPv6 endpoints succeed, the unchecked ones meet none of their
  undefined cases and return the same endpoint, although they look for the separators in another order.
\<close>

theorem socket_uncheck_agrees:
  "(case socket_v4_from_string en s of Inl _ \<Rightarrow> True | Inr r \<Rightarrow> socket_v4_from_string_uncheck en s = Some r)
   \<and> (case socket_v6_from_string en s of Inl _ \<Rightarrow> True | Inr r \<Rightarrow> socket_v6_from_string_uncheck en s = Some r)"
proof
  show "case socket_v4_from_string en s of Inl _ \<Rightarrow> True | Inr r \<Rightarrow> socket_v4_from_string_uncheck en s = Some r"
    using socket_v4_colon_no_slash [of en s socket_v4_init]
    by (auto simp: socket_v4_from_string_def socket_v4_from_string_uncheck_def Let_def
        dest!: socket_v4_parts_checked_uncheck split: sum.splits if_splits)
next
  show "case socket_v6_from_string en s of Inl _ \<Rightarrow> True | Inr r \<Rightarrow> socket_v6_from_string_uncheck en s = Some r"
    by (auto simp: socket_v6_from_string_def socket_v6_from_string_uncheck_def Let_def
        dest!: socket_v6_parts_checked_uncheck split: sum.splits if_splits)
qed

text \<open>The format string of a field always goes on with the closing brace; an empty one is read past its end.\<close>

lemma socket_v6_spec_past_end_iff:
  "socket_v6_spec ctx = Spec_past_end \<longleftrightarrow> ctx = [] \<or> ctx = ''/'' \<or> ctx = ''#''"
  by (cases ctx; cases "tl ctx") (auto simp: socket_v6_spec_def Let_def split: sum.splits if_splits)

end
