(* ===== verification/Protocol_Database.thy ===== *)
theory Protocol_Database
  imports Sockets
begin

text \<open>
  \<open>include/iouxx/iouops/network/socket.hpp\<close>, class \<open>protocol_database\<close>: the table of protocols read
  from the system's database, its lookups and its iterator. The sequence of records that
  \<open>getprotoent\<close> returns is an argument.
\<close>

section \<open>The database\<close>

text \<open>
  A record of \<open>getprotoent\<close>: \<open>None\<close> is a null pointer, the aliases are the entries before the null
  terminator; the protocol number is an \<open>int\<close>, read by \<open>sint\<close>.
\<close>

record protoent =
  p_name :: "string option"
  p_aliases :: "string list option"
  p_proto :: u32

record protocol_entry =
  pe_name :: string
  pe_alias :: "string list"
  pe_no :: int

definition unknown_protocol :: protocol_entry where
  "unknown_protocol = \<lparr>pe_name = ''unknown'', pe_alias = [''Unknown'', ''UNKNOWN''], pe_no = unknown_protocol_no\<rparr>"

definition entry_known :: "protocol_entry \<Rightarrow> bool" where
  "entry_known e \<longleftrightarrow> pe_no e \<noteq> unknown_protocol_no"

definition entry_eq :: "protocol_entry \<Rightarrow> protocol_entry \<Rightarrow> bool" where
  "entry_eq lhs rhs \<longleftrightarrow> pe_no lhs = pe_no rhs"

record protocol_database =
  pd_db :: "protocol_entry list"
  pd_name_index :: "string \<Rightarrow> nat option"
  pd_total :: nat

text \<open>The members before the loading loop: default entries, no names.\<close>

definition database_empty :: protocol_database where
  "database_empty = \<lparr>pd_db = replicate protocol_no_limit unknown_protocol, pd_name_index = Map.empty, pd_total = 0\<rparr>"

section \<open>Loading\<close>

definition try_emplace :: "'k \<Rightarrow> 'v \<Rightarrow> ('k \<Rightarrow> 'v option) \<Rightarrow> 'k \<Rightarrow> 'v option" where
  "try_emplace k v m = (case m k of None \<Rightarrow> m(k \<mapsto> v) | Some _ \<Rightarrow> m)"

definition loaded_name :: "protoent \<Rightarrow> string" where
  "loaded_name e = (case p_name e of None \<Rightarrow> [] | Some name \<Rightarrow> if name \<noteq> [] then name else [])"

definition loaded_alias :: "protoent \<Rightarrow> string list" where
  "loaded_alias e = (case p_aliases e of None \<Rightarrow> [] | Some aliases \<Rightarrow> filter (\<lambda>a. a \<noteq> []) aliases)"

text \<open>
  One round of the loop: \<open>no >= capacity()\<close> compares an \<open>int\<close> with a \<open>size_t\<close>, so a negative number
  is sign-extended to a large one; the exception is \<open>None\<close>.
\<close>

definition load_entry :: "protoent \<Rightarrow> protocol_database \<Rightarrow> protocol_database option" where
  "load_entry e d =
     (if (scast (p_proto e) :: u64) \<ge> of_nat protocol_no_limit then None
      else
        let no = nat (sint (p_proto e)); db_entry = pd_db d ! no in
        if entry_known db_entry then Some d
        else
          let name = loaded_name e; alias = loaded_alias e;
              index = (if name \<noteq> [] then try_emplace name no (pd_name_index d) else pd_name_index d);
              index = fold (\<lambda>a. try_emplace a no) alias index
          in Some (d\<lparr>pd_total := Suc (pd_total d),
               pd_db := (pd_db d)[no := \<lparr>pe_name = name, pe_alias = alias, pe_no = int no\<rparr>],
               pd_name_index := index\<rparr>))"

fun load_loop :: "protoent list \<Rightarrow> protocol_database \<Rightarrow> protocol_database option" where
  "load_loop [] d = Some d"
| "load_loop (e # es) d = (case load_entry e d of None \<Rightarrow> None | Some d' \<Rightarrow> load_loop es d')"

definition load_protocols :: "protoent list \<Rightarrow> protocol_database option" where
  "load_protocols es = load_loop es database_empty"

section \<open>Lookups\<close>

definition get_by_name :: "protocol_database \<Rightarrow> string \<Rightarrow> protocol_entry" where
  "get_by_name d name =
     (case pd_name_index d name of Some no \<Rightarrow> pd_db d ! no | None \<Rightarrow> unknown_protocol)"

definition get_by_no :: "protocol_database \<Rightarrow> int \<Rightarrow> protocol_entry" where
  "get_by_no d no =
     (if no \<ge> 0 \<and> no < int protocol_no_limit then pd_db d ! nat no else unknown_protocol)"

definition contains_name :: "protocol_database \<Rightarrow> string \<Rightarrow> bool" where
  "contains_name d name \<longleftrightarrow> pd_name_index d name \<noteq> None"

definition contains_no :: "protocol_database \<Rightarrow> int \<Rightarrow> bool" where
  "contains_no d no \<longleftrightarrow> no \<ge> 0 \<and> no < int protocol_no_limit \<and> pe_no (pd_db d ! nat no) \<noteq> unknown_protocol_no"

definition pd_size :: "protocol_database \<Rightarrow> nat" where
  "pd_size d = pd_total d"

definition to_protocol :: "protocol_database \<Rightarrow> string \<Rightarrow> int" where
  "to_protocol d name = pe_no (get_by_name d name)"

definition get_protocol_name :: "protocol_database \<Rightarrow> int \<Rightarrow> string" where
  "get_protocol_name d p = pe_name (get_by_no d p)"

section \<open>Iteration\<close>

text \<open>
  An iterator is a position in the vector; \<open>None\<close> is a step or a dereference beyond the end, which
  the source leaves undefined.
\<close>

function skip_unknown :: "protocol_entry list \<Rightarrow> nat \<Rightarrow> nat option" where
  "skip_unknown db i =
     (if i = length db then Some i
      else if length db < i then None
      else if entry_eq (db ! i) unknown_protocol then skip_unknown db (Suc i) else Some i)"
  by pat_completeness auto
termination by (relation "measure (\<lambda>(db, i). length db - i)") auto

declare skip_unknown.simps [simp del]

definition iter_begin :: "protocol_database \<Rightarrow> nat option" where
  "iter_begin d = skip_unknown (pd_db d) 0"

text \<open>\<open>operator++()\<close>, and \<open>operator++(int)\<close> with the returned and the new position.\<close>

definition iter_preincrement :: "protocol_database \<Rightarrow> nat \<Rightarrow> nat option" where
  "iter_preincrement d i = (if i < length (pd_db d) then skip_unknown (pd_db d) (Suc i) else None)"

definition iter_postincrement :: "protocol_database \<Rightarrow> nat \<Rightarrow> (nat \<times> nat) option" where
  "iter_postincrement d i = (if i < length (pd_db d) then Some (i, Suc i) else None)"

text \<open>What a range \<open>for\<close> loop visits from a position on; a loop that does not end is \<open>None\<close>.\<close>

partial_function (option) traverse :: "protocol_database \<Rightarrow> nat \<Rightarrow> protocol_entry list option" where
  "traverse d i =
     (if i = length (pd_db d) then Some []
      else Option.bind (iter_preincrement d i)
        (\<lambda>j. Option.bind (traverse d j) (\<lambda>rest. Some (pd_db d ! i # rest))))"

section \<open>What a database represents\<close>

text \<open>
  The specification: of the records read, those whose number was not seen before are registered;
  a number stands for its record, a name for the first registered record that carries it.
\<close>

definition proto_no :: "protoent \<Rightarrow> nat" where
  "proto_no e = nat (sint (p_proto e))"

definition proto_names :: "protoent \<Rightarrow> string list" where
  "proto_names e = (if loaded_name e \<noteq> [] then [loaded_name e] else []) @ loaded_alias e"

definition proto_in_range :: "protoent \<Rightarrow> bool" where
  "proto_in_range e \<longleftrightarrow> 0 \<le> sint (p_proto e) \<and> sint (p_proto e) < int protocol_no_limit"

definition proto_entry :: "protoent \<Rightarrow> protocol_entry" where
  "proto_entry e = \<lparr>pe_name = loaded_name e, pe_alias = loaded_alias e, pe_no = int (proto_no e)\<rparr>"

definition register :: "protoent list \<Rightarrow> protoent \<Rightarrow> protoent list" where
  "register rs e = (if proto_no e \<in> set (map proto_no rs) then rs else rs @ [e])"

definition registered :: "protoent list \<Rightarrow> protoent list" where
  "registered es = foldl register [] es"

definition represents :: "protoent list \<Rightarrow> protocol_database \<Rightarrow> bool" where
  "represents rs d \<longleftrightarrow>
     list_all proto_in_range rs \<and> distinct (map proto_no rs)
     \<and> pd_db d = map (\<lambda>k. case find (\<lambda>e. proto_no e = k) rs of None \<Rightarrow> unknown_protocol | Some e \<Rightarrow> proto_entry e)
         [0..<protocol_no_limit]
     \<and> pd_name_index d = (\<lambda>n. map_option proto_no (find (\<lambda>e. n \<in> set (proto_names e)) rs))
     \<and> pd_total d = length rs"

lemma proto_range_unsigned:
  "512 \<le> (scast (w :: u32) :: u64) \<longleftrightarrow> \<not> (0 \<le> sint w \<and> sint w < 512)"
proof -
  have b: "- (2 ^ 31) \<le> sint w" "sint w < 2 ^ 31" using sint_ge [of w] sint_lt [of w] by simp_all
  have "uint (scast w :: u64) = sint w mod 2 ^ 64"
    by (simp only: scast_eq uint_word_of_int len_bit0 len_num1) simp
  also have "\<dots> = (if 0 \<le> sint w then sint w else sint w + 2 ^ 64)"
  proof (cases "0 \<le> sint w")
    case True
    with b show ?thesis by simp
  next
    case False
    have "sint w mod 2 ^ 64 = (sint w + 2 ^ 64) mod 2 ^ 64" by simp
    also have "\<dots> = sint w + 2 ^ 64" using False b by (intro mod_pos_pos_trivial) auto
    finally show ?thesis using False by simp
  qed
  finally show ?thesis using b by (auto simp: word_le_def)
qed

lemma find_append: "find P (xs @ ys) = (case find P xs of None \<Rightarrow> find P ys | Some x \<Rightarrow> Some x)"
  by (induction xs) auto

lemma find_in: "find P xs = Some x \<Longrightarrow> x \<in> set xs \<and> P x"
  by (auto simp: find_Some_iff)

lemma fold_try_emplace:
  "fold (\<lambda>n. try_emplace n v) ns m = (\<lambda>k. case m k of Some x \<Rightarrow> Some x | None \<Rightarrow> if k \<in> set ns then Some v else None)"
  by (induction ns arbitrary: m) (auto simp: try_emplace_def fun_eq_iff split: option.splits)

lemma known_entries: "entry_known (proto_entry e)" "\<not> entry_known unknown_protocol"
  by (simp_all add: entry_known_def proto_entry_def unknown_protocol_def)

lemma represents_empty: "represents [] database_empty"
  by (auto simp: represents_def database_empty_def map_replicate_const)

lemma representsD:
  assumes "represents rs d"
  shows "pd_name_index d = (\<lambda>n. map_option proto_no (find (\<lambda>e. n \<in> set (proto_names e)) rs))"
    and "list_all proto_in_range rs" and "distinct (map proto_no rs)" and "pd_total d = length rs"
    and "length (pd_db d) = protocol_no_limit"
  using assms by (simp_all add: represents_def)

lemma represents_nth:
  assumes "represents rs d" "k < protocol_no_limit"
  shows "pd_db d ! k = (case find (\<lambda>e. proto_no e = k) rs of None \<Rightarrow> unknown_protocol | Some e \<Rightarrow> proto_entry e)"
  using assms by (simp add: represents_def)

lemma represents_known:
  assumes "represents rs d" "k < protocol_no_limit"
  shows "entry_known (pd_db d ! k) \<longleftrightarrow> k \<in> set (map proto_no rs)"
  using assms
  by (auto simp: represents_nth known_entries find_None_iff find_Some_iff split: option.splits dest: find_in)

text \<open>The index that one round leaves: the names of the record, unless taken.\<close>

lemma round_index:
  assumes "represents rs d"
  shows "fold (\<lambda>a. try_emplace a no) (loaded_alias e)
      (if loaded_name e \<noteq> [] then try_emplace (loaded_name e) no (pd_name_index d) else pd_name_index d)
    = (\<lambda>n. case pd_name_index d n of Some x \<Rightarrow> Some x | None \<Rightarrow> if n \<in> set (proto_names e) then Some no else None)"
proof -
  have "(if loaded_name e \<noteq> [] then try_emplace (loaded_name e) no (pd_name_index d) else pd_name_index d)
    = fold (\<lambda>a. try_emplace a no) (if loaded_name e \<noteq> [] then [loaded_name e] else []) (pd_name_index d)"
    by simp
  then have "fold (\<lambda>a. try_emplace a no) (loaded_alias e)
      (if loaded_name e \<noteq> [] then try_emplace (loaded_name e) no (pd_name_index d) else pd_name_index d)
    = fold (\<lambda>a. try_emplace a no) (proto_names e) (pd_name_index d)"
    by (simp add: proto_names_def)
  then show ?thesis by (simp only: fold_try_emplace)
qed

lemma load_entry_represents:
  assumes "represents rs d"
  shows "load_entry e d = None \<longleftrightarrow> \<not> proto_in_range e"
    and "load_entry e d = Some d' \<Longrightarrow> represents (register rs e) d'"
proof -
  let ?no = "proto_no e"
  show "load_entry e d = None \<longleftrightarrow> \<not> proto_in_range e"
    by (simp add: load_entry_def proto_range_unsigned proto_in_range_def Let_def)
  assume l: "load_entry e d = Some d'"
  then have r: "proto_in_range e"
    by (simp add: load_entry_def proto_range_unsigned proto_in_range_def Let_def split: if_splits)
  then have lim: "?no < protocol_no_limit" by (auto simp: proto_in_range_def proto_no_def nat_less_iff)
  show "represents (register rs e) d'"
  proof (cases "?no \<in> set (map proto_no rs)")
    case True
    with l r lim assms represents_known [OF assms lim] show ?thesis
      by (simp add: load_entry_def proto_range_unsigned proto_in_range_def Let_def register_def proto_no_def)
  next
    case False
    with r lim represents_known [OF assms lim] l
    have d': "d' = d\<lparr>pd_total := Suc (pd_total d), pd_db := (pd_db d)[?no := proto_entry e],
        pd_name_index := fold (\<lambda>a. try_emplace a ?no) (loaded_alias e)
          (if loaded_name e \<noteq> [] then try_emplace (loaded_name e) ?no (pd_name_index d) else pd_name_index d)\<rparr>"
      by (cases "loaded_name e = []")
        (simp_all add: load_entry_def proto_range_unsigned proto_in_range_def Let_def proto_no_def proto_entry_def)
    have db: "pd_db d' = map (\<lambda>k. case find (\<lambda>e. proto_no e = k) (rs @ [e]) of
        None \<Rightarrow> unknown_protocol | Some e \<Rightarrow> proto_entry e) [0..<protocol_no_limit]"
    proof (rule nth_equalityI)
      show "length (pd_db d') = length (map (\<lambda>k. case find (\<lambda>e. proto_no e = k) (rs @ [e]) of
        None \<Rightarrow> unknown_protocol | Some e \<Rightarrow> proto_entry e) [0..<protocol_no_limit])"
        using assms by (simp add: d' represents_def)
      fix k assume "k < length (pd_db d')"
      then have k: "k < protocol_no_limit" using assms by (simp add: d' represents_def)
      have "find (\<lambda>e. proto_no e = ?no) rs = None" using False by (simp add: find_None_iff) (metis imageI)
      then show "pd_db d' ! k = map (\<lambda>k. case find (\<lambda>e. proto_no e = k) (rs @ [e]) of
        None \<Rightarrow> unknown_protocol | Some e \<Rightarrow> proto_entry e) [0..<protocol_no_limit] ! k"
        using k assms lim by (auto simp: d' represents_def nth_list_update find_append split: option.splits)
    qed
    have index: "pd_name_index d' = (\<lambda>n. map_option proto_no (find (\<lambda>e. n \<in> set (proto_names e)) (rs @ [e])))"
      using assms round_index [OF assms, of ?no e]
      by (auto simp: d' fun_eq_iff represents_def find_append split: option.splits)
    show ?thesis
      using assms False r db index by (simp add: represents_def register_def d')
  qed
qed

lemma load_loop_represents:
  assumes "represents rs d"
  shows "(load_loop es d = None \<longleftrightarrow> \<not> list_all proto_in_range es)
    \<and> (\<forall>d'. load_loop es d = Some d' \<longrightarrow> represents (foldl register rs es) d')"
  using assms
proof (induction es arbitrary: rs d)
  case (Cons e es)
  show ?case
  proof (cases "load_entry e d")
    case None
    then show ?thesis using load_entry_represents(1) [OF Cons.prems, of e] by simp
  next
    case (Some d1)
    then show ?thesis
      using load_entry_represents [OF Cons.prems, of e] Cons.IH [of "register rs e" d1] by simp
  qed
qed simp

lemma loaded_represents: "load_protocols es = Some d \<Longrightarrow> represents (registered es) d"
  using load_loop_represents [OF represents_empty, of es] by (simp add: load_protocols_def registered_def)

section \<open>Iteration\<close>

text \<open>Skipping never leaves the vector and stops at the first known entry.\<close>

lemma skip_unknown_drop:
  "i \<le> length db \<Longrightarrow> \<exists>j. skip_unknown db i = Some j \<and> i \<le> j \<and> j \<le> length db
     \<and> filter entry_known (drop i db) = filter entry_known (drop j db)
     \<and> (j = length db \<or> entry_known (db ! j))"
proof (induction db i rule: skip_unknown.induct)
  case (1 db i)
  show ?case
  proof (cases "i = length db \<or> entry_known (db ! i)")
    case True
    with 1 show ?thesis
      by (subst skip_unknown.simps) (auto simp: entry_eq_def entry_known_def unknown_protocol_def)
  next
    case False
    with 1 have "i < length db" "entry_eq (db ! i) unknown_protocol"
      by (auto simp: entry_eq_def entry_known_def unknown_protocol_def)
    moreover from this False have "filter entry_known (drop i db) = filter entry_known (drop (Suc i) db)"
      by (simp add: Cons_nth_drop_Suc [symmetric])
    ultimately show ?thesis using 1 by (subst skip_unknown.simps) auto
  qed
qed

text \<open>Traversal from a position the iterator can be at returns, and visits the known entries.\<close>

lemma traverse_filter:
  "i \<le> length (pd_db d) \<Longrightarrow> i = length (pd_db d) \<or> entry_known (pd_db d ! i) \<Longrightarrow>
   traverse d i = Some (filter entry_known (drop i (pd_db d)))"
proof (induction "length (pd_db d) - i" arbitrary: i rule: less_induct)
  case less
  show ?case
  proof (cases "i = length (pd_db d)")
    case True
    then show ?thesis by (subst traverse.simps) simp
  next
    case False
    with less.prems have i: "i < length (pd_db d)" "entry_known (pd_db d ! i)" by auto
    then obtain j where j: "skip_unknown (pd_db d) (Suc i) = Some j" "Suc i \<le> j" "j \<le> length (pd_db d)"
        "filter entry_known (drop (Suc i) (pd_db d)) = filter entry_known (drop j (pd_db d))"
        "j = length (pd_db d) \<or> entry_known (pd_db d ! j)"
      using skip_unknown_drop [of "Suc i" "pd_db d"] by auto
    then have "traverse d j = Some (filter entry_known (drop j (pd_db d)))"
      using less.hyps [of j] i by auto
    with i j show ?thesis
      by (subst traverse.simps) (simp add: iter_preincrement_def Cons_nth_drop_Suc [symmetric])
  qed
qed

lemma traverse_all: "Option.bind (iter_begin d) (traverse d) = Some (filter entry_known (pd_db d))"
  using skip_unknown_drop [of 0 "pd_db d"] by (auto simp: iter_begin_def traverse_filter)

lemma filter_positions:
  assumes "length db = l" "\<And>k. k < l \<Longrightarrow> P (db ! k) \<longleftrightarrow> k \<in> S" "\<And>k. k < l \<Longrightarrow> k \<in> S \<Longrightarrow> f (db ! k) = g k"
  shows "map f (filter P db) = map g (filter (\<lambda>k. k \<in> S) [0..<l])"
proof -
  have "filter P db = filter P (map ((!) db) [0..<l])" using map_nth [of db] assms(1) by simp
  also have "\<dots> = map ((!) db) (filter (P \<circ> (!) db) [0..<l])" by (rule filter_map)
  also have "filter (P \<circ> (!) db) [0..<l] = filter (\<lambda>k. k \<in> S) [0..<l]"
    using assms(2) by (intro filter_cong) auto
  finally show ?thesis using assms(3) by auto
qed

lemma known_numbers:
  assumes "represents rs d"
  shows "map pe_no (filter entry_known (pd_db d)) = map int (filter (\<lambda>k. k \<in> set (map proto_no rs)) [0..<protocol_no_limit])"
proof (rule filter_positions)
  show "length (pd_db d) = protocol_no_limit" by (rule representsD(5) [OF assms])
next
  fix k assume k: "k < protocol_no_limit"
  show "entry_known (pd_db d ! k) \<longleftrightarrow> k \<in> set (map proto_no rs)" by (rule represents_known [OF assms k])
  assume "k \<in> set (map proto_no rs)"
  then obtain e where "find (\<lambda>e. proto_no e = k) rs = Some e"
    by (cases "find (\<lambda>e. proto_no e = k) rs") (auto simp: find_None_iff)
  with represents_nth [OF assms k] show "pe_no (pd_db d ! k) = int k"
    by (auto simp: proto_entry_def dest: find_in)
qed

lemma known_count:
  assumes "represents rs d"
  shows "length (filter entry_known (pd_db d)) = pd_size d"
proof -
  have sub: "set (map proto_no rs) \<subseteq> {..<protocol_no_limit}"
    using representsD(2) [OF assms] by (auto simp: list_all_iff proto_in_range_def proto_no_def nat_less_iff)
  have "length (filter entry_known (pd_db d)) = length (filter (\<lambda>k. k \<in> set (map proto_no rs)) [0..<protocol_no_limit])"
    using known_numbers [OF assms] by (metis length_map)
  also have "\<dots> = card (set (filter (\<lambda>k. k \<in> set (map proto_no rs)) [0..<protocol_no_limit]))"
    by (rule distinct_card [symmetric]) (intro distinct_filter distinct_upt)
  also have "set (filter (\<lambda>k. k \<in> set (map proto_no rs)) [0..<protocol_no_limit]) = set (map proto_no rs)"
    using sub by (auto simp del: upt_rec_numeral)
  also have "card \<dots> = pd_size d"
    using representsD(3,4) [OF assms] distinct_card [of "map proto_no rs"] by (simp add: pd_size_def)
  finally show ?thesis .
qed

section \<open>Registered records\<close>

lemma represents_limit: "represents rs d \<Longrightarrow> e \<in> set rs \<Longrightarrow> proto_no e < protocol_no_limit"
  using representsD(2) [of rs d] by (auto simp: list_all_iff proto_in_range_def proto_no_def nat_less_iff)

lemma represents_to_protocol:
  assumes r: "represents rs d"
  shows "to_protocol d n = (case find (\<lambda>e. n \<in> set (proto_names e)) rs of None \<Rightarrow> -1 | Some e \<Rightarrow> int (proto_no e))"
proof (cases "find (\<lambda>e. n \<in> set (proto_names e)) rs")
  case None
  with representsD(1) [OF r] show ?thesis by (simp add: to_protocol_def get_by_name_def unknown_protocol_def)
next
  case (Some e)
  then have e: "e \<in> set rs" using find_in by fastforce
  then have "find (\<lambda>x. proto_no x = proto_no e) rs \<noteq> None" by (auto simp: find_None_iff)
  then have "pe_no (pd_db d ! proto_no e) = int (proto_no e)"
    using represents_nth [OF r represents_limit [OF r e]] by (auto simp: proto_entry_def dest: find_in)
  then show ?thesis using representsD(1) [OF r] Some by (simp add: to_protocol_def get_by_name_def)
qed

lemma foldl_register_numbers: "set (map proto_no (foldl register rs es)) = set (map proto_no rs) \<union> set (map proto_no es)"
  by (induction es arbitrary: rs) (auto simp: register_def)

lemma foldl_register_find:
  "find (\<lambda>e. proto_no e = k) (foldl register rs es)
   = (case find (\<lambda>e. proto_no e = k) rs of Some e \<Rightarrow> Some e | None \<Rightarrow> find (\<lambda>e. proto_no e = k) es)"
proof (induction es arbitrary: rs)
  case (Cons e es)
  have "find (\<lambda>e. proto_no e = k) (register rs e)
    = (case find (\<lambda>e. proto_no e = k) rs of Some e \<Rightarrow> Some e | None \<Rightarrow> if proto_no e = k then Some e else None)"
  proof -
    have "find (\<lambda>e. proto_no e = k) rs = None \<longleftrightarrow> k \<notin> set (map proto_no rs)" by (auto simp: find_None_iff)
    then show ?thesis by (cases "find (\<lambda>e. proto_no e = k) rs") (auto simp: register_def find_append)
  qed
  then show ?case by (simp add: Cons split: option.splits)
qed (simp split: option.splits)

lemma registered_numbers: "set (map proto_no (registered es)) = set (map proto_no es)"
  by (simp only: registered_def foldl_register_numbers) simp

lemma registered_find: "find (\<lambda>e. proto_no e = k) (registered es) = find (\<lambda>e. proto_no e = k) es"
  by (simp add: registered_def foldl_register_find)

lemma loaded_ok_iff: "(\<exists>d. load_protocols es = Some d) \<longleftrightarrow> list_all proto_in_range es"
  using load_loop_represents [OF represents_empty, of es] by (auto simp: load_protocols_def)

section \<open>Properties\<close>

text \<open>
  C29. Loading fails exactly when some record has a protocol number outside \<open>[0, 512)\<close>: the
  comparison with the unsigned capacity also rejects negative numbers, so the vector is never
  indexed out of bounds.
\<close>

theorem protocol_load_error:
  "load_protocols es = None \<longleftrightarrow> list_ex (\<lambda>e. sint (p_proto e) < 0 \<or> 512 \<le> sint (p_proto e)) es"
proof -
  have "list_ex (\<lambda>e. sint (p_proto e) < 0 \<or> 512 \<le> sint (p_proto e)) es \<longleftrightarrow> \<not> list_all proto_in_range es"
    by (auto simp: list_ex_iff list_all_iff proto_in_range_def not_le not_less)
  with loaded_ok_iff [of es] show ?thesis by (cases "load_protocols es") auto
qed


definition sample_tcp :: protoent where
  "sample_tcp = \<lparr>p_name = Some ''tcp'', p_aliases = Some [''TCP''], p_proto = 6\<rparr>"

lemma sample_loads: "\<exists>d. load_protocols [sample_tcp] = Some d"
  by (simp add: loaded_ok_iff proto_in_range_def sample_tcp_def)


text \<open>
  C31. A range \<open>for\<close> loop over a loaded database ends, and visits every protocol once in
  increasing order of the numbers: exactly the numbers read, as many as \<open>size()\<close> says.
\<close>

theorem protocol_iteration:
  assumes "load_protocols es = Some d"
  shows "\<exists>vs. Option.bind (iter_begin d) (traverse d) = Some vs \<and> length vs = pd_size d
    \<and> sorted_wrt (<) (map pe_no vs) \<and> set (map pe_no vs) = set (map (\<lambda>e. sint (p_proto e)) es)"
proof (intro exI conjI)
  note r = loaded_represents [OF assms]
  let ?vs = "filter entry_known (pd_db d)"
  show "Option.bind (iter_begin d) (traverse d) = Some ?vs" by (rule traverse_all)
  show "length ?vs = pd_size d" by (rule known_count [OF r])
  show "sorted_wrt (<) (map pe_no ?vs)"
    unfolding known_numbers [OF r] sorted_wrt_map
    by (intro sorted_wrt_filter) (simp del: upt_rec_numeral add: sorted_wrt_upt)
  have range: "list_all proto_in_range es" using assms loaded_ok_iff [of es] by blast
  have "set (map pe_no ?vs) = int ` ({..<protocol_no_limit} \<inter> set (map proto_no es))"
    by (simp only: known_numbers [OF r] registered_numbers) (auto simp del: upt_rec_numeral)
  also have "\<dots> = set (map (\<lambda>e. sint (p_proto e)) es)"
    using range by (force simp: list_all_iff proto_in_range_def proto_no_def image_iff nat_less_iff)
  finally show "set (map pe_no ?vs) = set (map (\<lambda>e. sint (p_proto e)) es)" .
qed

theorem protocol_iteration_witness:
  "\<exists>d vs. load_protocols [sample_tcp] = Some d \<and> Option.bind (iter_begin d) (traverse d) = Some vs
    \<and> length vs = pd_size d \<and> set (map pe_no vs) = {6}"
proof -
  obtain d where d: "load_protocols [sample_tcp] = Some d" using sample_loads by blast
  from protocol_iteration [OF d] obtain vs where "Option.bind (iter_begin d) (traverse d) = Some vs"
    "length vs = pd_size d" "set (map pe_no vs) = set (map (\<lambda>e. sint (p_proto e)) [sample_tcp])" by blast
  with d show ?thesis by (auto simp: sample_tcp_def)
qed

text \<open>
  C32. Post-increment does not skip: it moves to where pre-increment moves only when the next
  entry happens to be known or the end, and otherwise leaves the iterator at a placeholder.
\<close>

theorem postincrement_agrees_iff:
  assumes "i < length (pd_db d)"
  shows "map_option snd (iter_postincrement d i) = iter_preincrement d i
    \<longleftrightarrow> Suc i = length (pd_db d) \<or> entry_known (pd_db d ! Suc i)"
proof -
  obtain j where j: "skip_unknown (pd_db d) (Suc i) = Some j" "j = length (pd_db d) \<or> entry_known (pd_db d ! j)"
    using assms skip_unknown_drop [of "Suc i" "pd_db d"] by auto
  moreover have "skip_unknown (pd_db d) (Suc i) = Some (Suc i)"
    if "Suc i = length (pd_db d) \<or> entry_known (pd_db d ! Suc i)"
    using that assms
    by (subst skip_unknown.simps) (auto simp: entry_eq_def entry_known_def unknown_protocol_def)
  ultimately show ?thesis using assms by (auto simp: iter_postincrement_def iter_preincrement_def)
qed

theorem postincrement_agrees_iff_witness:
  "map_option snd (iter_postincrement \<lparr>pd_db = [proto_entry sample_tcp, unknown_protocol, proto_entry sample_tcp],
      pd_name_index = Map.empty, pd_total = 2\<rparr> 0)
   \<noteq> iter_preincrement \<lparr>pd_db = [proto_entry sample_tcp, unknown_protocol, proto_entry sample_tcp],
      pd_name_index = Map.empty, pd_total = 2\<rparr> 0"
  by (subst postincrement_agrees_iff) (simp_all add: known_entries)

end
