(* ===== verification/Event_Loop.thy ===== *)
theory Event_Loop
  imports Submit
begin

text \<open>
  Many operations in flight: the submission queue, the requests the kernel holds and the completion
  queue as an application sees them, the steps a program takes on a ring (submitting operation
  objects, fetching and waiting for results) interleaved with those of the kernel, and what the
  type-erased \<open>operation_base::callback\<close> receives. The queues are not kept by the library but by
  liburing, so they are an observation \<open>view\<close> of the world, and what liburing's manual pages
  promise about it is the predicate \<open>documented_queues\<close>, a hypothesis of the properties.
\<close>

section \<open>Type-erased completion\<close>

text \<open>
  The members of \<open>operation_base\<close>. The erased callback takes the flags as a signed 32-bit integer;
  \<open>callback_wrapper\<close> hands them to \<open>do_callback\<close> of the class, which takes them unsigned. What
  running the user's callback does to the world is \<open>run\<close> (\<open>None\<close> when it does not return).
\<close>

record 'w operation_base =
  do_callback_ptr :: "int \<Rightarrow> int \<Rightarrow> 'w \<Rightarrow> 'w option"
  ring_ptr :: u64

definition callback_wrapper ::
  "(int \<Rightarrow> u32 \<Rightarrow> 'r invocation) \<Rightarrow> ('r invocation \<Rightarrow> 'w \<Rightarrow> 'w option) \<Rightarrow> int \<Rightarrow> int \<Rightarrow> 'w \<Rightarrow> 'w option" where
  "callback_wrapper do_callback run ev flags w = run (do_callback ev (word_of_int flags)) w"

definition operation_base_ctor ::
  "(int \<Rightarrow> u32 \<Rightarrow> 'r invocation) \<Rightarrow> ('r invocation \<Rightarrow> 'w \<Rightarrow> 'w option) \<Rightarrow> u64 \<Rightarrow> 'w operation_base" where
  "operation_base_ctor do_callback run addr =
     \<lparr>do_callback_ptr = callback_wrapper do_callback run, ring_ptr = addr\<rparr>"

definition base_callback :: "'w operation_base \<Rightarrow> int \<Rightarrow> int \<Rightarrow> 'w \<Rightarrow> 'w option" where
  "base_callback b ev flags w = do_callback_ptr b ev flags w"

definition base_identifier :: "u64 \<Rightarrow> operation_identifier" where
  "base_identifier self = \<lparr>id_raw = self\<rparr>"

text \<open>
  \<open>operation_result::callback\<close> reads the object at the address the completion carries; \<open>heap\<close> has
  no object at a null or dangling address, where the code has no defined behaviour.
\<close>

definition result_callback ::
  "(u64 \<Rightarrow> 'w operation_base option) \<Rightarrow> operation_result \<Rightarrow> 'w \<Rightarrow> 'w option" where
  "result_callback heap r w =
     Option.bind (heap (or_cb r)) (\<lambda>b. base_callback b (or_res r) (sint (or_cqe_flags r)) w)"

definition result_call :: "(u64 \<Rightarrow> 'w operation_base option) \<Rightarrow> operation_result \<Rightarrow> 'w \<Rightarrow> 'w option" where
  "result_call heap r w = result_callback heap r w"

lemma result_callback_erased:
  "heap (or_cb r) = Some (operation_base_ctor do_callback run addr) \<Longrightarrow>
     result_callback heap r w = run (do_callback (or_res r) (or_cqe_flags r)) w"
  by (simp add: result_callback_def base_callback_def operation_base_ctor_def callback_wrapper_def)

section \<open>The queues\<close>

text \<open>
  Entries and requests are represented by their user data. A request that the kernel completes with
  \<open>IORING_CQE_F_MORE\<close> stays in flight, so only a completion without that flag is final.
\<close>

record uring_view =
  v_sq :: "u64 list"
  v_infl :: "u64 multiset"
  v_cq :: "cqe list"

definition empty_view :: uring_view where
  "empty_view = \<lparr>v_sq = [], v_infl = {#}, v_cq = []\<rparr>"

definition more_to_come :: "u32 \<Rightarrow> bool" where
  "more_to_come flags \<longleftrightarrow> flags AND IORING_CQE_F_MORE \<noteq> 0"

inductive kernel_step :: "uring_view \<Rightarrow> uring_view \<Rightarrow> bool" where
  kernel_consume: "v_sq v = tag # rest \<Longrightarrow>
    kernel_step v (v\<lparr>v_sq := rest, v_infl := add_mset tag (v_infl v)\<rparr>)"
| kernel_complete: "cqe_user_data c \<in># v_infl v \<Longrightarrow>
    kernel_step v (v\<lparr>v_infl := (if more_to_come (cqe_flags c) then v_infl v else v_infl v - {#cqe_user_data c#}),
                     v_cq := v_cq v @ [c]\<rparr>)"

inductive_cases kernel_stepE: "kernel_step v v'"

abbreviation kernel_moves :: "uring_view \<Rightarrow> uring_view \<Rightarrow> bool" where
  "kernel_moves \<equiv> rtranclp kernel_step"

text \<open>
  What the manual pages say, with the kernel free to make progress during any call:
  \<open>io_uring_get_sqe\<close> hands out an entry, which, tagged with its user data, is queued behind the
  others; \<open>io_uring_submit\<close> passes entries on; a call that returns a completion returns the
  head of the completion queue, and \<open>io_uring_peek_cqe\<close> fails only on an empty one;
  \<open>io_uring_cqe_seen\<close> removes the head.
\<close>

definition documented_get_sqe :: "'w liburing \<Rightarrow> io_uring \<Rightarrow> ('w \<Rightarrow> uring_view) \<Rightarrow> bool" where
  "documented_get_sqe lib raw view \<longleftrightarrow>
     (\<forall>w. case lib_get_sqe lib raw w of
        (None, w') \<Rightarrow> kernel_moves (view w) (view w')
      | (Some i, w') \<Rightarrow> (\<forall>ws tag. \<exists>v. kernel_moves (view w) v
          \<and> view (lib_write_sqe lib i (ws @ [Set_data tag]) w') = v\<lparr>v_sq := v_sq v @ [tag]\<rparr>))"

definition documented_submit :: "'w liburing \<Rightarrow> io_uring \<Rightarrow> ('w \<Rightarrow> uring_view) \<Rightarrow> bool" where
  "documented_submit lib raw view \<longleftrightarrow>
     (\<forall>w. case lib_submit lib raw w of (ev, w') \<Rightarrow> kernel_moves (view w) (view w'))"

definition documented_cqe :: "('w \<Rightarrow> int \<times> cqe \<times> 'w) \<Rightarrow> ('w \<Rightarrow> uring_view) \<Rightarrow> bool" where
  "documented_cqe get view \<longleftrightarrow>
     (\<forall>w. case get w of (ev, c, w') \<Rightarrow>
        kernel_moves (view w) (view w') \<and> (ev < 0 \<or> (\<exists>rest. v_cq (view w') = c # rest)))"

definition documented_queues :: "'w liburing \<Rightarrow> io_uring \<Rightarrow> ('w \<Rightarrow> uring_view) \<Rightarrow> bool" where
  "documented_queues lib raw view \<longleftrightarrow>
     documented_get_sqe lib raw view \<and> documented_submit lib raw view
     \<and> documented_cqe (lib_peek_cqe lib raw) view
     \<and> (\<forall>w. fst (lib_peek_cqe lib raw w) < 0 \<longrightarrow> v_cq (view w) = [])
     \<and> documented_cqe (lib_wait_cqe lib raw) view
     \<and> (\<forall>ts. documented_cqe (lib_wait_cqe_timeout lib raw ts) view)
     \<and> (\<forall>w. kernel_moves ((view w)\<lparr>v_cq := tl (v_cq (view w))\<rparr>) (view (lib_cqe_seen lib raw w)))"

section \<open>The account of submitted requests\<close>

definition cqe_finals :: "cqe list \<Rightarrow> u64 multiset" where
  "cqe_finals cs = mset (map cqe_user_data (filter (\<lambda>c. \<not> more_to_come (cqe_flags c)) cs))"

definition result_finals :: "operation_result list \<Rightarrow> u64 multiset" where
  "result_finals rs = mset (map or_cb (filter (\<lambda>r. \<not> more_to_come (or_cqe_flags r)) rs))"

text \<open>Requests whose final completion the program has not yet seen.\<close>

definition outstanding :: "uring_view \<Rightarrow> u64 multiset" where
  "outstanding v = mset (v_sq v) + v_infl v + cqe_finals (v_cq v)"

lemma finals_simps [simp]:
  "cqe_finals [] = {#}"
  "cqe_finals (c # cs) = (if more_to_come (cqe_flags c) then cqe_finals cs else add_mset (cqe_user_data c) (cqe_finals cs))"
  "cqe_finals (cs @ ds) = cqe_finals cs + cqe_finals ds"
  "result_finals [] = {#}"
  "result_finals (r # rs) = (if more_to_come (or_cqe_flags r) then result_finals rs else add_mset (or_cb r) (result_finals rs))"
  "result_finals (rs @ ss) = result_finals rs + result_finals ss"
  by (simp_all add: cqe_finals_def result_finals_def)

lemma result_finals_of_cqes: "result_finals (map operation_result_of cs) = cqe_finals cs"
  by (induction cs) (simp_all add: operation_result_of_def)

lemma outstanding_empty [simp]: "outstanding empty_view = {#}"
  by (simp add: outstanding_def empty_view_def)

lemma outstanding_write [simp]:
  "outstanding (v\<lparr>v_sq := v_sq v @ [tag]\<rparr>) = add_mset tag (outstanding v)"
  by (simp add: outstanding_def)

lemma kernel_step_outstanding: "kernel_step v v' \<Longrightarrow> outstanding v' = outstanding v"
  by (erule kernel_stepE) (auto simp: outstanding_def dest: multi_member_split)

lemma kernel_moves_outstanding: "kernel_moves v v' \<Longrightarrow> outstanding v' = outstanding v"
  by (induction rule: rtranclp_induct) (simp_all add: kernel_step_outstanding)

text \<open>Nothing is left for the kernel to do.\<close>

definition quiescent :: "uring_view \<Rightarrow> bool" where
  "quiescent v \<longleftrightarrow> v_sq v = [] \<and> v_infl v = {#}"

lemma quiescent_moves: "kernel_moves v v' \<Longrightarrow> quiescent v \<Longrightarrow> v' = v"
  by (induction rule: converse_rtranclp_induct) (auto simp: quiescent_def elim!: kernel_stepE)

section \<open>Steps of a program on its ring\<close>

text \<open>
  The state: the world, the submissions made so far with what \<open>do_submit\<close> reported, and the
  completions received, both in order. A submission is one of \<open>submit\<close>, \<open>submit_and_wait\<close> and
  \<open>co_await\<close>, which all begin with \<open>do_submit\<close>; the completion of any of them is received by
  \<open>fetch_result\<close> or \<open>wait_for_result\<close>. Objects are of any type \<open>'op\<close>, of which \<open>build\<close> and
  \<open>opcode\<close> are those of the object's class.
\<close>

record 'w loop_state =
  ls_world :: 'w
  ls_submits :: "(u64 \<times> error_code) list"
  ls_received :: "operation_result list"

definition received_of :: "operation_result expected \<Rightarrow> operation_result list" where
  "received_of res = (case res of Inl _ \<Rightarrow> [] | Inr c \<Rightarrow> [c])"

inductive loop_step ::
  "'w liburing \<Rightarrow> ring \<Rightarrow> ('w \<Rightarrow> uring_view) \<Rightarrow> bool \<Rightarrow> ('op \<Rightarrow> u8) \<Rightarrow> ('op \<Rightarrow> 'op \<times> sqe_writes)
     \<Rightarrow> 'w loop_state \<Rightarrow> 'w loop_state \<Rightarrow> bool"
  for lib r view enabled opcode build where
  loop_submit: "do_submit lib enabled (opcode op) build self op r (ls_world s) = Some (ec, op', w') \<Longrightarrow>
    loop_step lib r view enabled opcode build s (s\<lparr>ls_world := w', ls_submits := ls_submits s @ [(self, ec)]\<rparr>)"
| loop_fetch: "fetch_result lib r (ls_world s) = Some (res, w') \<Longrightarrow>
    loop_step lib r view enabled opcode build s
      (s\<lparr>ls_world := w', ls_received := ls_received s @ received_of res\<rparr>)"
| loop_wait: "wait_for_result lib timeout r (ls_world s) = Some (res, w') \<Longrightarrow>
    loop_step lib r view enabled opcode build s
      (s\<lparr>ls_world := w', ls_received := ls_received s @ received_of res\<rparr>)"
| loop_kernel: "kernel_moves (view (ls_world s)) (view w') \<Longrightarrow>
    loop_step lib r view enabled opcode build s (s\<lparr>ls_world := w'\<rparr>)"

definition loop_start :: "'w \<Rightarrow> 'w loop_state" where
  "loop_start w = \<lparr>ls_world = w, ls_submits = [], ls_received = []\<rparr>"

inductive loop_reachable ::
  "'w liburing \<Rightarrow> ring \<Rightarrow> ('w \<Rightarrow> uring_view) \<Rightarrow> bool \<Rightarrow> ('op \<Rightarrow> u8) \<Rightarrow> ('op \<Rightarrow> 'op \<times> sqe_writes)
     \<Rightarrow> 'w loop_state \<Rightarrow> bool"
  for lib r view enabled opcode build where
  reach_start: "view w = empty_view \<Longrightarrow> loop_reachable lib r view enabled opcode build (loop_start w)"
| reach_step: "loop_reachable lib r view enabled opcode build s \<Longrightarrow>
    loop_step lib r view enabled opcode build s t \<Longrightarrow> loop_reachable lib r view enabled opcode build t"

text \<open>All requests of a state, received or not, and those submitted, with or without an error.\<close>

definition loop_account :: "('w \<Rightarrow> uring_view) \<Rightarrow> 'w loop_state \<Rightarrow> u64 multiset" where
  "loop_account view s = outstanding (view (ls_world s)) + result_finals (ls_received s)"

definition submitted :: "'w loop_state \<Rightarrow> u64 multiset" where
  "submitted s = mset (map fst (ls_submits s))"

definition submitted_ok :: "'w loop_state \<Rightarrow> u64 multiset" where
  "submitted_ok s = mset (map fst (filter (\<lambda>(_, ec). \<not> is_error ec) (ls_submits s)))"

section \<open>What each call does to the account\<close>

lemma cqe_outstanding:
  assumes "documented_cqe get view" "get w = (ev, c, w1)"
    and seen: "\<And>w. kernel_moves ((view w)\<lparr>v_cq := tl (v_cq (view w))\<rparr>) (view (seen w))"
  shows "outstanding (view w1) = outstanding (view w)"
    and "\<not> ev < 0 \<Longrightarrow> outstanding (view w) =
      (if more_to_come (cqe_flags c) then outstanding (view (seen w1))
       else add_mset (cqe_user_data c) (outstanding (view (seen w1))))"
proof -
  have get: "kernel_moves (view w) (view w1)" "ev < 0 \<or> (\<exists>rest. v_cq (view w1) = c # rest)"
    using assms(1,2) by (auto simp: documented_cqe_def split: prod.splits)
  show same: "outstanding (view w1) = outstanding (view w)" by (rule kernel_moves_outstanding [OF get(1)])
  assume "\<not> ev < 0"
  with get(2) obtain rest where "v_cq (view w1) = c # rest" by blast
  then have "outstanding (view w1) = (if more_to_come (cqe_flags c) then outstanding ((view w1)\<lparr>v_cq := tl (v_cq (view w1))\<rparr>)
       else add_mset (cqe_user_data c) (outstanding ((view w1)\<lparr>v_cq := tl (v_cq (view w1))\<rparr>)))"
    by (simp add: outstanding_def)
  with same kernel_moves_outstanding [OF seen [of w1]] show "outstanding (view w) =
      (if more_to_come (cqe_flags c) then outstanding (view (seen w1))
       else add_mset (cqe_user_data c) (outstanding (view (seen w1))))" by (simp split: if_splits)
qed

text \<open>Receiving a completion, by either call, moves its request from the outstanding to the received.\<close>

lemma reap_outstanding:
  assumes "documented_cqe get view" "get w = (ev, c, w1)"
    and "\<And>w. kernel_moves ((view w)\<lparr>v_cq := tl (v_cq (view w))\<rparr>) (view (lib_cqe_seen lib raw w))"
    and "(if ev < 0 then (fail_ev (- ev), w1) else (Inr (operation_result_of c), lib_cqe_seen lib raw w1)) = (res, w')"
  shows "outstanding (view w) = outstanding (view w') + result_finals (received_of res)"
  using cqe_outstanding [OF assms(1,2), of "lib_cqe_seen lib raw"] assms(3,4)
  by (auto simp: received_of_def fail_ev_def operation_result_of_def split: if_splits)

lemma fetch_outstanding:
  assumes "documented_queues lib (raw_ring r) view" "fetch_result lib r w = Some (res, w')"
  shows "outstanding (view w) = outstanding (view w') + result_finals (received_of res)"
proof -
  obtain ev c w1 where peek: "lib_peek_cqe lib (raw_ring r) w = (ev, c, w1)" by (metis prod.exhaust)
  with assms(2) have "(if ev < 0 then (fail_ev (- ev), w1)
      else (Inr (operation_result_of c), lib_cqe_seen lib (raw_ring r) w1)) = (res, w')"
    by (auto simp: fetch_result_def native_def split: if_splits)
  with assms(1) peek show ?thesis
    by (intro reap_outstanding [where get = "lib_peek_cqe lib (raw_ring r)"]) (simp_all add: documented_queues_def)
qed

lemma wait_outstanding:
  assumes "documented_queues lib (raw_ring r) view" "wait_for_result lib timeout r w = Some (res, w')"
  shows "outstanding (view w) = outstanding (view w') + result_finals (received_of res)"
proof -
  let ?get = "if timeout \<noteq> 0 then lib_wait_cqe_timeout lib (raw_ring r) (to_kernel_timespec timeout)
    else lib_wait_cqe lib (raw_ring r)"
  obtain ev c w1 where get: "?get w = (ev, c, w1)" by (metis prod.exhaust)
  with assms(2) have "(if ev < 0 then (fail_ev (- ev), w1)
      else (Inr (operation_result_of c), lib_cqe_seen lib (raw_ring r) w1)) = (res, w')"
    by (auto simp: wait_for_result_def native_def split: if_splits)
  with assms(1) get show ?thesis
    by (intro reap_outstanding [where get = ?get]) (simp_all add: documented_queues_def)
qed

text \<open>
  A submission adds its object at most once, and adds it whenever it reports no error; when
  \<open>io_uring_submit\<close> fails the entry has been added as well.
\<close>

lemma submit_written_outstanding:
  assumes "documented_queues lib (raw_ring r) view" "lib_get_sqe lib (raw_ring r) w = (Some i, w1)"
    and "lib_submit lib (raw_ring r) (lib_write_sqe lib i (ws @ [Set_data self]) w1) = (ev, w')"
  shows "outstanding (view w') = add_mset self (outstanding (view w))"
proof -
  let ?w = "lib_write_sqe lib i (ws @ [Set_data self]) w1"
  from assms(1,2) obtain v where "kernel_moves (view w) v" "view ?w = v\<lparr>v_sq := v_sq v @ [self]\<rparr>"
    unfolding documented_queues_def documented_get_sqe_def by (fastforce split: prod.splits option.splits)
  moreover have "kernel_moves (view ?w) (view w')"
    using assms(1,3) unfolding documented_queues_def documented_submit_def by (fastforce split: prod.splits)
  ultimately show ?thesis by (metis kernel_moves_outstanding outstanding_write)
qed

lemma do_submit_outstanding:
  assumes "documented_queues lib (raw_ring r) view"
    and "do_submit lib enabled oc build self op r w = Some (ec, op', w')"
  shows "outstanding (view w') = add_mset self (outstanding (view w))
    \<or> is_error ec \<and> outstanding (view w') = outstanding (view w)"
proof -
  obtain sqe w1 where g: "lib_get_sqe lib (raw_ring r) w = (sqe, w1)" by (metis prod.exhaust)
  show ?thesis
  proof (cases sqe)
    case None
    with assms(1) g have "kernel_moves (view w) (view w1)"
      unfolding documented_queues_def documented_get_sqe_def by (fastforce split: prod.splits option.splits)
    from kernel_moves_outstanding [OF this] show ?thesis
      using assms(2) g None
      by (auto simp: do_submit_def to_sqe_def native_def submit_def bind_eq_Some_conv split: if_splits)
  next
    case (Some i)
    obtain op1 ws where b: "build op = (op1, ws)" by fastforce
    obtain ev w2 where sub: "lib_submit lib (raw_ring r) (lib_write_sqe lib i (ws @ [Set_data self]) w1) = (ev, w2)"
      by (metis prod.exhaust)
    from submit_written_outstanding [OF assms(1) g [unfolded Some] sub] show ?thesis
      using assms(2) g Some sub b
      by (auto simp: do_submit_def to_sqe_def native_def submit_def bind_eq_Some_conv split: if_splits)
  qed
qed

section \<open>The invariant\<close>

definition loop_inv :: "('w \<Rightarrow> uring_view) \<Rightarrow> 'w loop_state \<Rightarrow> bool" where
  "loop_inv view s \<longleftrightarrow> submitted_ok s \<subseteq># loop_account view s \<and> loop_account view s \<subseteq># submitted s"

lemma loop_inv_start: "view w = empty_view \<Longrightarrow> loop_inv view (loop_start w)"
  by (simp add: loop_inv_def loop_start_def submitted_ok_def submitted_def loop_account_def)

lemma loop_inv_step:
  assumes "documented_queues lib (raw_ring r) view" "loop_step lib r view en opcode build s t" "loop_inv view s"
  shows "loop_inv view t"
  using assms(2)
proof cases
  case (loop_submit op self ec op' w')
  with do_submit_outstanding [OF assms(1) loop_submit(2)] assms(3) show ?thesis
    by (auto simp: loop_inv_def submitted_ok_def submitted_def loop_account_def
      intro: subset_mset.order_trans add_mset_add_mset_same_iff [THEN iffD2])
next
  case (loop_fetch res w')
  with fetch_outstanding [OF assms(1) loop_fetch(2)] assms(3) show ?thesis
    by (simp add: loop_inv_def submitted_ok_def submitted_def loop_account_def ac_simps)
next
  case (loop_wait timeout res w')
  with wait_outstanding [OF assms(1) loop_wait(2)] assms(3) show ?thesis
    by (simp add: loop_inv_def submitted_ok_def submitted_def loop_account_def ac_simps)
next
  case (loop_kernel w')
  with kernel_moves_outstanding [OF loop_kernel(2)] assms(3) show ?thesis
    by (simp add: loop_inv_def submitted_ok_def submitted_def loop_account_def)
qed

lemma loop_inv_reachable:
  assumes "documented_queues lib (raw_ring r) view"
  shows "loop_reachable lib r view en opcode build s \<Longrightarrow> loop_inv view s"
  by (induction rule: loop_reachable.induct) (blast intro: loop_inv_start loop_inv_step [OF assms])+

text \<open>A synchronous operation, but for what its callback does, is a submission followed by a wait.\<close>

lemma submit_and_wait_steps:
  assumes "submit_and_wait lib en (opcode op) build do_callback (\<lambda>_ _ _ w. Some w) self op slot r (ls_world s)
    = Some (res, op', w')"
  shows "\<exists>t. (loop_step lib r view en opcode build)\<^sup>*\<^sup>* s t \<and> ls_world t = w'
    \<and> (\<exists>ec. ls_submits t = ls_submits s @ [(self, ec)])"
proof -
  obtain ec op1 w1 where sub: "do_submit lib en (opcode op) build self op r (ls_world s) = Some (ec, op1, w1)"
    using assms by (auto simp: submit_and_wait_def bind_eq_Some_conv)
  let ?s1 = "s\<lparr>ls_world := w1, ls_submits := ls_submits s @ [(self, ec)]\<rparr>"
  have step1: "loop_step lib r view en opcode build s ?s1" using sub by (rule loop_submit)
  show ?thesis
  proof (cases "is_error ec")
    case True
    with assms sub have "w' = w1" by (simp add: submit_and_wait_def)
    with step1 show ?thesis by (intro exI [of _ ?s1]) auto
  next
    case False
    then obtain cres w2 where wait: "wait_for_result lib 0 r w1 = Some (cres, w2)"
      using assms sub by (auto simp: submit_and_wait_def bind_eq_Some_conv)
    with assms sub False have "w' = w2"
      by (auto simp: submit_and_wait_def bind_eq_Some_conv split: sum.splits if_splits)
    have step2: "loop_step lib r view en opcode build ?s1 (?s1\<lparr>ls_world := w2, ls_received := ls_received ?s1 @ received_of cres\<rparr>)"
      using wait by (intro loop_wait [where timeout = 0]) simp
    from \<open>w' = w2\<close> rtranclp.rtrancl_into_rtrancl [OF r_into_rtranclp [of "loop_step lib r view en opcode build", OF step1] step2]
    show ?thesis by (intro exI conjI) auto
  qed
qed

section \<open>Receiving everything\<close>

text \<open>A program that fetches results until there are none, at most \<open>n\<close> of them.\<close>

fun drain :: "'w liburing \<Rightarrow> nat \<Rightarrow> ring \<Rightarrow> 'w \<Rightarrow> (operation_result list \<times> 'w) option" where
  "drain lib 0 r w = Some ([], w)"
| "drain lib (Suc n) r w = do {
     (res, w) \<leftarrow> fetch_result lib r w;
     (case res of
        Inl _ \<Rightarrow> Some ([], w)
      | Inr c \<Rightarrow> do {
          (cs, w) \<leftarrow> drain lib n r w;
          Some (c # cs, w)
        })
   }"

text \<open>One fetch on a ring on which the kernel has nothing left to do.\<close>

lemma fetch_quiescent:
  assumes "documented_queues lib (raw_ring r) view" "valid r" "quiescent (view w)"
  shows "case v_cq (view w) of
      [] \<Rightarrow> \<exists>e w'. fetch_result lib r w = Some (Inl e, w') \<and> view w' = view w
    | c # rest \<Rightarrow> \<exists>w'. fetch_result lib r w = Some (Inr (operation_result_of c), w')
        \<and> view w' = (view w)\<lparr>v_cq := rest\<rparr>"
proof -
  obtain ev c w1 where peek: "lib_peek_cqe lib (raw_ring r) w = (ev, c, w1)" by (metis prod.exhaust)
  have "documented_cqe (lib_peek_cqe lib (raw_ring r)) view" using assms(1) by (simp add: documented_queues_def)
  then have moves: "kernel_moves (view w) (view w1)" and hd: "ev < 0 \<or> (\<exists>rest. v_cq (view w1) = c # rest)"
    using peek by (auto simp: documented_cqe_def split: prod.splits)
  from quiescent_moves [OF moves assms(3)] have same: "view w1 = view w" .
  let ?seen = "lib_cqe_seen lib (raw_ring r) w1"
  have "kernel_moves ((view w1)\<lparr>v_cq := tl (v_cq (view w1))\<rparr>) (view ?seen)"
    using assms(1) by (simp add: documented_queues_def)
  from quiescent_moves [OF this] have seen: "view ?seen = (view w)\<lparr>v_cq := tl (v_cq (view w))\<rparr>"
    using assms(3) same by (simp add: quiescent_def)
  have "ev < 0 \<Longrightarrow> v_cq (view w) = []"
    using assms(1) peek unfolding documented_queues_def by (metis fst_conv)
  with hd same show ?thesis
    by (cases "ev < 0") (auto simp: fetch_result_def native_def assms(2) peek fail_ev_def seen split: list.splits)
qed

lemma drain_quiescent:
  assumes "documented_queues lib (raw_ring r) view" "valid r"
  shows "quiescent (view (ls_world s)) \<Longrightarrow> length (v_cq (view (ls_world s))) \<le> n \<Longrightarrow>
    \<exists>w'. drain lib n r (ls_world s) = Some (map operation_result_of (v_cq (view (ls_world s))), w')
      \<and> view w' = empty_view
      \<and> (loop_step lib r view en opcode build)\<^sup>*\<^sup>* s
          (s\<lparr>ls_world := w', ls_received := ls_received s @ map operation_result_of (v_cq (view (ls_world s)))\<rparr>)"
proof (induction n arbitrary: s)
  case 0
  then show ?case by (auto simp: quiescent_def empty_view_def intro!: uring_view.equality)
next
  case (Suc n)
  note fetch = fetch_quiescent [OF assms Suc.prems(1)]
  show ?case
  proof (cases "v_cq (view (ls_world s))")
    case Nil
    with fetch obtain e w' where f: "fetch_result lib r (ls_world s) = Some (Inl e, w')" "view w' = view (ls_world s)"
      by auto
    from loop_fetch [OF f(1), of view en opcode build]
    have "loop_step lib r view en opcode build s (s\<lparr>ls_world := w'\<rparr>)" by (simp add: received_of_def)
    with f Nil Suc.prems(1) show ?thesis
      by (auto simp: quiescent_def empty_view_def intro!: uring_view.equality)
  next
    case (Cons c rest)
    with fetch obtain w1 where f: "fetch_result lib r (ls_world s) = Some (Inr (operation_result_of c), w1)"
      and v: "view w1 = (view (ls_world s))\<lparr>v_cq := rest\<rparr>" by auto
    let ?s = "s\<lparr>ls_world := w1, ls_received := ls_received s @ [operation_result_of c]\<rparr>"
    have step: "loop_step lib r view en opcode build s ?s"
      using loop_fetch [OF f, of view en opcode build] by (simp add: received_of_def)
    from Suc.IH [of ?s] v Cons Suc.prems obtain w' where
      "drain lib n r w1 = Some (map operation_result_of rest, w')" "view w' = empty_view"
      "(loop_step lib r view en opcode build)\<^sup>*\<^sup>* ?s
        (?s\<lparr>ls_world := w', ls_received := (ls_received s @ [operation_result_of c]) @ map operation_result_of rest\<rparr>)"
      by (auto simp: quiescent_def)
    with f Cons converse_rtranclp_into_rtranclp [of "loop_step lib r view en opcode build", OF step]
    show ?thesis by (intro exI [of _ w']) simp
  qed
qed

lemma loop_reachable_steps:
  "(loop_step lib r view en opcode build)\<^sup>*\<^sup>* s t \<Longrightarrow> loop_reachable lib r view en opcode build s \<Longrightarrow>
     loop_reachable lib r view en opcode build t"
  by (induction rule: rtranclp_induct) (auto intro: reach_step)

section \<open>A queue to run on\<close>

text \<open>
  A small liburing over the view itself: four entries, \<open>busy\<close> decides whether \<open>io_uring_submit\<close>
  fails with \<open>EBUSY\<close>, and a submitted request completes at once with the result 0.
\<close>

definition sample_tag :: "sqe_writes \<Rightarrow> u64 list" where
  "sample_tag ws = (case last ws of Set_data t \<Rightarrow> [t] | _ \<Rightarrow> [])"

definition sample_cq_entry :: "u64 \<Rightarrow> cqe" where
  "sample_cq_entry t = \<lparr>cqe_user_data = t, cqe_res = 0, cqe_flags = 0\<rparr>"

definition sample_flush :: "uring_view \<Rightarrow> uring_view" where
  "sample_flush v = v\<lparr>v_sq := [], v_cq := v_cq v @ map sample_cq_entry (v_sq v)\<rparr>"

definition sample_peek :: "uring_view \<Rightarrow> int \<times> cqe \<times> uring_view" where
  "sample_peek v = (case v_cq v of [] \<Rightarrow> (-11, sample_cq_entry 0, v) | c # _ \<Rightarrow> (0, c, v))"

definition queue_lib :: "bool \<Rightarrow> uring_view liburing" where
  "queue_lib busy =
    \<lparr>lib_queue_init_params = (\<lambda>_ _ w. (-38, invalid_ring, w)),
     lib_get_probe_ring = (\<lambda>_ w. (None, w)),
     lib_free_probe = (\<lambda>_ w. w),
     lib_register_sync_cancel = (\<lambda>_ _ w. (0, w)),
     lib_queue_exit = (\<lambda>_ w. w),
     lib_get_sqe = (\<lambda>_ v. (if length (v_sq v) < 4 then Some (length (v_sq v)) else None, v)),
     lib_write_sqe = (\<lambda>_ ws v. v\<lparr>v_sq := v_sq v @ sample_tag ws\<rparr>),
     lib_submit = (\<lambda>_ v. if busy then (-16, v) else (int (length (v_sq v)), sample_flush v)),
     lib_peek_cqe = (\<lambda>_. sample_peek),
     lib_wait_cqe = (\<lambda>_. sample_peek),
     lib_wait_cqe_timeout = (\<lambda>_ _. sample_peek),
     lib_cqe_seen = (\<lambda>_ v. v\<lparr>v_cq := tl (v_cq v)\<rparr>),
     lib_register = (\<lambda>_ _ w. (-38, w)),
     lib_setup_buf_ring = (\<lambda>_ _ _ _ w. (0, -38, w)),
     lib_free_buf_ring = (\<lambda>_ _ _ _ w. w),
     lib_buf_ring_mask = (\<lambda>_. 0),
     lib_buf_ring_add = (\<lambda>_ _ _ _ _ w. w),
     lib_buf_ring_advance = (\<lambda>_ _ w. w),
     lib_register_napi = (\<lambda>_ a b w. (-38, a, b, w)),
     lib_unregister_napi = (\<lambda>_ a b w. (-38, a, b, w)),
     lib_register_iowq_max_workers = (\<lambda>_ a b w. (-38, a, b, w))\<rparr>"

lemma sample_flush_moves: "kernel_moves v (sample_flush v)"
proof (induction "v_sq v" arbitrary: v)
  case Nil
  then have "sample_flush v = v" by (cases v) (simp add: sample_flush_def)
  then show ?case by simp
next
  case (Cons tag rest)
  let ?v1 = "v\<lparr>v_sq := rest, v_infl := add_mset tag (v_infl v)\<rparr>"
  let ?v2 = "?v1\<lparr>v_infl := v_infl v, v_cq := v_cq v @ [sample_cq_entry tag]\<rparr>"
  have s1: "kernel_step v ?v1" using Cons.hyps(2) by (intro kernel_consume) simp
  have s2: "kernel_step ?v1 ?v2"
    using kernel_complete [of "sample_cq_entry tag" ?v1] by (simp add: sample_cq_entry_def more_to_come_def)
  have m: "kernel_moves ?v2 (sample_flush ?v2)" by (rule Cons.hyps(1)) simp
  have "sample_flush ?v2 = sample_flush v"
    using Cons.hyps(2) [symmetric] by (simp add: sample_flush_def)
  with converse_rtranclp_into_rtranclp [of kernel_step, OF s1 converse_rtranclp_into_rtranclp [of kernel_step, OF s2 m]]
  show ?case by simp
qed

lemma sample_peek_documented: "documented_cqe sample_peek (\<lambda>v. v)"
  by (auto simp: documented_cqe_def sample_peek_def split: list.splits)

lemma queue_lib_documented: "documented_queues (queue_lib busy) raw (\<lambda>v. v)"
  using sample_peek_documented sample_flush_moves
  by (auto simp: documented_queues_def documented_get_sqe_def documented_submit_def queue_lib_def sample_tag_def
    sample_peek_def split: list.splits)

lemma queue_submit:
  "length (v_sq v) < 4 \<Longrightarrow> do_submit (queue_lib busy) True 0 management_build self op sample_ring v =
     Some (if busy then make_system_error_code 16 else no_error, op,
       if busy then v\<lparr>v_sq := v_sq v @ [self]\<rparr> else sample_flush (v\<lparr>v_sq := v_sq v @ [self]\<rparr>))"
proof -
  have "feature_test True 0 sample_ring = Some no_error" by (simp add: feature_test_def sample_ring_def)
  then show "length (v_sq v) < 4 \<Longrightarrow> ?thesis"
    by (simp add: do_submit_def to_sqe_def native_def submit_def management_build_def queue_lib_def sample_tag_def)
qed

section \<open>Properties\<close>


text \<open>
  C8. What was submitted is received: whenever the kernel has finished with everything passed to
  it, fetching results until there are none returns all queued completions, in their order, and
  leaves empty queues; by then every object whose submission reported no error has had a final
  completion for each such submission.
\<close>

theorem everything_is_received:
  assumes "documented_queues lib (raw_ring r) view" "valid r" "loop_reachable lib r view en opcode build s"
    and "quiescent (view (ls_world s))" "length (v_cq (view (ls_world s))) \<le> n"
  shows "\<exists>cs w'. drain lib n r (ls_world s) = Some (cs, w')
    \<and> cs = map operation_result_of (v_cq (view (ls_world s))) \<and> view w' = empty_view
    \<and> loop_reachable lib r view en opcode build (s\<lparr>ls_world := w', ls_received := ls_received s @ cs\<rparr>)
    \<and> submitted_ok s \<subseteq># result_finals (ls_received s @ cs) \<and> result_finals (ls_received s @ cs) \<subseteq># submitted s"
proof -
  let ?cs = "map operation_result_of (v_cq (view (ls_world s)))"
  obtain w' where d: "drain lib n r (ls_world s) = Some (?cs, w')" "view w' = empty_view"
    and steps: "(loop_step lib r view en opcode build)\<^sup>*\<^sup>* s (s\<lparr>ls_world := w', ls_received := ls_received s @ ?cs\<rparr>)"
    using drain_quiescent [OF assms(1,2,4,5)] by blast
  note reach = loop_reachable_steps [OF steps assms(3)]
  from loop_inv_reachable [OF assms(1) reach] d(2)
  have "submitted_ok s \<subseteq># result_finals (ls_received s @ ?cs) \<and> result_finals (ls_received s @ ?cs) \<subseteq># submitted s"
    by (simp add: loop_inv_def loop_account_def submitted_ok_def submitted_def)
  with d reach show ?thesis by blast
qed

text \<open>
  C14. A failed submission can still complete: when \<open>io_uring_submit\<close> fails, a coroutine
  awaiting the operation is resumed at once with the error, but the entry with the address of the
  operation stays outstanding, to be carried out with the next submission although the awaiting
  frame may be gone.
\<close>

theorem failed_submission_stays_outstanding:
  assumes "documented_queues lib (raw_ring r) view" "ring_inv r" "valid r" "\<not> opcode_unsupported en oc r"
    and "lib_get_sqe lib (raw_ring r) w = (Some i, w1)"
    and "lib_submit lib (raw_ring r) (lib_write_sqe lib i (snd (build op) @ [Set_data self]) w1) = (ev, w2)" "ev < 0"
  shows "await_suspend lib en oc build self op r w = Some (False, Inl (make_system_error_code (- ev)), fst (build op), w2)
    \<and> outstanding (view w2) = add_mset self (outstanding (view w))"
proof
  have "feature_test en oc r = Some no_error" using feature_test_valid [OF assms(2,3), of en oc] assms(4) by simp
  from do_submit_passed [where build = build, OF assms(3) this assms(5,6)] assms(7)
  show "await_suspend lib en oc build self op r w = Some (False, Inl (make_system_error_code (- ev)), fst (build op), w2)"
    by (simp add: await_suspend_def)
  show "outstanding (view w2) = add_mset self (outstanding (view w))"
    by (rule submit_written_outstanding [OF assms(1,5,6)])
qed

section \<open>Witnesses\<close>

definition sample_loop :: "uring_view loop_state" where
  "sample_loop = \<lparr>ls_world = sample_flush (empty_view\<lparr>v_sq := [512]\<rparr>), ls_submits = [(512, no_error)], ls_received = []\<rparr>"

lemma sample_loop_reachable:
  "loop_reachable (queue_lib False) sample_ring (\<lambda>v. v) True (\<lambda>_. 0) management_build sample_loop"
proof (rule reach_step)
  show "loop_reachable (queue_lib False) sample_ring (\<lambda>v. v) True (\<lambda>_. 0) management_build (loop_start empty_view)"
    by (rule reach_start) (rule refl)
  have "do_submit (queue_lib False) True 0 management_build 512 \<lparr>mo_ring_ptr = 256\<rparr> sample_ring empty_view
      = Some (no_error, \<lparr>mo_ring_ptr = 256\<rparr>, sample_flush (empty_view\<lparr>v_sq := [512]\<rparr>))"
    by (simp add: queue_submit empty_view_def)
  from loop_submit [where opcode = "\<lambda>_. 0" and s = "loop_start empty_view", simplified loop_start_def, simplified, OF this]
  show "loop_step (queue_lib False) sample_ring (\<lambda>v. v) True (\<lambda>_. 0) management_build (loop_start empty_view) sample_loop"
    by (simp add: loop_start_def sample_loop_def)
qed


theorem everything_is_received_witness:
  "\<exists>cs w'. drain (queue_lib False) 1 sample_ring (ls_world sample_loop) = Some (cs, w')
    \<and> w' = empty_view \<and> map or_cb cs = [512] \<and> {#512#} \<subseteq># result_finals cs"
proof -
  have v: "quiescent (ls_world sample_loop)" "v_cq (ls_world sample_loop) = [sample_cq_entry 512]"
    by (simp_all add: sample_loop_def sample_flush_def empty_view_def quiescent_def)
  then have "length (v_cq (ls_world sample_loop)) \<le> 1" by simp
  from everything_is_received [OF queue_lib_documented sample_ring_valid sample_loop_reachable v(1) this] v(2)
  show ?thesis by (auto simp: submitted_ok_def sample_loop_def sample_cq_entry_def operation_result_of_def)
qed

theorem failed_submission_stays_outstanding_witness:
  "\<exists>w2. await_suspend (queue_lib True) True 0 management_build 512 \<lparr>mo_ring_ptr = 256\<rparr> sample_ring empty_view
      = Some (False, Inl (make_system_error_code 16) :: int expected, \<lparr>mo_ring_ptr = 256\<rparr>, w2)
    \<and> outstanding w2 = {#512#}"
proof -
  let ?w = "empty_view\<lparr>v_sq := [512]\<rparr>"
  have op: "\<not> opcode_unsupported True 0 sample_ring" by (simp add: opcode_unsupported_def sample_ring_def)
  have g: "lib_get_sqe (queue_lib True) (raw_ring sample_ring) empty_view = (Some 0, empty_view)"
    by (simp add: queue_lib_def empty_view_def)
  have s: "lib_submit (queue_lib True) (raw_ring sample_ring) (lib_write_sqe (queue_lib True) 0
      (snd (management_build \<lparr>mo_ring_ptr = 256\<rparr>) @ [Set_data 512]) empty_view) = (-16, ?w)"
    by (simp add: queue_lib_def empty_view_def sample_tag_def)
  have "await_suspend (queue_lib True) True 0 management_build 512 \<lparr>mo_ring_ptr = 256\<rparr> sample_ring empty_view
      = Some (False, Inl (make_system_error_code (- (-16))) :: int expected, fst (management_build \<lparr>mo_ring_ptr = 256\<rparr>), ?w)
    \<and> outstanding ?w = add_mset 512 (outstanding empty_view)"
    by (rule failed_submission_stays_outstanding
      [where view = "\<lambda>v. v" and build = management_build and ev = "-16", OF queue_lib_documented sample_ring_inv sample_ring_valid op g s]) simp
  then show ?thesis by (auto simp: management_build_def)
qed

end
