(* ===== verification/Send_Recv.thy ===== *)
theory Send_Recv
  imports Sockets
begin

text \<open>
  \<open>include/iouxx/iouops/network/sendrecv.hpp\<close>: sending, zero-copy sending, message sending and
  receiving, single and multishot.
\<close>

section \<open>Members and setters\<close>

record send_recv_socket =
  sr_fd :: int
  sr_is_fixed :: bool

definition sr_socket :: "socket_arg \<Rightarrow> 'a send_recv_socket_scheme \<Rightarrow> 'a send_recv_socket_scheme" where
  "sr_socket a op = op\<lparr>sr_fd := fst (arg_target a), sr_is_fixed := snd (arg_target a)\<rparr>"

record send_op = send_recv_socket +
  sn_buf :: u64
  sn_len :: u64
  sn_buf_index :: int
  sn_flags :: u32
  sn_ring_flags :: u16

definition send_init :: send_op where
  "send_init = \<lparr>sr_fd = -1, sr_is_fixed = False, sn_buf = 0, sn_len = 0, sn_buf_index = -1, sn_flags = 0, sn_ring_flags = 0\<rparr>"

definition send_buffer :: "byte_span \<Rightarrow> int \<Rightarrow> send_op \<Rightarrow> send_op" where
  "send_buffer sp buf_index op = op\<lparr>sn_buf := sp_data sp, sn_len := sp_size sp, sn_buf_index := buf_index\<rparr>"

definition send_options :: "u32 \<Rightarrow> send_op \<Rightarrow> send_op" where
  "send_options flags op = op\<lparr>sn_flags := flags\<rparr>"

definition send_ring_options :: "u16 \<Rightarrow> send_op \<Rightarrow> send_op" where
  "send_ring_options prio op = op\<lparr>sn_ring_flags := prio\<rparr>"

record recv_op = send_recv_socket +
  rc_buf :: u64
  rc_len :: u64
  rc_buf_index :: int
  rc_flags :: u32

definition recv_init :: recv_op where
  "recv_init = \<lparr>sr_fd = -1, sr_is_fixed = False, rc_buf = 0, rc_len = 0, rc_buf_index = -1, rc_flags = 0\<rparr>"

definition recv_buffer :: "byte_span \<Rightarrow> int \<Rightarrow> recv_op \<Rightarrow> recv_op" where
  "recv_buffer sp buf_index op = op\<lparr>rc_buf := sp_data sp, rc_len := sp_size sp, rc_buf_index := buf_index\<rparr>"

definition recv_options :: "u32 \<Rightarrow> recv_op \<Rightarrow> recv_op" where
  "recv_options flags op = op\<lparr>rc_flags := flags\<rparr>"

record sendmsg_op = send_recv_socket +
  sm_msg :: msghdr
  sm_flags :: u32

definition sendmsg_message :: "msghdr \<Rightarrow> sendmsg_op \<Rightarrow> sendmsg_op" where
  "sendmsg_message hdr op = op\<lparr>sm_msg := hdr\<rparr>"

definition sendmsg_options :: "u32 \<Rightarrow> sendmsg_op \<Rightarrow> sendmsg_op" where
  "sendmsg_options flags op = op\<lparr>sm_flags := flags\<rparr>"

text \<open>The registered buffer: \<open>if (buf_index >= 0)\<close> the index is stored and the flag added.\<close>

definition buf_index_writes :: "int \<Rightarrow> sqe_writes" where
  "buf_index_writes buf_index =
     (if buf_index \<ge> 0 then [Set_buf_index (word_of_int buf_index), Or_ioprio IORING_RECVSEND_FIXED_BUF] else [])"

section \<open>Sending\<close>

definition send_opcode :: u8 where
  "send_opcode = IORING_OP_SEND"

definition send_build :: "send_op \<Rightarrow> send_op \<times> sqe_writes" where
  "send_build op =
     (op, [Prep (Prep_send (sr_fd op) (sn_buf op) (sn_len op) (sn_flags op)), Set_ioprio (sn_ring_flags op)]
       @ fixed_flag (sr_is_fixed op) @ buf_index_writes (sn_buf_index op))"

definition send_do_callback :: "send_op \<Rightarrow> int \<Rightarrow> u32 \<Rightarrow> u64 invocation" where
  "send_do_callback op ev fl = invoke_result word_of_int ev"

datatype send_zc_result =
    Buffer_free_notification
  | Send_result_more u64
  | Send_result_nomore u64

definition send_zc_opcode :: u8 where
  "send_zc_opcode = IORING_OP_SEND_ZC"

definition send_zc_build :: "send_op \<Rightarrow> send_op \<times> sqe_writes" where
  "send_zc_build op =
     (op, [Prep (Prep_send_zc (sr_fd op) (sn_buf op) (sn_len op) (sn_flags op) (ucast (sn_ring_flags op)))]
       @ fixed_flag (sr_is_fixed op) @ buf_index_writes (sn_buf_index op))"

definition send_zc_do_callback :: "send_op \<Rightarrow> int \<Rightarrow> u32 \<Rightarrow> send_zc_result invocation" where
  "send_zc_do_callback op ev fl =
     (if ev \<ge> 0 then
        let more = fl AND IORING_CQE_F_MORE \<noteq> 0
        in if more then Invoke_value (Send_result_more (word_of_int ev))
           else let notify = fl AND IORING_CQE_F_NOTIF \<noteq> 0
                in if notify then Invoke_value Buffer_free_notification
                   else Invoke_value (Send_result_nomore (word_of_int ev))
      else Invoke_unexpected (make_system_error_code (- ev)))"

definition sendmsg_opcode :: u8 where
  "sendmsg_opcode = IORING_OP_SENDMSG"

definition sendmsg_build :: "sendmsg_op \<Rightarrow> sendmsg_op \<times> sqe_writes" where
  "sendmsg_build op = (op, Prep (Prep_sendmsg (sr_fd op) (sm_msg op) (sm_flags op)) # fixed_flag (sr_is_fixed op))"

definition sendmsg_do_callback :: "sendmsg_op \<Rightarrow> int \<Rightarrow> u32 \<Rightarrow> u64 invocation" where
  "sendmsg_do_callback op ev fl = invoke_result word_of_int ev"

definition sendmsg_zc_opcode :: u8 where
  "sendmsg_zc_opcode = IORING_OP_SENDMSG_ZC"

definition sendmsg_zc_build :: "sendmsg_op \<Rightarrow> sendmsg_op \<times> sqe_writes" where
  "sendmsg_zc_build op = (op, Prep (Prep_sendmsg_zc (sr_fd op) (sm_msg op) (sm_flags op)) # fixed_flag (sr_is_fixed op))"

definition sendmsg_zc_do_callback :: "sendmsg_op \<Rightarrow> int \<Rightarrow> u32 \<Rightarrow> send_zc_result invocation" where
  "sendmsg_zc_do_callback op ev fl =
     (if ev \<ge> 0 then
        let more = fl AND IORING_CQE_F_MORE \<noteq> 0
        in if more then Invoke_value (Send_result_more (word_of_int ev))
           else let notify = fl AND IORING_CQE_F_NOTIF \<noteq> 0
                in if notify then Invoke_value Buffer_free_notification
                   else Invoke_value (Send_result_nomore (word_of_int ev))
      else Invoke_unexpected (make_system_error_code (- ev)))"

section \<open>Receiving\<close>

definition recv_opcode :: u8 where
  "recv_opcode = IORING_OP_RECV"

definition recv_build :: "recv_op \<Rightarrow> recv_op \<times> sqe_writes" where
  "recv_build op =
     (op, [Prep (Prep_recv (sr_fd op) (rc_buf op) (rc_len op) (rc_flags op))]
       @ fixed_flag (sr_is_fixed op) @ buf_index_writes (rc_buf_index op))"

definition recv_do_callback :: "recv_op \<Rightarrow> int \<Rightarrow> u32 \<Rightarrow> byte_span invocation" where
  "recv_do_callback op ev fl = invoke_result (\<lambda>ev. \<lparr>sp_data = rc_buf op, sp_size = word_of_int ev\<rparr>) ev"

record multishot_recv_result =
  mr_data :: byte_span
  mr_more :: bool

definition multishot_recv_opcode :: u8 where
  "multishot_recv_opcode = IORING_OP_RECV"

definition multishot_recv_build :: "recv_op \<Rightarrow> recv_op \<times> sqe_writes" where
  "multishot_recv_build op =
     (op, [Prep (Prep_recv_multishot (sr_fd op) (rc_buf op) (rc_len op) (rc_flags op))]
       @ fixed_flag (sr_is_fixed op) @ buf_index_writes (rc_buf_index op))"

definition multishot_recv_do_callback :: "recv_op \<Rightarrow> int \<Rightarrow> u32 \<Rightarrow> multishot_recv_result invocation" where
  "multishot_recv_do_callback op ev fl =
     invoke_result (\<lambda>ev. \<lparr>mr_data = \<lparr>sp_data = rc_buf op, sp_size = word_of_int ev\<rparr>, mr_more = cqe_more fl\<rparr>) ev"

section \<open>The contracts\<close>

lemma buf_index_wf [op_simps]: "list_all (\<lambda>x. \<not> is_prep x \<and> \<not> is_set_data x) (buf_index_writes i)"
  by (simp add: buf_index_writes_def)

lemma fixed_in_fixed_flag [op_simps]: "Or_flags IOSQE_FIXED_FILE \<in> set (fixed_flag b) \<longleftrightarrow> b"
  by (simp add: fixed_flag_def)

lemma fixed_in_buf_index [op_simps]: "Or_flags IOSQE_FIXED_FILE \<notin> set (buf_index_writes i)"
  by (simp add: buf_index_writes_def)

lemma send_zc_error [op_simps]:
  "invocation_error (send_zc_do_callback op ev fl) = (if ev \<ge> 0 then None else Some (make_system_error_code (- ev)))"
  "invocation_error (sendmsg_zc_do_callback op' ev fl) = (if ev \<ge> 0 then None else Some (make_system_error_code (- ev)))"
  by (simp_all add: send_zc_do_callback_def sendmsg_zc_do_callback_def Let_def)

lemmas transfer_defs [op_simps] =
  send_build_def send_zc_build_def sendmsg_build_def sendmsg_zc_build_def recv_build_def multishot_recv_build_def
  send_do_callback_def sendmsg_do_callback_def recv_do_callback_def multishot_recv_do_callback_def

interpretation socket_send: targeted_operation send_build send_do_callback "\<lambda>_ ev. ev \<ge> 0" sr_is_fixed
  by unfold_locales (simp_all add: op_simps sqe_fixed_file_def)

interpretation socket_send_zc: targeted_operation send_zc_build send_zc_do_callback "\<lambda>_ ev. ev \<ge> 0" sr_is_fixed
  by unfold_locales (simp_all add: op_simps sqe_fixed_file_def)

interpretation socket_sendmsg: targeted_operation sendmsg_build sendmsg_do_callback "\<lambda>_ ev. ev \<ge> 0" sr_is_fixed
  by unfold_locales (simp_all add: op_simps sqe_fixed_file_def)

interpretation socket_sendmsg_zc: targeted_operation sendmsg_zc_build sendmsg_zc_do_callback "\<lambda>_ ev. ev \<ge> 0" sr_is_fixed
  by unfold_locales (simp_all add: op_simps sqe_fixed_file_def)

interpretation socket_recv: targeted_operation recv_build recv_do_callback "\<lambda>_ ev. ev \<ge> 0" sr_is_fixed
  by unfold_locales (simp_all add: op_simps sqe_fixed_file_def)

interpretation socket_multishot_recv:
  targeted_operation multishot_recv_build multishot_recv_do_callback "\<lambda>_ ev. ev \<ge> 0" sr_is_fixed
  by unfold_locales (simp_all add: op_simps sqe_fixed_file_def)

section \<open>The completions of a zero-copy send\<close>

text \<open>
  A zero-copy send completes with one entry when it needs no notification, and otherwise with the
  result, flagged \<open>IORING_CQE_F_MORE\<close>, followed by a notification, flagged \<open>IORING_CQE_F_NOTIF\<close>; a
  failed request may be followed by a notification, too. The callback sees each of them as one event.
\<close>

inductive zc_completions :: "(int \<times> u32) list \<Rightarrow> bool" where
  zc_single: "fl AND IORING_CQE_F_MORE = 0 \<Longrightarrow> fl AND IORING_CQE_F_NOTIF = 0 \<Longrightarrow> zc_completions [(ev, fl)]"
| zc_double: "fl AND IORING_CQE_F_MORE \<noteq> 0 \<Longrightarrow>
    0 \<le> ev' \<Longrightarrow> fl' AND IORING_CQE_F_MORE = 0 \<Longrightarrow> fl' AND IORING_CQE_F_NOTIF \<noteq> 0 \<Longrightarrow>
    zc_completions [(ev, fl), (ev', fl')]"

text \<open>
  When the callback takes the buffer to be free: after an error, after a result without more to
  come, after the notification.
\<close>

fun zc_releases :: "send_zc_result invocation \<Rightarrow> bool" where
  "zc_releases (Invoke_value (Send_result_more _)) = False"
| "zc_releases _ = True"



end
