(* ===== verification/Operation_Objects.thy ===== *)
theory Operation_Objects
  imports Event_Loop Sock_Cmd Send_Recv
begin

text \<open>
  Operation objects as the application creates them: what the constructor of every operation class
  puts into its base and its members, the factory functions \<open>make\<close>, \<open>make_in_place\<close>, \<open>make_sync\<close> and
  \<open>make_await\<close> of a ring, the preparation of an awaited operation, and the type erasure through
  which a completion finds the \<open>do_callback\<close> of its class. Last, whole synchronous operations from
  creation to result.
\<close>

section \<open>Objects\<close>

text \<open>
  The members of an object: those of \<open>operation_base\<close> (the erased \<open>do_callback\<close> of the class and the
  ring), those of the class, and the callback. The two constructors of a class, from a callback and
  with the callback constructed in place, differ only in how \<open>f\<close> comes about.
\<close>

record ('op, 'cb, 'r) operation_object =
  ob_do_callback :: "'op \<Rightarrow> int \<Rightarrow> u32 \<Rightarrow> 'r invocation"
  ob_ring :: u64
  ob_members :: 'op
  ob_callback :: 'cb

definition operation_object_of ::
  "('op \<Rightarrow> int \<Rightarrow> u32 \<Rightarrow> 'r invocation) \<Rightarrow> 'op \<Rightarrow> u64 \<Rightarrow> 'cb \<Rightarrow> ('op, 'cb, 'r) operation_object" where
  "operation_object_of do_callback members ring f =
     \<lparr>ob_do_callback = do_callback, ob_ring = ring, ob_members = members, ob_callback = f\<rparr>"

text \<open>The object seen as its base class; \<open>invoke\<close> calls the callback.\<close>

definition erase ::
  "('cb \<Rightarrow> 'r invocation \<Rightarrow> 'w \<Rightarrow> 'w option) \<Rightarrow> ('op, 'cb, 'r) operation_object \<Rightarrow> 'w operation_base" where
  "erase invoke ob = operation_base_ctor (ob_do_callback ob (ob_members ob)) (invoke (ob_callback ob)) (ob_ring ob)"

lemma result_callback_object:
  "heap (or_cb c) = Some (erase invoke ob) \<Longrightarrow>
     result_callback heap c w = invoke (ob_callback ob) (ob_do_callback ob (ob_members ob) (or_res c) (or_cqe_flags c)) w"
  unfolding erase_def by (rule result_callback_erased)

section \<open>Constructors: basic operations\<close>

definition ring_management_operation :: "u64 \<Rightarrow> 'cb \<Rightarrow> (management_op, 'cb, management_info) operation_object" where
  "ring_management_operation ring f = operation_object_of management_do_callback \<lparr>mo_ring_ptr = ring\<rparr> ring f"

definition noop_operation ::
  "callback_kind \<Rightarrow> u64 \<Rightarrow> 'cb \<Rightarrow> (noop_op, 'cb, unit) operation_object" where
  "noop_operation k ring f = operation_object_of (noop_do_callback k) noop_init ring f"

definition noop_void_operation :: "u64 \<Rightarrow> (unit, unit, unit) operation_object" where
  "noop_void_operation ring = operation_object_of ignore_callback () ring ()"

definition timeout_operation ::
  "callback_kind \<Rightarrow> u64 \<Rightarrow> 'cb \<Rightarrow> (timeout_base, 'cb, unit) operation_object" where
  "timeout_operation k ring f = operation_object_of (timeout_do_callback k) timeout_base_init ring f"

definition multishot_timeout_operation ::
  "u64 \<Rightarrow> 'cb \<Rightarrow> (multishot_timeout_op, 'cb, bool) operation_object" where
  "multishot_timeout_operation ring f =
     operation_object_of multishot_timeout_do_callback multishot_timeout_init ring f"

definition timeout_cancel_operation ::
  "callback_kind \<Rightarrow> u64 \<Rightarrow> 'cb \<Rightarrow> (timeout_cancel_op, 'cb, unit) operation_object" where
  "timeout_cancel_operation k ring f =
     operation_object_of (timeout_cancel_do_callback k) timeout_cancel_init ring f"

definition timeout_cancel_void_operation :: "u64 \<Rightarrow> (timeout_cancel_op, unit, unit) operation_object" where
  "timeout_cancel_void_operation ring = operation_object_of ignore_callback timeout_cancel_init ring ()"

definition cancel_operation ::
  "u64 \<Rightarrow> 'cb \<Rightarrow> (cancel_op, 'cb, u64) operation_object" where
  "cancel_operation ring f = operation_object_of cancel_do_callback cancel_init ring f"

definition cancel_void_operation :: "u64 \<Rightarrow> (cancel_op, unit, unit) operation_object" where
  "cancel_void_operation ring = operation_object_of ignore_callback cancel_init ring ()"

definition cancel_fd_operation ::
  "u64 \<Rightarrow> 'cb \<Rightarrow> (cancel_fd_op, 'cb, u64) operation_object" where
  "cancel_fd_operation ring f = operation_object_of cancel_fd_do_callback cancel_fd_init ring f"

definition cancel_fd_void_operation :: "u64 \<Rightarrow> (cancel_fd_op, unit, unit) operation_object" where
  "cancel_fd_void_operation ring = operation_object_of ignore_callback cancel_fd_init ring ()"

definition futex_wait_operation ::
  "callback_kind \<Rightarrow> u64 \<Rightarrow> 'cb \<Rightarrow> (futex_wait_op, 'cb, unit) operation_object" where
  "futex_wait_operation k ring f = operation_object_of (futex_wait_do_callback k) futex_wait_init ring f"

definition futex_wake_operation ::
  "u64 \<Rightarrow> 'cb \<Rightarrow> (futex_wake_op, 'cb, u64) operation_object" where
  "futex_wake_operation ring f = operation_object_of futex_wake_do_callback futex_wake_init ring f"

definition futex_waitv_operation ::
  "u64 \<Rightarrow> 'cb \<Rightarrow> (futex_waitv_op, 'cb, u64) operation_object" where
  "futex_waitv_operation ring f =
     operation_object_of futex_waitv_do_callback \<lparr>fv_waitv_args = []\<rparr> ring f"

section \<open>Constructors: files\<close>

definition file_open_operation ::
  "u64 \<Rightarrow> 'cb \<Rightarrow> (file_open_op, 'cb, file_handle) operation_object" where
  "file_open_operation ring f = operation_object_of file_open_do_callback file_open_init ring f"

definition fixed_file_open_operation ::
  "u64 \<Rightarrow> 'cb \<Rightarrow> (fixed_file_open_op, 'cb, fixed_file) operation_object" where
  "fixed_file_open_operation ring f =
     operation_object_of fixed_file_open_do_callback fixed_file_open_init ring f"

definition directory_open_operation ::
  "u64 \<Rightarrow> 'cb \<Rightarrow> (file_open_op, 'cb, file_handle) operation_object" where
  "directory_open_operation ring f =
     operation_object_of directory_open_do_callback file_open_init ring f"

definition file_close_operation ::
  "callback_kind \<Rightarrow> u64 \<Rightarrow> 'cb \<Rightarrow> (file_close_op, 'cb, unit) operation_object" where
  "file_close_operation k ring f = operation_object_of (file_close_do_callback k) file_close_init ring f"

definition fixed_file_register_operation ::
  "u64 \<Rightarrow> 'cb \<Rightarrow> (file_register_op, 'cb, fixed_file) operation_object" where
  "fixed_file_register_operation ring f =
     operation_object_of file_register_do_callback file_register_init ring f"

definition fixed_file_register_batch_operation ::
  "u64 \<Rightarrow> 'cb \<Rightarrow> (register_batch_op, 'cb, register_batch_result) operation_object" where
  "fixed_file_register_batch_operation ring f =
     operation_object_of register_batch_do_callback \<lparr>rb_fds = [], rb_off = IORING_FILE_INDEX_ALLOC\<rparr> ring f"

definition fixed_file_install_operation ::
  "u64 \<Rightarrow> 'cb \<Rightarrow> (file_install_op, 'cb, file_handle) operation_object" where
  "fixed_file_install_operation ring f =
     operation_object_of file_install_do_callback file_install_init ring f"

definition file_read_operation ::
  "u64 \<Rightarrow> 'cb \<Rightarrow> (file_rw_op, 'cb, int) operation_object" where
  "file_read_operation ring f = operation_object_of file_read_do_callback file_rw_init ring f"

definition file_read_fixed_operation ::
  "u64 \<Rightarrow> 'cb \<Rightarrow> (file_rw_op, 'cb, int) operation_object" where
  "file_read_fixed_operation ring f =
     operation_object_of file_read_fixed_do_callback file_rw_init ring f"

definition file_readv_operation ::
  "nat \<Rightarrow> u64 \<Rightarrow> 'cb \<Rightarrow> (file_vec_op, 'cb, int) operation_object" where
  "file_readv_operation max_iovecs ring f =
     operation_object_of file_readv_do_callback (file_vec_init max_iovecs) ring f"

definition file_readv_fixed_operation ::
  "nat \<Rightarrow> u64 \<Rightarrow> 'cb \<Rightarrow> (file_vec_op, 'cb, int) operation_object" where
  "file_readv_fixed_operation max_iovecs ring f =
     operation_object_of file_readv_fixed_do_callback (file_vec_init max_iovecs) ring f"

definition file_write_operation ::
  "u64 \<Rightarrow> 'cb \<Rightarrow> (file_rw_op, 'cb, int) operation_object" where
  "file_write_operation ring f = operation_object_of file_write_do_callback file_rw_init ring f"

definition file_write_fixed_operation ::
  "u64 \<Rightarrow> 'cb \<Rightarrow> (file_rw_op, 'cb, int) operation_object" where
  "file_write_fixed_operation ring f =
     operation_object_of file_write_fixed_do_callback file_rw_init ring f"

definition file_writev_operation ::
  "nat \<Rightarrow> u64 \<Rightarrow> 'cb \<Rightarrow> (file_vec_op, 'cb, int) operation_object" where
  "file_writev_operation max_iovecs ring f =
     operation_object_of file_writev_do_callback (file_vec_init max_iovecs) ring f"

definition file_writev_fixed_operation ::
  "nat \<Rightarrow> u64 \<Rightarrow> 'cb \<Rightarrow> (file_vec_op, 'cb, int) operation_object" where
  "file_writev_fixed_operation max_iovecs ring f =
     operation_object_of file_writev_fixed_do_callback (file_vec_init max_iovecs) ring f"

definition unlink_operation ::
  "callback_kind \<Rightarrow> u64 \<Rightarrow> 'cb \<Rightarrow> (unlink_op, 'cb, unit) operation_object" where
  "unlink_operation k ring f =
     operation_object_of (unlink_do_callback k) (single_path_op.extend single_path_init \<lparr>ul_flags = 0\<rparr>) ring f"

definition rename_operation ::
  "callback_kind \<Rightarrow> u64 \<Rightarrow> 'cb \<Rightarrow> (rename_op, 'cb, unit) operation_object" where
  "rename_operation k ring f =
     operation_object_of (rename_do_callback k) (dual_path_op.extend dual_path_init \<lparr>rn_flags = 0\<rparr>) ring f"

definition mkdir_operation ::
  "callback_kind \<Rightarrow> u64 \<Rightarrow> 'cb \<Rightarrow> (mkdir_op, 'cb, unit) operation_object" where
  "mkdir_operation k ring f =
     operation_object_of (mkdir_do_callback k) (single_path_op.extend single_path_init \<lparr>mk_mode = 0\<rparr>) ring f"

definition symlink_operation ::
  "callback_kind \<Rightarrow> u64 \<Rightarrow> 'cb \<Rightarrow> (symlink_op, 'cb, unit) operation_object" where
  "symlink_operation k ring f = operation_object_of (symlink_do_callback k) symlink_init ring f"

definition link_operation ::
  "callback_kind \<Rightarrow> u64 \<Rightarrow> 'cb \<Rightarrow> (link_op, 'cb, unit) operation_object" where
  "link_operation k ring f =
     operation_object_of (link_do_callback k) (dual_path_op.extend dual_path_init \<lparr>ln_flags = 0\<rparr>) ring f"

definition file_poll_add_operation ::
  "u64 \<Rightarrow> 'cb \<Rightarrow> (poll_op, 'cb, u32) operation_object" where
  "file_poll_add_operation ring f = operation_object_of poll_add_do_callback poll_init ring f"

definition file_poll_multishot_operation ::
  "u64 \<Rightarrow> 'cb \<Rightarrow> (poll_op, 'cb, multishot_poll_result) operation_object" where
  "file_poll_multishot_operation ring f =
     operation_object_of poll_multishot_do_callback poll_init ring f"

definition file_poll_remove_operation ::
  "callback_kind \<Rightarrow> u64 \<Rightarrow> 'cb \<Rightarrow> (poll_remove_op, 'cb, unit) operation_object" where
  "file_poll_remove_operation k ring f =
     operation_object_of (poll_remove_do_callback k) \<lparr>pr_id = id_default\<rparr> ring f"

definition file_poll_update_operation ::
  "callback_kind \<Rightarrow> u64 \<Rightarrow> 'cb \<Rightarrow> (poll_update_op, 'cb, unit) operation_object" where
  "file_poll_update_operation k ring f =
     operation_object_of (poll_update_do_callback k) poll_update_init ring f"

section \<open>Constructors: sockets\<close>

definition sendmsg_default :: sendmsg_op where
  "sendmsg_default =
     \<lparr>sr_fd = -1, sr_is_fixed = False,
      sm_msg = \<lparr>msg_name = None, msg_iov = [], msg_control = [], msg_flags = 0\<rparr>, sm_flags = 0\<rparr>"

definition socket_open_operation ::
  "u64 \<Rightarrow> 'cb \<Rightarrow> (socket_config, 'cb, socket) operation_object" where
  "socket_open_operation ring f =
     operation_object_of socket_open_do_callback socket_config_default ring f"

definition fixed_socket_open_operation ::
  "u64 \<Rightarrow> 'cb \<Rightarrow> (fixed_socket_open_op, 'cb, fixed_socket) operation_object" where
  "fixed_socket_open_operation ring f =
     operation_object_of fixed_socket_open_do_callback fixed_socket_open_init ring f"

definition socket_close_operation ::
  "callback_kind \<Rightarrow> u64 \<Rightarrow> 'cb \<Rightarrow> (socket_close_op, 'cb, unit) operation_object" where
  "socket_close_operation k ring f =
     operation_object_of (socket_close_do_callback k) socket_close_init ring f"

definition socket_bind_operation ::
  "callback_kind \<Rightarrow> u64 \<Rightarrow> 'cb \<Rightarrow> (bind_op, 'cb, unit) operation_object" where
  "socket_bind_operation k ring f =
     operation_object_of (bind_do_callback k) \<lparr>bi_sock = Plain_socket socket_default, bi_sockaddr = Sa_unspec\<rparr> ring f"

definition socket_listen_operation ::
  "callback_kind \<Rightarrow> u64 \<Rightarrow> 'cb \<Rightarrow> (listen_op, 'cb, unit) operation_object" where
  "socket_listen_operation k ring f = operation_object_of (listen_do_callback k) listen_init ring f"

definition socket_connect_operation ::
  "callback_kind \<Rightarrow> u64 \<Rightarrow> 'cb \<Rightarrow> (connect_op, 'cb, unit) operation_object" where
  "socket_connect_operation k ring f =
     operation_object_of (connect_do_callback k) \<lparr>co_sock = Plain_socket socket_default, co_sockaddr = Sa_unspec\<rparr> ring f"

definition socket_accept_peer_operation ::
  "(sys_sockaddr \<Rightarrow> nat \<Rightarrow> 'i option) \<Rightarrow> nat \<Rightarrow> u64 \<Rightarrow> 'cb \<Rightarrow> (accept_op, 'cb, 'i accept_result) operation_object" where
  "socket_accept_peer_operation from_sys sys_size ring f =
     operation_object_of (accept_do_callback from_sys) (accept_init sys_size) ring f"

definition socket_accept_operation ::
  "u64 \<Rightarrow> 'cb \<Rightarrow> (socket, 'cb, connection) operation_object" where
  "socket_accept_operation ring f = operation_object_of socket_accept_do_callback socket_default ring f"

definition fixed_socket_accept_peer_operation ::
  "(sys_sockaddr \<Rightarrow> nat \<Rightarrow> 'i option) \<Rightarrow> nat \<Rightarrow> u64 \<Rightarrow> 'cb \<Rightarrow> (fixed_accept_peer_op, 'cb, 'i fixed_accept_result) operation_object" where
  "fixed_socket_accept_peer_operation from_sys sys_size ring f =
     operation_object_of (fixed_accept_peer_do_callback from_sys) (fixed_accept_op.extend fixed_accept_init \<lparr>fa_sockaddr = Sa_unspec, fa_addrlen = sys_size\<rparr>) ring f"

definition fixed_socket_accept_operation ::
  "u64 \<Rightarrow> 'cb \<Rightarrow> (fixed_accept_op, 'cb, fixed_connection) operation_object" where
  "fixed_socket_accept_operation ring f =
     operation_object_of fixed_accept_do_callback fixed_accept_init ring f"

definition socket_multishot_accept_operation ::
  "u64 \<Rightarrow> 'cb \<Rightarrow> (socket, 'cb, multishot_accept_result) operation_object" where
  "socket_multishot_accept_operation ring f =
     operation_object_of multishot_accept_do_callback socket_default ring f"

definition fixed_socket_multishot_accept_operation ::
  "u64 \<Rightarrow> 'cb \<Rightarrow> (fixed_socket, 'cb, multishot_fixed_accept_result) operation_object" where
  "fixed_socket_multishot_accept_operation ring f =
     operation_object_of multishot_fixed_accept_do_callback fixed_socket_default ring f"

definition socket_shutdown_operation ::
  "callback_kind \<Rightarrow> u64 \<Rightarrow> 'cb \<Rightarrow> (shutdown_op, 'cb, unit) operation_object" where
  "socket_shutdown_operation k ring f =
     operation_object_of (shutdown_do_callback k) shutdown_init ring f"

definition socket_send_operation ::
  "u64 \<Rightarrow> 'cb \<Rightarrow> (send_op, 'cb, u64) operation_object" where
  "socket_send_operation ring f = operation_object_of send_do_callback send_init ring f"

definition socket_send_zc_operation ::
  "u64 \<Rightarrow> 'cb \<Rightarrow> (send_op, 'cb, send_zc_result) operation_object" where
  "socket_send_zc_operation ring f = operation_object_of send_zc_do_callback send_init ring f"

definition socket_sendmsg_operation ::
  "u64 \<Rightarrow> 'cb \<Rightarrow> (sendmsg_op, 'cb, u64) operation_object" where
  "socket_sendmsg_operation ring f = operation_object_of sendmsg_do_callback sendmsg_default ring f"

definition socket_sendmsg_zc_operation ::
  "u64 \<Rightarrow> 'cb \<Rightarrow> (sendmsg_op, 'cb, send_zc_result) operation_object" where
  "socket_sendmsg_zc_operation ring f =
     operation_object_of sendmsg_zc_do_callback sendmsg_default ring f"

definition socket_recv_operation ::
  "u64 \<Rightarrow> 'cb \<Rightarrow> (recv_op, 'cb, byte_span) operation_object" where
  "socket_recv_operation ring f = operation_object_of recv_do_callback recv_init ring f"

definition socket_multishot_recv_operation ::
  "u64 \<Rightarrow> 'cb \<Rightarrow> (recv_op, 'cb, multishot_recv_result) operation_object" where
  "socket_multishot_recv_operation ring f =
     operation_object_of multishot_recv_do_callback recv_init ring f"

definition socket_setoption_operation ::
  "sockopt \<Rightarrow> u64 \<Rightarrow> 'cb \<Rightarrow> (sockopt_op, 'cb, unit) operation_object" where
  "socket_setoption_operation opt ring f =
     operation_object_of setoption_do_callback (sockopt_init opt) ring f"

definition socket_getoption_operation ::
  "sockopt \<Rightarrow> u64 \<Rightarrow> 'cb \<Rightarrow> (sockopt_op, 'cb, option_result) operation_object" where
  "socket_getoption_operation opt ring f =
     operation_object_of (getoption_do_callback opt) (sockopt_init opt) ring f"

definition socket_getsockname_operation ::
  "(sys_sockaddr \<Rightarrow> nat \<Rightarrow> 'i option) \<Rightarrow> nat \<Rightarrow> u64 \<Rightarrow> 'cb \<Rightarrow> (getsockname_op, 'cb, 'i) operation_object" where
  "socket_getsockname_operation from_sys sys_size ring f =
     operation_object_of (getsockname_do_callback from_sys) (getsockname_init sys_size) ring f"

section \<open>Factory functions\<close>

text \<open>
  \<open>ctor\<close> is the constructor of the operation class given as template argument; all of them assert
  that the ring is initialised. A callback constructed in place comes from arguments \<open>args\<close>.
\<close>

definition make :: "(u64 \<Rightarrow> 'cb \<Rightarrow> 'ob) \<Rightarrow> 'cb \<Rightarrow> ring \<Rightarrow> 'ob option" where
  "make ctor callback r = do { IOUXX_ASSERT (valid r); Some (ctor (ring_addr r) callback) }"

definition make_no_callback :: "(u64 \<Rightarrow> 'ob) \<Rightarrow> ring \<Rightarrow> 'ob option" where
  "make_no_callback ctor r = do { IOUXX_ASSERT (valid r); Some (ctor (ring_addr r)) }"

definition make_emplaced :: "(u64 \<Rightarrow> 'cb \<Rightarrow> 'ob) \<Rightarrow> ('args \<Rightarrow> 'cb) \<Rightarrow> 'args \<Rightarrow> ring \<Rightarrow> 'ob option" where
  "make_emplaced ctor construct args r = do { IOUXX_ASSERT (valid r); Some (ctor (ring_addr r) (construct args)) }"

definition make_in_place :: "(u64 \<Rightarrow> 'cb \<Rightarrow> 'ob) \<Rightarrow> ('args \<Rightarrow> 'cb) \<Rightarrow> 'args \<Rightarrow> ring \<Rightarrow> 'ob option" where
  "make_in_place ctor construct args r = do { IOUXX_ASSERT (valid r); Some (ctor (ring_addr r) (construct args)) }"

text \<open>A \<open>syncwait_callback\<close> is its result slot.\<close>

definition make_sync :: "(u64 \<Rightarrow> 'r expected \<Rightarrow> 'ob) \<Rightarrow> ring \<Rightarrow> 'ob option" where
  "make_sync ctor r = do { IOUXX_ASSERT (valid r); Some (ctor (ring_addr r) initial_result) }"

text \<open>
  An \<open>awaiter_callback\<close>: the addresses of the result and of the coroutine, null at first, and the
  cancel handler. The handler is \<open>cancel_handler<Promise>\<close> of the promise type \<open>'p\<close> it was set for.
\<close>

record 'p awaiter_callback =
  aw_result :: u64
  aw_cancel_handler :: "'p option"
  aw_handle :: u64

definition awaiter_callback_default :: "'p awaiter_callback" where
  "awaiter_callback_default = \<lparr>aw_result = 0, aw_cancel_handler = None, aw_handle = 0\<rparr>"

definition make_await :: "(u64 \<Rightarrow> 'p awaiter_callback \<Rightarrow> 'ob) \<Rightarrow> ring \<Rightarrow> 'ob option" where
  "make_await ctor r = do { IOUXX_ASSERT (valid r); Some (ctor (ring_addr r) awaiter_callback_default) }"

text \<open>\<open>unhandled\<close> says which promise types have \<open>unhandled_stopped\<close>.\<close>

definition setup_awaiter_callback ::
  "('p \<Rightarrow> bool) \<Rightarrow> 'p \<Rightarrow> u64 \<Rightarrow> u64 \<Rightarrow> 'p awaiter_callback \<Rightarrow> 'p awaiter_callback" where
  "setup_awaiter_callback unhandled promise handle result cb =
     (let cb = cb\<lparr>aw_handle := handle, aw_result := result\<rparr>
      in if unhandled promise then cb\<lparr>aw_cancel_handler := Some promise\<rparr> else cb)"

text \<open>The promise type that \<open>cancel_handler\<close> casts the suspended coroutine to, on a completion.\<close>

definition stop_target :: "'p awaiter_callback \<Rightarrow> 'r expected \<Rightarrow> 'p option" where
  "stop_target cb res =
     (case awaiter_complete (aw_cancel_handler cb \<noteq> None) res of
        Resume_stopped \<Rightarrow> aw_cancel_handler cb
      | Resume_caller _ \<Rightarrow> None)"

text \<open>One \<open>co_await\<close> after another on the same object: promise type, coroutine and result slot of each.\<close>

definition awaits :: "('p \<Rightarrow> bool) \<Rightarrow> ('p \<times> u64 \<times> u64) list \<Rightarrow> 'p awaiter_callback" where
  "awaits unhandled aws = fold (\<lambda>(p, h, s). setup_awaiter_callback unhandled p h s) aws awaiter_callback_default"

lemma awaits_handler:
  "aw_cancel_handler (awaits unhandled aws) =
     (let ps = filter unhandled (map fst aws) in if ps = [] then None else Some (last ps))"
  unfolding awaits_def
  by (induction aws rule: rev_induct)
    (auto simp: awaiter_callback_default_def setup_awaiter_callback_def Let_def split: prod.splits)

section \<open>Properties\<close>

text \<open>
  C13. A synchronous read from creation to result: the object that \<open>make_sync\<close> creates, given a
  file, an offset and a buffer, writes one entry with exactly that file, address, offset and the
  low 32 bits of the length; and when the completion that is waited for is its own, the caller gets
  the number of bytes the kernel reports, or the reported error.
\<close>

theorem sync_file_read:
  assumes "ring_inv r" "\<not> opcode_unsupported en file_read_opcode r" "make_sync file_read_operation r = Some ob"
    and "lib_get_sqe lib (raw_ring r) w = (Some i, w1)"
    and "lib_submit lib (raw_ring r) (lib_write_sqe lib i
      [Prep (Prep_read (native_fd f) (sp_data b) (ucast (sp_size b)) off), Set_data self] w1) = (ev, w2)" "0 \<le> ev"
    and "lib_wait_cqe lib (raw_ring r) w2 = (ev2, c, w3)" "0 \<le> ev2" "cqe_user_data c = self"
  shows "submit_and_wait lib en file_read_opcode file_read_build (ob_do_callback ob) dispatch self
      (rw_buffer b (rw_offset off (rw_file f (ob_members ob)))) (ob_callback ob) r w
    = Some (if cqe_res c < 0 then Inl (make_system_error_code (- cqe_res c)) else Inr (cqe_res c),
        rw_buffer b (rw_offset off (rw_file f (ob_members ob))), lib_cqe_seen lib (raw_ring r) w3)"
proof -
  from assms(3) have v: "valid r" and ob: "ob = file_read_operation (ring_addr r) initial_result"
    by (auto simp: make_sync_def split: if_splits)
  let ?op = "rw_buffer b (rw_offset off (rw_file f (ob_members ob)))"
  have build: "file_read_build ?op = (?op, [Prep (Prep_read (native_fd f) (sp_data b) (ucast (sp_size b)) off)])"
    by (simp add: ob file_read_operation_def operation_object_of_def file_rw_init_def op_simps file_read_build_def
      rw_buffer_def rw_offset_def rw_file_def fixed_flag_def)
  have "feature_test en file_read_opcode r = Some no_error" using feature_test_valid [OF assms(1) v] assms(2) by simp
  then have sub: "do_submit lib en file_read_opcode file_read_build self ?op r w = Some (no_error, ?op, w2)"
    using assms(4-6) by (subst do_submit_passed [OF v, of _ _ lib w i w1 file_read_build ?op self ev w2]) (simp_all add: build)
  have wait: "wait_for_result lib 0 r w2 = Some (Inr (operation_result_of c), lib_cqe_seen lib (raw_ring r) w3)"
    using assms(7,8) v by (simp add: wait_for_result_def native_def)
  have cb: "ob_do_callback ob = file_read_do_callback" by (simp add: ob file_read_operation_def operation_object_of_def)
  show ?thesis unfolding cb
    by (simp add: submit_and_wait_def sub wait operation_result_of_def assms(9) file_read_do_callback_def invoke_result_def)
qed

theorem sync_file_read_witness:
  "\<exists>ob op' w'. make_sync file_read_operation sample_ring = Some ob
    \<and> submit_and_wait (queue_lib False) False file_read_opcode file_read_build (ob_do_callback ob) (\<lambda>_ _ _ w. Some w) 512
        (rw_buffer \<lparr>sp_data = 8192, sp_size = 100\<rparr> (rw_offset 64 (rw_file \<lparr>native_fd = 3\<rparr> (ob_members ob))))
        (ob_callback ob) sample_ring empty_view = Some (Inr 0, op', w')"
proof -
  let ?w = "empty_view\<lparr>v_sq := [512]\<rparr>"
  let ?sqe = "[Prep (Prep_read (native_fd \<lparr>native_fd = 3\<rparr>) (sp_data \<lparr>sp_data = 8192, sp_size = 100\<rparr>)
      (ucast (sp_size \<lparr>sp_data = 8192, sp_size = 100\<rparr>)) 64), Set_data 512]"
  obtain ob :: "(file_rw_op, int expected, int) operation_object"
    where ob: "make_sync file_read_operation sample_ring = Some ob" by (simp add: make_sync_def)
  have op: "\<not> opcode_unsupported False file_read_opcode sample_ring" by (simp add: opcode_unsupported_def)
  have g: "lib_get_sqe (queue_lib False) (raw_ring sample_ring) empty_view = (Some 0, empty_view)"
    by (simp add: queue_lib_def empty_view_def)
  have s: "lib_submit (queue_lib False) (raw_ring sample_ring) (lib_write_sqe (queue_lib False) 0 ?sqe empty_view)
      = (1, sample_flush ?w)"
    by (simp add: queue_lib_def empty_view_def sample_tag_def)
  have wt: "lib_wait_cqe (queue_lib False) (raw_ring sample_ring) (sample_flush ?w) = (0, sample_cq_entry 512, sample_flush ?w)"
    by (simp add: queue_lib_def sample_peek_def sample_flush_def empty_view_def)
  have t: "cqe_user_data (sample_cq_entry 512) = 512" "cqe_res (sample_cq_entry 512) = 0"
    by (simp_all add: sample_cq_entry_def)
  from sync_file_read [OF sample_ring_inv op ob g s _ wt _ t(1), of "\<lambda>_ _ _ w. Some w"] ob
  show ?thesis by (simp add: t(2))
qed

text \<open>
  C25. The stop handler of a reused awaitable operation: when the awaited operation is cancelled,
  the handler of the current promise type is used if it has one; if it has none, the handler that
  an earlier \<open>co_await\<close> of the same object left behind is used, for the promise type of that
  earlier coroutine, and only a callback that never had one resumes its caller.
\<close>

theorem reused_awaiter_stop_target:
  "stop_target (awaits unhandled (aws @ [(p, h, slot)])) res =
    (if \<exists>e. res = Inl e \<and> equals_errc e Operation_canceled
     then (if unhandled p then Some p
           else if filter unhandled (map fst aws) = [] then None else Some (last (filter unhandled (map fst aws))))
     else None)"
  by (auto simp: stop_target_def awaiter_complete_def awaits_handler Let_def split: sum.splits resumption.splits if_splits)

end
