(* ===== verification/Await_Loop.thy ===== *)
theory Await_Loop
  imports Operation_Objects
begin

text \<open>
  Coroutines on a ring: the event loop of \<open>Event_Loop\<close> with the callbacks of \<open>make_await\<close> operations
  run. Each coroutine awaits an operation object in its own frame; a completion is received, finds
  the object at the address it carries, and through the class's \<open>do_callback\<close> and \<open>awaiter_callback\<close>
  resumes the coroutine suspended there. That nothing but a suspended coroutine is ever resumed, and
  that each one's life is a path of \<open>await_step\<close>, is what is shown here, with the conditions under
  which it holds.
\<close>

section \<open>The state\<close>

text \<open>
  For each address the awaited object and how far its coroutine has come; \<open>Await_created\<close> also
  stands for an address not used yet. \<open>al_dead\<close> records that a coroutine was resumed that was not
  suspended, where the code has no defined behaviour.
\<close>

record ('op, 'r, 'w) await_loop =
  al_world :: 'w
  al_ops :: "u64 \<Rightarrow> 'op"
  al_coros :: "u64 \<Rightarrow> 'r await_state"
  al_received :: "operation_result list"
  al_dead :: bool

definition await_loop_start :: "(u64 \<Rightarrow> 'op) \<Rightarrow> 'w \<Rightarrow> ('op, 'r, 'w) await_loop" where
  "await_loop_start ops w =
     \<lparr>al_world = w, al_ops = ops, al_coros = (\<lambda>_. Await_created), al_received = [], al_dead = False\<rparr>"

text \<open>\<open>co_await\<close> on the object at \<open>self\<close>: \<open>await_suspend\<close>, and \<open>await_resume\<close> if that did not suspend.\<close>

definition co_await ::
  "'w liburing \<Rightarrow> ring \<Rightarrow> bool \<Rightarrow> ('op \<Rightarrow> u8) \<Rightarrow> ('op \<Rightarrow> 'op \<times> sqe_writes) \<Rightarrow> u64
     \<Rightarrow> ('op, 'r, 'w) await_loop \<Rightarrow> ('op, 'r, 'w) await_loop option" where
  "co_await lib r enabled opcode build self s = do {
     (suspended, res, op, w) \<leftarrow> await_suspend lib enabled (opcode (al_ops s self)) build self (al_ops s self) r (al_world s);
     Some (s\<lparr>al_world := w, al_ops := (al_ops s)(self := op),
             al_coros := (al_coros s)(self := (if suspended then Await_suspended else Await_resumed res))\<rparr>)
   }"

text \<open>
  \<open>awaiter_callback::operator()\<close> as \<open>do_callback\<close> invokes it; it takes an \<open>expected\<close>, so no class
  calls it with a bare error code. \<open>cancelable\<close>: the promise of the coroutine has \<open>unhandled_stopped\<close>.
\<close>

definition awaiter_resumed :: "bool \<Rightarrow> 'r expected \<Rightarrow> 'r await_state" where
  "awaiter_resumed cancelable res =
     (case awaiter_complete cancelable res of Resume_caller v \<Rightarrow> Await_resumed v | Resume_stopped \<Rightarrow> Await_stopped)"

fun awaiter_invoked :: "bool \<Rightarrow> 'r invocation \<Rightarrow> 'r await_state option" where
  "awaiter_invoked cancelable (Invoke_value v) = Some (awaiter_resumed cancelable (Inr v))"
| "awaiter_invoked cancelable (Invoke_unexpected e) = Some (awaiter_resumed cancelable (Inl e))"
| "awaiter_invoked cancelable (Invoke_error_code e) = None"
| "awaiter_invoked cancelable No_invocation = None"
| "awaiter_invoked cancelable Assertion_failed = None"

text \<open>\<open>operation_result::callback\<close> for a received completion.\<close>

definition run_callback ::
  "('op \<Rightarrow> int \<Rightarrow> u32 \<Rightarrow> 'r invocation) \<Rightarrow> (u64 \<Rightarrow> bool) \<Rightarrow> operation_result
     \<Rightarrow> ('op, 'r, 'w) await_loop \<Rightarrow> ('op, 'r, 'w) await_loop option" where
  "run_callback do_callback cancelable c s = do {
     state \<leftarrow> awaiter_invoked (cancelable (or_cb c)) (do_callback (al_ops s (or_cb c)) (or_res c) (or_cqe_flags c));
     Some (if al_coros s (or_cb c) = Await_suspended
           then s\<lparr>al_coros := (al_coros s)(or_cb c := state)\<rparr>
           else s\<lparr>al_dead := True\<rparr>)
   }"

text \<open>\<open>if (auto res = ring.fetch_result()) res->callback();\<close>, and the same with \<open>wait_for_result\<close>.\<close>

definition receive ::
  "('op \<Rightarrow> int \<Rightarrow> u32 \<Rightarrow> 'r invocation) \<Rightarrow> (u64 \<Rightarrow> bool) \<Rightarrow> operation_result expected \<Rightarrow> 'w
     \<Rightarrow> ('op, 'r, 'w) await_loop \<Rightarrow> ('op, 'r, 'w) await_loop option" where
  "receive do_callback cancelable res w s =
     (case res of
        Inl _ \<Rightarrow> Some (s\<lparr>al_world := w\<rparr>)
      | Inr c \<Rightarrow> run_callback do_callback cancelable c (s\<lparr>al_world := w, al_received := al_received s @ [c]\<rparr>))"

definition fetch_and_call ::
  "'w liburing \<Rightarrow> ring \<Rightarrow> ('op \<Rightarrow> int \<Rightarrow> u32 \<Rightarrow> 'r invocation) \<Rightarrow> (u64 \<Rightarrow> bool)
     \<Rightarrow> ('op, 'r, 'w) await_loop \<Rightarrow> ('op, 'r, 'w) await_loop option" where
  "fetch_and_call lib r do_callback cancelable s = do {
     (res, w) \<leftarrow> fetch_result lib r (al_world s);
     receive do_callback cancelable res w s
   }"

definition wait_and_call ::
  "'w liburing \<Rightarrow> ring \<Rightarrow> ('op \<Rightarrow> int \<Rightarrow> u32 \<Rightarrow> 'r invocation) \<Rightarrow> (u64 \<Rightarrow> bool) \<Rightarrow> int
     \<Rightarrow> ('op, 'r, 'w) await_loop \<Rightarrow> ('op, 'r, 'w) await_loop option" where
  "wait_and_call lib r do_callback cancelable timeout s = do {
     (res, w) \<leftarrow> wait_for_result lib timeout r (al_world s);
     receive do_callback cancelable res w s
   }"

section \<open>Steps\<close>

text \<open>
  An object comes to be at an address at which no coroutine is suspended, with its members as its
  setters left them, and is awaited once. What a resumed coroutine does next on the ring are further
  steps.
\<close>

inductive await_loop_step ::
  "'w liburing \<Rightarrow> ring \<Rightarrow> ('w \<Rightarrow> uring_view) \<Rightarrow> bool \<Rightarrow> ('op \<Rightarrow> u8) \<Rightarrow> ('op \<Rightarrow> 'op \<times> sqe_writes)
     \<Rightarrow> ('op \<Rightarrow> int \<Rightarrow> u32 \<Rightarrow> 'r invocation) \<Rightarrow> (u64 \<Rightarrow> bool)
     \<Rightarrow> ('op, 'r, 'w) await_loop \<Rightarrow> ('op, 'r, 'w) await_loop \<Rightarrow> bool"
  for lib r view enabled opcode build do_callback cancelable where
  await_setup: "al_coros s self \<noteq> Await_suspended \<Longrightarrow>
    await_loop_step lib r view enabled opcode build do_callback cancelable s
      (s\<lparr>al_ops := (al_ops s)(self := op), al_coros := (al_coros s)(self := Await_created)\<rparr>)"
| await_begin: "al_coros s self = Await_created \<Longrightarrow> co_await lib r enabled opcode build self s = Some t \<Longrightarrow>
    await_loop_step lib r view enabled opcode build do_callback cancelable s t"
| await_fetch: "fetch_and_call lib r do_callback cancelable s = Some t \<Longrightarrow>
    await_loop_step lib r view enabled opcode build do_callback cancelable s t"
| await_wait: "wait_and_call lib r do_callback cancelable timeout s = Some t \<Longrightarrow>
    await_loop_step lib r view enabled opcode build do_callback cancelable s t"
| await_kernel: "kernel_moves (view (al_world s)) (view w) \<Longrightarrow>
    await_loop_step lib r view enabled opcode build do_callback cancelable s (s\<lparr>al_world := w\<rparr>)"

inductive await_loop_reachable ::
  "'w liburing \<Rightarrow> ring \<Rightarrow> ('w \<Rightarrow> uring_view) \<Rightarrow> bool \<Rightarrow> ('op \<Rightarrow> u8) \<Rightarrow> ('op \<Rightarrow> 'op \<times> sqe_writes)
     \<Rightarrow> ('op \<Rightarrow> int \<Rightarrow> u32 \<Rightarrow> 'r invocation) \<Rightarrow> (u64 \<Rightarrow> bool) \<Rightarrow> ('op, 'r, 'w) await_loop \<Rightarrow> bool"
  for lib r view enabled opcode build do_callback cancelable where
  await_loop_init: "view w = empty_view \<Longrightarrow>
    await_loop_reachable lib r view enabled opcode build do_callback cancelable (await_loop_start ops w)"
| await_loop_next: "await_loop_reachable lib r view enabled opcode build do_callback cancelable s \<Longrightarrow>
    await_loop_step lib r view enabled opcode build do_callback cancelable s t \<Longrightarrow>
    await_loop_reachable lib r view enabled opcode build do_callback cancelable t"

section \<open>The life of each coroutine\<close>

lemma awaiter_resumed_step: "await_step cancelable Await_suspended (awaiter_resumed cancelable res)"
  by (cases "awaiter_complete cancelable res") (auto simp: awaiter_resumed_def intro: await_step.intros)

lemma awaiter_resumed_not_suspended [simp]: "awaiter_resumed cancelable res \<noteq> Await_suspended"
  by (simp add: awaiter_resumed_def split: resumption.splits)

lemma awaiter_invoked_step:
  "awaiter_invoked cancelable iv = Some state \<Longrightarrow>
     await_step cancelable Await_suspended state \<and> state \<noteq> Await_suspended"
  by (cases iv) (auto intro: awaiter_resumed_step)

lemma co_await_cases:
  assumes "co_await lib r enabled opcode build self s = Some t"
  obtains ec op w where
    "do_submit lib enabled (opcode (al_ops s self)) build self (al_ops s self) r (al_world s) = Some (ec, op, w)"
    "t = s\<lparr>al_world := w, al_ops := (al_ops s)(self := op),
           al_coros := (al_coros s)(self := (if is_error ec then Await_resumed (Inl ec) else Await_suspended))\<rparr>"
  using assms by (fastforce simp: co_await_def await_suspend_def bind_eq_Some_conv split: if_splits)

lemma receive_cases:
  assumes "receive do_callback cancelable res w s = Some t"
  obtains (none) e where "res = Inl e" "t = s\<lparr>al_world := w\<rparr>"
  | (resumed) c state where "res = Inr c" "al_coros s (or_cb c) = Await_suspended"
      "await_step (cancelable (or_cb c)) Await_suspended state" "state \<noteq> Await_suspended"
      "t = s\<lparr>al_world := w, al_received := al_received s @ [c], al_coros := (al_coros s)(or_cb c := state)\<rparr>"
  | (dead) c where "res = Inr c" "al_coros s (or_cb c) \<noteq> Await_suspended"
      "t = s\<lparr>al_world := w, al_received := al_received s @ [c], al_dead := True\<rparr>"
proof (cases res)
  case (Inl e)
  with assms none show ?thesis by (simp add: receive_def)
next
  case (Inr c)
  with assms obtain state where
    "awaiter_invoked (cancelable (or_cb c)) (do_callback (al_ops s (or_cb c)) (or_res c) (or_cqe_flags c)) = Some state"
    by (auto simp: receive_def run_callback_def bind_eq_Some_conv)
  with Inr assms resumed [OF Inr] dead [OF Inr] awaiter_invoked_step [OF this] show ?thesis
    by (auto simp: receive_def run_callback_def split: if_splits)
qed

text \<open>What can happen to one coroutine in a step.\<close>

definition life_step :: "bool \<Rightarrow> 'r await_state \<Rightarrow> 'r await_state \<Rightarrow> bool" where
  "life_step cancelable p q \<longleftrightarrow>
     q = p \<or> await_step cancelable p q \<or> p \<noteq> Await_suspended \<and> q = Await_created"

lemma receive_life:
  "receive do_callback cancelable res w s = Some t \<Longrightarrow> life_step (cancelable a) (al_coros s a) (al_coros t a)"
  by (erule receive_cases) (auto simp: life_step_def)

lemma step_life:
  assumes "await_loop_step lib r view enabled opcode build do_callback cancelable s t"
  shows "life_step (cancelable a) (al_coros s a) (al_coros t a)"
  using assms
proof cases
  case (await_begin self)
  from await_begin(2) show ?thesis
    by (rule co_await_cases) (auto simp: life_step_def await_begin(1) intro: await_step.intros)
next
  case await_fetch
  then show ?thesis by (auto simp: fetch_and_call_def bind_eq_Some_conv intro: receive_life)
next
  case (await_wait timeout)
  then show ?thesis by (auto simp: wait_and_call_def bind_eq_Some_conv intro: receive_life)
qed (auto simp: life_step_def)

lemma life_reachable:
  "await_loop_reachable lib r view enabled opcode build do_callback cancelable s \<Longrightarrow>
     await_reachable (cancelable a) (al_coros s a)"
proof (induction rule: await_loop_reachable.induct)
  case (await_loop_init w ops)
  then show ?case by (simp add: await_loop_start_def await_start)
next
  case (await_loop_next s t)
  from step_life [OF await_loop_next(2), of a] await_loop_next.IH show ?case
    by (auto simp: life_step_def intro: await_reachable.intros)
qed

section \<open>Only suspended coroutines are resumed\<close>

text \<open>
  The two conditions: \<open>io_uring_submit\<close> does not fail once an entry is queued, and no completion
  announces another one of the same request.
\<close>

definition submits_never_fail :: "'w liburing \<Rightarrow> io_uring \<Rightarrow> bool" where
  "submits_never_fail lib raw \<longleftrightarrow> (\<forall>w. 0 \<le> fst (lib_submit lib raw w))"

definition single_shot :: "operation_result list \<Rightarrow> bool" where
  "single_shot cs \<longleftrightarrow> list_all (\<lambda>c. \<not> more_to_come (or_cqe_flags c)) cs"

definition await_loop_inv :: "('w \<Rightarrow> uring_view) \<Rightarrow> ('op, 'r, 'w) await_loop \<Rightarrow> bool" where
  "await_loop_inv view s \<longleftrightarrow> \<not> al_dead s
     \<and> (\<forall>a. count (outstanding (view (al_world s))) a = (if al_coros s a = Await_suspended then 1 else 0))"

lemma do_submit_exact:
  assumes "documented_queues lib (raw_ring r) view" "submits_never_fail lib (raw_ring r)"
    and "do_submit lib enabled oc build self op r w = Some (ec, op', w')"
  shows "outstanding (view w') = (if is_error ec then outstanding (view w) else add_mset self (outstanding (view w)))"
proof -
  obtain sqe w1 where g: "lib_get_sqe lib (raw_ring r) w = (sqe, w1)" by (metis prod.exhaust)
  show ?thesis
  proof (cases sqe)
    case None
    with assms(1) g have "kernel_moves (view w) (view w1)"
      unfolding documented_queues_def documented_get_sqe_def by (fastforce split: prod.splits option.splits)
    from kernel_moves_outstanding [OF this] show ?thesis
      using assms(3) g None
      by (auto simp: do_submit_def to_sqe_def native_def submit_def bind_eq_Some_conv split: if_splits)
  next
    case (Some i)
    obtain op1 ws where b: "build op = (op1, ws)" by fastforce
    obtain ev w2 where sub: "lib_submit lib (raw_ring r) (lib_write_sqe lib i (ws @ [Set_data self]) w1) = (ev, w2)"
      by (metis prod.exhaust)
    with assms(2) have "0 \<le> ev" unfolding submits_never_fail_def by (metis fst_conv)
    with submit_written_outstanding [OF assms(1) g [unfolded Some] sub] show ?thesis
      using assms(3) g Some sub b
      by (auto simp: do_submit_def to_sqe_def native_def submit_def bind_eq_Some_conv split: if_splits)
  qed
qed

lemma receive_inv:
  assumes inv: "await_loop_inv view s"
    and rec: "receive do_callback cancelable res w s = Some t" "single_shot (al_received t)"
    and out: "outstanding (view (al_world s)) = outstanding (view w) + result_finals (received_of res)"
  shows "await_loop_inv view t"
  using rec(1)
proof (cases rule: receive_cases)
  case (none e)
  with inv out show ?thesis by (simp add: await_loop_inv_def received_of_def)
next
  case (resumed c state)
  with rec(2) out have o: "outstanding (view (al_world s)) = add_mset (or_cb c) (outstanding (view w))"
    by (simp add: received_of_def single_shot_def)
  have "count (outstanding (view w)) a = (if al_coros t a = Await_suspended then 1 else 0)" for a
  proof -
    have "count (outstanding (view (al_world s))) a = (if al_coros s a = Await_suspended then 1 else 0)"
      using inv by (simp add: await_loop_inv_def)
    with o resumed(2,4,5) show ?thesis by (cases "a = or_cb c") simp_all
  qed
  moreover have "\<not> al_dead t" "al_world t = w" using inv resumed(5) by (simp_all add: await_loop_inv_def)
  ultimately show ?thesis by (simp add: await_loop_inv_def)
next
  case (dead c)
  with rec(2) out have "outstanding (view (al_world s)) = add_mset (or_cb c) (outstanding (view w))"
    by (simp add: received_of_def single_shot_def)
  then have "0 < count (outstanding (view (al_world s))) (or_cb c)" by simp
  moreover have "count (outstanding (view (al_world s))) (or_cb c) =
      (if al_coros s (or_cb c) = Await_suspended then 1 else 0)" using inv by (simp add: await_loop_inv_def)
  ultimately have "al_coros s (or_cb c) = Await_suspended" by (simp split: if_splits)
  with dead(2) show ?thesis by contradiction
qed

lemma receive_received:
  "receive do_callback cancelable res w s = Some t \<Longrightarrow> al_received t = al_received s @ received_of res"
  by (erule receive_cases) (simp_all add: received_of_def)

lemma single_shot_mono:
  assumes "await_loop_step lib r view en opcode build do_callback cancelable s t" "single_shot (al_received t)"
  shows "single_shot (al_received s)"
  using assms(1)
proof cases
  case (await_begin self)
  from await_begin(2) show ?thesis by (rule co_await_cases) (use assms(2) in simp)
next
  case await_fetch
  with assms(2) show ?thesis
    by (auto simp: fetch_and_call_def bind_eq_Some_conv single_shot_def dest: receive_received)
next
  case (await_wait timeout)
  with assms(2) show ?thesis
    by (auto simp: wait_and_call_def bind_eq_Some_conv single_shot_def dest: receive_received)
qed (use assms(2) in auto)

lemma await_loop_inv_step:
  assumes doc: "documented_queues lib (raw_ring r) view" and ok: "submits_never_fail lib (raw_ring r)"
    and step: "await_loop_step lib r view en opcode build do_callback cancelable s t"
    and inv: "await_loop_inv view s" and ss: "single_shot (al_received t)"
  shows "await_loop_inv view t"
  using step
proof cases
  case (await_setup self op)
  with inv show ?thesis by (auto simp: await_loop_inv_def)
next
  case (await_begin self)
  from await_begin(2) show ?thesis
  proof (rule co_await_cases)
    fix ec op w
    assume sub: "do_submit lib en (opcode (al_ops s self)) build self (al_ops s self) r (al_world s) = Some (ec, op, w)"
      and t: "t = s\<lparr>al_world := w, al_ops := (al_ops s)(self := op),
        al_coros := (al_coros s)(self := (if is_error ec then Await_resumed (Inl ec) else Await_suspended))\<rparr>"
    from do_submit_exact [OF doc ok sub] inv await_begin(1) t show ?thesis
      by (auto simp: await_loop_inv_def)
  qed
next
  case await_fetch
  then obtain res w where f: "fetch_result lib r (al_world s) = Some (res, w)" "receive do_callback cancelable res w s = Some t"
    by (auto simp: fetch_and_call_def bind_eq_Some_conv)
  from receive_inv [OF inv f(2) ss fetch_outstanding [OF doc f(1)]] show ?thesis .
next
  case (await_wait timeout)
  then obtain res w where f: "wait_for_result lib timeout r (al_world s) = Some (res, w)"
      "receive do_callback cancelable res w s = Some t"
    by (auto simp: wait_and_call_def bind_eq_Some_conv)
  from receive_inv [OF inv f(2) ss wait_outstanding [OF doc f(1)]] show ?thesis .
next
  case (await_kernel w)
  with inv kernel_moves_outstanding [of "view (al_world s)" "view w"] show ?thesis by (simp add: await_loop_inv_def)
qed

lemma await_loop_inv_reachable:
  assumes "documented_queues lib (raw_ring r) view" "submits_never_fail lib (raw_ring r)"
  shows "await_loop_reachable lib r view en opcode build do_callback cancelable s \<Longrightarrow> single_shot (al_received s) \<Longrightarrow>
    await_loop_inv view s"
proof (induction rule: await_loop_reachable.induct)
  case (await_loop_init w ops)
  then show ?case by (simp add: await_loop_inv_def await_loop_start_def)
next
  case (await_loop_next s t)
  with single_shot_mono [OF await_loop_next(2)] show ?case by (blast intro: await_loop_inv_step [OF assms])
qed

section \<open>Every suspended coroutine is resumed\<close>

text \<open>Operations whose callback always gets a value or an error, as an \<open>expected\<close>.\<close>

definition awaitable :: "('op \<Rightarrow> int \<Rightarrow> u32 \<Rightarrow> 'r invocation) \<Rightarrow> bool" where
  "awaitable do_callback \<longleftrightarrow> (\<forall>x ev fl. do_callback x ev fl \<in> range Invoke_value \<union> range Invoke_unexpected)"

lemma awaitable_invoked:
  "awaitable do_callback \<Longrightarrow> \<exists>state. awaiter_invoked cancelable (do_callback x ev fl) = Some state"
proof -
  assume "awaitable do_callback"
  then have "do_callback x ev fl \<in> range Invoke_value \<union> range Invoke_unexpected" by (simp add: awaitable_def)
  then show ?thesis by auto
qed

text \<open>A program that \<open>n\<close> times fetches a result and runs its callback.\<close>

fun run_completions ::
  "'w liburing \<Rightarrow> ring \<Rightarrow> ('op \<Rightarrow> int \<Rightarrow> u32 \<Rightarrow> 'r invocation) \<Rightarrow> (u64 \<Rightarrow> bool) \<Rightarrow> nat
     \<Rightarrow> ('op, 'r, 'w) await_loop \<Rightarrow> ('op, 'r, 'w) await_loop option" where
  "run_completions lib r do_callback cancelable 0 s = Some s"
| "run_completions lib r do_callback cancelable (Suc n) s =
     Option.bind (fetch_and_call lib r do_callback cancelable s) (run_completions lib r do_callback cancelable n)"

text \<open>What such a program leaves of a coroutine that has not died.\<close>

definition settled :: "'r await_state \<Rightarrow> 'r await_state \<Rightarrow> bool" where
  "settled p q \<longleftrightarrow> (if p = Await_suspended then q \<noteq> Await_created else q = p)"

lemma settled_trans: "settled p q \<Longrightarrow> settled q q' \<Longrightarrow> settled p q'"
  by (auto simp: settled_def split: if_splits)

lemma fetch_and_call_quiescent:
  assumes "documented_queues lib (raw_ring r) view" "valid r" "awaitable do_callback"
    and "quiescent (view (al_world s))" "al_dead s = False"
  shows "\<exists>t. fetch_and_call lib r do_callback cancelable s = Some t
    \<and> view (al_world t) = (view (al_world s))\<lparr>v_cq := tl (v_cq (view (al_world s)))\<rparr>
    \<and> al_received t = al_received s @ map operation_result_of (take 1 (v_cq (view (al_world s))))
    \<and> (al_dead t \<or> (\<forall>a. settled (al_coros s a) (al_coros t a)))"
proof (cases "v_cq (view (al_world s))")
  case Nil
  with fetch_quiescent [OF assms(1,2,4)] obtain e w' where
    "fetch_result lib r (al_world s) = Some (Inl e, w')" "view w' = view (al_world s)" by auto
  with Nil show ?thesis
    by (intro exI [of _ "s\<lparr>al_world := w'\<rparr>"])
      (simp add: fetch_and_call_def receive_def settled_def uring_view.equality)
next
  case (Cons c rest)
  let ?c = "operation_result_of c"
  from Cons fetch_quiescent [OF assms(1,2,4)] obtain w' where
    f: "fetch_result lib r (al_world s) = Some (Inr ?c, w')" "view w' = (view (al_world s))\<lparr>v_cq := rest\<rparr>" by auto
  obtain state where st: "awaiter_invoked (cancelable (or_cb ?c))
      (do_callback (al_ops s (or_cb ?c)) (or_res ?c) (or_cqe_flags ?c)) = Some state"
    using awaitable_invoked [OF assms(3)] by blast
  then obtain t where t: "receive do_callback cancelable (Inr ?c) w' s = Some t"
    by (simp add: receive_def run_callback_def)
  then have w: "al_world t = w'" by (cases rule: receive_cases) simp_all
  from t have "al_dead t \<or> (\<forall>a. settled (al_coros s a) (al_coros t a))"
  proof (cases rule: receive_cases)
    case (resumed c' state')
    then show ?thesis by (auto simp: settled_def elim: await_step.cases)
  qed simp_all
  with f t w Cons receive_received [OF t] show ?thesis
    by (intro exI [of _ t]) (simp add: fetch_and_call_def received_of_def)
qed

lemma run_completions_quiescent:
  assumes doc: "documented_queues lib (raw_ring r) view" "valid r" "awaitable do_callback"
    and ok: "submits_never_fail lib (raw_ring r)"
  shows "await_loop_reachable lib r view en opcode build do_callback cancelable s \<Longrightarrow> quiescent (view (al_world s)) \<Longrightarrow>
    single_shot (al_received s @ map operation_result_of (v_cq (view (al_world s)))) \<Longrightarrow>
    length (v_cq (view (al_world s))) \<le> n \<Longrightarrow>
    \<exists>t. run_completions lib r do_callback cancelable n s = Some t \<and> view (al_world t) = empty_view
      \<and> await_loop_reachable lib r view en opcode build do_callback cancelable t
      \<and> al_received t = al_received s @ map operation_result_of (v_cq (view (al_world s)))
      \<and> (\<forall>a. settled (al_coros s a) (al_coros t a))"
proof (induction n arbitrary: s)
  case 0
  then show ?case by (auto simp: quiescent_def empty_view_def settled_def intro!: uring_view.equality)
next
  case (Suc n)
  let ?cq = "v_cq (view (al_world s))"
  have "single_shot (al_received s)" using Suc.prems(3) by (simp add: single_shot_def)
  from await_loop_inv_reachable [OF doc(1) ok Suc.prems(1) this] have "al_dead s = False"
    by (simp add: await_loop_inv_def)
  from fetch_and_call_quiescent [OF doc Suc.prems(2) this, of cancelable] obtain s1 where
    f: "fetch_and_call lib r do_callback cancelable s = Some s1"
    and v: "view (al_world s1) = (view (al_world s))\<lparr>v_cq := tl ?cq\<rparr>"
    and rc: "al_received s1 = al_received s @ map operation_result_of (take 1 ?cq)"
    and st: "al_dead s1 \<or> (\<forall>a. settled (al_coros s a) (al_coros s1 a))" by blast
  have reach: "await_loop_reachable lib r view en opcode build do_callback cancelable s1"
    using Suc.prems(1) await_fetch [OF f] by (rule await_loop_next)
  have cqs: "map operation_result_of (take 1 ?cq) @ map operation_result_of (tl ?cq) = map operation_result_of ?cq"
    by (cases ?cq) simp_all
  have ss: "single_shot (al_received s1 @ map operation_result_of (v_cq (view (al_world s1))))"
    using Suc.prems(3) cqs by (simp add: rc v)
  then have "single_shot (al_received s1)" by (simp add: single_shot_def)
  from await_loop_inv_reachable [OF doc(1) ok reach this] have "\<not> al_dead s1" by (simp add: await_loop_inv_def)
  with st have settle: "\<forall>a. settled (al_coros s a) (al_coros s1 a)" by simp
  have "quiescent (view (al_world s1))" "length (v_cq (view (al_world s1))) \<le> n"
    using Suc.prems(2,4) by (simp_all add: v quiescent_def)
  from Suc.IH [OF reach this(1) ss this(2)] obtain t where
    "run_completions lib r do_callback cancelable n s1 = Some t" "view (al_world t) = empty_view"
    "await_loop_reachable lib r view en opcode build do_callback cancelable t"
    "al_received t = al_received s1 @ map operation_result_of (tl ?cq)" "\<forall>a. settled (al_coros s1 a) (al_coros t a)"
    using v by auto
  with f settle cqs show ?case by (intro exI [of _ t]) (auto simp: rc intro: settled_trans)
qed

section \<open>Operations that can be awaited\<close>

text \<open>
  A callback is of a class of the user, or a specialization of \<open>syncwait_callback\<close> or of
  \<open>awaiter_callback\<close>. The class templates of operations with more than one completion refuse the last
  two by \<open>static_assert\<close>; the other templates take all.
\<close>

datatype callback_class = Plain_callback | Syncwait_callback | Awaiter_callback

fun is_specialization_of :: "callback_class \<Rightarrow> callback_class \<Rightarrow> bool" where
  "is_specialization_of Syncwait_callback Syncwait_callback = True"
| "is_specialization_of Awaiter_callback Awaiter_callback = True"
| "is_specialization_of _ _ = False"

definition multishot_timeout_accepts :: "callback_class \<Rightarrow> bool" where
  "multishot_timeout_accepts cb \<longleftrightarrow>
     \<not> is_specialization_of Syncwait_callback cb \<and> \<not> is_specialization_of Awaiter_callback cb"

definition poll_multishot_accepts :: "callback_class \<Rightarrow> bool" where
  "poll_multishot_accepts cb \<longleftrightarrow>
     \<not> is_specialization_of Syncwait_callback cb \<and> \<not> is_specialization_of Awaiter_callback cb"

definition multishot_accept_accepts :: "callback_class \<Rightarrow> bool" where
  "multishot_accept_accepts cb \<longleftrightarrow>
     \<not> is_specialization_of Syncwait_callback cb \<and> \<not> is_specialization_of Awaiter_callback cb"

definition multishot_fixed_accept_accepts :: "callback_class \<Rightarrow> bool" where
  "multishot_fixed_accept_accepts cb \<longleftrightarrow>
     \<not> is_specialization_of Syncwait_callback cb \<and> \<not> is_specialization_of Awaiter_callback cb"

definition send_zc_accepts :: "callback_class \<Rightarrow> bool" where
  "send_zc_accepts cb \<longleftrightarrow>
     \<not> is_specialization_of Syncwait_callback cb \<and> \<not> is_specialization_of Awaiter_callback cb"

definition sendmsg_zc_accepts :: "callback_class \<Rightarrow> bool" where
  "sendmsg_zc_accepts cb \<longleftrightarrow>
     \<not> is_specialization_of Syncwait_callback cb \<and> \<not> is_specialization_of Awaiter_callback cb"

definition multishot_recv_accepts :: "callback_class \<Rightarrow> bool" where
  "multishot_recv_accepts cb \<longleftrightarrow>
     \<not> is_specialization_of Syncwait_callback cb \<and> \<not> is_specialization_of Awaiter_callback cb"

lemmas accepts_defs = multishot_timeout_accepts_def poll_multishot_accepts_def multishot_accept_accepts_def
  multishot_fixed_accept_accepts_def send_zc_accepts_def sendmsg_zc_accepts_def multishot_recv_accepts_def

text \<open>
  The requests of which the manual pages of io\_uring say that they can complete several times:
  multishot requests, and zero-copy sends with their notification.
\<close>

fun forked_prep :: "prep_call \<Rightarrow> bool" where
  "forked_prep (Prep_timeout _ _ fl) = (fl AND IORING_TIMEOUT_MULTISHOT \<noteq> 0)"
| "forked_prep (Prep_poll_multishot _ _) = True"
| "forked_prep (Prep_multishot_accept _ _) = True"
| "forked_prep (Prep_multishot_accept_direct _ _) = True"
| "forked_prep (Prep_send_zc _ _ _ _ _) = True"
| "forked_prep (Prep_sendmsg_zc _ _ _) = True"
| "forked_prep (Prep_recv_multishot _ _ _ _) = True"
| "forked_prep _ = False"

definition forked :: "sqe_writes \<Rightarrow> bool" where
  "forked ws \<longleftrightarrow> list_ex (\<lambda>w. case w of Prep c \<Rightarrow> forked_prep c | _ \<Rightarrow> False) ws"

lemma forked_entry [simp]:
  "\<not> forked []" "forked (Prep c # ws) \<longleftrightarrow> forked_prep c \<or> forked ws" "forked (ws @ vs) \<longleftrightarrow> forked ws \<or> forked vs"
  "\<not> is_prep w \<Longrightarrow> forked (w # ws) \<longleftrightarrow> forked ws" "\<not> forked (fixed_flag b)" "\<not> forked (buf_index_writes i)"
  by (auto simp: forked_def fixed_flag_def buf_index_writes_def split: sqe_write.splits)

definition refuses_waiting :: "('op \<Rightarrow> 'op \<times> sqe_writes) \<Rightarrow> (callback_class \<Rightarrow> bool) \<Rightarrow> bool" where
  "refuses_waiting build accepts \<longleftrightarrow>
     (\<forall>op. forked (snd (build op))) \<and> (\<forall>cb. accepts cb = (cb = Plain_callback))"

definition completes_once :: "('op \<Rightarrow> 'op \<times> sqe_writes) \<Rightarrow> bool" where
  "completes_once build \<longleftrightarrow> (\<forall>op. \<not> forked (snd (build op)))"

text \<open>
  Why they are refused: with an \<open>awaiter_callback\<close>, the first of the two completions of a zero-copy send
  would resume the coroutine with the number of bytes sent, and the notification that follows would
  resume it once more.
\<close>

lemma zero_copy_resumes_twice:
  assumes "al_coros s a = Await_suspended" "or_cb c = a" "0 \<le> or_res c" "more_to_come (or_cqe_flags c)"
    and "or_cb c' = a" "0 \<le> or_res c'" "\<not> more_to_come (or_cqe_flags c')"
  shows "\<exists>t. run_callback send_zc_do_callback cancelable c s = Some t
    \<and> al_coros t a = Await_resumed (Inr (Send_result_more (word_of_int (or_res c)))) \<and> al_dead t = al_dead s
    \<and> (\<exists>u. run_callback send_zc_do_callback cancelable c' t = Some u \<and> al_dead u)"
proof -
  let ?state = "Await_resumed (Inr (Send_result_more (word_of_int (or_res c))))"
  have "awaiter_invoked (cancelable a) (send_zc_do_callback (al_ops s a) (or_res c) (or_cqe_flags c)) = Some ?state"
    using assms(3,4) by (simp add: send_zc_do_callback_def more_to_come_def Let_def awaiter_resumed_def awaiter_complete_def)
  then have one: "run_callback send_zc_do_callback cancelable c s = Some (s\<lparr>al_coros := (al_coros s)(a := ?state)\<rparr>)"
    using assms(1,2) by (simp add: run_callback_def)
  obtain st where "awaiter_invoked (cancelable a) (send_zc_do_callback (al_ops s a) (or_res c') (or_cqe_flags c')) = Some st"
    using assms(6,7)
    by (cases "or_cqe_flags c' AND IORING_CQE_F_NOTIF = 0") (simp_all add: send_zc_do_callback_def more_to_come_def Let_def)
  with one assms(5) show ?thesis by (simp add: run_callback_def)
qed

section \<open>Properties\<close>

text \<open>
  C3. Only suspended coroutines are resumed. As long as \<open>io_uring_submit\<close> does not fail and no
  completion is followed by another one of the same request, the coroutines suspended on a ring are
  at every moment exactly those whose request is outstanding, one each, and every completion
  received so far found its coroutine suspended.
\<close>

theorem only_suspended_are_resumed:
  assumes "documented_queues lib (raw_ring r) view" "submits_never_fail lib (raw_ring r)"
    and "await_loop_reachable lib r view en opcode build do_callback cancelable s" "single_shot (al_received s)"
  shows "\<not> al_dead s
    \<and> count (outstanding (view (al_world s))) a = (if al_coros s a = Await_suspended then 1 else 0)"
  using await_loop_inv_reachable [OF assms] by (simp add: await_loop_inv_def)



section \<open>Witnesses\<close>

text \<open>A coroutine at address 512 awaits a read, which has completed.\<close>

definition sample_await :: "(file_rw_op, int, uring_view) await_loop" where
  "sample_await =
     \<lparr>al_world = sample_flush (empty_view\<lparr>v_sq := [512]\<rparr>), al_ops = (\<lambda>_. file_rw_init),
      al_coros = (\<lambda>_. Await_created)(512 := Await_suspended), al_received = [], al_dead = False\<rparr>"

lemma queue_lib_never_fails: "submits_never_fail (queue_lib False) raw"
  by (simp add: submits_never_fail_def queue_lib_def)

lemma file_read_awaitable: "awaitable file_read_do_callback"
  by (simp add: awaitable_def file_read_do_callback_def invoke_result_def)

lemma sample_co_await:
  "co_await (queue_lib False) sample_ring False (\<lambda>_. file_read_opcode) file_read_build 512
     (await_loop_start (\<lambda>_. file_rw_init) empty_view) = Some sample_await"
proof -
  have "do_submit (queue_lib False) False file_read_opcode file_read_build 512 file_rw_init sample_ring empty_view
      = Some (no_error, file_rw_init, sample_flush (empty_view\<lparr>v_sq := [512]\<rparr>))"
    by (simp add: do_submit_def to_sqe_def native_def submit_def file_read_build_def queue_lib_def
      sample_tag_def feature_test_def empty_view_def)
  then show ?thesis
    by (simp add: co_await_def await_suspend_def await_loop_start_def sample_await_def fun_upd_idem)
qed

lemma sample_await_step:
  "await_loop_step (queue_lib False) sample_ring (\<lambda>v. v) False (\<lambda>_. file_read_opcode) file_read_build
     file_read_do_callback (\<lambda>_. True) (await_loop_start (\<lambda>_. file_rw_init) empty_view) sample_await"
  by (rule await_begin [OF _ sample_co_await]) (simp add: await_loop_start_def)

lemma sample_await_start:
  "await_loop_reachable (queue_lib False) sample_ring (\<lambda>v. v) False (\<lambda>_. file_read_opcode) file_read_build
     file_read_do_callback (\<lambda>_. True) (await_loop_start (\<lambda>_. file_rw_init) empty_view)"
  by (rule await_loop_init) (rule refl)

lemmas sample_await_reachable = await_loop_next [OF sample_await_start sample_await_step]

theorem only_suspended_are_resumed_witness:
  "\<not> al_dead sample_await \<and> count (outstanding (al_world sample_await)) 512 = 1"
  using only_suspended_are_resumed [OF queue_lib_documented queue_lib_never_fails sample_await_reachable, of 512]
  by (simp add: sample_await_def single_shot_def)



end
