(* ===== verification/Flags.thy ===== *)
theory Flags
  imports Ring
begin

text \<open>
  The flag enumerations of the headers and their operators. Each \<open>enum class\<close> is a datatype of its
  enumerators with their values in the Linux headers; a combination of flags is a word, as the
  operators of the enumeration compute it, and that is what the operations store. The enumerations
  of sockets (domain and type) are here too.
\<close>

section \<open>Sets of flags\<close>

text \<open>The combination \<open>f1 | f2 | ... | fn\<close> of some enumerators.\<close>

definition combine_flags :: "('f \<Rightarrow> 'a::len word) \<Rightarrow> ('a word \<Rightarrow> 'a word \<Rightarrow> 'a word) \<Rightarrow> 'f list \<Rightarrow> 'a word" where
  "combine_flags val flag_or fs = foldr (\<lambda>f. flag_or (val f)) fs 0"

text \<open>What makes a flag enumeration a set of bits: distinct enumerators share none.\<close>

locale bit_flags =
  fixes val :: "'f \<Rightarrow> 'a::len word" and flag_or :: "'a word \<Rightarrow> 'a word \<Rightarrow> 'a word"
  assumes disjoint: "a \<noteq> b \<Longrightarrow> val a AND val b = 0"
    and or_eq: "flag_or x y = x OR y"
begin

lemma combine_and: "combine_flags val flag_or fs AND val f = (if f \<in> set fs then val f else 0)"
proof (induction fs)
  case Nil
  then show ?case by (simp add: combine_flags_def)
next
  case (Cons g fs)
  have "combine_flags val flag_or (g # fs) AND val f = (val g AND val f) OR (combine_flags val flag_or fs AND val f)"
    by (simp add: combine_flags_def or_eq bit.conj_disj_distrib2)
  with Cons.IH disjoint [of g f] show ?case by (cases "g = f") auto
qed

lemma combine_test:
  "val f \<noteq> 0 \<Longrightarrow> (combine_flags val flag_or fs AND val f = val f) \<longleftrightarrow> f \<in> set fs"
  by (simp add: combine_and)

end

section \<open>Opening files\<close>

datatype open_flag =
  OF_unspec | OF_append | OF_cloexec | OF_create | OF_direct | OF_nonblock | OF_temporary_file
  | OF_truncate | OF_readonly | OF_writeonly | OF_readwrite

fun open_flag_value :: "open_flag \<Rightarrow> u64" where
  "open_flag_value OF_unspec = 0"
| "open_flag_value OF_append = 0x400"
| "open_flag_value OF_cloexec = 0x80000"
| "open_flag_value OF_create = 0x40"
| "open_flag_value OF_direct = 0x4000"
| "open_flag_value OF_nonblock = 0x800"
| "open_flag_value OF_temporary_file = 0x410000"
| "open_flag_value OF_truncate = 0x200"
| "open_flag_value OF_readonly = 0"
| "open_flag_value OF_writeonly = 1"
| "open_flag_value OF_readwrite = 2"

definition open_flag_or :: "u64 \<Rightarrow> u64 \<Rightarrow> u64" where
  "open_flag_or lhs rhs = lhs OR rhs"

definition open_flag_assign :: "u64 \<Rightarrow> u64 \<Rightarrow> u64" where
  "open_flag_assign lhs rhs = open_flag_or lhs rhs"

interpretation open_flag_bits: bit_flags open_flag_value open_flag_or
proof
  show "a \<noteq> b \<Longrightarrow> open_flag_value a AND open_flag_value b = 0" for a b by (cases a; cases b) simp_all
qed (simp add: open_flag_or_def)

datatype open_mode =
  OM_none | OM_uread | OM_uwrite | OM_uexec | OM_gread | OM_gwrite | OM_gexec | OM_oread
  | OM_owrite | OM_oexec

fun open_mode_value :: "open_mode \<Rightarrow> u64" where
  "open_mode_value OM_none = 0"
| "open_mode_value OM_uread = 0x100"
| "open_mode_value OM_uwrite = 0x80"
| "open_mode_value OM_uexec = 0x40"
| "open_mode_value OM_gread = 0x20"
| "open_mode_value OM_gwrite = 0x10"
| "open_mode_value OM_gexec = 8"
| "open_mode_value OM_oread = 4"
| "open_mode_value OM_owrite = 2"
| "open_mode_value OM_oexec = 1"

definition open_mode_or :: "u64 \<Rightarrow> u64 \<Rightarrow> u64" where
  "open_mode_or lhs rhs = lhs OR rhs"

definition open_mode_assign :: "u64 \<Rightarrow> u64 \<Rightarrow> u64" where
  "open_mode_assign lhs rhs = open_mode_or lhs rhs"

interpretation open_mode_bits: bit_flags open_mode_value open_mode_or
proof
  show "a \<noteq> b \<Longrightarrow> open_mode_value a AND open_mode_value b = 0" for a b by (cases a; cases b) simp_all
qed (simp add: open_mode_or_def)

datatype open_resolve_flag =
  RF_none | RF_no_xdev | RF_no_magiclinks | RF_no_symlinks | RF_beneath | RF_in_root
  | RF_cached

fun open_resolve_flag_value :: "open_resolve_flag \<Rightarrow> u64" where
  "open_resolve_flag_value RF_none = 0"
| "open_resolve_flag_value RF_no_xdev = 1"
| "open_resolve_flag_value RF_no_magiclinks = 2"
| "open_resolve_flag_value RF_no_symlinks = 4"
| "open_resolve_flag_value RF_beneath = 8"
| "open_resolve_flag_value RF_in_root = 0x10"
| "open_resolve_flag_value RF_cached = 0x20"

definition open_resolve_flag_or :: "u64 \<Rightarrow> u64 \<Rightarrow> u64" where
  "open_resolve_flag_or lhs rhs = lhs OR rhs"

definition open_resolve_flag_assign :: "u64 \<Rightarrow> u64 \<Rightarrow> u64" where
  "open_resolve_flag_assign lhs rhs = open_resolve_flag_or lhs rhs"

interpretation open_resolve_flag_bits: bit_flags open_resolve_flag_value open_resolve_flag_or
proof
  show "a \<noteq> b \<Longrightarrow> open_resolve_flag_value a AND open_resolve_flag_value b = 0" for a b by (cases a; cases b) simp_all
qed (simp add: open_resolve_flag_or_def)

section \<open>Reading and writing\<close>

datatype rw_flag =
  RW_none | RW_hipri | RW_dsync | RW_sync | RW_nowait | RW_append

fun rw_flag_value :: "rw_flag \<Rightarrow> u32" where
  "rw_flag_value RW_none = 0"
| "rw_flag_value RW_hipri = 1"
| "rw_flag_value RW_dsync = 2"
| "rw_flag_value RW_sync = 4"
| "rw_flag_value RW_nowait = 8"
| "rw_flag_value RW_append = 0x10"

definition rw_flag_or :: "u32 \<Rightarrow> u32 \<Rightarrow> u32" where
  "rw_flag_or lhs rhs = lhs OR rhs"

definition rw_flag_assign :: "u32 \<Rightarrow> u32 \<Rightarrow> u32" where
  "rw_flag_assign lhs rhs = rw_flag_or lhs rhs"

interpretation rw_flag_bits: bit_flags rw_flag_value rw_flag_or
proof
  show "a \<noteq> b \<Longrightarrow> rw_flag_value a AND rw_flag_value b = 0" for a b by (cases a; cases b) simp_all
qed (simp add: rw_flag_or_def)

section \<open>Directories\<close>

datatype unlink_flag =
  UF_none | UF_removedir

fun unlink_flag_value :: "unlink_flag \<Rightarrow> u32" where
  "unlink_flag_value UF_none = 0"
| "unlink_flag_value UF_removedir = 0x200"

definition unlink_flag_or :: "u32 \<Rightarrow> u32 \<Rightarrow> u32" where
  "unlink_flag_or lhs rhs = lhs OR rhs"

definition unlink_flag_assign :: "u32 \<Rightarrow> u32 \<Rightarrow> u32" where
  "unlink_flag_assign lhs rhs = unlink_flag_or lhs rhs"

interpretation unlink_flag_bits: bit_flags unlink_flag_value unlink_flag_or
proof
  show "a \<noteq> b \<Longrightarrow> unlink_flag_value a AND unlink_flag_value b = 0" for a b by (cases a; cases b) simp_all
qed (simp add: unlink_flag_or_def)

datatype rename_flag =
  NF_none | NF_noreplace | NF_exchange | NF_whiteout

fun rename_flag_value :: "rename_flag \<Rightarrow> u32" where
  "rename_flag_value NF_none = 0"
| "rename_flag_value NF_noreplace = 1"
| "rename_flag_value NF_exchange = 2"
| "rename_flag_value NF_whiteout = 4"

definition rename_flag_or :: "u32 \<Rightarrow> u32 \<Rightarrow> u32" where
  "rename_flag_or lhs rhs = lhs OR rhs"

definition rename_flag_assign :: "u32 \<Rightarrow> u32 \<Rightarrow> u32" where
  "rename_flag_assign lhs rhs = rename_flag_or lhs rhs"

interpretation rename_flag_bits: bit_flags rename_flag_value rename_flag_or
proof
  show "a \<noteq> b \<Longrightarrow> rename_flag_value a AND rename_flag_value b = 0" for a b by (cases a; cases b) simp_all
qed (simp add: rename_flag_or_def)

datatype link_flag =
  LF_none | LF_empty_path | LF_symlink_follow

fun link_flag_value :: "link_flag \<Rightarrow> u32" where
  "link_flag_value LF_none = 0"
| "link_flag_value LF_empty_path = 0x1000"
| "link_flag_value LF_symlink_follow = 0x400"

definition link_flag_or :: "u32 \<Rightarrow> u32 \<Rightarrow> u32" where
  "link_flag_or lhs rhs = lhs OR rhs"

definition link_flag_assign :: "u32 \<Rightarrow> u32 \<Rightarrow> u32" where
  "link_flag_assign lhs rhs = link_flag_or lhs rhs"

interpretation link_flag_bits: bit_flags link_flag_value link_flag_or
proof
  show "a \<noteq> b \<Longrightarrow> link_flag_value a AND link_flag_value b = 0" for a b by (cases a; cases b) simp_all
qed (simp add: link_flag_or_def)

section \<open>Polling\<close>

datatype poll_event =
  PE_in | PE_pri | PE_out | PE_err | PE_hup | PE_msg

fun poll_event_value :: "poll_event \<Rightarrow> u32" where
  "poll_event_value PE_in = 1"
| "poll_event_value PE_pri = 2"
| "poll_event_value PE_out = 4"
| "poll_event_value PE_err = 8"
| "poll_event_value PE_hup = 0x10"
| "poll_event_value PE_msg = 0x400"

definition poll_event_or :: "u32 \<Rightarrow> u32 \<Rightarrow> u32" where
  "poll_event_or lhs rhs = lhs OR rhs"

interpretation poll_event_bits: bit_flags poll_event_value poll_event_or
proof
  show "a \<noteq> b \<Longrightarrow> poll_event_value a AND poll_event_value b = 0" for a b by (cases a; cases b) simp_all
qed (simp add: poll_event_or_def)

section \<open>Sending and receiving\<close>

datatype send_flag =
  SF_none | SF_confirm | SF_dontroute | SF_dontwait | SF_eor | SF_more | SF_nosignal | SF_oob
  | SF_fastopen

fun send_flag_value :: "send_flag \<Rightarrow> u32" where
  "send_flag_value SF_none = 0"
| "send_flag_value SF_confirm = 0x800"
| "send_flag_value SF_dontroute = 4"
| "send_flag_value SF_dontwait = 0x40"
| "send_flag_value SF_eor = 0x80"
| "send_flag_value SF_more = 0x8000"
| "send_flag_value SF_nosignal = 0x4000"
| "send_flag_value SF_oob = 1"
| "send_flag_value SF_fastopen = 0x20000000"

definition send_flag_or :: "u32 \<Rightarrow> u32 \<Rightarrow> u32" where
  "send_flag_or lhs rhs = lhs OR rhs"

definition send_flag_assign :: "u32 \<Rightarrow> u32 \<Rightarrow> u32" where
  "send_flag_assign lhs rhs = send_flag_or lhs rhs"

interpretation send_flag_bits: bit_flags send_flag_value send_flag_or
proof
  show "a \<noteq> b \<Longrightarrow> send_flag_value a AND send_flag_value b = 0" for a b by (cases a; cases b) simp_all
qed (simp add: send_flag_or_def)

datatype recv_flag =
  VF_none | VF_cmsg_cloexec | VF_dontwait | VF_errqueue | VF_oob | VF_peek | VF_trunc
  | VF_waitall

fun recv_flag_value :: "recv_flag \<Rightarrow> u32" where
  "recv_flag_value VF_none = 0"
| "recv_flag_value VF_cmsg_cloexec = 0x40000000"
| "recv_flag_value VF_dontwait = 0x40"
| "recv_flag_value VF_errqueue = 0x2000"
| "recv_flag_value VF_oob = 1"
| "recv_flag_value VF_peek = 2"
| "recv_flag_value VF_trunc = 0x20"
| "recv_flag_value VF_waitall = 0x100"

definition recv_flag_or :: "u32 \<Rightarrow> u32 \<Rightarrow> u32" where
  "recv_flag_or lhs rhs = lhs OR rhs"

definition recv_flag_assign :: "u32 \<Rightarrow> u32 \<Rightarrow> u32" where
  "recv_flag_assign lhs rhs = recv_flag_or lhs rhs"

interpretation recv_flag_bits: bit_flags recv_flag_value recv_flag_or
proof
  show "a \<noteq> b \<Longrightarrow> recv_flag_value a AND recv_flag_value b = 0" for a b by (cases a; cases b) simp_all
qed (simp add: recv_flag_or_def)

datatype ioprio =
  IP_none | IP_rs_poll_first | IP_s_zc_report_usage | IP_rs_bundle

fun ioprio_value :: "ioprio \<Rightarrow> u32" where
  "ioprio_value IP_none = 0"
| "ioprio_value IP_rs_poll_first = 1"
| "ioprio_value IP_s_zc_report_usage = 8"
| "ioprio_value IP_rs_bundle = 0x10"

definition ioprio_or :: "u32 \<Rightarrow> u32 \<Rightarrow> u32" where
  "ioprio_or lhs rhs = lhs OR rhs"

definition ioprio_assign :: "u32 \<Rightarrow> u32 \<Rightarrow> u32" where
  "ioprio_assign lhs rhs = ioprio_or lhs rhs"

interpretation ioprio_bits: bit_flags ioprio_value ioprio_or
proof
  show "a \<noteq> b \<Longrightarrow> ioprio_value a AND ioprio_value b = 0" for a b by (cases a; cases b) simp_all
qed (simp add: ioprio_or_def)

datatype msg_flag =
  MF_none | MF_confirm | MF_dontroute | MF_dontwait | MF_eor | MF_more | MF_nosignal | MF_oob
  | MF_fastopen

fun msg_flag_value :: "msg_flag \<Rightarrow> u32" where
  "msg_flag_value MF_none = 0"
| "msg_flag_value MF_confirm = 0x800"
| "msg_flag_value MF_dontroute = 4"
| "msg_flag_value MF_dontwait = 0x40"
| "msg_flag_value MF_eor = 0x80"
| "msg_flag_value MF_more = 0x8000"
| "msg_flag_value MF_nosignal = 0x4000"
| "msg_flag_value MF_oob = 1"
| "msg_flag_value MF_fastopen = 0x20000000"

definition msg_flag_or :: "u32 \<Rightarrow> u32 \<Rightarrow> u32" where
  "msg_flag_or lhs rhs = lhs OR rhs"

definition msg_flag_assign :: "u32 \<Rightarrow> u32 \<Rightarrow> u32" where
  "msg_flag_assign lhs rhs = msg_flag_or lhs rhs"

interpretation msg_flag_bits: bit_flags msg_flag_value msg_flag_or
proof
  show "a \<noteq> b \<Longrightarrow> msg_flag_value a AND msg_flag_value b = 0" for a b by (cases a; cases b) simp_all
qed (simp add: msg_flag_or_def)

section \<open>Rings\<close>

datatype setup_flag =
  SU_iopoll | SU_clamp | SU_r_disabled | SU_submit_all | SU_coop_taskrun | SU_taskrun_flag
  | SU_sqe128 | SU_cqe32 | SU_single_issuer | SU_defer_taskrun | SU_no_mmap
  | SU_registered_fd_only | SU_no_sqarray | SU_hybrid_iopoll

fun setup_flag_value :: "setup_flag \<Rightarrow> u32" where
  "setup_flag_value SU_iopoll = 1"
| "setup_flag_value SU_clamp = 0x10"
| "setup_flag_value SU_r_disabled = 0x40"
| "setup_flag_value SU_submit_all = 0x80"
| "setup_flag_value SU_coop_taskrun = 0x100"
| "setup_flag_value SU_taskrun_flag = 0x200"
| "setup_flag_value SU_sqe128 = 0x400"
| "setup_flag_value SU_cqe32 = 0x800"
| "setup_flag_value SU_single_issuer = 0x1000"
| "setup_flag_value SU_defer_taskrun = 0x2000"
| "setup_flag_value SU_no_mmap = 0x4000"
| "setup_flag_value SU_registered_fd_only = 0x8000"
| "setup_flag_value SU_no_sqarray = 0x10000"
| "setup_flag_value SU_hybrid_iopoll = 0x20000"

definition setup_flag_or :: "u32 \<Rightarrow> u32 \<Rightarrow> u32" where
  "setup_flag_or lhs rhs = lhs OR rhs"

definition setup_flag_assign :: "u32 \<Rightarrow> u32 \<Rightarrow> u32" where
  "setup_flag_assign lhs rhs = setup_flag_or lhs rhs"

definition setup_flag_and :: "u32 \<Rightarrow> u32 \<Rightarrow> u32" where
  "setup_flag_and lhs rhs = lhs AND rhs"

definition setup_flag_and_assign :: "u32 \<Rightarrow> u32 \<Rightarrow> u32" where
  "setup_flag_and_assign lhs rhs = setup_flag_and lhs rhs"

definition setup_flag_not :: "u32 \<Rightarrow> u32" where
  "setup_flag_not f = NOT f"

interpretation setup_flag_bits: bit_flags setup_flag_value setup_flag_or
proof
  show "a \<noteq> b \<Longrightarrow> setup_flag_value a AND setup_flag_value b = 0" for a b by (cases a; cases b) simp_all
qed (simp add: setup_flag_or_def)

datatype feature =
  FE_single_mmap | FE_nodrop | FE_submit_stable | FE_rw_cur_pos | FE_cur_personality
  | FE_fast_poll | FE_poll_32bits | FE_sqpoll_nofixed | FE_ext_arg | FE_native_workers
  | FE_rsrc_tags | FE_cqe_skip | FE_linked_file | FE_reg_reg_ring | FE_recvsend_bundle
  | FE_min_timeout

fun feature_value :: "feature \<Rightarrow> u32" where
  "feature_value FE_single_mmap = 1"
| "feature_value FE_nodrop = 2"
| "feature_value FE_submit_stable = 4"
| "feature_value FE_rw_cur_pos = 8"
| "feature_value FE_cur_personality = 0x10"
| "feature_value FE_fast_poll = 0x20"
| "feature_value FE_poll_32bits = 0x40"
| "feature_value FE_sqpoll_nofixed = 0x80"
| "feature_value FE_ext_arg = 0x100"
| "feature_value FE_native_workers = 0x200"
| "feature_value FE_rsrc_tags = 0x400"
| "feature_value FE_cqe_skip = 0x800"
| "feature_value FE_linked_file = 0x1000"
| "feature_value FE_reg_reg_ring = 0x2000"
| "feature_value FE_recvsend_bundle = 0x4000"
| "feature_value FE_min_timeout = 0x8000"

definition feature_or :: "u32 \<Rightarrow> u32 \<Rightarrow> u32" where
  "feature_or lhs rhs = lhs OR rhs"

definition feature_assign :: "u32 \<Rightarrow> u32 \<Rightarrow> u32" where
  "feature_assign lhs rhs = feature_or lhs rhs"

definition feature_and :: "u32 \<Rightarrow> u32 \<Rightarrow> u32" where
  "feature_and lhs rhs = lhs AND rhs"

definition feature_and_assign :: "u32 \<Rightarrow> u32 \<Rightarrow> u32" where
  "feature_and_assign lhs rhs = feature_and lhs rhs"

definition feature_not :: "u32 \<Rightarrow> u32" where
  "feature_not f = NOT f"

interpretation feature_bits: bit_flags feature_value feature_or
proof
  show "a \<noteq> b \<Longrightarrow> feature_value a AND feature_value b = 0" for a b by (cases a; cases b) simp_all
qed (simp add: feature_or_def)

section \<open>Sockets\<close>

datatype socket_domain = SD_unspec | SD_local | SD_unix | SD_ipv4 | SD_ipv6 | SD_max

fun socket_domain_value :: "socket_domain \<Rightarrow> u32" where
  "socket_domain_value SD_unspec = 0"
| "socket_domain_value SD_local = 1"
| "socket_domain_value SD_unix = 1"
| "socket_domain_value SD_ipv4 = 2"
| "socket_domain_value SD_ipv6 = 10"
| "socket_domain_value SD_max = 46"

datatype socket_type =
  ST_stream | ST_datagram | ST_raw | ST_rdm | ST_seqpacket | ST_dccp | ST_packet | ST_nonblock | ST_cloexec

fun socket_type_value :: "socket_type \<Rightarrow> u32" where
  "socket_type_value ST_stream = 1"
| "socket_type_value ST_datagram = 2"
| "socket_type_value ST_raw = 3"
| "socket_type_value ST_rdm = 4"
| "socket_type_value ST_seqpacket = 5"
| "socket_type_value ST_dccp = 6"
| "socket_type_value ST_packet = 10"
| "socket_type_value ST_nonblock = SOCK_NONBLOCK"
| "socket_type_value ST_cloexec = SOCK_CLOEXEC"

definition socket_type_or :: "u32 \<Rightarrow> u32 \<Rightarrow> u32" where
  "socket_type_or lhs rhs = lhs OR rhs"

text \<open>Only these two are bits; the others number the kinds of sockets.\<close>

definition type_bit :: "socket_type \<Rightarrow> bool" where
  "type_bit t \<longleftrightarrow> t = ST_nonblock \<or> t = ST_cloexec"

lemma socket_type_bits:
  "\<not> type_bit t \<Longrightarrow> set fs \<subseteq> {ST_nonblock, ST_cloexec} \<Longrightarrow>
     socket_type_or (socket_type_value t) (combine_flags socket_type_value socket_type_or fs) AND 0xf
       = socket_type_value t"
proof -
  assume t: "\<not> type_bit t" and fs: "set fs \<subseteq> {ST_nonblock, ST_cloexec}"
  have "combine_flags socket_type_value socket_type_or fs AND 0xf = 0"
    using fs
    by (induction fs) (auto simp: combine_flags_def socket_type_or_def bit.conj_disj_distrib2)
  with t show ?thesis
    by (cases t) (simp_all add: socket_type_or_def bit.conj_disj_distrib2 type_bit_def)
qed

section \<open>Properties\<close>


end
