(* ===== verification/Ring_Options.thy ===== *)
theory Ring_Options
  imports Flags
begin

text \<open>
  \<open>ring_option\<close> as a builder: any sequence of calls of its setters, and the parameters that
  \<open>to_params\<close> then hands to liburing.
\<close>

section \<open>Sequences of setter calls\<close>

text \<open>\<open>flags\<close> takes a combination of enumerators, \<open>setup_attach\<close> an initialised ring.\<close>

datatype option_call =
    Call_flags "setup_flag list"
  | Call_sqpoll u32 int
  | Call_cqsize u32
  | Call_attach ring

fun apply_call :: "option_call \<Rightarrow> ring_option \<Rightarrow> ring_option option" where
  "apply_call (Call_flags fs) opt = Some (option_flags (combine_flags setup_flag_value setup_flag_or fs) opt)"
| "apply_call (Call_sqpoll cpu idle) opt = Some (setup_sqpoll cpu idle opt)"
| "apply_call (Call_cqsize n) opt = Some (setup_cqsize n opt)"
| "apply_call (Call_attach wq) opt = setup_attach wq opt"

fun option_calls :: "option_call list \<Rightarrow> ring_option \<Rightarrow> ring_option option" where
  "option_calls [] opt = Some opt"
| "option_calls (c # cs) opt = Option.bind (apply_call c opt) (option_calls cs)"

lemma option_calls_snoc: "option_calls (cs @ [c]) opt = Option.bind (option_calls cs opt) (apply_call c)"
  by (induction cs arbitrary: opt) (auto split: bind_splits)

text \<open>What has been asked for: all flags, and the arguments of the last call of each setter.\<close>

fun flags_asked :: "option_call list \<Rightarrow> setup_flag set" where
  "flags_asked [] = {}"
| "flags_asked (Call_flags fs # cs) = set fs \<union> flags_asked cs"
| "flags_asked (_ # cs) = flags_asked cs"

fun last_sqpoll :: "option_call list \<Rightarrow> (u32 \<times> int) option \<Rightarrow> (u32 \<times> int) option" where
  "last_sqpoll [] l = l"
| "last_sqpoll (Call_sqpoll cpu idle # cs) l = last_sqpoll cs (Some (cpu, idle))"
| "last_sqpoll (_ # cs) l = last_sqpoll cs l"

fun last_cqsize :: "option_call list \<Rightarrow> u32 option \<Rightarrow> u32 option" where
  "last_cqsize [] l = l"
| "last_cqsize (Call_cqsize n # cs) l = last_cqsize cs (Some n)"
| "last_cqsize (_ # cs) l = last_cqsize cs l"

fun last_attach :: "option_call list \<Rightarrow> ring option \<Rightarrow> ring option" where
  "last_attach [] l = l"
| "last_attach (Call_attach wq # cs) l = last_attach cs (Some wq)"
| "last_attach (_ # cs) l = last_attach cs l"

lemma asked_snoc:
  "flags_asked (cs @ [c]) = flags_asked cs \<union> flags_asked [c]"
  "last_sqpoll (cs @ [c]) l = last_sqpoll [c] (last_sqpoll cs l)"
  "last_cqsize (cs @ [c]) l2 = last_cqsize [c] (last_cqsize cs l2)"
  "last_attach (cs @ [c]) l3 = last_attach [c] (last_attach cs l3)"
proof -
  show "flags_asked (cs @ [c]) = flags_asked cs \<union> flags_asked [c]"
    by (induction cs rule: flags_asked.induct) auto
  show "last_sqpoll (cs @ [c]) l = last_sqpoll [c] (last_sqpoll cs l)"
    by (induction cs l rule: last_sqpoll.induct) auto
  show "last_cqsize (cs @ [c]) l2 = last_cqsize [c] (last_cqsize cs l2)"
    by (induction cs l2 rule: last_cqsize.induct) auto
  show "last_attach (cs @ [c]) l3 = last_attach [c] (last_attach cs l3)"
    by (induction cs l3 rule: last_attach.induct) auto
qed

section \<open>The bits the setters manage\<close>

abbreviation managed_bits :: u32 where
  "managed_bits \<equiv> IORING_SETUP_SQPOLL OR IORING_SETUP_SQ_AFF OR IORING_SETUP_CQSIZE OR IORING_SETUP_ATTACH_WQ"

lemma setup_flag_unmanaged: "setup_flag_value f AND managed_bits = 0"
  by (cases f) simp_all

lemma combine_unmanaged: "combine_flags setup_flag_value setup_flag_or fs AND managed_bits = 0"
  by (induction fs)
    (simp_all add: combine_flags_def setup_flag_or_def bit.conj_disj_distrib2 setup_flag_unmanaged [simplified])

lemma and_submask_zero: "(x :: u32) AND m = 0 \<Longrightarrow> n AND m = n \<Longrightarrow> x AND n = 0"
proof -
  assume x: "x AND m = 0" and n: "n AND m = n"
  have "x AND n = x AND (n AND m)" by (simp only: n)
  also have "\<dots> = (x AND m) AND n" by (simp only: ac_simps)
  finally show ?thesis by (simp add: x)
qed

lemma combine_managed:
  fixes fs :: "setup_flag list"
  shows "combine_flags setup_flag_value setup_flag_or fs AND IORING_SETUP_SQPOLL = 0"
    "combine_flags setup_flag_value setup_flag_or fs AND IORING_SETUP_SQ_AFF = 0"
    "combine_flags setup_flag_value setup_flag_or fs AND IORING_SETUP_CQSIZE = 0"
    "combine_flags setup_flag_value setup_flag_or fs AND IORING_SETUP_ATTACH_WQ = 0"
  by (rule and_submask_zero [OF combine_unmanaged], simp)+

lemma managed_setup_flag:
  "IORING_SETUP_SQPOLL AND setup_flag_value f = 0" "IORING_SETUP_SQ_AFF AND setup_flag_value f = 0"
  "IORING_SETUP_CQSIZE AND setup_flag_value f = 0" "IORING_SETUP_ATTACH_WQ AND setup_flag_value f = 0"
  "NOT IORING_SETUP_SQ_AFF AND setup_flag_value f = setup_flag_value f"
  by (cases f; simp)+

text \<open>The state of the builder after a sequence of calls.\<close>

definition option_inv :: "option_call list \<Rightarrow> ring_option \<Rightarrow> bool" where
  "option_inv cs opt \<longleftrightarrow>
     (\<forall>f. ring_flags opt AND setup_flag_value f = (if f \<in> flags_asked cs then setup_flag_value f else 0))
     \<and> ring_flags opt AND IORING_SETUP_SQPOLL = (if last_sqpoll cs None = None then 0 else IORING_SETUP_SQPOLL)
     \<and> ring_flags opt AND IORING_SETUP_SQ_AFF =
         (case last_sqpoll cs None of Some (cpu, _) \<Rightarrow> if cpu = - 1 then 0 else IORING_SETUP_SQ_AFF | None \<Rightarrow> 0)
     \<and> (case last_sqpoll cs None of None \<Rightarrow> sq_thread_cpu opt = 0 \<and> sq_thread_idle opt = 0
        | Some (cpu, idle) \<Rightarrow> (cpu \<noteq> - 1 \<longrightarrow> sq_thread_cpu opt = cpu) \<and> sq_thread_idle opt = word_of_int idle)
     \<and> ring_flags opt AND IORING_SETUP_CQSIZE = (if last_cqsize cs None = None then 0 else IORING_SETUP_CQSIZE)
     \<and> cq_entries opt = (case last_cqsize cs None of None \<Rightarrow> 0 | Some n \<Rightarrow> n)
     \<and> ring_flags opt AND IORING_SETUP_ATTACH_WQ = (if last_attach cs None = None then 0 else IORING_SETUP_ATTACH_WQ)
     \<and> (case last_attach cs None of None \<Rightarrow> wq_fd opt = 0 | Some wq \<Rightarrow> Some (wq_fd opt) = get_native_handle wq)"

lemma less_max: "(cpu :: u32) < - 1 \<longleftrightarrow> cpu \<noteq> - 1"
  by (simp add: word_order.not_eq_extremum)

lemma and_not_mask: "(n :: u32) AND m = 0 \<Longrightarrow> (x AND NOT n) AND m = x AND m"
proof -
  assume n: "n AND m = 0"
  have "m = (n OR NOT n) AND m" by simp
  also have "\<dots> = (n AND m) OR (NOT n AND m)" by (simp only: bit.conj_disj_distrib2)
  also have "\<dots> = NOT n AND m" by (simp add: n)
  finally show "(x AND NOT n) AND m = x AND m" by (simp only: and.assoc)
qed

text \<open>What the setters leave of the bits under a mask.\<close>

lemma sqpoll_flags:
  assumes "IORING_SETUP_SQ_AFF AND m = 0"
  shows "ring_flags (setup_sqpoll cpu idle opt) AND m = (ring_flags opt AND m) OR (IORING_SETUP_SQPOLL AND m)"
proof (cases "cpu = - 1")
  case True
  have "ring_flags (setup_sqpoll cpu idle opt) = (ring_flags opt OR IORING_SETUP_SQPOLL) AND NOT IORING_SETUP_SQ_AFF"
    by (simp only: setup_sqpoll_def Let_def True) simp
  then show ?thesis using and_not_mask [OF assms] by (simp only: bit.conj_disj_distrib2)
next
  case False
  then have "ring_flags (setup_sqpoll cpu idle opt) = (ring_flags opt OR IORING_SETUP_SQPOLL) OR IORING_SETUP_SQ_AFF"
    by (simp add: setup_sqpoll_def Let_def less_max)
  then show ?thesis using assms by (simp only: bit.conj_disj_distrib2) simp
qed

lemma sqpoll_affinity:
  "ring_flags (setup_sqpoll cpu idle opt) AND IORING_SETUP_SQ_AFF = (if cpu = - 1 then 0 else IORING_SETUP_SQ_AFF)"
  by (simp add: setup_sqpoll_def Let_def less_max bit.conj_disj_distrib2 and.assoc)

lemma sqpoll_fields:
  "cpu \<noteq> - 1 \<Longrightarrow> sq_thread_cpu (setup_sqpoll cpu idle opt) = cpu"
  "sq_thread_idle (setup_sqpoll cpu idle opt) = word_of_int idle"
  "cq_entries (setup_sqpoll cpu idle opt) = cq_entries opt" "wq_fd (setup_sqpoll cpu idle opt) = wq_fd opt"
  by (simp_all add: setup_sqpoll_def Let_def less_max)

lemma option_flags_bits:
  "ring_flags (option_flags (combine_flags setup_flag_value setup_flag_or fs) opt) AND m =
     (ring_flags opt AND m) OR (combine_flags setup_flag_value setup_flag_or fs AND m)"
  by (simp add: option_flags_def bit.conj_disj_distrib2)

lemma option_inv_default: "option_inv [] ring_option_default"
  by (simp add: option_inv_def ring_option_default_def)

lemma option_flags_fields:
  "sq_thread_cpu (option_flags f opt) = sq_thread_cpu opt" "sq_thread_idle (option_flags f opt) = sq_thread_idle opt"
  "cq_entries (option_flags f opt) = cq_entries opt" "wq_fd (option_flags f opt) = wq_fd opt"
  by (simp_all add: option_flags_def)

lemma option_inv_call:
  assumes inv: "option_inv cs opt" and call: "apply_call c opt = Some opt'"
  shows "option_inv (cs @ [c]) opt'"
proof (cases c)
  case (Call_flags fs)
  with call have opt': "opt' = option_flags (combine_flags setup_flag_value setup_flag_or fs) opt" by simp
  show ?thesis using inv unfolding opt' Call_flags option_inv_def asked_snoc
    by (simp add: option_flags_bits combine_managed setup_flag_bits.combine_and option_flags_fields
      cong: option.case_cong)
next
  case (Call_sqpoll cpu idle)
  with call have opt': "opt' = setup_sqpoll cpu idle opt" by simp
  show ?thesis using inv unfolding opt' Call_sqpoll option_inv_def asked_snoc
    by (simp add: sqpoll_flags sqpoll_affinity sqpoll_fields managed_setup_flag cong: option.case_cong)
next
  case (Call_cqsize n)
  with call have opt': "opt' = opt\<lparr>ring_flags := ring_flags opt OR IORING_SETUP_CQSIZE, cq_entries := n\<rparr>"
    by (simp add: setup_cqsize_def)
  show ?thesis using inv unfolding opt' Call_cqsize option_inv_def asked_snoc
    by (simp add: bit.conj_disj_distrib2 managed_setup_flag cong: option.case_cong)
next
  case (Call_attach wq)
  then obtain fd where fd: "native_handle wq = Some fd"
    and opt': "opt' = opt\<lparr>ring_flags := ring_flags opt OR IORING_SETUP_ATTACH_WQ, wq_fd := word_of_int fd\<rparr>"
    using call by (auto simp: setup_attach_def get_native_handle_def bind_eq_Some_conv)
  show ?thesis using inv unfolding opt' Call_attach option_inv_def asked_snoc
    by (simp add: bit.conj_disj_distrib2 managed_setup_flag fd get_native_handle_def cong: option.case_cong)
qed

lemma option_inv_calls: "option_calls cs ring_option_default = Some opt \<Longrightarrow> option_inv cs opt"
proof (induction cs arbitrary: opt rule: rev_induct)
  case Nil
  then show ?case by (simp add: option_inv_default)
next
  case (snoc c cs)
  then show ?case by (auto simp: option_calls_snoc bind_eq_Some_conv intro: option_inv_call)
qed

section \<open>Properties\<close>

text \<open>
  C24. Whatever setters of a \<open>ring_option\<close> are called in whatever order, the parameters given to
  \<open>io_uring_queue_init_params\<close> contain every flag asked for with \<open>flags\<close> and no other; the kernel
  polling, completion queue size and attachment bits are set exactly if their setter was called,
  with the arguments of its last call; and the affinity bit follows the last \<open>setup_sqpoll\<close>, set
  exactly when that named a processor, however earlier calls left it.
\<close>

theorem ring_option_setters:
  assumes "option_calls cs ring_option_default = Some opt"
  shows "(p_flags (to_params opt) AND setup_flag_value f = (if f \<in> flags_asked cs then setup_flag_value f else 0))
    \<and> p_flags (to_params opt) AND IORING_SETUP_SQPOLL = (if last_sqpoll cs None = None then 0 else IORING_SETUP_SQPOLL)
    \<and> p_flags (to_params opt) AND IORING_SETUP_SQ_AFF =
        (case last_sqpoll cs None of Some (cpu, _) \<Rightarrow> if cpu = - 1 then 0 else IORING_SETUP_SQ_AFF | None \<Rightarrow> 0)
    \<and> (case last_sqpoll cs None of None \<Rightarrow> p_sq_thread_cpu (to_params opt) = 0 \<and> p_sq_thread_idle (to_params opt) = 0
       | Some (cpu, idle) \<Rightarrow> (cpu \<noteq> - 1 \<longrightarrow> p_sq_thread_cpu (to_params opt) = cpu)
           \<and> p_sq_thread_idle (to_params opt) = word_of_int idle)
    \<and> p_flags (to_params opt) AND IORING_SETUP_CQSIZE = (if last_cqsize cs None = None then 0 else IORING_SETUP_CQSIZE)
    \<and> p_cq_entries (to_params opt) = (case last_cqsize cs None of None \<Rightarrow> 0 | Some n \<Rightarrow> n)
    \<and> p_flags (to_params opt) AND IORING_SETUP_ATTACH_WQ = (if last_attach cs None = None then 0 else IORING_SETUP_ATTACH_WQ)
    \<and> (case last_attach cs None of None \<Rightarrow> p_wq_fd (to_params opt) = 0
       | Some wq \<Rightarrow> Some (p_wq_fd (to_params opt)) = get_native_handle wq)"
  using option_inv_calls [OF assms]
  by (simp add: option_inv_def to_params_def cong: option.case_cong)

text \<open>Flags, kernel polling on a processor, then without one, and a completion queue size.\<close>

theorem ring_option_setters_witness:
  "\<exists>opt. option_calls [Call_flags [SU_clamp, SU_single_issuer], Call_sqpoll 3 50, Call_cqsize 64, Call_sqpoll (- 1) 100]
      ring_option_default = Some opt
    \<and> p_flags (to_params opt) AND 0x10 = 0x10 \<and> p_flags (to_params opt) AND IORING_SETUP_SQ_AFF = 0
    \<and> p_cq_entries (to_params opt) = 64 \<and> p_sq_thread_idle (to_params opt) = 100"
proof -
  let ?cs = "[Call_flags [SU_clamp, SU_single_issuer], Call_sqpoll 3 50, Call_cqsize 64, Call_sqpoll (- 1) 100]"
  obtain opt where opt: "option_calls ?cs ring_option_default = Some opt" by simp
  from ring_option_setters [OF opt, of SU_clamp]
  have "p_flags (to_params opt) AND 0x10 = 0x10 \<and> p_flags (to_params opt) AND IORING_SETUP_SQ_AFF = 0
    \<and> p_cq_entries (to_params opt) = 64 \<and> p_sq_thread_idle (to_params opt) = 100" by simp
  with opt show ?thesis by blast
qed

end
