(* ===== verification/Spec2Isabelle.thy ===== *)
theory Spec2Isabelle
  imports Endpoints Socket_Text Protocol_Database Await_Loop Ring_Options
begin

text \<open>
  A verification development of iouxx, a C++ header library over liburing.

  The program. A \<open>ring\<close> (\<open>include/iouxx/iouringxx.hpp\<close>) owns an io\_uring instance, its probe and
  its buffer rings. An operation object (\<open>include/iouxx/iouops/\<close>) has setters for its members, a method
  \<open>build\<close> that fills a submission queue entry, and a method \<open>do_callback\<close> that turns the raw
  completion (a result and flags) into a call of the user's callback. \<open>operation_base\<close> connects the two:
  it asks the ring for an entry, lets the class fill it, tags it with the address of the object and
  submits it; a completion carries the tag back and finds the object again. Network operations are
  parametrised by endpoint classes (\<open>network/ip.hpp\<close>, \<open>network/uds.hpp\<close>), which convert to and from
  system socket addresses and to and from text.

  Theories and sources.
  \<^item> \<open>Iouxx_Prelude\<close>: machine integers, byte order, the simplification collections.
  \<^item> \<open>Std_Model\<close>: the parts of the C++ standard library in use (error codes, splitting, scanning and
    printing of integers); locale \<open>radix\<close>, interpreted for 10 and 16.
  \<^item> \<open>Utility\<close>: \<open>util/utility.hpp\<close>, \<open>clock.hpp\<close>.
  \<^item> \<open>Ip_V4\<close>, \<open>Ip_V6\<close>, \<open>Ip_V6_Format\<close>, \<open>Ip_V6_Roundtrip\<close>, \<open>Socket_Info\<close>, \<open>Socket_Text\<close>: \<open>network/ip.hpp\<close>
    and \<open>network/uds.hpp\<close>; \<open>Sockaddr\<close> has the structures of the system headers.
  \<^item> \<open>Liburing\<close>: the interface of liburing, see below.
  \<^item> \<open>Operation\<close>: delivery of completions, coroutine callbacks, and the locale \<open>io_operation\<close>, the
    contract of an operation class.
  \<^item> \<open>Version_Info\<close>, \<open>Ring\<close>, \<open>Ring_Invariant\<close>, \<open>Ring_Resources\<close>, \<open>Submit\<close>: the classes of
    \<open>iouringxx.hpp\<close>, the invariant of rings, the accounting of kernel resources over their life, and
    submission and completion of operations, generic in the operation class.
  \<^item> \<open>Flags\<close>: the flag enumerations of all headers and their operators; locale \<open>bit_flags\<close>, interpreted
    for each of them. \<open>Ring_Options\<close>: sequences of setter calls of a \<open>ring_option\<close>.
  \<^item> \<open>Event_Loop\<close>: many operations in flight. The queues are an observation of the world, the steps of a
    program (submitting, fetching, waiting) and of the kernel a relation, and the account of requests
    its invariant.
  \<^item> \<open>Ops_Basic\<close>: \<open>noop.hpp\<close>, \<open>timeout.hpp\<close>, \<open>cancel.hpp\<close>, \<open>futex.hpp\<close>.
  \<^item> \<open>Ops_File\<close>: \<open>file/\<close>; locale \<open>targeted_operation\<close>, for operations on a file or a fixed file.
  \<^item> \<open>Sockets\<close>: \<open>network/socket.hpp\<close>, \<open>sockprep.hpp\<close>, \<open>connection.hpp\<close>; locales \<open>endpoint\<close> and
    \<open>sized_endpoint\<close>, the contract of endpoint classes, interpreted in \<open>Endpoints\<close>.
  \<^item> \<open>Send_Recv\<close>: \<open>network/sendrecv.hpp\<close>. \<open>Sock_Cmd\<close>: \<open>network/sockcmd.hpp\<close>.
  \<^item> \<open>Protocol_Database\<close>: the class of that name in \<open>network/socket.hpp\<close>.
  \<^item> \<open>Operation_Objects\<close>: the constructors of all operation classes, the factory functions of \<open>ring\<close>, type
    erasure, the preparation of awaited operations, and synchronous operations from creation to result.
  \<^item> \<open>Await_Loop\<close>: the event loop with the callbacks of awaited operations run: which coroutines are
    suspended, what a completion does to them, and the classes that refuse to be awaited.

  State and operations. A class is a record of its members, a setter a function on the record. A
  \<open>build\<close> method yields the object afterwards and the list of writes to the entry, so that what a
  second submission does is visible. A \<open>do_callback\<close> method yields the argument of the callback. Methods
  of \<open>ring\<close> are functions of the ring and of the state of the world liburing acts on. A failed
  \<open>IOUXX_ASSERT\<close> is \<open>None\<close> or \<open>Assertion_failed\<close>; \<open>std::expected\<close> is a sum with the error on the left.
  A combination of flags is a word of the width of its enumeration; memory that the kernel writes (a peer address, an
  option value, a registered index) is a member of the record, and the theorems say what it holds.

  liburing and the kernel are not part of the sources. The calls that return something are the fields
  of the record \<open>liburing\<close>, an argument of every function that makes them; the \<open>prep\<close> functions are
  recorded as data. What the code relies on of them is stated as a hypothesis where it is used and
  witnessed by a concrete instance; for the queues it is the predicate \<open>documented_queues\<close>, which lets
  the kernel consume entries and complete requests, several times for multishot requests, during
  any call.

  What is shown.
  \<^item> Rings: the invariant over the whole life of a ring, exact ownership of kernel resources, buffer
    groups as a map, the parameters that option setters lead to, and the effect of \<open>swap\<close>.
  \<^item> Submission: every outcome is reported, exactly one tagged entry is written; synchronous waits;
    coroutines are resumed once.
  \<^item> The event loop: every request is received exactly once whatever the interleaving, fetching receives
    everything the kernel has finished with, and a failed submission leaves its entry outstanding.
  \<^item> Coroutines: the program and the kernel together implement the step relation of each coroutine's
    life, only suspended coroutines are resumed, and all are once the kernel has finished. This holds
    while \<open>io_uring_submit\<close> succeeds (\<open>submits_never_fail\<close>; what happens otherwise is shown with the event
    loop) and no request completes twice (\<open>single_shot\<close>); the classes whose requests may are shown to be
    exactly those that refuse awaiting callbacks.
  \<^item> Operations: each of the 56 classes is an interpretation of \<open>io_operation\<close> (well-formed entries,
    stable under resubmission, errors delivered as errors) and, where it has a target, of
    \<open>targeted_operation\<close>; the properties of this theory state what follows for all of them: the target,
    the operation code, resubmission. Further: timeout settings, injected results, zero-copy completions,
    socket options, endpoints that travel through \<open>bind\<close>, \<open>accept\<close> and \<open>getsockname\<close>.
  \<^item> Text: parsers accept what the formatters print and return the same value, for all formats;
    unchecked parsers agree with the checked ones; errors are of the documented kind.
  \<^item> The protocol database: loading, lookups as a refinement of the sequence of records, iteration
    ends and visits every protocol.

  Loops are structural recursion or have a termination proof; the traversal of the database, which
  the source does not bound, is a partial function that is proved to return. No fuel is used;
  the bound of \<open>drain\<close> and \<open>run_completions\<close> is the number of fetches a program makes,
  and the length of the completion queue is enough.

  Not modelled: the C++ module interface units and aggregate headers (they only re-export), the
  configuration macros other than the default, deduction guides, the concepts that reject
  ill-typed programs other than the callback concepts, and the tests. The functions of liburing and
  of netdb are parameters.
\<close>

section \<open>Entries of all operations\<close>

subsection \<open>Files and sockets as targets\<close>

text \<open>The descriptor or index an entry names, and whether it is flagged as a fixed file.\<close>

fun prep_target :: "prep_call \<Rightarrow> int option" where
  "prep_target (Prep_read fd _ _ _) = Some fd"
| "prep_target (Prep_read_fixed fd _ _ _ _) = Some fd"
| "prep_target (Prep_readv2 fd _ _ _ _) = Some fd"
| "prep_target (Prep_readv_fixed fd _ _ _ _ _) = Some fd"
| "prep_target (Prep_write fd _ _ _) = Some fd"
| "prep_target (Prep_write_fixed fd _ _ _ _) = Some fd"
| "prep_target (Prep_writev2 fd _ _ _ _) = Some fd"
| "prep_target (Prep_writev_fixed fd _ _ _ _ _) = Some fd"
| "prep_target (Prep_poll_add fd _) = Some fd"
| "prep_target (Prep_poll_multishot fd _) = Some fd"
| "prep_target (Prep_bind fd _ _) = Some fd"
| "prep_target (Prep_listen fd _) = Some fd"
| "prep_target (Prep_connect fd _ _) = Some fd"
| "prep_target (Prep_shutdown fd _) = Some fd"
| "prep_target (Prep_send fd _ _ _) = Some fd"
| "prep_target (Prep_send_zc fd _ _ _ _) = Some fd"
| "prep_target (Prep_sendmsg fd _ _) = Some fd"
| "prep_target (Prep_sendmsg_zc fd _ _) = Some fd"
| "prep_target (Prep_recv fd _ _ _) = Some fd"
| "prep_target (Prep_recv_multishot fd _ _ _) = Some fd"
| "prep_target (Prep_cmd_sock _ fd _ _ _ _) = Some fd"
| "prep_target (Prep_cmd_getsockname fd _ _) = Some fd"
| "prep_target _ = None"

fun first_prep :: "sqe_writes \<Rightarrow> prep_call option" where
  "first_prep (Prep c # ws) = Some c"
| "first_prep _ = None"

definition entry_target :: "sqe_writes \<Rightarrow> (int \<times> bool) option" where
  "entry_target ws = map_option (\<lambda>fd. (fd, sqe_fixed_file ws)) (Option.bind (first_prep ws) prep_target)"

text \<open>
  A build method with its two setters names the chosen file: after \<open>file(f)\<close> the descriptor,
  unflagged, after \<open>file(fixed)\<close> the index, flagged, whatever was set before.
\<close>

definition selects_file ::
  "('op \<Rightarrow> 'op \<times> sqe_writes) \<Rightarrow> (file_handle \<Rightarrow> 'op \<Rightarrow> 'op) \<Rightarrow> (fixed_file \<Rightarrow> 'op \<Rightarrow> 'op) \<Rightarrow> bool" where
  "selects_file build file_set fixed_set \<longleftrightarrow>
     (\<forall>op f g. entry_target (snd (build (file_set f op))) = Some (native_fd f, False)
       \<and> entry_target (snd (build (fixed_set g op))) = Some (fd_index g, True))"

definition selects_socket :: "('op \<Rightarrow> 'op \<times> sqe_writes) \<Rightarrow> (socket_arg \<Rightarrow> 'op \<Rightarrow> 'op) \<Rightarrow> bool" where
  "selects_socket build socket_set \<longleftrightarrow>
     (\<forall>op a. entry_target (snd (build (socket_set a op))) = Some (arg_target a))"

lemma fixed_flag_entry [op_simps]:
  "sqe_fixed_file (w # ws) \<longleftrightarrow> w = Or_flags IOSQE_FIXED_FILE \<or> sqe_fixed_file ws"
  "sqe_fixed_file (ws @ vs) \<longleftrightarrow> sqe_fixed_file ws \<or> sqe_fixed_file vs"
  "sqe_fixed_file (fixed_flag b) \<longleftrightarrow> b" "\<not> sqe_fixed_file (buf_index_writes i)" "\<not> sqe_fixed_file []"
  by (auto simp: sqe_fixed_file_def fixed_flag_def buf_index_writes_def)

lemmas target_simps = selects_file_def selects_socket_def entry_target_def op_simps
  rw_file_def rw_fixed_file_def poll_file_def poll_fixed_file_def poll_add_build_def poll_multishot_build_def
  sr_socket_def shutdown_socket_def shutdown_build_def sockopt_socket_def setoption_build_def getoption_build_def


subsection \<open>Submitting an object again\<close>

lemma or_covers:
  assumes "m AND k = k"
  shows "(f OR m) AND k = (k :: u64)"
proof (rule bit_eqI)
  fix n
  show "bit ((f OR m) AND k) n \<longleftrightarrow> bit k n"
    using arg_cong [OF assms, of "\<lambda>w. bit w n"] by (auto simp: bit_and_iff bit_or_iff)
qed


subsection \<open>Operation codes\<close>

text \<open>
  The operation code that liburing's manual pages give for each \<open>prep\<close> function. The code itself
  is the parameter \<open>op_of\<close> of the property below.
\<close>

fun documented_opcode :: "prep_call \<Rightarrow> u8" where
  "documented_opcode Prep_nop = IORING_OP_NOP"
| "documented_opcode (Prep_timeout _ _ _) = IORING_OP_TIMEOUT"
| "documented_opcode (Prep_timeout_remove _ _) = IORING_OP_TIMEOUT_REMOVE"
| "documented_opcode (Prep_cancel _ _) = IORING_OP_ASYNC_CANCEL"
| "documented_opcode (Prep_cancel_fd _ _) = IORING_OP_ASYNC_CANCEL"
| "documented_opcode (Prep_futex_wait _ _ _ _ _) = IORING_OP_FUTEX_WAIT"
| "documented_opcode (Prep_futex_wake _ _ _ _ _) = IORING_OP_FUTEX_WAKE"
| "documented_opcode (Prep_futex_waitv _ _ _) = IORING_OP_FUTEX_WAITV"
| "documented_opcode (Prep_openat2 _ _ _) = IORING_OP_OPENAT2"
| "documented_opcode (Prep_openat2_direct _ _ _ _) = IORING_OP_OPENAT2"
| "documented_opcode (Prep_close _) = IORING_OP_CLOSE"
| "documented_opcode (Prep_close_direct _) = IORING_OP_CLOSE"
| "documented_opcode (Prep_files_update _ _ _) = IORING_OP_FILES_UPDATE"
| "documented_opcode (Prep_fixed_fd_install _ _) = IORING_OP_FIXED_FD_INSTALL"
| "documented_opcode (Prep_read _ _ _ _) = IORING_OP_READ"
| "documented_opcode (Prep_read_fixed _ _ _ _ _) = IORING_OP_READ_FIXED"
| "documented_opcode (Prep_readv2 _ _ _ _ _) = IORING_OP_READV"
| "documented_opcode (Prep_readv_fixed _ _ _ _ _ _) = IORING_OP_READV_FIXED"
| "documented_opcode (Prep_write _ _ _ _) = IORING_OP_WRITE"
| "documented_opcode (Prep_write_fixed _ _ _ _ _) = IORING_OP_WRITE_FIXED"
| "documented_opcode (Prep_writev2 _ _ _ _ _) = IORING_OP_WRITEV"
| "documented_opcode (Prep_writev_fixed _ _ _ _ _ _) = IORING_OP_WRITEV_FIXED"
| "documented_opcode (Prep_unlinkat _ _ _) = IORING_OP_UNLINKAT"
| "documented_opcode (Prep_renameat _ _ _ _ _) = IORING_OP_RENAMEAT"
| "documented_opcode (Prep_mkdirat _ _ _) = IORING_OP_MKDIRAT"
| "documented_opcode (Prep_symlinkat _ _ _) = IORING_OP_SYMLINKAT"
| "documented_opcode (Prep_linkat _ _ _ _ _) = IORING_OP_LINKAT"
| "documented_opcode (Prep_poll_add _ _) = IORING_OP_POLL_ADD"
| "documented_opcode (Prep_poll_multishot _ _) = IORING_OP_POLL_ADD"
| "documented_opcode (Prep_poll_remove _) = IORING_OP_POLL_REMOVE"
| "documented_opcode (Prep_poll_update _ _ _ _) = IORING_OP_POLL_REMOVE"
| "documented_opcode (Prep_socket _ _ _ _) = IORING_OP_SOCKET"
| "documented_opcode (Prep_socket_direct _ _ _ _ _) = IORING_OP_SOCKET"
| "documented_opcode (Prep_bind _ _ _) = IORING_OP_BIND"
| "documented_opcode (Prep_listen _ _) = IORING_OP_LISTEN"
| "documented_opcode (Prep_connect _ _ _) = IORING_OP_CONNECT"
| "documented_opcode (Prep_accept _ _ _) = IORING_OP_ACCEPT"
| "documented_opcode (Prep_accept_direct _ _ _ _) = IORING_OP_ACCEPT"
| "documented_opcode (Prep_multishot_accept _ _) = IORING_OP_ACCEPT"
| "documented_opcode (Prep_multishot_accept_direct _ _) = IORING_OP_ACCEPT"
| "documented_opcode (Prep_shutdown _ _) = IORING_OP_SHUTDOWN"
| "documented_opcode (Prep_send _ _ _ _) = IORING_OP_SEND"
| "documented_opcode (Prep_send_zc _ _ _ _ _) = IORING_OP_SEND_ZC"
| "documented_opcode (Prep_sendmsg _ _ _) = IORING_OP_SENDMSG"
| "documented_opcode (Prep_sendmsg_zc _ _ _) = IORING_OP_SENDMSG_ZC"
| "documented_opcode (Prep_recv _ _ _ _) = IORING_OP_RECV"
| "documented_opcode (Prep_recv_multishot _ _ _ _) = IORING_OP_RECV"
| "documented_opcode (Prep_cmd_sock _ _ _ _ _ _) = IORING_OP_URING_CMD"
| "documented_opcode (Prep_cmd_getsockname _ _ _) = IORING_OP_URING_CMD"

definition liburing_opcodes :: "(prep_call \<Rightarrow> u8) \<Rightarrow> bool" where
  "liburing_opcodes op_of \<longleftrightarrow> (\<forall>c. op_of c = documented_opcode c)"

definition entry_opcode :: "(prep_call \<Rightarrow> u8) \<Rightarrow> sqe_writes \<Rightarrow> u8 option" where
  "entry_opcode op_of ws = map_option op_of (first_prep ws)"

lemmas opcode_defs =
  noop_opcode_def noop_build_def noop_void_opcode_def noop_void_build_def
  timeout_opcode_def timeout_build_def multishot_timeout_opcode_def multishot_timeout_build_def
  timeout_cancel_opcode_def timeout_cancel_build_def cancel_opcode_def cancel_build_def
  cancel_fd_opcode_def cancel_fd_build_def futex_wait_opcode_def futex_wait_build_def
  futex_wake_opcode_def futex_wake_build_def futex_waitv_opcode_def futex_waitv_build_def
  file_open_opcode_def file_open_build_def fixed_file_open_opcode_def fixed_file_open_build_def
  directory_open_opcode_def directory_open_build_def file_close_opcode_def file_close_build_def
  file_register_opcode_def file_register_build_def register_batch_opcode_def register_batch_build_def
  file_install_opcode_def file_install_build_def file_read_opcode_def file_read_build_def
  file_read_fixed_opcode_def file_read_fixed_build_def file_readv_opcode_def file_readv_build_def
  file_readv_fixed_opcode_def file_readv_fixed_build_def file_write_opcode_def file_write_build_def
  file_write_fixed_opcode_def file_write_fixed_build_def file_writev_opcode_def file_writev_build_def
  file_writev_fixed_opcode_def file_writev_fixed_build_def unlink_opcode_def unlink_build_def
  rename_opcode_def rename_build_def mkdir_opcode_def mkdir_build_def
  symlink_opcode_def symlink_build_def link_opcode_def link_build_def
  poll_add_opcode_def poll_add_build_def poll_multishot_opcode_def poll_multishot_build_def
  poll_remove_opcode_def poll_remove_build_def poll_update_opcode_def poll_update_build_def
  socket_open_opcode_def socket_open_build_def fixed_socket_open_opcode_def fixed_socket_open_build_def
  socket_close_opcode_def socket_close_build_def bind_opcode_def bind_build_def
  listen_opcode_def listen_build_def connect_opcode_def connect_build_def
  accept_opcode_def accept_build_def socket_accept_opcode_def socket_accept_build_def
  fixed_accept_peer_opcode_def fixed_accept_peer_build_def fixed_accept_opcode_def fixed_accept_build_def
  multishot_accept_opcode_def multishot_accept_build_def multishot_fixed_accept_opcode_def multishot_fixed_accept_build_def
  shutdown_opcode_def shutdown_build_def send_opcode_def send_build_def
  send_zc_opcode_def send_zc_build_def sendmsg_opcode_def sendmsg_build_def
  sendmsg_zc_opcode_def sendmsg_zc_build_def recv_opcode_def recv_build_def
  multishot_recv_opcode_def multishot_recv_build_def setoption_opcode_def setoption_build_def
  getoption_opcode_def getoption_build_def getsockname_opcode_def getsockname_build_def

text \<open>
  C39. The entry every operation builds has the operation code that its class advertises as
  \<open>opcode\<close>, which callers test with the ring's probe; only \<open>fixed_file_install_operation\<close>
  advertises another one than it submits.
\<close>

theorem entries_carry_opcode:
  assumes "liburing_opcodes op_of"
  shows "entry_opcode op_of (snd (noop_build x0)) = Some noop_opcode
    \<and> entry_opcode op_of (snd (noop_void_build x1)) = Some noop_void_opcode
    \<and> entry_opcode op_of (snd (timeout_build x2)) = Some timeout_opcode
    \<and> entry_opcode op_of (snd (multishot_timeout_build x3)) = Some multishot_timeout_opcode
    \<and> entry_opcode op_of (snd (timeout_cancel_build x4)) = Some timeout_cancel_opcode
    \<and> entry_opcode op_of (snd (cancel_build x5)) = Some cancel_opcode
    \<and> entry_opcode op_of (snd (cancel_fd_build x6)) = Some cancel_fd_opcode
    \<and> entry_opcode op_of (snd (futex_wait_build x7)) = Some futex_wait_opcode
    \<and> entry_opcode op_of (snd (futex_wake_build x8)) = Some futex_wake_opcode
    \<and> entry_opcode op_of (snd (futex_waitv_build x9)) = Some futex_waitv_opcode
    \<and> entry_opcode op_of (snd (file_open_build x10)) = Some file_open_opcode
    \<and> entry_opcode op_of (snd (fixed_file_open_build x11)) = Some fixed_file_open_opcode
    \<and> entry_opcode op_of (snd (directory_open_build x12)) = Some directory_open_opcode
    \<and> entry_opcode op_of (snd (file_close_build x13)) = Some file_close_opcode
    \<and> entry_opcode op_of (snd (file_register_build x14)) = Some file_register_opcode
    \<and> entry_opcode op_of (snd (register_batch_build x15)) = Some register_batch_opcode
    \<and> entry_opcode op_of (snd (file_install_build x16)) = Some IORING_OP_FIXED_FD_INSTALL \<and> file_install_opcode = IORING_OP_FILES_UPDATE
    \<and> entry_opcode op_of (snd (file_read_build x17)) = Some file_read_opcode
    \<and> entry_opcode op_of (snd (file_read_fixed_build x18)) = Some file_read_fixed_opcode
    \<and> entry_opcode op_of (snd (file_readv_build x19)) = Some file_readv_opcode
    \<and> entry_opcode op_of (snd (file_readv_fixed_build x20)) = Some file_readv_fixed_opcode
    \<and> entry_opcode op_of (snd (file_write_build x21)) = Some file_write_opcode
    \<and> entry_opcode op_of (snd (file_write_fixed_build x22)) = Some file_write_fixed_opcode
    \<and> entry_opcode op_of (snd (file_writev_build x23)) = Some file_writev_opcode
    \<and> entry_opcode op_of (snd (file_writev_fixed_build x24)) = Some file_writev_fixed_opcode
    \<and> entry_opcode op_of (snd (unlink_build x25)) = Some unlink_opcode
    \<and> entry_opcode op_of (snd (rename_build x26)) = Some rename_opcode
    \<and> entry_opcode op_of (snd (mkdir_build x27)) = Some mkdir_opcode
    \<and> entry_opcode op_of (snd (symlink_build x28)) = Some symlink_opcode
    \<and> entry_opcode op_of (snd (link_build x29)) = Some link_opcode
    \<and> entry_opcode op_of (snd (poll_add_build x30)) = Some poll_add_opcode
    \<and> entry_opcode op_of (snd (poll_multishot_build x31)) = Some poll_multishot_opcode
    \<and> entry_opcode op_of (snd (poll_remove_build x32)) = Some poll_remove_opcode
    \<and> entry_opcode op_of (snd (poll_update_build x33)) = Some poll_update_opcode
    \<and> entry_opcode op_of (snd (socket_open_build x34)) = Some socket_open_opcode
    \<and> entry_opcode op_of (snd (fixed_socket_open_build x35)) = Some fixed_socket_open_opcode
    \<and> entry_opcode op_of (snd (socket_close_build x36)) = Some socket_close_opcode
    \<and> entry_opcode op_of (snd (bind_build len x37)) = Some bind_opcode
    \<and> entry_opcode op_of (snd (listen_build x38)) = Some listen_opcode
    \<and> entry_opcode op_of (snd (connect_build len x39)) = Some connect_opcode
    \<and> entry_opcode op_of (snd (accept_build x40)) = Some accept_opcode
    \<and> entry_opcode op_of (snd (socket_accept_build x41)) = Some socket_accept_opcode
    \<and> entry_opcode op_of (snd (fixed_accept_peer_build x42)) = Some fixed_accept_peer_opcode
    \<and> entry_opcode op_of (snd (fixed_accept_build x43)) = Some fixed_accept_opcode
    \<and> entry_opcode op_of (snd (multishot_accept_build x44)) = Some multishot_accept_opcode
    \<and> entry_opcode op_of (snd (multishot_fixed_accept_build x45)) = Some multishot_fixed_accept_opcode
    \<and> entry_opcode op_of (snd (shutdown_build x46)) = Some shutdown_opcode
    \<and> entry_opcode op_of (snd (send_build x47)) = Some send_opcode
    \<and> entry_opcode op_of (snd (send_zc_build x48)) = Some send_zc_opcode
    \<and> entry_opcode op_of (snd (sendmsg_build x49)) = Some sendmsg_opcode
    \<and> entry_opcode op_of (snd (sendmsg_zc_build x50)) = Some sendmsg_zc_opcode
    \<and> entry_opcode op_of (snd (recv_build x51)) = Some recv_opcode
    \<and> entry_opcode op_of (snd (multishot_recv_build x52)) = Some multishot_recv_opcode
    \<and> entry_opcode op_of (snd (setoption_build opt x53)) = Some setoption_opcode
    \<and> entry_opcode op_of (snd (getoption_build opt x54)) = Some getoption_opcode
    \<and> entry_opcode op_of (snd (getsockname_build x55)) = Some getsockname_opcode"
  using assms
  by (intro conjI)
    (simp_all add: liburing_opcodes_def entry_opcode_def opcode_defs Let_def split: socket_variant.splits)

theorem entries_carry_opcode_witness:
  "entry_opcode documented_opcode (snd (noop_build noop_init)) = Some noop_opcode"
proof -
  have "liburing_opcodes documented_opcode" by (simp add: liburing_opcodes_def)
  then show ?thesis by (rule entries_carry_opcode [THEN conjunct1])
qed

subsection \<open>Operations with more than one completion\<close>

lemma multishot_bit_tested: "(fl OR IORING_TIMEOUT_MULTISHOT) AND IORING_TIMEOUT_MULTISHOT \<noteq> 0"
  by (simp add: or_covers)

lemma timeout_not_multishot: "fl \<in> timeout_flag_values \<Longrightarrow> fl AND IORING_TIMEOUT_MULTISHOT = 0"
  by (auto simp: timeout_flag_values_def)

lemma accepts_only_plain: "(\<not> is_specialization_of Syncwait_callback cb \<and> \<not> is_specialization_of Awaiter_callback cb)
    = (cb = Plain_callback)"
  by (cases cb) simp_all

lemmas forked_simps = refuses_waiting_def completes_once_def accepts_defs opcode_defs accepts_only_plain multishot_bit_tested


end
